(* ===== verification/Rust_Prelude.thy ===== *)
theory Rust_Prelude
  imports Main "HOL-Library.Word" "HOL-Library.Sublist" "HOL-Library.List_Lexorder"
    "HOL-Library.Char_ord" "HOL-Library.Monad_Syntax"
begin

text \<open>
  What the components share: the part of Rust's \<open>str\<close>, \<open>u64\<close> and \<open>Result\<close> that the
  sources use, and the lemmas the component proofs lean on.

  A Rust \<open>String\<close> is the list of its UTF-8 bytes, so \<open>length\<close> is \<open>str::len\<close> and searching
  for a substring is searching the bytes. The operations that look at Unicode characters
  (\<open>trim\<close>, \<open>split_whitespace\<close>, \<open>chars\<close>) recognise the encoded characters: UTF-8 is
  self-synchronising, so a byte pattern that is a whole encoded character only ever matches
  at a character boundary.
\<close>

named_theorems str_simps \<open>evaluation of the string operations\<close>

section \<open>Results\<close>

text \<open>\<open>bind_res\<close> is the \<open>?\<close> operator: the first error is returned.\<close>

definition bind_res :: "'e + 'a \<Rightarrow> ('a \<Rightarrow> 'e + 'b) \<Rightarrow> 'e + 'b" where
  "bind_res r f = (case r of Inl e \<Rightarrow> Inl e | Inr x \<Rightarrow> f x)"

definition ok_or :: "'e \<Rightarrow> 'a option \<Rightarrow> 'e + 'a" where
  "ok_or e m = (case m of None \<Rightarrow> Inl e | Some x \<Rightarrow> Inr x)"

definition res_ok :: "'e + 'a \<Rightarrow> 'a option" where
  "res_ok r = (case r of Inl e \<Rightarrow> None | Inr x \<Rightarrow> Some x)"

definition unwrap_or :: "'a \<Rightarrow> 'a option \<Rightarrow> 'a" where
  "unwrap_or d m = (case m of None \<Rightarrow> d | Some x \<Rightarrow> x)"

definition or_else :: "'a option \<Rightarrow> 'a option \<Rightarrow> 'a option" where
  "or_else m n = (case m of None \<Rightarrow> n | Some x \<Rightarrow> Some x)"

definition filter_opt :: "('a \<Rightarrow> bool) \<Rightarrow> 'a option \<Rightarrow> 'a option" where
  "filter_opt P m = (case m of None \<Rightarrow> None | Some x \<Rightarrow> if P x then Some x else None)"

lemma bind_res_simps [simp]:
  "bind_res (Inl e) f = Inl e" "bind_res (Inr x) f = f x"
  by (simp_all add: bind_res_def)

lemma bind_res_Inr: "bind_res r f = Inr y \<longleftrightarrow> (\<exists>x. r = Inr x \<and> f x = Inr y)"
  by (cases r) auto

lemma bind_res_Inl: "bind_res r f = Inl e \<longleftrightarrow> r = Inl e \<or> (\<exists>x. r = Inr x \<and> f x = Inl e)"
  by (cases r) auto

lemma ok_or_simps [simp]:
  "ok_or e None = Inl e" "ok_or e (Some x) = Inr x"
  "ok_or e m = Inr y \<longleftrightarrow> m = Some y" "ok_or e m = Inl e' \<longleftrightarrow> m = None \<and> e' = e"
  by (auto simp: ok_or_def split: option.splits)

lemma res_ok_simps [simp]:
  "res_ok (Inl e) = None" "res_ok (Inr x) = Some x"
  "res_ok r = Some y \<longleftrightarrow> r = Inr y"
  by (auto simp: res_ok_def split: sum.splits)

lemma unwrap_or_simps [simp]: "unwrap_or d None = d" "unwrap_or d (Some x) = x"
  by (simp_all add: unwrap_or_def)

lemma or_else_simps [simp]:
  "or_else None n = n" "or_else (Some x) n = Some x" "or_else m None = m"
  by (simp_all add: or_else_def split: option.split)

lemma filter_opt_simps [simp]:
  "filter_opt P None = None"
  "filter_opt P (Some x) = (if P x then Some x else None)"
  by (simp_all add: filter_opt_def)

lemma filter_opt_Some: "filter_opt P m = Some x \<longleftrightarrow> m = Some x \<and> P x"
  by (cases m) auto

section \<open>Character classes\<close>

definition code :: "char \<Rightarrow> nat" where
  "code c = of_char c"

definition is_ascii_digit :: "char \<Rightarrow> bool" where
  "is_ascii_digit c \<longleftrightarrow> 48 \<le> code c \<and> code c \<le> 57"

definition is_ascii_upper :: "char \<Rightarrow> bool" where
  "is_ascii_upper c \<longleftrightarrow> 65 \<le> code c \<and> code c \<le> 90"

definition is_ascii_lower :: "char \<Rightarrow> bool" where
  "is_ascii_lower c \<longleftrightarrow> 97 \<le> code c \<and> code c \<le> 122"

definition is_ascii_alpha :: "char \<Rightarrow> bool" where
  "is_ascii_alpha c \<longleftrightarrow> is_ascii_upper c \<or> is_ascii_lower c"

definition is_ascii_alnum :: "char \<Rightarrow> bool" where
  "is_ascii_alnum c \<longleftrightarrow> is_ascii_alpha c \<or> is_ascii_digit c"

text \<open>\<open>char::is_ascii_whitespace\<close>: space, tab, line feed, form feed, carriage return.\<close>

definition is_ascii_ws :: "char \<Rightarrow> bool" where
  "is_ascii_ws c \<longleftrightarrow> code c \<in> {32, 9, 10, 12, 13}"

definition is_ascii_punct :: "char \<Rightarrow> bool" where
  "is_ascii_punct c \<longleftrightarrow> (33 \<le> code c \<and> code c \<le> 47) \<or> (58 \<le> code c \<and> code c \<le> 64)
     \<or> (91 \<le> code c \<and> code c \<le> 96) \<or> (123 \<le> code c \<and> code c \<le> 126)"

definition lower_char :: "char \<Rightarrow> char" where
  "lower_char c = (if is_ascii_upper c then char_of (code c + 32) else c)"

definition to_ascii_lowercase :: "string \<Rightarrow> string" where
  "to_ascii_lowercase s = map lower_char s"

definition eq_ignore_ascii_case :: "string \<Rightarrow> string \<Rightarrow> bool" where
  "eq_ignore_ascii_case s t \<longleftrightarrow> to_ascii_lowercase s = to_ascii_lowercase t"

lemmas char_class_defs = is_ascii_digit_def is_ascii_upper_def is_ascii_lower_def
  is_ascii_alpha_def is_ascii_alnum_def is_ascii_ws_def is_ascii_punct_def code_def

lemma code_char_of [simp]: "n < 256 \<Longrightarrow> code (char_of n) = n"
  by (simp add: code_def)

lemma code_less: "code c < 256"
  by (simp add: code_def)

lemma code_eq [simp]: "code c = code d \<longleftrightarrow> c = d"
  by (simp add: code_def)

lemma lower_char_not_upper [simp]: "\<not> is_ascii_upper (lower_char c)"
  by (auto simp: lower_char_def is_ascii_upper_def)

lemma lower_char_idem [simp]: "lower_char (lower_char c) = lower_char c"
  by (simp add: lower_char_def [of "lower_char c"])

lemma lower_idem [simp]: "to_ascii_lowercase (to_ascii_lowercase s) = to_ascii_lowercase s"
  by (simp add: to_ascii_lowercase_def)

lemma length_lower [simp]: "length (to_ascii_lowercase s) = length s"
  by (simp add: to_ascii_lowercase_def)

lemma lower_append [simp]:
  "to_ascii_lowercase (s @ t) = to_ascii_lowercase s @ to_ascii_lowercase t"
  by (simp add: to_ascii_lowercase_def)

lemma eq_ignore_ascii_case_refl [simp]: "eq_ignore_ascii_case s s"
  by (simp add: eq_ignore_ascii_case_def)

section \<open>Searching\<close>

text \<open>\<open>str::find\<close>, \<open>str::contains\<close>, \<open>str::split_once\<close> for a string pattern.\<close>

fun find_sub :: "string \<Rightarrow> string \<Rightarrow> nat option" where
  "find_sub pat [] = (if pat = [] then Some 0 else None)"
| "find_sub pat (c # s) =
     (if prefix pat (c # s) then Some 0 else map_option Suc (find_sub pat s))"

definition contains :: "string \<Rightarrow> string \<Rightarrow> bool" where
  "contains s pat \<longleftrightarrow> find_sub pat s \<noteq> None"

definition split_once :: "string \<Rightarrow> string \<Rightarrow> (string \<times> string) option" where
  "split_once s pat =
     map_option (\<lambda>i. (take i s, drop (i + length pat) s)) (find_sub pat s)"

lemma find_sub_Some:
  "find_sub pat s = Some i \<Longrightarrow> s = take i s @ pat @ drop (i + length pat) s"
proof (induction pat s arbitrary: i rule: find_sub.induct)
  case (1 pat)
  then show ?case by (auto split: if_splits)
next
  case (2 pat c s)
  show ?case
  proof (cases "prefix pat (c # s)")
    case True
    with "2.prems" show ?thesis by (auto simp: prefix_def)
  next
    case False
    with "2.prems" obtain j where "i = Suc j" "find_sub pat s = Some j" by auto
    with "2.IH" [OF False] show ?thesis by simp
  qed
qed

lemma find_sub_prefix: "find_sub pat (pat @ s) = Some 0"
  by (cases "pat @ s") (auto simp: prefix_def intro: exI [of _ s])

lemma find_sub_append: "find_sub pat (p @ pat @ s) \<noteq> None"
proof (induction p)
  case Nil
  show ?case by (simp add: find_sub_prefix)
next
  case (Cons c p)
  then show ?case by auto
qed

lemma contains_iff_sublist: "contains s pat \<longleftrightarrow> sublist pat s"
proof
  assume "contains s pat"
  then obtain i where "find_sub pat s = Some i" by (auto simp: contains_def)
  from find_sub_Some [OF this] show "sublist pat s" by (auto simp: sublist_def)
next
  assume "sublist pat s"
  then show "contains s pat" using find_sub_append by (auto simp: sublist_def contains_def)
qed

lemma contains_infix: "contains (p @ pat @ s) pat"
  by (auto simp: contains_iff_sublist)

lemma contains_embed: "contains t pat \<Longrightarrow> contains (p @ t @ s) pat"
  unfolding contains_iff_sublist sublist_def by (metis append.assoc)

lemma contains_code [code]: "contains s pat = (case find_sub pat s of None \<Rightarrow> False | Some i \<Rightarrow> True)"
  by (auto simp: contains_def split: option.splits)

text \<open>The first match is the first: no earlier position matches.\<close>

lemma find_sub_first:
  "find_sub pat s = Some i \<Longrightarrow> j < i \<Longrightarrow> \<not> prefix pat (drop j s)"
proof (induction pat s arbitrary: i j rule: find_sub.induct)
  case (1 pat)
  then show ?case by (auto split: if_splits)
next
  case (2 pat c s)
  from "2.prems" obtain i' where i': "i = Suc i'" "find_sub pat s = Some i'"
    and np: "\<not> prefix pat (c # s)"
    by (auto split: if_splits)
  show ?case
  proof (cases j)
    case 0
    with np show ?thesis by simp
  next
    case (Suc j')
    with "2.IH" [OF np i'(2)] "2.prems" i' show ?thesis by simp
  qed
qed

lemma find_sub_skip:
  assumes "\<And>j. j < length p \<Longrightarrow> \<not> prefix pat (drop j (p @ pat @ s))"
  shows "find_sub pat (p @ pat @ s) = Some (length p)"
  using assms
proof (induction p)
  case Nil
  show ?case by (simp add: find_sub_prefix)
next
  case (Cons c p)
  have "\<not> prefix pat (c # p @ pat @ s)" using Cons.prems [of 0] by simp
  moreover have "find_sub pat (p @ pat @ s) = Some (length p)"
  proof (rule Cons.IH)
    fix j
    assume "j < length p"
    then show "\<not> prefix pat (drop j (p @ pat @ s))" using Cons.prems [of "Suc j"] by simp
  qed
  ultimately show ?case by simp
qed

section \<open>Splitting\<close>

text \<open>\<open>str::split\<close> on a character class: always at least one piece.\<close>

fun split_by :: "(char \<Rightarrow> bool) \<Rightarrow> string \<Rightarrow> string list" where
  "split_by P [] = [[]]"
| "split_by P (c # s) =
     (if P c then [] # split_by P s
      else (case split_by P s of [] \<Rightarrow> [[c]] | x # xs \<Rightarrow> (c # x) # xs))"

abbreviation split_on :: "char \<Rightarrow> string \<Rightarrow> string list" where
  "split_on c \<equiv> split_by (\<lambda>d. d = c)"

lemma split_by_ne [simp]: "split_by P s \<noteq> []"
  by (induction s) (auto split: list.splits)

lemma split_by_nosep: "\<forall>c \<in> set s. \<not> P c \<Longrightarrow> split_by P s = [s]"
  by (induction s) auto

lemma split_by_sep:
  "\<forall>c \<in> set s. \<not> P c \<Longrightarrow> P d \<Longrightarrow> split_by P (s @ d # t) = s # split_by P t"
  by (induction s) auto

lemma split_by_parts: "x \<in> set (split_by P s) \<Longrightarrow> c \<in> set x \<Longrightarrow> c \<in> set s \<and> \<not> P c"
proof (induction s arbitrary: x)
  case Nil
  then show ?case by simp
next
  case (Cons d s)
  show ?case
  proof (cases "split_by P s")
    case Nil
    then show ?thesis by simp
  next
    case (Cons y ys)
    with Cons.prems Cons.IH [of x] Cons.IH [of y] show ?thesis
      by (auto split: if_splits)
  qed
qed

text \<open>\<open>str::lines\<close>: split at line feeds, drop one carriage return before each, and no
  empty last line.\<close>

definition strip_cr :: "string \<Rightarrow> string" where
  "strip_cr s = (if s \<noteq> [] \<and> last s = CHR 0x0D then butlast s else s)"

definition lines :: "string \<Rightarrow> string list" where
  "lines s =
     (let ps = split_on (CHR 0x0A) s;
          qs = map strip_cr (butlast ps)
      in if last ps = [] then qs else qs @ [last ps])"

section \<open>Trimming\<close>

text \<open>
  \<open>strip_one alts s\<close> removes one leading character of \<open>s\<close> that is in the list \<open>alts\<close> of
  encoded characters; \<open>trim_start_of\<close> repeats it, as \<open>trim_start_matches\<close> does.
\<close>

fun strip_one :: "string list \<Rightarrow> string \<Rightarrow> string option" where
  "strip_one [] s = None"
| "strip_one (a # as) s =
     (if a \<noteq> [] \<and> prefix a s then Some (drop (length a) s) else strip_one as s)"

lemma strip_one_shorter: "strip_one as s = Some t \<Longrightarrow> length t < length s"
  by (induction as) (auto split: if_splits simp: prefix_def)

lemma strip_one_suffix: "strip_one as s = Some t \<Longrightarrow> \<exists>a \<in> set as. a \<noteq> [] \<and> s = a @ t"
  by (induction as) (auto split: if_splits simp: prefix_def)

lemma strip_one_Nil [simp]: "strip_one as [] = None"
  by (induction as) auto

function trim_start_of :: "string list \<Rightarrow> string \<Rightarrow> string" where
  "trim_start_of as s = (case strip_one as s of None \<Rightarrow> s | Some t \<Rightarrow> trim_start_of as t)"
  by pat_completeness auto
termination
  by (relation "measure (\<lambda>(as, s). length s)") (auto dest: strip_one_shorter)

declare trim_start_of.simps [simp del]

definition trim_end_of :: "string list \<Rightarrow> string \<Rightarrow> string" where
  "trim_end_of as s = rev (trim_start_of (map rev as) (rev s))"

lemma trim_start_of_Nil [simp]: "trim_start_of as [] = []"
  by (subst trim_start_of.simps) simp

lemma trim_end_of_Nil [simp]: "trim_end_of as [] = []"
  by (simp add: trim_end_of_def)

lemma trim_start_of_stops: "strip_one as s = None \<Longrightarrow> trim_start_of as s = s"
  by (subst trim_start_of.simps) simp

lemma trim_start_of_suffix: "\<exists>p. s = p @ trim_start_of as s \<and> (p = [] \<or> (\<forall>c \<in> set p. \<exists>a \<in> set as. c \<in> set a))"
proof (induction as s rule: trim_start_of.induct)
  case (1 as s)
  show ?case
  proof (cases "strip_one as s")
    case None
    then show ?thesis by (simp add: trim_start_of_stops)
  next
    case (Some t)
    from strip_one_suffix [OF Some] obtain a where a: "a \<in> set as" "s = a @ t" by auto
    from "1.IH" [OF Some] obtain p where p: "t = p @ trim_start_of as t"
      "\<forall>c \<in> set p. \<exists>a \<in> set as. c \<in> set a" by auto
    have "trim_start_of as s = trim_start_of as t"
      by (subst trim_start_of.simps) (simp add: Some)
    moreover have "s = (a @ p) @ trim_start_of as t" using a p by simp
    moreover have "\<forall>c \<in> set (a @ p). \<exists>a \<in> set as. c \<in> set a" using a p by auto
    ultimately show ?thesis by metis
  qed
qed

lemma trim_end_of_prefix: "\<exists>q. s = trim_end_of as s @ q \<and> (\<forall>c \<in> set q. \<exists>a \<in> set as. c \<in> set a)"
proof -
  obtain p where p: "rev s = p @ trim_start_of (map rev as) (rev s)"
    "p = [] \<or> (\<forall>c \<in> set p. \<exists>a \<in> set (map rev as). c \<in> set a)"
    using trim_start_of_suffix by blast
  from p(1) have "s = rev (trim_start_of (map rev as) (rev s)) @ rev p"
    by (metis rev_append rev_rev_ident)
  then show ?thesis using p(2) by (auto simp: trim_end_of_def intro!: exI [of _ "rev p"])
qed

text \<open>The characters with Unicode's \<open>White_Space\<close> property, encoded in UTF-8.\<close>

definition ws_chars :: "string list" where
  "ws_chars =
     map (\<lambda>n. [char_of n]) [9, 10, 11, 12, 13, 32 :: nat]
     @ map (\<lambda>n. [CHR 0xC2, char_of n]) [0x85, 0xA0 :: nat]
     @ [[CHR 0xE1, CHR 0x9A, CHR 0x80]]
     @ map (\<lambda>n. [CHR 0xE2, CHR 0x80, char_of n])
         ([0x80 ..< 0x8B] @ [0xA8, 0xA9, 0xAF :: nat])
     @ [[CHR 0xE2, CHR 0x81, CHR 0x9F], [CHR 0xE3, CHR 0x80, CHR 0x80]]"

definition trim_start :: "string \<Rightarrow> string" where
  "trim_start s = trim_start_of ws_chars s"

definition trim_end :: "string \<Rightarrow> string" where
  "trim_end s = trim_end_of ws_chars s"

definition trim :: "string \<Rightarrow> string" where
  "trim s = trim_end (trim_start s)"

text \<open>\<open>str::trim_matches\<close> for a set of single characters.\<close>

definition trim_matches :: "string list \<Rightarrow> string \<Rightarrow> string" where
  "trim_matches as s = trim_end_of as (trim_start_of as s)"

lemma trim_Nil [simp]: "trim [] = []"
  by (simp add: trim_def trim_end_def trim_start_def)

lemma ws_chars_bytes: "a \<in> set ws_chars \<Longrightarrow> c \<in> set a \<Longrightarrow> code c \<le> 32 \<or> 128 \<le> code c"
  by (auto simp: ws_chars_def code_def)

text \<open>What \<open>trim\<close> removes consists of bytes that are control, blank or not ASCII.\<close>

lemma trim_decomp:
  "\<exists>p q. s = p @ trim s @ q \<and> (\<forall>c \<in> set (p @ q). code c \<le> 32 \<or> 128 \<le> code c)"
proof -
  obtain p where p: "s = p @ trim_start s" "\<forall>c \<in> set p. \<exists>a \<in> set ws_chars. c \<in> set a"
    using trim_start_of_suffix [of s ws_chars] by (auto simp: trim_start_def)
  obtain q where q: "trim_start s = trim s @ q" "\<forall>c \<in> set q. \<exists>a \<in> set ws_chars. c \<in> set a"
    using trim_end_of_prefix [of "trim_start s" ws_chars] by (auto simp: trim_def trim_end_def)
  have "s = p @ trim s @ q" using p(1) q(1) by simp
  moreover have "\<forall>c \<in> set (p @ q). code c \<le> 32 \<or> 128 \<le> code c"
    using p(2) q(2) ws_chars_bytes by fastforce
  ultimately show ?thesis by blast
qed

text \<open>So a pattern of printable ASCII survives trimming.\<close>

lemma append_infix_mid:
  assumes "s = p @ m @ q" "s = u @ pat @ v" "pat \<noteq> []"
    and "\<forall>c \<in> set (p @ q). \<not> P c" "\<forall>c \<in> set pat. P c"
  shows "\<exists>u' v'. m = u' @ pat @ v'"
proof -
  have eq: "p @ m @ q = u @ pat @ v" using assms(1,2) by simp
  have up: "length p \<le> length u"
  proof (rule ccontr)
    assume "\<not> length p \<le> length u"
    then have lt: "length u < length p" by simp
    have "p ! length u = (p @ m @ q) ! length u" using lt by (simp add: nth_append)
    also have "\<dots> = hd pat" using assms(3) by (simp add: eq nth_append hd_conv_nth)
    finally have "hd pat \<in> set p" using lt nth_mem by metis
    then show False using assms(3-5) by auto
  qed
  obtain u' where u': "u = p @ u'"
    using eq up by (metis append_eq_append_conv_if append_take_drop_id)
  with eq have eq2: "m @ q = u' @ pat @ v" by simp
  have "length (u' @ pat) \<le> length m"
  proof (rule ccontr)
    assume less: "\<not> length (u' @ pat) \<le> length m"
    let ?k = "length (u' @ pat) - 1"
    have k: "length m \<le> ?k" "?k < length (u' @ pat)" using less assms(3) by auto
    have "(m @ q) ! ?k = (u' @ pat) ! ?k"
      using k(2) by (simp only: eq2 append.assoc [symmetric]) (simp only: nth_append if_True)
    also have "\<dots> = last (u' @ pat)"
      using assms(3) by (simp only: last_conv_nth append_is_Nil_conv not_False_eq_True simp_thms)
    finally have "(m @ q) ! ?k = last pat" using assms(3) by simp
    moreover have "(m @ q) ! ?k = q ! (?k - length m)" using k(1) by (simp add: nth_append)
    moreover have "?k - length m < length q"
      using k arg_cong [OF eq2, of length] by simp
    ultimately have "last pat \<in> set q" by (metis nth_mem)
    then show False using assms(3-5) by auto
  qed
  then obtain v' where "m = (u' @ pat) @ v'"
    using eq2 by (metis append_assoc append_eq_append_conv_if append_take_drop_id)
  then show ?thesis by auto
qed

lemma contains_trim:
  assumes "contains s pat" "pat \<noteq> []" "\<forall>c \<in> set pat. 32 < code c \<and> code c < 128"
  shows "contains (trim s) pat"
proof -
  obtain p q where pq: "s = p @ trim s @ q"
    "\<forall>c \<in> set (p @ q). code c \<le> 32 \<or> 128 \<le> code c"
    using trim_decomp by blast
  obtain u v where uv: "s = u @ pat @ v"
    using assms(1) by (auto simp: contains_iff_sublist sublist_def)
  have "\<exists>u' v'. trim s = u' @ pat @ v'"
    using append_infix_mid [of s p "trim s" q u pat v "\<lambda>c. 32 < code c \<and> code c < 128"]
      pq uv assms(2,3) by (metis leD)
  then show ?thesis using contains_infix by metis
qed

lemma trim_id:
  assumes "s = [] \<or> (32 < code (hd s) \<and> code (hd s) < 128 \<and> 32 < code (last s) \<and> code (last s) < 128)"
  shows "trim s = s"
proof (cases "s = []")
  case False
  with assms have h: "32 < code (hd s)" "code (hd s) < 128" "32 < code (last s)" "code (last s) < 128"
    by auto
  have ne: "strip_one as t = None"
    if "\<forall>a \<in> set as. \<forall>c \<in> set a. code c \<le> 32 \<or> 128 \<le> code c"
      and "t \<noteq> []" and "32 < code (hd t)" and "code (hd t) < 128" for as t
  proof (rule ccontr)
    assume "strip_one as t \<noteq> None"
    then obtain r where "strip_one as t = Some r" by auto
    from strip_one_suffix [OF this] obtain a where "a \<in> set as" "a \<noteq> []" "t = a @ r" by auto
    then have "hd t \<in> set a" by simp
    with that \<open>a \<in> set as\<close> show False by fastforce
  qed
  have "trim_start s = s"
    using ne [of ws_chars s] False h ws_chars_bytes
    by (auto simp: trim_start_def trim_start_of_stops)
  moreover have "trim_end s = s"
    using ne [of "map rev ws_chars" "rev s"] False h ws_chars_bytes
    by (auto simp: trim_end_def trim_end_of_def trim_start_of_stops hd_rev)
  ultimately show ?thesis by (simp add: trim_def)
qed simp

end
