(* ===== verification/Rust_Text.thy ===== *)
theory Rust_Text
  imports Rust_Prelude
begin

text \<open>
  The rest of the text library the sources use: \<open>split_whitespace\<close>, \<open>replace\<close>, number
  parsing and printing, and the UTF-8 decoder behind \<open>String::from_utf8\<close>,
  \<open>String::from_utf8_lossy\<close> and \<open>str::chars\<close>.
\<close>

section \<open>Words separated by white space\<close>

function split_ws_from :: "string \<Rightarrow> string \<Rightarrow> string list" where
  "split_ws_from acc [] = (if acc = [] then [] else [rev acc])"
| "split_ws_from acc (c # s) =
     (case strip_one ws_chars (c # s) of
        Some t \<Rightarrow> (if acc = [] then [] else [rev acc]) @ split_ws_from [] t
      | None \<Rightarrow> split_ws_from (c # acc) s)"
  by pat_completeness auto
termination
  by (relation "measure (\<lambda>(acc, s). length s)") (auto dest!: strip_one_shorter)

definition split_whitespace :: "string \<Rightarrow> string list" where
  "split_whitespace s = split_ws_from [] s"

lemma split_ws_from_ne: "w \<in> set (split_ws_from acc s) \<Longrightarrow> w \<noteq> []"
  by (induction acc s rule: split_ws_from.induct) (auto split: option.splits if_splits)

lemma split_whitespace_ne: "w \<in> set (split_whitespace s) \<Longrightarrow> w \<noteq> []"
  by (simp add: split_whitespace_def split_ws_from_ne)

lemma split_ws_from_word:
  "\<forall>c \<in> set s. 32 < code c \<and> code c < 128 \<Longrightarrow>
   split_ws_from acc s = (if rev acc @ s = [] then [] else [rev acc @ s])"
proof (induction s arbitrary: acc)
  case Nil
  then show ?case by simp
next
  case (Cons c s)
  have "strip_one ws_chars (c # s) = None"
  proof (rule ccontr)
    assume "strip_one ws_chars (c # s) \<noteq> None"
    then obtain t where "strip_one ws_chars (c # s) = Some t" by auto
    from strip_one_suffix [OF this] obtain a where "a \<in> set ws_chars" "c \<in> set a"
      by (auto simp: Cons_eq_append_conv)
    from ws_chars_bytes [OF this] Cons.prems show False by auto
  qed
  with Cons show ?case by simp
qed

lemma split_whitespace_word:
  "s \<noteq> [] \<Longrightarrow> \<forall>c \<in> set s. 32 < code c \<and> code c < 128 \<Longrightarrow> split_whitespace s = [s]"
  by (simp add: split_whitespace_def split_ws_from_word)

section \<open>Replacing\<close>

function replace_all :: "string \<Rightarrow> string \<Rightarrow> string \<Rightarrow> string" where
  "replace_all pat new [] = []"
| "replace_all pat new (c # s) =
     (if pat \<noteq> [] \<and> prefix pat (c # s)
      then new @ replace_all pat new (drop (length pat) (c # s))
      else c # replace_all pat new s)"
  by pat_completeness auto
termination
  by (relation "measure (\<lambda>(pat, new, s). length s)") auto

lemma replace_all_absent: "c \<notin> set s \<Longrightarrow> replace_all (c # pat) new s = s"
  by (induction s) auto

section \<open>Numbers\<close>

fun digits_value :: "nat \<Rightarrow> string \<Rightarrow> nat" where
  "digits_value acc [] = acc"
| "digits_value acc (c # s) = digits_value (10 * acc + (code c - 48)) s"

text \<open>\<open>parse::<u64>\<close> and its siblings: an optional \<open>+\<close>, at least one digit, no overflow.\<close>

definition parse_digits :: "string \<Rightarrow> nat option" where
  "parse_digits s = (if s \<noteq> [] \<and> list_all is_ascii_digit s then Some (digits_value 0 s) else None)"

definition parse_unsigned :: "nat \<Rightarrow> string \<Rightarrow> nat option" where
  "parse_unsigned bound s =
     filter_opt (\<lambda>n. n < bound)
       (parse_digits (case s of [] \<Rightarrow> [] | c # t \<Rightarrow> if c = CHR ''+'' then t else s))"

text \<open>\<open>parse::<i64>\<close>: an optional sign, the range of the type.\<close>

definition parse_i64 :: "string \<Rightarrow> int option" where
  "parse_i64 s =
     (case s of
        [] \<Rightarrow> None
      | c # t \<Rightarrow>
          if c = CHR ''-'' then
            map_option (\<lambda>n. - int n) (filter_opt (\<lambda>n. n \<le> 2 ^ 63) (parse_digits t))
          else
            map_option int (filter_opt (\<lambda>n. n < 2 ^ 63)
              (parse_digits (if c = CHR ''+'' then t else s))))"

definition digit_char :: "nat \<Rightarrow> char" where
  "digit_char n = char_of (48 + n)"

fun show_base :: "nat \<Rightarrow> nat \<Rightarrow> string" where
  "show_base b n =
     (if b < 2 then [] else if n < b then [digit_char n]
      else show_base b (n div b) @ [digit_char (n mod b)])"

declare show_base.simps [simp del]

definition show_nat :: "nat \<Rightarrow> string" where
  "show_nat n = show_base 10 n"

definition show_oct :: "nat \<Rightarrow> string" where
  "show_oct n = show_base 8 n"

lemma digits_value_append: "digits_value acc (s @ [c]) = 10 * digits_value acc s + (code c - 48)"
  by (induction s arbitrary: acc) auto

lemma code_digit_char [simp]: "n < 10 \<Longrightarrow> code (digit_char n) = 48 + n"
  by (simp add: digit_char_def)

lemma show_nat_small: "n < 10 \<Longrightarrow> show_nat n = [digit_char n]"
  by (simp add: show_nat_def show_base.simps)

lemma show_nat_step: "10 \<le> n \<Longrightarrow> show_nat n = show_nat (n div 10) @ [digit_char (n mod 10)]"
  by (simp add: show_nat_def show_base.simps [of 10 n])

lemma show_nat_digits: "show_nat n \<noteq> [] \<and> list_all is_ascii_digit (show_nat n)"
proof (induction n rule: less_induct)
  case (less n)
  show ?case
  proof (cases "n < 10")
    case True
    then show ?thesis by (simp add: show_nat_small is_ascii_digit_def)
  next
    case False
    with less [of "n div 10"] show ?thesis
      by (simp add: show_nat_step is_ascii_digit_def)
  qed
qed

lemma digits_value_show: "digits_value 0 (show_nat n) = n"
proof (induction n rule: less_induct)
  case (less n)
  show ?case
  proof (cases "n < 10")
    case True
    then show ?thesis by (simp add: show_nat_small)
  next
    case False
    with less [of "n div 10"] show ?thesis
      by (simp add: show_nat_step digits_value_append)
  qed
qed

lemma show_nat_no_leading_zero: "length (show_nat n) > 1 \<Longrightarrow> hd (show_nat n) \<noteq> CHR ''0''"
proof (induction n rule: less_induct)
  case (less n)
  show ?case
  proof (cases "n < 10")
    case True
    with less.prems show ?thesis by (simp add: show_nat_small)
  next
    case False
    show ?thesis
    proof (cases "n div 10 < 10")
      case True
      have "n div 10 \<noteq> 0" using False by simp
      then have "code (digit_char (n div 10)) \<noteq> code (CHR ''0'')"
        using True by (simp add: code_def digit_char_def)
      then have "digit_char (n div 10) \<noteq> CHR ''0''" by metis
      with False True show ?thesis by (auto simp: show_nat_step show_nat_small)
    next
      case big: False
      then have "length (show_nat (n div 10)) > 1"
        using show_nat_digits [of "n div 10 div 10"] by (simp add: show_nat_step)
      then have "hd (show_nat (n div 10)) \<noteq> CHR ''0''" "show_nat (n div 10) \<noteq> []"
        using less.IH [of "n div 10"] False by auto
      moreover have "show_nat n = show_nat (n div 10) @ [digit_char (n mod 10)]"
        using False by (intro show_nat_step) simp
      ultimately show ?thesis by (metis hd_append2)
    qed
  qed
qed

lemma parse_digits_show [simp]: "parse_digits (show_nat n) = Some n"
  using show_nat_digits [of n] by (simp add: parse_digits_def digits_value_show)

lemma show_nat_hd_digit: "is_ascii_digit (hd (show_nat n))"
  using show_nat_digits [of n] by (cases "show_nat n") auto

lemma parse_unsigned_show: "n < bound \<Longrightarrow> parse_unsigned bound (show_nat n) = Some n"
proof -
  assume "n < bound"
  moreover have "hd (show_nat n) \<noteq> CHR ''+''"
    using show_nat_hd_digit [of n] by (auto simp: char_class_defs)
  moreover have "show_nat n \<noteq> []" using show_nat_digits by blast
  moreover have "parse_digits (show_nat n) = Some n" by simp
  ultimately show ?thesis
    by (cases "show_nat n") (simp_all add: parse_unsigned_def del: parse_digits_show)
qed

lemma parse_unsigned_bound: "parse_unsigned bound s = Some n \<Longrightarrow> n < bound"
  by (simp add: parse_unsigned_def filter_opt_Some)

section \<open>UTF-8\<close>

definition cont :: "char \<Rightarrow> bool" where
  "cont c \<longleftrightarrow> 128 \<le> code c \<and> code c \<le> 191"

text \<open>The length a lead byte announces; 0 for a byte that cannot lead.\<close>

definition utf8_width :: "char \<Rightarrow> nat" where
  "utf8_width c =
     (let n = code c
      in if n < 128 then 1 else if n < 194 then 0 else if n < 224 then 2
         else if n < 240 then 3 else if n < 245 then 4 else 0)"

definition second_ok :: "char \<Rightarrow> char \<Rightarrow> bool" where
  "second_ok b c =
     (let n = code b; m = code c
      in if n = 224 then 160 \<le> m \<and> m \<le> 191
         else if n = 237 then 128 \<le> m \<and> m \<le> 159
         else if n = 240 then 144 \<le> m \<and> m \<le> 191
         else if n = 244 then 128 \<le> m \<and> m \<le> 143
         else cont c)"

text \<open>How many bytes the next character takes, and whether they are well-formed. An
  ill-formed start takes the longest prefix that could begin a character.\<close>

fun utf8_next :: "char \<Rightarrow> string \<Rightarrow> nat \<times> bool" where
  "utf8_next b s =
     (let w = utf8_width b
      in if w = 0 then (1, False) else if w = 1 then (1, True)
         else case s of
             [] \<Rightarrow> (1, False)
           | c # s2 \<Rightarrow>
               if \<not> second_ok b c then (1, False) else if w = 2 then (2, True)
               else case s2 of
                   [] \<Rightarrow> (2, False)
                 | d # s3 \<Rightarrow>
                     if \<not> cont d then (2, False) else if w = 3 then (3, True)
                     else case s3 of
                         [] \<Rightarrow> (3, False)
                       | e # _ \<Rightarrow> if cont e then (4, True) else (3, False))"

declare utf8_next.simps [simp del]

lemma utf8_next_pos: "0 < fst (utf8_next b s)"
  by (auto simp: utf8_next.simps Let_def split: list.split)

function utf8_chunks :: "string \<Rightarrow> (string \<times> bool) list" where
  "utf8_chunks [] = []"
| "utf8_chunks (b # s) =
     (case utf8_next b s of (k, v) \<Rightarrow> (take k (b # s), v) # utf8_chunks (drop k (b # s)))"
  by pat_completeness auto
termination
proof (relation "measure length", goal_cases)
  case 1
  show ?case by simp
next
  case (2 b s k v)
  then have "0 < k" using utf8_next_pos [of b s] by (metis fst_conv)
  then show ?case by simp
qed

definition utf8_valid :: "string \<Rightarrow> bool" where
  "utf8_valid s \<longleftrightarrow> list_all snd (utf8_chunks s)"

definition from_utf8_lossy :: "string \<Rightarrow> string" where
  "from_utf8_lossy s =
     concat (map (\<lambda>(c, v). if v then c else [CHR 0xEF, CHR 0xBF, CHR 0xBD]) (utf8_chunks s))"

text \<open>\<open>str::chars\<close>, each character as its encoding.\<close>

definition chars :: "string \<Rightarrow> string list" where
  "chars s = map fst (utf8_chunks s)"

lemma concat_chars: "concat (chars s) = s"
proof (induction s rule: utf8_chunks.induct)
  case 1
  show ?case by (simp add: chars_def)
next
  case (2 b s)
  obtain k v where kv: "utf8_next b s = (k, v)" by fastforce
  have "concat (chars (drop k (b # s))) = drop k (b # s)" using "2.IH" kv by metis
  then have "concat (chars (b # s)) = take k (b # s) @ drop k (b # s)"
    unfolding chars_def utf8_chunks.simps kv by simp
  then show ?case by simp
qed

lemma from_utf8_lossy_valid: "utf8_valid s \<Longrightarrow> from_utf8_lossy s = s"
proof -
  assume "utf8_valid s"
  then have "map (\<lambda>(c, v). if v then c else [CHR 0xEF, CHR 0xBF, CHR 0xBD]) (utf8_chunks s)
      = map fst (utf8_chunks s)"
    by (auto simp: utf8_valid_def list_all_iff)
  then have "from_utf8_lossy s = concat (chars s)"
    unfolding from_utf8_lossy_def chars_def by (rule arg_cong [where f = concat])
  then show ?thesis by (simp only: concat_chars)
qed

lemma utf8_chunks_ascii: "\<forall>c \<in> set s. code c < 128 \<Longrightarrow> utf8_chunks s = map (\<lambda>c. ([c], True)) s"
  by (induction s) (auto simp: utf8_next.simps utf8_width_def Let_def)

lemma utf8_valid_ascii: "\<forall>c \<in> set s. code c < 128 \<Longrightarrow> utf8_valid s"
  by (simp add: utf8_valid_def utf8_chunks_ascii list_all_iff)

section \<open>Paths\<close>

text \<open>
  \<open>Path::is_absolute\<close>, \<open>Path::join\<close>, \<open>Path::starts_with('~')\<close> on Unix. The second argument of
  \<open>join\<close> replaces the first when it is absolute.
\<close>

definition is_absolute :: "string \<Rightarrow> bool" where
  "is_absolute p \<longleftrightarrow> p \<noteq> [] \<and> hd p = CHR ''/''"

definition path_join :: "string \<Rightarrow> string \<Rightarrow> string" where
  "path_join p q =
     (if is_absolute q then q else if p = [] then q
      else if last p = CHR ''/'' then p @ q else p @ ''/'' @ q)"

text \<open>
  \<open>Path::parent\<close>: trailing separators and \<open>.\<close> components are skipped, the last component is
  dropped; the root and the empty path have none.
\<close>

fun rtrim_path :: "string \<Rightarrow> string" where
  "rtrim_path [] = []"
| "rtrim_path (c # r) =
     (if c = CHR ''/'' then rtrim_path r
      else if c = CHR ''.'' \<and> prefix ''/'' r then rtrim_path r
      else c # r)"

definition path_parent :: "string \<Rightarrow> string option" where
  "path_parent p =
     (let body = rtrim_path (rev p) in
      if body = [] then None
      else
        let up = rtrim_path (dropWhile (\<lambda>c. c \<noteq> CHR ''/'') body) in
        Some (if up = [] \<and> is_absolute p then ''/'' else rev up))"

lemma path_parent_examples:
  "path_parent ''/a/b.txt'' = Some ''/a''" "path_parent ''/a'' = Some ''/''"
  "path_parent ''a'' = Some []" "path_parent ''a//b/./'' = Some ''a''"
  "path_parent ''/'' = None" "path_parent [] = None"
  by code_simp+

lemma is_absolute_join [simp]: "is_absolute p \<Longrightarrow> is_absolute (path_join p q)"
  by (auto simp: is_absolute_def path_join_def)

end
