(* ===== verification/Json.thy ===== *)
theory Json
  imports Rust_Text
begin

text \<open>
  \<open>serde_json::Value\<close> and the part of serde's derived \<open>Deserialize\<close> that the sources'
  attributes select. A number keeps the three shapes of \<open>serde_json::Number\<close>: an unsigned
  64-bit value, a negative 64-bit value (two's complement), and a float given by its IEEE-754
  bits, which no source looks into. An object is a \<open>BTreeMap\<close>: its keys are sorted and
  distinct, and \<open>ins\<close> is the insertion. Parsing JSON text and printing it is the crate's
  work and stays a parameter of the model (theory \<open>Os\<close>).
\<close>

type_synonym u16 = "16 word"
type_synonym u32 = "32 word"
type_synonym u64 = "64 word"
type_synonym i32 = "32 word"

datatype num_value = PosInt u64 | NegInt u64 | Float u64

datatype json =
    JNull
  | JBool bool
  | JNumber num_value
  | JString string
  | JArray "json list"
  | JObject "(string \<times> json) list"

section \<open>Objects\<close>

fun ins :: "string \<Rightarrow> json \<Rightarrow> (string \<times> json) list \<Rightarrow> (string \<times> json) list" where
  "ins k v [] = [(k, v)]"
| "ins k v ((k', v') # r) =
     (if k = k' then (k, v) # r
      else if k < k' then (k, v) # (k', v') # r
      else (k', v') # ins k v r)"

definition obj :: "(string \<times> json) list \<Rightarrow> json" where
  "obj kvs = JObject (foldr (\<lambda>(k, v). ins k v) kvs [])"

fun get :: "string \<Rightarrow> json \<Rightarrow> json option" where
  "get k (JObject kvs) = map_of kvs k"
| "get k _ = None"

fun insert_key :: "string \<Rightarrow> json \<Rightarrow> json \<Rightarrow> json" where
  "insert_key k v (JObject kvs) = JObject (ins k v kvs)"
| "insert_key k v j = j"

lemma map_of_ins [simp]: "map_of (ins k v kvs) = (map_of kvs)(k \<mapsto> v)"
  by (induction k v kvs rule: ins.induct) auto

lemma map_of_obj_fields: "map_of (foldr (\<lambda>(k, v). ins k v) kvs []) = map_of kvs"
  by (induction kvs) auto

lemma get_obj [simp]: "get k (obj kvs) = map_of kvs k"
  by (simp add: obj_def map_of_obj_fields)

lemma get_insert_key [simp]:
  "get k' (insert_key k v (JObject kvs)) = (if k' = k then Some v else map_of kvs k')"
  by simp

lemma set_ins: "set (map fst (ins k v kvs)) = insert k (set (map fst kvs))"
  by (induction k v kvs rule: ins.induct) auto

lemma sorted_ins:
  "sorted_wrt (<) (map fst kvs) \<Longrightarrow> sorted_wrt (<) (map fst (ins k v kvs))"
proof (induction k v kvs rule: ins.induct)
  case (1 k v)
  show ?case by simp
next
  case (2 k v k' v' r)
  then show ?case
    using set_ins [of k v r] by (auto simp del: set_map)
qed

lemma set_ins_vals: "set (map snd (ins k v kvs)) \<subseteq> insert v (set (map snd kvs))"
  by (induction k v kvs rule: ins.induct) auto

definition obj_members :: "(string \<times> json) list \<Rightarrow> (string \<times> json) list" where
  "obj_members kvs = foldr (\<lambda>(k, v). ins k v) kvs []"

lemma obj_eq: "obj kvs = JObject (obj_members kvs)"
  by (simp add: obj_def obj_members_def)

lemma map_of_obj_members [simp]: "map_of (obj_members kvs) = map_of kvs"
  by (simp add: obj_members_def map_of_obj_fields)

lemma sorted_obj_members: "sorted_wrt (<) (map fst (obj_members kvs))"
  by (induction kvs) (auto simp: obj_members_def intro!: sorted_ins)

lemma distinct_obj_members [simp]: "distinct (map fst (obj_members kvs))"
  using sorted_obj_members [of kvs] strict_sorted_iff by blast

lemma obj_members_vals: "set (map snd (obj_members kvs)) \<subseteq> set (map snd kvs)"
proof (induction kvs)
  case Nil
  show ?case by (simp add: obj_members_def)
next
  case (Cons kv kvs)
  have "obj_members (kv # kvs) = ins (fst kv) (snd kv) (obj_members kvs)"
    by (simp add: obj_members_def split: prod.split)
  then have "set (map snd (obj_members (kv # kvs)))
      \<subseteq> insert (snd kv) (set (map snd (obj_members kvs)))"
    using set_ins_vals [of "fst kv" "snd kv" "obj_members kvs"] by metis
  also have "\<dots> \<subseteq> insert (snd kv) (set (map snd kvs))"
    using Cons.IH by (rule insert_mono)
  finally show ?case by (simp only: list.simps set_simps)
qed

text \<open>
  Parsed text keeps the members of an object in the order of the text, repeated ones included;
  turning it into a \<open>Value\<close> files them in the map, where the last of several wins.
\<close>

fun to_value :: "json \<Rightarrow> json" where
  "to_value (JArray xs) = JArray (map to_value xs)"
| "to_value (JObject kvs) =
     JObject (fold (\<lambda>(k, v). ins k v) (map (\<lambda>(k, v). (k, to_value v)) kvs) [])"
| "to_value v = v"

lemma ins_last: "\<forall>k' \<in> set (map fst kvs). k' < k \<Longrightarrow> ins k v kvs = kvs @ [(k, v)]"
  by (induction kvs) (auto simp: less_imp_neq dest: less_asym)

lemma fold_ins_sorted:
  "sorted_wrt (<) (map fst kvs) \<Longrightarrow> fold (\<lambda>(k, v). ins k v) kvs [] = kvs"
proof (induction kvs rule: rev_induct)
  case Nil
  show ?case by simp
next
  case (snoc kv kvs)
  then show ?case by (cases kv) (auto simp: sorted_wrt_append ins_last)
qed

lemma to_value_obj:
  assumes "\<And>v. v \<in> set (map snd kvs) \<Longrightarrow> to_value v = v"
  shows "to_value (obj kvs) = obj kvs"
proof -
  have "map (\<lambda>(k, v). (k, to_value v)) (obj_members kvs) = obj_members kvs"
    using assms obj_members_vals [of kvs] by (intro map_idI) force
  then show ?thesis
    by (simp add: obj_eq fold_ins_sorted sorted_obj_members)
qed

text \<open>An optional member: absent when the value is \<open>None\<close>
  (\<open>skip_serializing_if = "Option::is_none"\<close>).\<close>

definition opt_field :: "string \<Rightarrow> json option \<Rightarrow> (string \<times> json) list" where
  "opt_field k v = (case v of None \<Rightarrow> [] | Some j \<Rightarrow> [(k, j)])"

lemma map_of_opt_field [simp]:
  "map_of (opt_field k v @ r) q = (if q = k \<and> v \<noteq> None then v else map_of r q)"
  by (auto simp: opt_field_def split: option.split)

section \<open>Reading a value\<close>

fun as_str :: "json \<Rightarrow> string option" where
  "as_str (JString s) = Some s"
| "as_str _ = None"

fun as_bool :: "json \<Rightarrow> bool option" where
  "as_bool (JBool b) = Some b"
| "as_bool _ = None"

fun as_array :: "json \<Rightarrow> json list option" where
  "as_array (JArray xs) = Some xs"
| "as_array _ = None"

fun as_object :: "json \<Rightarrow> (string \<times> json) list option" where
  "as_object (JObject kvs) = Some kvs"
| "as_object _ = None"

fun as_u64 :: "json \<Rightarrow> u64 option" where
  "as_u64 (JNumber (PosInt n)) = Some n"
| "as_u64 _ = None"

text \<open>\<open>Value::as_i64\<close>: a positive number has to fit.\<close>

fun as_i64 :: "json \<Rightarrow> int option" where
  "as_i64 (JNumber (PosInt n)) = (if uint n < 2 ^ 63 then Some (uint n) else None)"
| "as_i64 (JNumber (NegInt n)) = Some (sint n)"
| "as_i64 _ = None"

definition get_str :: "string \<Rightarrow> json \<Rightarrow> string option" where
  "get_str k v = Option.bind (get k v) as_str"

definition get_array :: "string \<Rightarrow> json \<Rightarrow> json list option" where
  "get_array k v = Option.bind (get k v) as_array"

lemma as_str_Some [simp]: "as_str v = Some s \<longleftrightarrow> v = JString s"
  by (cases v) auto

lemma as_bool_Some [simp]: "as_bool v = Some b \<longleftrightarrow> v = JBool b"
  by (cases v) auto

lemma as_array_Some [simp]: "as_array v = Some xs \<longleftrightarrow> v = JArray xs"
  by (cases v) auto

lemma as_object_Some [simp]: "as_object v = Some kvs \<longleftrightarrow> v = JObject kvs"
  by (cases v) auto

lemma as_u64_Some [simp]: "as_u64 v = Some n \<longleftrightarrow> v = JNumber (PosInt n)"
  by (cases v rule: as_u64.cases) auto

section \<open>Derived decoding\<close>

text \<open>
  \<open>from_value\<close> for a derived struct accepts an object (members by name or alias, unknown ones
  ignored, two names for one field an error) and an array with one element per field in the
  order of the declaration.
\<close>

definition hits :: "(string \<times> json) list \<Rightarrow> string list \<Rightarrow> json list" where
  "hits kvs names = map snd (filter (\<lambda>(k, v). k \<in> set names) kvs)"

fun well_shaped :: "string list list \<Rightarrow> json \<Rightarrow> bool" where
  "well_shaped fields (JObject kvs) = list_all (\<lambda>ns. length (hits kvs ns) \<le> 1) fields"
| "well_shaped fields (JArray xs) = (length xs = length fields)"
| "well_shaped fields _ = False"

fun field_of :: "string list list \<Rightarrow> json \<Rightarrow> string list \<Rightarrow> json option" where
  "field_of fields (JObject kvs) names = (case hits kvs names of [] \<Rightarrow> None | v # _ \<Rightarrow> Some v)"
| "field_of fields (JArray xs) names = map_of (zip fields xs) names"
| "field_of fields _ names = None"

lemma hits_distinct:
  "distinct (map fst kvs) \<Longrightarrow> hits kvs [a] = (case map_of kvs a of None \<Rightarrow> [] | Some v \<Rightarrow> [v])"
proof (induction kvs)
  case Nil
  then show ?case by (simp add: hits_def)
next
  case (Cons kv kvs)
  have "filter (\<lambda>(k, v). k \<in> set [a]) kvs = []" if "a \<notin> set (map fst kvs)"
    using that by (force simp: filter_empty_conv)
  with Cons show ?case by (cases kv) (auto simp: hits_def split: option.splits)
qed

lemma hits_skip: "map_of kvs b = None \<Longrightarrow> hits kvs [a, b] = hits kvs [a]"
proof -
  assume "map_of kvs b = None"
  then have "filter (\<lambda>(k, v). k \<in> set [a, b]) kvs = filter (\<lambda>(k, v). k \<in> set [a]) kvs"
    by (intro filter_cong) (force simp: map_of_eq_None_iff)+
  then show ?thesis by (simp only: hits_def)
qed

text \<open>A required field, a field with \<open>serde(default)\<close>, and an \<open>Option\<close> field.\<close>

definition req :: "(json \<Rightarrow> 'a option) \<Rightarrow> json option \<Rightarrow> 'a option" where
  "req dec v = Option.bind v dec"

definition dflt :: "'a \<Rightarrow> (json \<Rightarrow> 'a option) \<Rightarrow> json option \<Rightarrow> 'a option" where
  "dflt d dec v = (case v of None \<Rightarrow> Some d | Some j \<Rightarrow> dec j)"

definition optf :: "(json \<Rightarrow> 'a option) \<Rightarrow> json option \<Rightarrow> 'a option option" where
  "optf dec v = (case v of None \<Rightarrow> Some None
     | Some j \<Rightarrow> if j = JNull then Some None else map_option Some (dec j))"

definition dec_vec :: "(json \<Rightarrow> 'a option) \<Rightarrow> json \<Rightarrow> 'a list option" where
  "dec_vec dec v = Option.bind (as_array v) (\<lambda>xs. those (map dec xs))"

lemma req_simps [simp]: "req dec (Some v) = dec v" "req dec None = None"
  by (simp_all add: req_def)

lemma dflt_simps [simp]: "dflt d dec (Some v) = dec v" "dflt d dec None = Some d"
  by (simp_all add: dflt_def)

text \<open>The codecs of the primitive types.\<close>

definition enc_u64 :: "u64 \<Rightarrow> json" where
  "enc_u64 n = JNumber (PosInt n)"

definition enc_u32 :: "u32 \<Rightarrow> json" where
  "enc_u32 n = JNumber (PosInt (ucast n))"

definition enc_u16 :: "u16 \<Rightarrow> json" where
  "enc_u16 n = JNumber (PosInt (ucast n))"

definition enc_i32 :: "i32 \<Rightarrow> json" where
  "enc_i32 n =
     JNumber (if sint n < 0 then NegInt (scast n) else PosInt (scast n))"

definition dec_u32 :: "json \<Rightarrow> u32 option" where
  "dec_u32 v = Option.bind (as_u64 v) (\<lambda>n. if unat n < 2 ^ 32 then Some (ucast n) else None)"

definition dec_u16 :: "json \<Rightarrow> u16 option" where
  "dec_u16 v = Option.bind (as_u64 v) (\<lambda>n. if unat n < 2 ^ 16 then Some (ucast n) else None)"

definition dec_i32 :: "json \<Rightarrow> i32 option" where
  "dec_i32 v = Option.bind (as_i64 v)
     (\<lambda>n. if - (2 ^ 31) \<le> n \<and> n < 2 ^ 31 then Some (word_of_int n) else None)"

text \<open>
  The contract of a codec: what is written is read back, and no value is written as
  \<open>null\<close>, which an \<open>Option\<close> field reads as \<open>None\<close>.
\<close>

locale json_codec =
  fixes enc :: "'a \<Rightarrow> json" and dec :: "json \<Rightarrow> 'a option"
  assumes dec_enc: "dec (enc x) = Some x"
    and enc_not_null: "enc x \<noteq> JNull"
begin

lemma enc_inject: "enc x = enc y \<longleftrightarrow> x = y"
  by (metis dec_enc option.inject)

lemma optf_enc: "optf dec (map_option enc m) = Some m"
  by (cases m) (simp_all add: optf_def dec_enc enc_not_null)

text \<open>The same for a field written as \<open>null\<close> instead of being skipped.\<close>

lemma optf_enc_null: "optf dec (Some (case m of None \<Rightarrow> JNull | Some x \<Rightarrow> enc x)) = Some m"
  by (cases m) (simp_all add: optf_def dec_enc enc_not_null)

lemma dec_vec_enc: "dec_vec dec (JArray (map enc xs)) = Some xs"
  by (induction xs) (simp_all add: dec_vec_def dec_enc)

end

interpretation str_codec: json_codec JString as_str
  by unfold_locales auto

interpretation bool_codec: json_codec JBool as_bool
  by unfold_locales auto

interpretation u64_codec: json_codec enc_u64 as_u64
  by unfold_locales (auto simp: enc_u64_def)

lemma unat_ucast_u32 [simp]: "unat (ucast (n :: u32) :: u64) = unat n"
proof -
  have "unat n < 2 ^ 64" using unsigned_less [where 'a = nat, of n] by simp
  then show ?thesis by (simp add: unsigned_ucast_eq take_bit_nat_eq_self_iff)
qed

lemma unat_ucast_u16 [simp]: "unat (ucast (n :: u16) :: u64) = unat n"
proof -
  have "unat n < 2 ^ 64" using unsigned_less [where 'a = nat, of n] by simp
  then show ?thesis by (simp add: unsigned_ucast_eq take_bit_nat_eq_self_iff)
qed

lemma ucast_down_u32 [simp]: "ucast (ucast (n :: u32) :: u64) = n"
  by (rule bit_word_eqI) (simp add: bit_ucast_iff)

lemma ucast_down_u16 [simp]: "ucast (ucast (n :: u16) :: u64) = n"
  by (rule bit_word_eqI) (simp add: bit_ucast_iff)

interpretation u32_codec: json_codec enc_u32 dec_u32
proof
  show "dec_u32 (enc_u32 n) = Some n" for n
    using unsigned_less [where 'a = nat, of n] by (simp add: dec_u32_def enc_u32_def)
qed (simp add: enc_u32_def)

interpretation u16_codec: json_codec enc_u16 dec_u16
proof
  show "dec_u16 (enc_u16 n) = Some n" for n
    using unsigned_less [where 'a = nat, of n] by (simp add: dec_u16_def enc_u16_def)
qed (simp add: enc_u16_def)

lemma sint_i32_range: "- (2 ^ 31) \<le> sint (n :: i32)" "sint (n :: i32) < 2 ^ 31"
  using sint_greater_eq [of n] sint_less [of n] by simp_all

lemma uint_nonneg_i32: "0 \<le> sint (n :: i32) \<Longrightarrow> uint (scast n :: u64) = sint n"
  using sint_i32_range [of n]
  by (simp add: scast_eq uint_word_of_int del: of_int_sint)

lemma sint_scast_i32 [simp]: "sint (scast (n :: i32) :: u64) = sint n"
  by (rule sint_up_scast) (simp add: is_up)

lemma scast_scast_i32 [simp]: "scast (scast (n :: i32) :: u64) = n"
  by (simp only: scast_eq [of "scast n :: u64"] sint_scast_i32 of_int_sint scast_id)

interpretation i32_codec: json_codec enc_i32 dec_i32
proof
  fix n :: i32
  show "dec_i32 (enc_i32 n) = Some n"
  proof (cases "sint n < 0")
    case True
    then show ?thesis
      using sint_i32_range [of n] by (simp add: dec_i32_def enc_i32_def)
  next
    case False
    then show ?thesis
      using sint_i32_range [of n] by (simp add: dec_i32_def enc_i32_def uint_nonneg_i32)
  qed
  show "enc_i32 n \<noteq> JNull" by (simp add: enc_i32_def)
qed

end
