(* ===== verification/Types.thy ===== *)
theory Types
  imports Json
begin

text \<open>
  \<open>rust/src/types.rs\<close> and \<open>rust/src/error.rs\<close>: status codes, the small enums with their
  serde representations, and the configuration structs with the derived (de)serialisation that
  their attributes select.
\<close>

section \<open>Status codes\<close>

datatype status =
    Success | GenericError | InvalidParam | NoResults | FailedToDelete | FailedToUpdate
  | InvalidMessageFormat | DuplicateItem | UnknownAction | InvalidSession
  | ServerError | CommunicationTimeout | InvalidConfig | ProcessNotRunning
  | ProtoInvalidResponse

fun status_to_i32 :: "status \<Rightarrow> int" where
  "status_to_i32 Success = 0"
| "status_to_i32 GenericError = 1"
| "status_to_i32 InvalidParam = 2"
| "status_to_i32 NoResults = 3"
| "status_to_i32 FailedToDelete = 4"
| "status_to_i32 FailedToUpdate = 5"
| "status_to_i32 InvalidMessageFormat = 6"
| "status_to_i32 DuplicateItem = 7"
| "status_to_i32 UnknownAction = 8"
| "status_to_i32 InvalidSession = 9"
| "status_to_i32 ServerError = 100"
| "status_to_i32 CommunicationTimeout = 101"
| "status_to_i32 InvalidConfig = 102"
| "status_to_i32 ProcessNotRunning = 103"
| "status_to_i32 ProtoInvalidResponse = 104"

definition status_try_from :: "int \<Rightarrow> status option" where
  "status_try_from n =
     (if n = 0 then Some Success else if n = 1 then Some GenericError
      else if n = 2 then Some InvalidParam else if n = 3 then Some NoResults
      else if n = 4 then Some FailedToDelete else if n = 5 then Some FailedToUpdate
      else if n = 6 then Some InvalidMessageFormat else if n = 7 then Some DuplicateItem
      else if n = 8 then Some UnknownAction else if n = 9 then Some InvalidSession
      else if n = 100 then Some ServerError else if n = 101 then Some CommunicationTimeout
      else if n = 102 then Some InvalidConfig else if n = 103 then Some ProcessNotRunning
      else if n = 104 then Some ProtoInvalidResponse else None)"

definition normalize_status :: "int \<Rightarrow> status" where
  "normalize_status n = unwrap_or GenericError (status_try_from n)"

fun status_text :: "status \<Rightarrow> string" where
  "status_text Success = ''Operation successful''"
| "status_text GenericError = ''A generic error occurred''"
| "status_text InvalidParam = ''Invalid parameter provided''"
| "status_text NoResults = ''No results found''"
| "status_text FailedToDelete = ''Failed to delete item''"
| "status_text FailedToUpdate = ''Failed to update item''"
| "status_text InvalidMessageFormat = ''Invalid message format''"
| "status_text DuplicateItem = ''Duplicate item found''"
| "status_text UnknownAction = ''Unknown action requested''"
| "status_text InvalidSession = ''Invalid session, use `apw app launch` and `apw login <url>`''"
| "status_text ServerError = ''Server error''"
| "status_text CommunicationTimeout = ''Communication timeout''"
| "status_text InvalidConfig = ''Stored configuration is invalid''"
| "status_text ProcessNotRunning = ''Helper process not running''"
| "status_text ProtoInvalidResponse = ''Invalid response payload''"

definition enc_status :: "status \<Rightarrow> json" where
  "enc_status s = enc_i32 (word_of_int (status_to_i32 s))"

text \<open>
  \<open>str::to_lowercase\<close>, as far as a comparison with ASCII text sees it: besides A--Z, the only
  character whose lower case is ASCII is the Kelvin sign (U+212A, lower case \<open>k\<close>).
\<close>

fun to_lowercase :: "string \<Rightarrow> string" where
  "to_lowercase [] = []"
| "to_lowercase (a # b # c # s) =
     (if [a, b, c] = [CHR 0xE2, CHR 0x84, CHR 0xAA] then CHR ''k'' # to_lowercase s
      else lower_char a # to_lowercase (b # c # s))"
| "to_lowercase (a # s) = lower_char a # to_lowercase s"

definition status_of_name :: "string \<Rightarrow> status" where
  "status_of_name name =
     (if name = ''success'' then Success else if name = ''generic_error'' then GenericError
      else if name = ''invalid_param'' then InvalidParam
      else if name = ''no_results'' then NoResults
      else if name = ''failed_to_delete'' then FailedToDelete
      else if name = ''failed_to_update'' then FailedToUpdate
      else if name = ''invalid_message_format'' then InvalidMessageFormat
      else if name = ''duplicate_item'' then DuplicateItem
      else if name = ''unknown_action'' then UnknownAction
      else if name = ''invalid_session'' then InvalidSession
      else if name = ''server_error'' then ServerError
      else if name = ''communication_timeout'' then CommunicationTimeout
      else if name = ''invalid_config'' then InvalidConfig
      else if name = ''process_not_running'' then ProcessNotRunning
      else if name = ''proto_invalid_response'' then ProtoInvalidResponse
      else GenericError)"

text \<open>The visitor: integers (a \<open>u64\<close> cast to \<open>i64\<close>), strings, nothing else.\<close>

fun dec_status :: "json \<Rightarrow> status option" where
  "dec_status (JNumber (PosInt n)) = Some (normalize_status (sint n))"
| "dec_status (JNumber (NegInt n)) = Some (normalize_status (sint n))"
| "dec_status (JString s) =
     Some (case parse_i64 s of
             Some n \<Rightarrow> normalize_status n
           | None \<Rightarrow> status_of_name (to_lowercase s))"
| "dec_status _ = None"

lemma status_try_from_to_i32 [simp]: "status_try_from (status_to_i32 s) = Some s"
  by (cases s) (simp_all add: status_try_from_def)

lemma status_try_from_Some: "status_try_from n = Some s \<longleftrightarrow> n = status_to_i32 s"
proof
  assume "status_try_from n = Some s"
  then show "n = status_to_i32 s"
    unfolding status_try_from_def by (auto split: if_splits)
qed simp

lemma normalize_status_to_i32 [simp]: "normalize_status (status_to_i32 s) = s"
  by (simp add: normalize_status_def)

lemma status_to_i32_range: "0 \<le> status_to_i32 s \<and> status_to_i32 s \<le> 104"
  by (cases s) simp_all

lemma dec_status_enc: "dec_status (enc_status s) = Some s"
  by (cases s) (simp_all add: enc_status_def enc_i32_def normalize_status_def status_try_from_def)

interpretation status_codec: json_codec enc_status dec_status
  by unfold_locales (simp_all add: dec_status_enc, simp add: enc_status_def enc_i32_def)

section \<open>Errors\<close>

record apw_error =
  err_code :: status
  err_message :: string

type_synonym 'a res = "apw_error + 'a"

definition mk_err :: "status \<Rightarrow> string \<Rightarrow> apw_error" where
  "mk_err c m = \<lparr>err_code = c, err_message = m\<rparr>"

lemma mk_err_fields [simp]: "err_code (mk_err c m) = c" "err_message (mk_err c m) = m"
  by (simp_all add: mk_err_def)

section \<open>Enums with a string representation\<close>

datatype provider = OnePassword | Bitwarden | KeePassXC | Pass

fun provider_str :: "provider \<Rightarrow> string" where
  "provider_str OnePassword = ''1password''"
| "provider_str Bitwarden = ''bitwarden''"
| "provider_str KeePassXC = ''keepassxc''"
| "provider_str Pass = ''pass''"

datatype runtime_mode = Auto | Disabled

fun runtime_mode_str :: "runtime_mode \<Rightarrow> string" where
  "runtime_mode_str Auto = ''auto''"
| "runtime_mode_str Disabled = ''disabled''"

datatype secret_source = SecretFile | SecretKeychain

fun secret_source_str :: "secret_source \<Rightarrow> string" where
  "secret_source_str SecretFile = ''file''"
| "secret_source_str SecretKeychain = ''keychain''"

definition enc_provider :: "provider \<Rightarrow> json" where
  "enc_provider p = JString (provider_str p)"

definition enc_runtime_mode :: "runtime_mode \<Rightarrow> json" where
  "enc_runtime_mode m = JString (runtime_mode_str m)"

definition enc_secret_source :: "secret_source \<Rightarrow> json" where
  "enc_secret_source s = JString (secret_source_str s)"

text \<open>A derived unit enum reads its variant's name, or an object with that name mapped
  to \<open>null\<close>.\<close>

fun dec_unit_enum :: "(string \<Rightarrow> 'a option) \<Rightarrow> json \<Rightarrow> 'a option" where
  "dec_unit_enum f (JString s) = f s"
| "dec_unit_enum f (JObject [(s, JNull)]) = f s"
| "dec_unit_enum f _ = None"

definition provider_of_str :: "string \<Rightarrow> provider option" where
  "provider_of_str s =
     (if s = ''1password'' then Some OnePassword else if s = ''bitwarden'' then Some Bitwarden
      else if s = ''keepassxc'' then Some KeePassXC else if s = ''pass'' then Some Pass
      else None)"

definition secret_source_of_str :: "string \<Rightarrow> secret_source option" where
  "secret_source_of_str s =
     (if s = ''file'' then Some SecretFile else if s = ''keychain'' then Some SecretKeychain
      else None)"

definition dec_provider :: "json \<Rightarrow> provider option" where
  "dec_provider v = dec_unit_enum provider_of_str v"

definition dec_secret_source :: "json \<Rightarrow> secret_source option" where
  "dec_secret_source v = dec_unit_enum secret_source_of_str v"

text \<open>\<open>RuntimeMode\<close> is read by hand: any string, unknown ones mean \<open>auto\<close>.\<close>

definition dec_runtime_mode :: "json \<Rightarrow> runtime_mode option" where
  "dec_runtime_mode v =
     map_option (\<lambda>s. if to_lowercase s = ''disabled'' then Disabled else Auto) (as_str v)"

interpretation provider_codec: json_codec enc_provider dec_provider
proof
  show "dec_provider (enc_provider p) = Some p" for p
    by (cases p) (simp_all add: dec_provider_def enc_provider_def provider_of_str_def)
qed (simp add: enc_provider_def)

interpretation secret_source_codec: json_codec enc_secret_source dec_secret_source
proof
  show "dec_secret_source (enc_secret_source s) = Some s" for s
    by (cases s) (simp_all add: dec_secret_source_def enc_secret_source_def secret_source_of_str_def)
qed (simp add: enc_secret_source_def)

interpretation runtime_mode_codec: json_codec enc_runtime_mode dec_runtime_mode
proof
  show "dec_runtime_mode (enc_runtime_mode m) = Some m" for m
    by (cases m) (simp_all add: dec_runtime_mode_def enc_runtime_mode_def lower_char_def
        is_ascii_upper_def code_def)
qed (simp add: enc_runtime_mode_def)

section \<open>Configuration\<close>

definition CONFIG_SCHEMA :: i32 where
  "CONFIG_SCHEMA = 1"

definition DEFAULT_HOST :: string where
  "DEFAULT_HOST = ''127.0.0.1''"

definition DEFAULT_PORT :: u16 where
  "DEFAULT_PORT = 10000"

definition MAX_MESSAGE_BYTES :: nat where
  "MAX_MESSAGE_BYTES = 32 * 1024"

text \<open>The legacy shape, all fields optional.\<close>

record apw_config =
  leg_port :: "u16 option"
  leg_shared_key :: "string option"
  leg_username :: "string option"
  leg_host :: "string option"
  leg_created_at :: "string option"

record apw_config_v1 =
  cfg_schema :: i32
  cfg_port :: u16
  cfg_host :: string
  cfg_username :: string
  cfg_shared_key :: string
  cfg_runtime_mode :: runtime_mode
  cfg_last_launch_status :: "string option"
  cfg_last_launch_error :: "string option"
  cfg_last_launch_strategy :: "string option"
  cfg_bridge_status :: "string option"
  cfg_bridge_browser :: "string option"
  cfg_bridge_connected_at :: "string option"
  cfg_bridge_last_error :: "string option"
  cfg_secret_source :: "secret_source option"
  cfg_supported_domains :: "string list"
  cfg_fallback_provider :: "provider option"
  cfg_fallback_provider_path :: "string option"
  cfg_fallback_provider_database :: "string option"
  cfg_fallback_provider_timeout_ms :: "u64 option"
  cfg_fallback_provider_max_invocations :: "u32 option"
  cfg_disable_demo :: "bool option"
  cfg_created_at :: string

definition default_config_v1 :: "string \<Rightarrow> apw_config_v1" where
  "default_config_v1 now_text =
     \<lparr>cfg_schema = CONFIG_SCHEMA, cfg_port = DEFAULT_PORT, cfg_host = DEFAULT_HOST,
      cfg_username = [], cfg_shared_key = [], cfg_runtime_mode = Auto,
      cfg_last_launch_status = None, cfg_last_launch_error = None,
      cfg_last_launch_strategy = None, cfg_bridge_status = None, cfg_bridge_browser = None,
      cfg_bridge_connected_at = None, cfg_bridge_last_error = None,
      cfg_secret_source = Some SecretFile, cfg_supported_domains = [],
      cfg_fallback_provider = None, cfg_fallback_provider_path = None,
      cfg_fallback_provider_database = None, cfg_fallback_provider_timeout_ms = None,
      cfg_fallback_provider_max_invocations = None, cfg_disable_demo = None,
      cfg_created_at = now_text\<rparr>"

text \<open>\<open>APWRuntimeConfig\<close>: the same without the secret source, with the key decoded.\<close>

record runtime_config =
  rt_schema :: i32
  rt_port :: u16
  rt_host :: string
  rt_username :: string
  rt_shared_key :: nat
  rt_runtime_mode :: runtime_mode
  rt_last_launch_status :: "string option"
  rt_last_launch_error :: "string option"
  rt_last_launch_strategy :: "string option"
  rt_bridge_status :: "string option"
  rt_bridge_browser :: "string option"
  rt_bridge_connected_at :: "string option"
  rt_bridge_last_error :: "string option"
  rt_fallback_provider :: "provider option"
  rt_fallback_provider_path :: "string option"
  rt_fallback_provider_database :: "string option"
  rt_fallback_provider_timeout_ms :: "u64 option"
  rt_fallback_provider_max_invocations :: "u32 option"
  rt_supported_domains :: "string list"
  rt_disable_demo :: "bool option"
  rt_created_at :: string

definition default_runtime_config :: "string \<Rightarrow> runtime_config" where
  "default_runtime_config now_text =
     \<lparr>rt_schema = CONFIG_SCHEMA, rt_port = DEFAULT_PORT, rt_host = DEFAULT_HOST,
      rt_username = [], rt_shared_key = 0, rt_runtime_mode = Auto,
      rt_last_launch_status = None, rt_last_launch_error = None,
      rt_last_launch_strategy = None, rt_bridge_status = None, rt_bridge_browser = None,
      rt_bridge_connected_at = None, rt_bridge_last_error = None,
      rt_fallback_provider = None, rt_fallback_provider_path = None,
      rt_fallback_provider_database = None, rt_fallback_provider_timeout_ms = None,
      rt_fallback_provider_max_invocations = None, rt_supported_domains = [],
      rt_disable_demo = None, rt_created_at = now_text\<rparr>"

section \<open>Serialisation of the configuration\<close>

definition null_or :: "('a \<Rightarrow> json) \<Rightarrow> 'a option \<Rightarrow> json" where
  "null_or enc m = (case m of None \<Rightarrow> JNull | Some x \<Rightarrow> enc x)"

text \<open>The members in the order of the declaration; \<open>obj\<close> files them in the map.\<close>

definition config_entries :: "apw_config_v1 \<Rightarrow> (string \<times> json) list" where
  "config_entries c =
     ([(''schema'', enc_i32 (cfg_schema c)),
       (''port'', enc_u16 (cfg_port c)),
       (''host'', JString (cfg_host c)),
       (''username'', JString (cfg_username c)),
       (''sharedKey'', JString (cfg_shared_key c)),
       (''runtimeMode'', enc_runtime_mode (cfg_runtime_mode c))]
      @ opt_field ''lastLaunchStatus'' (map_option JString (cfg_last_launch_status c))
      @ opt_field ''lastLaunchError'' (map_option JString (cfg_last_launch_error c))
      @ opt_field ''lastLaunchStrategy'' (map_option JString (cfg_last_launch_strategy c))
      @ opt_field ''bridgeStatus'' (map_option JString (cfg_bridge_status c))
      @ opt_field ''bridgeBrowser'' (map_option JString (cfg_bridge_browser c))
      @ opt_field ''bridgeConnectedAt'' (map_option JString (cfg_bridge_connected_at c))
      @ opt_field ''bridgeLastError'' (map_option JString (cfg_bridge_last_error c))
      @ [(''secretSource'', null_or enc_secret_source (cfg_secret_source c))]
      @ opt_field ''supportedDomains''
          (if cfg_supported_domains c = [] then None
           else Some (JArray (map JString (cfg_supported_domains c))))
      @ [(''fallbackProvider'', null_or enc_provider (cfg_fallback_provider c))]
      @ opt_field ''fallbackProviderPath'' (map_option JString (cfg_fallback_provider_path c))
      @ opt_field ''fallbackProviderDatabase''
          (map_option JString (cfg_fallback_provider_database c))
      @ opt_field ''fallbackProviderTimeoutMs''
          (map_option enc_u64 (cfg_fallback_provider_timeout_ms c))
      @ opt_field ''fallbackProviderMaxInvocations''
          (map_option enc_u32 (cfg_fallback_provider_max_invocations c))
      @ opt_field ''disableDemo'' (map_option JBool (cfg_disable_demo c))
      @ [(''createdAt'', JString (cfg_created_at c))])"

definition enc_config_v1 :: "apw_config_v1 \<Rightarrow> json" where
  "enc_config_v1 c = obj (config_entries c)"

definition v1_fields :: "string list list" where
  "v1_fields =
     [[''schema''], [''port''], [''host''], [''username''], [''sharedKey''], [''runtimeMode''],
      [''lastLaunchStatus''], [''lastLaunchError''], [''lastLaunchStrategy''],
      [''bridgeStatus''], [''bridgeBrowser''], [''bridgeConnectedAt''], [''bridgeLastError''],
      [''secretSource''], [''supportedDomains'', ''supported_domains''],
      [''fallbackProvider'', ''fallback_provider''],
      [''fallbackProviderPath'', ''fallback_provider_path''],
      [''fallbackProviderDatabase'', ''fallback_provider_database''],
      [''fallbackProviderTimeoutMs'', ''fallback_provider_timeout_ms''],
      [''fallbackProviderMaxInvocations'', ''fallback_provider_max_invocations''],
      [''disableDemo'', ''disable_demo''], [''createdAt'']]"

definition dec_config_v1 :: "json \<Rightarrow> apw_config_v1 option" where
  "dec_config_v1 v =
     (if \<not> well_shaped v1_fields v then None else
      let f = field_of v1_fields v in do {
        a1 \<leftarrow> req dec_i32 (f [''schema'']);
        a2 \<leftarrow> req dec_u16 (f [''port'']);
        a3 \<leftarrow> req as_str (f [''host'']);
        a4 \<leftarrow> req as_str (f [''username'']);
        a5 \<leftarrow> dflt [] as_str (f [''sharedKey'']);
        a6 \<leftarrow> dflt Auto dec_runtime_mode (f [''runtimeMode'']);
        a7 \<leftarrow> optf as_str (f [''lastLaunchStatus'']);
        a8 \<leftarrow> optf as_str (f [''lastLaunchError'']);
        a9 \<leftarrow> optf as_str (f [''lastLaunchStrategy'']);
        a10 \<leftarrow> optf as_str (f [''bridgeStatus'']);
        a11 \<leftarrow> optf as_str (f [''bridgeBrowser'']);
        a12 \<leftarrow> optf as_str (f [''bridgeConnectedAt'']);
        a13 \<leftarrow> optf as_str (f [''bridgeLastError'']);
        a14 \<leftarrow> optf dec_secret_source (f [''secretSource'']);
        a15 \<leftarrow> dflt [] (dec_vec as_str) (f [''supportedDomains'', ''supported_domains'']);
        a16 \<leftarrow> optf dec_provider (f [''fallbackProvider'', ''fallback_provider'']);
        a17 \<leftarrow> optf as_str (f [''fallbackProviderPath'', ''fallback_provider_path'']);
        a18 \<leftarrow> optf as_str (f [''fallbackProviderDatabase'', ''fallback_provider_database'']);
        a19 \<leftarrow> optf as_u64 (f [''fallbackProviderTimeoutMs'', ''fallback_provider_timeout_ms'']);
        a20 \<leftarrow> optf dec_u32
          (f [''fallbackProviderMaxInvocations'', ''fallback_provider_max_invocations'']);
        a21 \<leftarrow> optf as_bool (f [''disableDemo'', ''disable_demo'']);
        a22 \<leftarrow> req as_str (f [''createdAt'']);
        Some \<lparr>cfg_schema = a1, cfg_port = a2, cfg_host = a3, cfg_username = a4,
          cfg_shared_key = a5, cfg_runtime_mode = a6, cfg_last_launch_status = a7,
          cfg_last_launch_error = a8, cfg_last_launch_strategy = a9, cfg_bridge_status = a10,
          cfg_bridge_browser = a11, cfg_bridge_connected_at = a12,
          cfg_bridge_last_error = a13, cfg_secret_source = a14, cfg_supported_domains = a15,
          cfg_fallback_provider = a16, cfg_fallback_provider_path = a17,
          cfg_fallback_provider_database = a18, cfg_fallback_provider_timeout_ms = a19,
          cfg_fallback_provider_max_invocations = a20, cfg_disable_demo = a21,
          cfg_created_at = a22\<rparr>
      })"

definition legacy_fields :: "string list list" where
  "legacy_fields = [[''port''], [''sharedKey''], [''username''], [''host''], [''createdAt'']]"

definition dec_config :: "json \<Rightarrow> apw_config option" where
  "dec_config v =
     (if \<not> well_shaped legacy_fields v then None else
      let f = field_of legacy_fields v in do {
        a1 \<leftarrow> optf dec_u16 (f [''port'']);
        a2 \<leftarrow> optf as_str (f [''sharedKey'']);
        a3 \<leftarrow> optf as_str (f [''username'']);
        a4 \<leftarrow> optf as_str (f [''host'']);
        a5 \<leftarrow> optf as_str (f [''createdAt'']);
        Some \<lparr>leg_port = a1, leg_shared_key = a2, leg_username = a3, leg_host = a4,
          leg_created_at = a5\<rparr>
      })"

text \<open>Looking a member up in a written configuration.\<close>

lemma map_of_opt_field_single [simp]:
  "map_of (opt_field k v) q = (if q = k then v else None)"
  by (auto simp: opt_field_def split: option.split)

lemma enc_config_v1_obj: "enc_config_v1 c = JObject (obj_members (config_entries c))"
  by (simp add: enc_config_v1_def obj_eq)

definition cfield :: "apw_config_v1 \<Rightarrow> string \<Rightarrow> json option" where
  "cfield c n = map_of (config_entries c) n"

lemma field_of_config:
  "field_of v1_fields (enc_config_v1 c) [a] = cfield c a"
  "cfield c b = None \<Longrightarrow> field_of v1_fields (enc_config_v1 c) [a, b] = cfield c a"
  by (simp_all add: enc_config_v1_obj hits_skip hits_distinct cfield_def split: option.split)

lemma cfield_simps:
  "cfield c ''schema'' = Some (enc_i32 (cfg_schema c))"
  "cfield c ''port'' = Some (enc_u16 (cfg_port c))"
  "cfield c ''host'' = Some (JString (cfg_host c))"
  "cfield c ''username'' = Some (JString (cfg_username c))"
  "cfield c ''sharedKey'' = Some (JString (cfg_shared_key c))"
  "cfield c ''runtimeMode'' = Some (enc_runtime_mode (cfg_runtime_mode c))"
  by (simp_all add: cfield_def config_entries_def del: map_of_append)

lemma cfield_simps2:
  "cfield c ''lastLaunchStatus'' = map_option JString (cfg_last_launch_status c)"
  "cfield c ''lastLaunchError'' = map_option JString (cfg_last_launch_error c)"
  "cfield c ''lastLaunchStrategy'' = map_option JString (cfg_last_launch_strategy c)"
  "cfield c ''bridgeStatus'' = map_option JString (cfg_bridge_status c)"
  "cfield c ''bridgeBrowser'' = map_option JString (cfg_bridge_browser c)"
  "cfield c ''bridgeConnectedAt'' = map_option JString (cfg_bridge_connected_at c)"
  "cfield c ''bridgeLastError'' = map_option JString (cfg_bridge_last_error c)"
  by (simp_all add: cfield_def config_entries_def del: map_of_append split: option.split)

lemma cfield_simps3:
  "cfield c ''secretSource'' = Some (null_or enc_secret_source (cfg_secret_source c))"
  "cfield c ''supportedDomains'' =
     (if cfg_supported_domains c = [] then None
      else Some (JArray (map JString (cfg_supported_domains c))))"
  "cfield c ''fallbackProvider'' =
     Some (null_or enc_provider (cfg_fallback_provider c))"
  "cfield c ''fallbackProviderPath'' =
     map_option JString (cfg_fallback_provider_path c)"
  "cfield c ''fallbackProviderDatabase'' =
     map_option JString (cfg_fallback_provider_database c)"
  "cfield c ''fallbackProviderTimeoutMs'' =
     map_option enc_u64 (cfg_fallback_provider_timeout_ms c)"
  "cfield c ''fallbackProviderMaxInvocations'' =
     map_option enc_u32 (cfg_fallback_provider_max_invocations c)"
  "cfield c ''disableDemo'' = map_option JBool (cfg_disable_demo c)"
  "cfield c ''createdAt'' = Some (JString (cfg_created_at c))"
  by (simp_all add: cfield_def config_entries_def del: map_of_append split: option.split)

lemma no_alias_members:
  "cfield c ''supported_domains'' = None"
  "cfield c ''fallback_provider'' = None"
  "cfield c ''fallback_provider_path'' = None"
  "cfield c ''fallback_provider_database'' = None"
  "cfield c ''fallback_provider_timeout_ms'' = None"
  "cfield c ''fallback_provider_max_invocations'' = None"
  "cfield c ''disable_demo'' = None"
  by (simp_all add: cfield_def config_entries_def del: map_of_append)

lemma hits_le1:
  "distinct (map fst kvs) \<Longrightarrow> length (hits kvs [a]) \<le> 1"
  "distinct (map fst kvs) \<Longrightarrow> map_of kvs b = None \<Longrightarrow> length (hits kvs [a, b]) \<le> 1"
  by (simp_all add: hits_skip hits_distinct split: option.split)

lemma well_shaped_config: "well_shaped v1_fields (enc_config_v1 c)"
  unfolding enc_config_v1_obj v1_fields_def well_shaped.simps list.pred_inject
  by (intro conjI list.pred_inject(1) hits_le1 distinct_obj_members)
    (simp_all only: map_of_obj_members no_alias_members cfield_def [symmetric])

lemma optf_null_or:
  "optf as_str (map_option JString m) = Some m"
  "optf as_u64 (map_option enc_u64 n) = Some n"
  "optf dec_u32 (map_option enc_u32 k) = Some k"
  "optf as_bool (map_option JBool b) = Some b"
  "optf dec_secret_source (Some (null_or enc_secret_source s)) = Some s"
  "optf dec_provider (Some (null_or enc_provider p)) = Some p"
  unfolding null_or_def
  by (rule str_codec.optf_enc u64_codec.optf_enc u32_codec.optf_enc bool_codec.optf_enc
      secret_source_codec.optf_enc_null provider_codec.optf_enc_null)+

lemma dflt_domains:
  "dflt [] (dec_vec as_str) (if ds = [] then None else Some (JArray (map JString ds))) = Some ds"
  by (simp add: str_codec.dec_vec_enc)

lemma dec_config_v1_enc: "dec_config_v1 (enc_config_v1 c) = Some c"
  unfolding dec_config_v1_def Let_def
  by (simp add: field_of_config no_alias_members well_shaped_config cfield_simps cfield_simps2 cfield_simps3 optf_null_or
      dflt_domains i32_codec.dec_enc u16_codec.dec_enc runtime_mode_codec.dec_enc)

interpretation config_codec: json_codec enc_config_v1 dec_config_v1
  by unfold_locales (simp_all only: dec_config_v1_enc, simp add: enc_config_v1_obj)

lemma config_entries_plain: "v \<in> set (map snd (config_entries c)) \<Longrightarrow> to_value v = v"
  by (auto simp: config_entries_def opt_field_def enc_i32_def enc_u16_def enc_u32_def enc_u64_def
      enc_runtime_mode_def enc_secret_source_def enc_provider_def null_or_def
      split: option.splits if_splits)

lemma to_value_config: "to_value (enc_config_v1 c) = enc_config_v1 c"
  unfolding enc_config_v1_def by (rule to_value_obj) (rule config_entries_plain)

end
