(* ===== verification/Os.thy ===== *)
theory Os
  imports Types
begin

text \<open>
  The world the program acts on, and what the model takes as given.

  The state \<open>world\<close> holds the file system (a map from paths to inodes), the environment
  variables, the clock, the effective user and the state directory the program resolved at
  start-up, together with the list of the external programs started so far, the data sent to
  sockets and the lines printed to standard output. Log lines on standard error are not kept. Code that is not
  in the repository (the kernel, external programs, the crates \<open>serde_json\<close>, \<open>url\<close>, \<open>base64\<close>,
  \<open>chrono\<close>, \<open>rand\<close>) is the record \<open>ext\<close>, an argument of every definition that uses it; a
  theorem therefore holds whatever those parts do, unless a hypothesis says otherwise.
\<close>

section \<open>State\<close>

datatype file_kind = KFile | KDir | KSymlink | KSocket | KOther

record inode =
  i_kind :: file_kind
  i_mode :: u32
  i_uid :: u32
  i_data :: string

record invocation =
  inv_program :: string
  inv_args :: "string list"
  inv_stdin :: "string option"
  inv_env_removed :: "string list"

datatype out_line = Stdout string | Stderr string

record world =
  w_fs :: "string \<Rightarrow> inode option"
  w_env :: "string \<Rightarrow> string option"
  w_now :: int
  w_euid :: u32
  w_root :: string
  w_spawned :: "invocation list"
  w_sent :: "(string \<times> string) list"
  w_out :: "out_line list"

datatype fs_op =
    OpCreateDir string | OpSetPermissions string | OpRead string | OpOpen string
  | OpWrite string | OpSync string | OpRemove string | OpRename string | OpCopy string
  | OpClone string

section \<open>What the program is given\<close>

text \<open>A program run to its end: exit code (none when a signal ended it), output, error output.\<close>

record proc_output =
  po_code :: "int option"
  po_stdout :: string
  po_stderr :: string

text \<open>
  A program the caller polls: what the n-th \<open>try_wait\<close> answers, by how many milliseconds
  the n-th poll is later than the sleeps alone account for (\<open>thread::sleep\<close> sleeps at least
  as long as it is asked to), and what the pipes deliver.
\<close>

datatype wait_status = Running | Exited bool | WaitError string

record child =
  ch_wait :: "nat \<Rightarrow> wait_status"
  ch_drift :: "nat \<Rightarrow> nat"
  ch_stdin_error :: "string option"
  ch_stdout :: "string + string"
  ch_stderr :: "string + string"

record url_parts =
  url_scheme :: string
  url_host :: "string option"

text \<open>A connection to the broker's socket: whether writing some data fails, what reading
  delivers after that data has been written.\<close>

record conn =
  conn_write_error :: "string \<Rightarrow> string option"
  conn_read :: "string \<Rightarrow> string + string"

text \<open>What the build fixes: the date, the commit, the compiler and the target.\<close>

record build_info =
  bi_date :: string
  bi_sha :: string
  bi_rust :: string
  bi_target :: string

record ext =
  x_fault :: "world \<Rightarrow> fs_op \<Rightarrow> string option"
  x_resolve :: "world \<Rightarrow> string \<Rightarrow> string + string"
  x_read_dir :: "world \<Rightarrow> string \<Rightarrow> string + (string + string) list"
  x_output :: "world \<Rightarrow> invocation \<Rightarrow> string + proc_output"
  x_late :: "world \<Rightarrow> invocation \<Rightarrow> bool"
  x_after :: "world \<Rightarrow> invocation \<Rightarrow> string \<Rightarrow> inode option"
  x_child :: "world \<Rightarrow> invocation \<Rightarrow> string + child"
  x_connect :: "world \<Rightarrow> string \<Rightarrow> nat \<Rightarrow> conn option"
  x_macos :: bool
  x_arch :: string
  x_os :: string
  x_cwd :: "string option"
  x_exe :: "string option"
  x_temp_dir :: "world \<Rightarrow> string"
  x_build :: build_info
  x_json_parse :: "string \<Rightarrow> string + json"
  x_json_pretty :: "json \<Rightarrow> string + string"
  x_json_compact :: "json \<Rightarrow> string + string"
  x_url_parse :: "string \<Rightarrow> url_parts option"
  x_b64_encode :: "nat list \<Rightarrow> string"
  x_b64_decode :: "string \<Rightarrow> nat list option"
  x_rfc3339_parse :: "string \<Rightarrow> int option"
  x_rfc3339_show :: "int \<Rightarrow> string"
  x_random_hex :: "world \<Rightarrow> nat \<Rightarrow> string"

section \<open>Effects\<close>

text \<open>
  An operation takes the world and returns a result and the new world; \<open>bind_io\<close> is \<open>?\<close>
  between two operations, \<open>map_err\<close> is \<open>Result::map_err\<close> on an operating system error.
\<close>

type_synonym 'a io = "world \<Rightarrow> 'a res \<times> world"
type_synonym 'a sys = "world \<Rightarrow> (string + 'a) \<times> world"

definition ret :: "'a \<Rightarrow> 'a io" where
  "ret x w = (Inr x, w)"

definition fail :: "apw_error \<Rightarrow> 'a io" where
  "fail e w = (Inl e, w)"

definition lift_res :: "'a res \<Rightarrow> 'a io" where
  "lift_res r w = (r, w)"

definition bind_io :: "'a io \<Rightarrow> ('a \<Rightarrow> 'b io) \<Rightarrow> 'b io" where
  "bind_io m f w = (case m w of (Inl e, w') \<Rightarrow> (Inl e, w') | (Inr x, w') \<Rightarrow> f x w')"

definition get_world :: "world io" where
  "get_world w = (Inr w, w)"

definition map_err :: "(string \<Rightarrow> apw_error) \<Rightarrow> 'a sys \<Rightarrow> 'a io" where
  "map_err f m w = (case m w of (Inl e, w') \<Rightarrow> (Inl (f e), w') | (Inr x, w') \<Rightarrow> (Inr x, w'))"

text \<open>\<open>let _ = m\<close>: the result is dropped.\<close>

definition ignore :: "(world \<Rightarrow> 'r \<times> world) \<Rightarrow> world \<Rightarrow> world" where
  "ignore m w = snd (m w)"

lemma io_simps [simp]:
  "ret x w = (Inr x, w)" "fail e w = (Inl e, w)" "lift_res r w = (r, w)"
  "get_world w = (Inr w, w)"
  by (simp_all add: ret_def fail_def lift_res_def get_world_def)

lemma bind_io_simps [simp]:
  "bind_io (ret x) f = f x" "bind_io (fail e) f = fail e"
  by (auto simp: bind_io_def fun_eq_iff)

lemma bind_io_Inr:
  "bind_io m f w = (Inr y, w'') \<longleftrightarrow> (\<exists>x w'. m w = (Inr x, w') \<and> f x w' = (Inr y, w''))"
  by (auto simp: bind_io_def split: prod.split sum.split)

lemma bind_io_Inl:
  "bind_io m f w = (Inl e, w'') \<longleftrightarrow>
     m w = (Inl e, w'') \<or> (\<exists>x w'. m w = (Inr x, w') \<and> f x w' = (Inl e, w''))"
  by (auto simp: bind_io_def split: prod.split sum.split)

lemma map_err_Inr: "map_err f m w = (Inr x, w') \<longleftrightarrow> m w = (Inr x, w')"
  by (auto simp: map_err_def split: prod.split sum.split)

lemma map_err_Inl: "map_err f m w = (Inl e, w') \<longleftrightarrow> (\<exists>s. m w = (Inl s, w') \<and> e = f s)"
  by (auto simp: map_err_def split: prod.split sum.split)

text \<open>
  \<open>frame g m\<close>: the operation leaves the part \<open>g\<close> of the world as it was, whatever its result.
  The rules compose along \<open>bind_io\<close>, so a frame property of a handler follows from those of
  its steps.
\<close>

named_theorems frame_rules \<open>frame properties, composed along bind_io\<close>

definition frame :: "(world \<Rightarrow> 'b) \<Rightarrow> (world \<Rightarrow> 'r \<times> world) \<Rightarrow> bool" where
  "frame g m \<longleftrightarrow> (\<forall>w. g (snd (m w)) = g w)"

lemma frameD: "frame g m \<Longrightarrow> m w = (r, w') \<Longrightarrow> g w' = g w"
  by (metis frame_def snd_conv)

lemma frame_ignore: "frame g m \<Longrightarrow> g (ignore m w) = g w"
  by (simp add: frame_def ignore_def)

lemma frame_pure [frame_rules]:
  "frame g (ret x)" "frame g (fail e)" "frame g (lift_res r)" "frame g get_world"
  by (simp_all add: frame_def)

lemma frame_bind [frame_rules]:
  "frame g m \<Longrightarrow> (\<And>x. frame g (f x)) \<Longrightarrow> frame g (bind_io m f)"
  by (auto simp: frame_def bind_io_def split: prod.split sum.split) (metis snd_conv)+

lemma frame_map_err [frame_rules]: "frame g m \<Longrightarrow> frame g (map_err f m)"
  by (auto simp: frame_def map_err_def split: prod.split sum.split) (metis snd_conv)+

lemma frame_if [frame_rules]: "(b \<Longrightarrow> frame g m) \<Longrightarrow> (\<not> b \<Longrightarrow> frame g n) \<Longrightarrow> frame g (if b then m else n)"
  by simp

lemma frame_case_option [frame_rules]:
  "(x = None \<Longrightarrow> frame g m) \<Longrightarrow> (\<And>y. x = Some y \<Longrightarrow> frame g (n y)) \<Longrightarrow>
   frame g (case x of None \<Rightarrow> m | Some y \<Rightarrow> n y)"
  by (cases x) auto

lemma frame_case_sum [frame_rules]:
  "(\<And>e. x = Inl e \<Longrightarrow> frame g (m e)) \<Longrightarrow> (\<And>y. x = Inr y \<Longrightarrow> frame g (n y)) \<Longrightarrow>
   frame g (case x of Inl e \<Rightarrow> m e | Inr y \<Rightarrow> n y)"
  by (cases x) auto

section \<open>The file system calls\<close>

text \<open>\<open>stat\<close> follows symbolic links (\<open>fs::metadata\<close>), \<open>lstat\<close> does not
  (\<open>fs::symlink_metadata\<close>).\<close>

definition lstat :: "world \<Rightarrow> string \<Rightarrow> inode option" where
  "lstat w p = w_fs w p"

definition stat :: "ext \<Rightarrow> world \<Rightarrow> string \<Rightarrow> inode option" where
  "stat X w p = (case x_resolve X w p of Inl e \<Rightarrow> None | Inr q \<Rightarrow> w_fs w q)"

definition path_exists :: "ext \<Rightarrow> world \<Rightarrow> string \<Rightarrow> bool" where
  "path_exists X w p \<longleftrightarrow> stat X w p \<noteq> None"

definition is_file :: "ext \<Rightarrow> world \<Rightarrow> string \<Rightarrow> bool" where
  "is_file X w p \<longleftrightarrow> (case stat X w p of None \<Rightarrow> False | Some i \<Rightarrow> i_kind i = KFile)"

definition is_dir :: "ext \<Rightarrow> world \<Rightarrow> string \<Rightarrow> bool" where
  "is_dir X w p \<longleftrightarrow> (case stat X w p of None \<Rightarrow> False | Some i \<Rightarrow> i_kind i = KDir)"

definition canonicalize :: "ext \<Rightarrow> world \<Rightarrow> string \<Rightarrow> string + string" where
  "canonicalize X w p =
     (case x_resolve X w p of
        Inl e \<Rightarrow> Inl e
      | Inr q \<Rightarrow> if w_fs w q = None then Inl ''No such file or directory (os error 2)'' else Inr q)"

definition put_inode :: "string \<Rightarrow> inode option \<Rightarrow> world \<Rightarrow> world" where
  "put_inode p i w = w\<lparr>w_fs := (w_fs w)(p := i)\<rparr>"

definition faulty :: "ext \<Rightarrow> fs_op \<Rightarrow> 'a sys \<Rightarrow> 'a sys" where
  "faulty X op m w = (case x_fault X w op of Some e \<Rightarrow> (Inl e, w) | None \<Rightarrow> m w)"

definition enoent :: string where
  "enoent = ''No such file or directory (os error 2)''"

definition eexist :: string where
  "eexist = ''File exists (os error 17)''"

definition new_inode :: "file_kind \<Rightarrow> u32 \<Rightarrow> world \<Rightarrow> string \<Rightarrow> inode" where
  "new_inode k m w d = \<lparr>i_kind = k, i_mode = m, i_uid = w_euid w, i_data = d\<rparr>"

definition fs_create_dir_all :: "ext \<Rightarrow> string \<Rightarrow> unit sys" where
  "fs_create_dir_all X p = faulty X (OpCreateDir p) (\<lambda>w.
     if is_dir X w p then (Inr (), w)
     else if w_fs w p \<noteq> None then (Inl eexist, w)
     else (Inr (), put_inode p (Some (new_inode KDir 0x1ED w [])) w))"

definition fs_create_dir :: "ext \<Rightarrow> string \<Rightarrow> unit sys" where
  "fs_create_dir X p = faulty X (OpCreateDir p) (\<lambda>w.
     if w_fs w p \<noteq> None then (Inl eexist, w)
     else (Inr (), put_inode p (Some (new_inode KDir 0x1ED w [])) w))"

definition fs_set_permissions :: "ext \<Rightarrow> string \<Rightarrow> u32 \<Rightarrow> unit sys" where
  "fs_set_permissions X p m = faulty X (OpSetPermissions p) (\<lambda>w.
     case x_resolve X w p of
       Inl e \<Rightarrow> (Inl e, w)
     | Inr q \<Rightarrow> (case w_fs w q of
           None \<Rightarrow> (Inl enoent, w)
         | Some i \<Rightarrow> (Inr (), put_inode q (Some (i\<lparr>i_mode := m\<rparr>)) w)))"

definition read_bytes :: "ext \<Rightarrow> world \<Rightarrow> string \<Rightarrow> string + string" where
  "read_bytes X w p =
     (case x_fault X w (OpRead p) of
        Some e \<Rightarrow> Inl e
      | None \<Rightarrow> (case stat X w p of
            None \<Rightarrow> Inl enoent
          | Some i \<Rightarrow> if i_kind i = KFile then Inr (i_data i)
              else Inl ''Is a directory (os error 21)''))"

definition read_to_string :: "ext \<Rightarrow> world \<Rightarrow> string \<Rightarrow> string + string" where
  "read_to_string X w p =
     (case read_bytes X w p of
        Inl e \<Rightarrow> Inl e
      | Inr d \<Rightarrow> if utf8_valid d then Inr d else Inl ''stream did not contain valid UTF-8'')"

text \<open>Opening for writing with \<open>create\<close> and \<open>truncate\<close>; a new file gets mode 0644.\<close>

definition fs_open_truncate :: "ext \<Rightarrow> string \<Rightarrow> unit sys" where
  "fs_open_truncate X p = faulty X (OpOpen p) (\<lambda>w.
     case x_resolve X w p of
       Inl e \<Rightarrow> (Inl e, w)
     | Inr q \<Rightarrow> (case w_fs w q of
           None \<Rightarrow> (Inr (), put_inode q (Some (new_inode KFile 0x1A4 w [])) w)
         | Some i \<Rightarrow> if i_kind i = KFile then (Inr (), put_inode q (Some (i\<lparr>i_data := []\<rparr>)) w)
             else (Inl ''Is a directory (os error 21)'', w)))"

definition fs_open_append :: "ext \<Rightarrow> string \<Rightarrow> unit sys" where
  "fs_open_append X p = faulty X (OpOpen p) (\<lambda>w.
     case x_resolve X w p of
       Inl e \<Rightarrow> (Inl e, w)
     | Inr q \<Rightarrow> (case w_fs w q of
           None \<Rightarrow> (Inr (), put_inode q (Some (new_inode KFile 0x1A4 w [])) w)
         | Some i \<Rightarrow> if i_kind i = KFile then (Inr (), w)
             else (Inl ''Is a directory (os error 21)'', w)))"

definition fs_write_all :: "ext \<Rightarrow> string \<Rightarrow> string \<Rightarrow> unit sys" where
  "fs_write_all X p d = faulty X (OpWrite p) (\<lambda>w.
     case x_resolve X w p of
       Inl e \<Rightarrow> (Inl e, w)
     | Inr q \<Rightarrow> (case w_fs w q of
           None \<Rightarrow> (Inr (), w)
         | Some i \<Rightarrow> (Inr (), put_inode q (Some (i\<lparr>i_data := i_data i @ d\<rparr>)) w)))"

text \<open>\<open>fs::write\<close> opens and writes.\<close>

definition fs_write :: "ext \<Rightarrow> string \<Rightarrow> string \<Rightarrow> unit sys" where
  "fs_write X p d w =
     (case fs_open_truncate X p w of (Inl e, w') \<Rightarrow> (Inl e, w') | (Inr _, w') \<Rightarrow> fs_write_all X p d w')"

definition fs_sync_all :: "ext \<Rightarrow> string \<Rightarrow> unit sys" where
  "fs_sync_all X p = faulty X (OpSync p) (\<lambda>w. (Inr (), w))"

definition fs_remove_file :: "ext \<Rightarrow> string \<Rightarrow> unit sys" where
  "fs_remove_file X p = faulty X (OpRemove p) (\<lambda>w.
     case w_fs w p of
       None \<Rightarrow> (Inl enoent, w)
     | Some i \<Rightarrow> if i_kind i = KDir then (Inl ''Is a directory (os error 21)'', w)
         else (Inr (), put_inode p None w))"

definition fs_rename :: "ext \<Rightarrow> string \<Rightarrow> string \<Rightarrow> unit sys" where
  "fs_rename X p q = faulty X (OpRename p) (\<lambda>w.
     case w_fs w p of
       None \<Rightarrow> (Inl enoent, w)
     | Some i \<Rightarrow>
         if p = q then (Inr (), w)
         else if i_kind i \<noteq> KDir \<and> (case w_fs w q of None \<Rightarrow> False | Some j \<Rightarrow> i_kind j = KDir)
         then (Inl ''Is a directory (os error 21)'', w)
         else (Inr (), put_inode q (Some i) (put_inode p None w)))"

text \<open>A directory tree is removed with everything below it.\<close>

definition below :: "string \<Rightarrow> string \<Rightarrow> bool" where
  "below root p \<longleftrightarrow> p = root \<or> prefix (root @ ''/'') p"

definition fs_remove_dir_all :: "ext \<Rightarrow> string \<Rightarrow> unit sys" where
  "fs_remove_dir_all X p = faulty X (OpRemove p) (\<lambda>w.
     if w_fs w p = None then (Inl enoent, w)
     else (Inr (), w\<lparr>w_fs := (\<lambda>q. if below p q then None else w_fs w q)\<rparr>))"

definition fs_copy :: "ext \<Rightarrow> string \<Rightarrow> string \<Rightarrow> unit sys" where
  "fs_copy X p q = faulty X (OpCopy p) (\<lambda>w.
     case stat X w p of
       None \<Rightarrow> (Inl enoent, w)
     | Some i \<Rightarrow>
         if i_kind i \<noteq> KFile then (Inl ''the source path is neither a regular file nor a symlink to a regular file'', w)
         else (case x_resolve X w q of
             Inl e \<Rightarrow> (Inl e, w)
           | Inr r \<Rightarrow> (Inr (), put_inode r (Some ((new_inode KFile (i_mode i) w (i_data i)))) w)))"

text \<open>Running a program to its end, and starting one to be polled.\<close>

definition log_spawn :: "invocation \<Rightarrow> world \<Rightarrow> world" where
  "log_spawn i w = w\<lparr>w_spawned := w_spawned w @ [i]\<rparr>"

definition invoke :: "string \<Rightarrow> string list \<Rightarrow> invocation" where
  "invoke p as = \<lparr>inv_program = p, inv_args = as, inv_stdin = None, inv_env_removed = []\<rparr>"

definition run_output :: "ext \<Rightarrow> invocation \<Rightarrow> proc_output sys" where
  "run_output X i w = (x_output X w i, log_spawn i w)"

definition spawn_child :: "ext \<Rightarrow> invocation \<Rightarrow> child sys" where
  "spawn_child X i w = (x_child X w i, log_spawn i w)"

text \<open>A program that is waited for and that may change files: \<open>x_after\<close> is the file system it
  leaves; a probe gives up when the program has not ended within three seconds (\<open>x_late\<close>).\<close>

definition run_status :: "ext \<Rightarrow> invocation \<Rightarrow> proc_output sys" where
  "run_status X i w = (x_output X w i, (log_spawn i w)\<lparr>w_fs := x_after X w i\<rparr>)"

definition probe_output :: "ext \<Rightarrow> invocation \<Rightarrow> world \<Rightarrow> proc_output option \<times> world" where
  "probe_output X i w = (if x_late X w i then None else res_ok (x_output X w i), log_spawn i w)"

definition env_remove :: "string \<Rightarrow> world \<Rightarrow> world" where
  "env_remove k w = w\<lparr>w_env := (w_env w)(k := None)\<rparr>"

text \<open>The parts of the world other than the file system that file system calls keep.\<close>

definition rest :: "world \<Rightarrow> (string \<Rightarrow> string option) \<times> int \<times> u32 \<times> string \<times> invocation list
    \<times> (string \<times> string) list \<times> out_line list" where
  "rest w = (w_env w, w_now w, w_euid w, w_root w, w_spawned w, w_sent w, w_out w)"

lemma put_inode_simps [simp]:
  "w_fs (put_inode p i w) = (w_fs w)(p := i)" "w_env (put_inode p i w) = w_env w"
  "w_now (put_inode p i w) = w_now w" "w_euid (put_inode p i w) = w_euid w"
  "w_root (put_inode p i w) = w_root w" "w_spawned (put_inode p i w) = w_spawned w"
  "w_sent (put_inode p i w) = w_sent w" "w_out (put_inode p i w) = w_out w"
  "rest (put_inode p i w) = rest w"
  by (simp_all add: put_inode_def rest_def)

lemma log_spawn_simps [simp]:
  "w_fs (log_spawn i w) = w_fs w" "w_env (log_spawn i w) = w_env w"
  "w_now (log_spawn i w) = w_now w" "w_euid (log_spawn i w) = w_euid w"
  "w_root (log_spawn i w) = w_root w" "w_spawned (log_spawn i w) = w_spawned w @ [i]"
  "w_sent (log_spawn i w) = w_sent w" "w_out (log_spawn i w) = w_out w"
  by (simp_all add: log_spawn_def)

lemma frame_faulty [frame_rules]: "frame g m \<Longrightarrow> frame g (faulty X op m)"
  by (auto simp: frame_def faulty_def split: option.split)

text \<open>File system calls change nothing but the file system.\<close>

lemmas fs_defs = fs_create_dir_all_def fs_create_dir_def fs_set_permissions_def
  fs_open_truncate_def fs_open_append_def fs_write_all_def fs_sync_all_def fs_remove_file_def
  fs_rename_def fs_remove_dir_all_def fs_copy_def

lemma fs_rest [frame_rules]:
  "frame rest (fs_create_dir_all X p)" "frame rest (fs_create_dir X p)"
  "frame rest (fs_set_permissions X p m)" "frame rest (fs_open_truncate X p)"
  "frame rest (fs_open_append X p)" "frame rest (fs_write_all X p d)"
  "frame rest (fs_sync_all X p)" "frame rest (fs_remove_file X p)"
  "frame rest (fs_rename X p q)" "frame rest (fs_copy X p q)"
  unfolding fs_defs
  by (rule frame_faulty; auto simp: frame_def split: sum.split option.split)+

lemma fs_remove_dir_all_rest [frame_rules]: "frame rest (fs_remove_dir_all X p)"
  unfolding fs_defs by (rule frame_faulty) (auto simp: frame_def rest_def)

lemma fs_write_rest [frame_rules]: "frame rest (fs_write X p d)"
proof -
  have "rest (snd (fs_write X p d w)) = rest w" for w
    using fs_rest(4) [of X p] fs_rest(6) [of X p d]
    by (auto simp: frame_def fs_write_def split: prod.split sum.split) (metis snd_conv)+
  then show ?thesis by (simp add: frame_def)
qed

lemma rest_fields:
  assumes "rest w' = rest w"
  shows "w_env w' = w_env w" "w_now w' = w_now w" "w_euid w' = w_euid w"
    "w_root w' = w_root w" "w_spawned w' = w_spawned w"
    "w_sent w' = w_sent w" "w_out w' = w_out w"
  using assms by (simp_all add: rest_def)

text \<open>A path whose directories are no symbolic links: unless it is one itself, it resolves
  to itself.\<close>

definition plain_path :: "ext \<Rightarrow> string \<Rightarrow> bool" where
  "plain_path X p \<longleftrightarrow>
     (\<forall>w. (case w_fs w p of None \<Rightarrow> True | Some i \<Rightarrow> i_kind i \<noteq> KSymlink) \<longrightarrow> x_resolve X w p = Inr p)"

lemma plain_path_resolve:
  "plain_path X p \<Longrightarrow> (\<And>i. w_fs w p = Some i \<Longrightarrow> i_kind i \<noteq> KSymlink) \<Longrightarrow> x_resolve X w p = Inr p"
  by (cases "w_fs w p") (auto simp: plain_path_def)

end
