(* ===== verification/Managed.thy ===== *)
theory Managed
  imports Os
begin

text \<open>
  Managed preferences (\<open>rust/src/utils.rs\<close>): the settings an administrator deploys as a
  property list. The program does not parse the XML; it looks for the \<open>key\<close> element and the
  value's tags as text. A setting found there replaces the user's own.
\<close>

section \<open>Looking values up in the property list\<close>

definition decode_plist_text :: "string \<Rightarrow> string" where
  "decode_plist_text value =
     replace_all ''&apos;'' [CHR 39]
       (replace_all ''&quot;'' [CHR 34]
         (replace_all ''&gt;'' ''>'' (replace_all ''&lt;'' ''<'' (replace_all ''&amp;'' ''&'' value))))"

definition key_marker :: "string \<Rightarrow> string" where
  "key_marker key = ''<key>'' @ key @ ''</key>''"

definition plist_value_region :: "string \<Rightarrow> string \<Rightarrow> string option" where
  "plist_value_region plist key =
     (let marker = key_marker key in do {
        at \<leftarrow> find_sub marker plist;
        let remaining = drop (at + length marker) plist;
        Some (take (unwrap_or (length remaining) (find_sub ''<key>'' remaining)) remaining)
      })"

text \<open>The text between an opening and a closing tag.\<close>

definition between :: "string \<Rightarrow> string \<Rightarrow> string \<Rightarrow> string option" where
  "between open close region = do {
     at \<leftarrow> find_sub open region;
     let body = drop (at + length open) region;
     end \<leftarrow> find_sub close body;
     Some (take end body)
   }"

definition plist_string_value :: "string \<Rightarrow> string \<Rightarrow> string option" where
  "plist_string_value plist key = do {
     region \<leftarrow> plist_value_region plist key;
     body \<leftarrow> between ''<string>'' ''</string>'' region;
     Some (decode_plist_text (trim body))
   }"

definition plist_u64_value :: "string \<Rightarrow> string \<Rightarrow> u64 option" where
  "plist_u64_value plist key = do {
     region \<leftarrow> plist_value_region plist key;
     body \<leftarrow> between ''<integer>'' ''</integer>'' region;
     map_option of_nat (parse_unsigned (2 ^ 64) (trim body))
   }"

definition plist_bool_value :: "string \<Rightarrow> string \<Rightarrow> bool option" where
  "plist_bool_value plist key = do {
     region \<leftarrow> plist_value_region plist key;
     if contains region ''<true/>'' \<or> contains region ''<true />'' then Some True
     else if contains region ''<false/>'' \<or> contains region ''<false />'' then Some False
     else None
   }"

text \<open>The elements of an array; the loop stops at an element that is not closed.\<close>

function plist_strings :: "string \<Rightarrow> string list" where
  "plist_strings input =
     (case find_sub ''<string>'' input of
        None \<Rightarrow> []
      | Some string_start \<Rightarrow>
          let value_start = string_start + length ''<string>'' in
          (case find_sub ''</string>'' (drop value_start input) of
             None \<Rightarrow> []
           | Some n \<Rightarrow>
               let value = decode_plist_text (trim (take n (drop value_start input)));
                   others = plist_strings (drop (value_start + n + length ''</string>'') input)
               in if value \<noteq> [] then value # others else others))"
  by pat_completeness auto
termination
proof (relation "measure length")
  fix input :: string and i v n
  assume "find_sub ''<string>'' input = Some i" "v = i + length ''<string>''"
  from find_sub_Some [OF this(1)] have "input \<noteq> []" by auto
  then show "(drop (v + n + length ''</string>'') input, input) \<in> measure length" by simp
qed simp

declare plist_strings.simps [simp del]

definition plist_string_array_value :: "string \<Rightarrow> string \<Rightarrow> string list option" where
  "plist_string_array_value plist key = do {
     region \<leftarrow> plist_value_region plist key;
     body \<leftarrow> between ''<array>'' ''</array>'' region;
     Some (plist_strings body)
   }"

section \<open>The managed configuration\<close>

record managed_config =
  mg_fallback_provider :: "provider option"
  mg_fallback_provider_path :: "string option"
  mg_fallback_provider_timeout_ms :: "u64 option"
  mg_fallback_provider_max_invocations :: "u32 option"
  mg_supported_domains :: "string list option"
  mg_disable_demo :: "bool option"
  mg_managed_keys :: "string list"

definition MANAGED_PREFS_DOMAIN :: string where
  "MANAGED_PREFS_DOMAIN = ''dev.omt.apw''"

text \<open>\<open>env::var\<close>: a variable that is set to something that is no UTF-8 is an error.\<close>

definition env_var :: "string \<Rightarrow> world \<Rightarrow> string option" where
  "env_var k w = filter_opt utf8_valid (w_env w k)"

definition managed_prefs_plist :: "ext \<Rightarrow> world \<Rightarrow> string option \<times> world" where
  "managed_prefs_plist X w =
     (case env_var ''APW_MANAGED_PREFS_PLIST'' w of
        Some value \<Rightarrow> (Some value, w)
      | None \<Rightarrow>
          if \<not> x_macos X then (None, w)
          else
            (case run_output X (invoke ''defaults'' [''export'', MANAGED_PREFS_DOMAIN, ''-'']) w of
               (Inl e, w') \<Rightarrow> (None, w')
             | (Inr output, w') \<Rightarrow>
                 if po_code output \<noteq> Some 0 then (None, w')
                 else if \<not> utf8_valid (po_stdout output) then (None, w')
                 else if trim (po_stdout output) = [] then (None, w')
                 else (Some (po_stdout output), w')))"

text \<open>\<open>record_key\<close> names a setting in \<open>managed_keys\<close> when the list carries it.\<close>

definition record_key :: "string \<Rightarrow> 'a option \<Rightarrow> string list" where
  "record_key key value = (if value = None then [] else [key])"

definition managed_of_plist :: "string \<Rightarrow> managed_config option" where
  "managed_of_plist plist =
     (let provider =
            Option.bind (plist_string_value plist ''fallbackProvider'')
              (\<lambda>p. if p = ''1password'' then Some OnePassword
                   else if p = ''bitwarden'' then Some Bitwarden else None);
          path = plist_string_value plist ''fallbackProviderPath'';
          timeout = plist_u64_value plist ''fallbackProviderTimeoutMs'';
          max =
            Option.bind (plist_u64_value plist ''fallbackProviderMaxInvocations'')
              (\<lambda>n. if unat n < 2 ^ 32 then Some (ucast n) else None);
          domains = plist_string_array_value plist ''supportedDomains'';
          demo = plist_bool_value plist ''disableDemo'';
          keys = record_key ''fallbackProvider'' provider
            @ record_key ''fallbackProviderPath'' path
            @ record_key ''fallbackProviderTimeoutMs'' timeout
            @ record_key ''fallbackProviderMaxInvocations'' max
            @ record_key ''supportedDomains'' domains
            @ record_key ''disableDemo'' demo
      in if keys = [] then None
         else Some \<lparr>mg_fallback_provider = provider, mg_fallback_provider_path = path,
           mg_fallback_provider_timeout_ms = timeout,
           mg_fallback_provider_max_invocations = max, mg_supported_domains = domains,
           mg_disable_demo = demo, mg_managed_keys = keys\<rparr>)"

definition read_managed_config :: "ext \<Rightarrow> world \<Rightarrow> managed_config option \<times> world" where
  "read_managed_config X w =
     (case managed_prefs_plist X w of
        (None, w') \<Rightarrow> (None, w')
      | (Some plist, w') \<Rightarrow> (managed_of_plist plist, w'))"

definition apply_managed_config :: "apw_config_v1 \<Rightarrow> managed_config \<Rightarrow> apw_config_v1" where
  "apply_managed_config config managed =
     config\<lparr>cfg_fallback_provider :=
              or_else (mg_fallback_provider managed) (cfg_fallback_provider config),
            cfg_fallback_provider_path :=
              or_else (mg_fallback_provider_path managed) (cfg_fallback_provider_path config),
            cfg_fallback_provider_timeout_ms :=
              or_else (mg_fallback_provider_timeout_ms managed)
                (cfg_fallback_provider_timeout_ms config),
            cfg_fallback_provider_max_invocations :=
              or_else (mg_fallback_provider_max_invocations managed)
                (cfg_fallback_provider_max_invocations config),
            cfg_supported_domains :=
              unwrap_or (cfg_supported_domains config) (mg_supported_domains managed),
            cfg_disable_demo := or_else (mg_disable_demo managed) (cfg_disable_demo config)\<rparr>"

section \<open>What the lookup finds\<close>

text \<open>Searching past text in which the pattern's first character does not occur.\<close>

lemma find_sub_past:
  "c \<notin> set p \<Longrightarrow> find_sub (c # pat) (p @ s) = map_option ((+) (length p)) (find_sub (c # pat) s)"
  by (induction p) (cases "find_sub (c # pat) s"; auto)+

lemma find_sub_here [simp]: "find_sub pat (pat @ s) = Some 0"
  by (rule find_sub_prefix)

lemma find_sub_earliest:
  assumes "\<not> contains (p @ butlast pat) pat" "pat \<noteq> []"
  shows "find_sub pat (p @ pat @ s) = Some (length p)"
proof (rule find_sub_skip)
  fix j
  assume j: "j < length p"
  show "\<not> prefix pat (drop j (p @ pat @ s))"
  proof
    assume "prefix pat (drop j (p @ pat @ s))"
    then obtain r where r: "drop j (p @ pat @ s) = pat @ r" by (auto simp: prefix_def)
    have "take (length pat) (pat @ r) = pat" by simp
    then have "take (length pat) (drop j (p @ pat @ s)) = pat" by (simp only: r)
    moreover have "take (length pat) (drop j (p @ pat @ s))
        = take (length pat) (drop j (p @ butlast pat))"
    proof -
      obtain q x where q: "pat = q @ [x]" using assms(2) by (cases pat rule: rev_cases) auto
      with j have le: "j + length pat \<le> length (p @ q)" by simp
      have "p @ pat @ s = (p @ q) @ x # s" using q by simp
      then have "take (j + length pat) (p @ pat @ s) = take (j + length pat) (p @ q)"
        using le by (simp only: take_append) simp
      with q have "take (j + length pat) (p @ pat @ s) = take (j + length pat) (p @ butlast pat)"
        by simp
      then show ?thesis by (simp only: take_drop add.commute)
    qed
    ultimately have pat: "take (length pat) (drop j (p @ butlast pat)) = pat" by simp
    have "p @ butlast pat = take j (p @ butlast pat) @ pat @ drop (length pat) (drop j (p @ butlast pat))"
      by (metis append_take_drop_id pat)
    with assms(1) show False using contains_infix by metis
  qed
qed

text \<open>The escapes of XML text that has no ampersand, and what reading them back gives.\<close>

fun escape_char :: "char \<Rightarrow> string" where
  "escape_char c =
     (if c = CHR ''<'' then ''&lt;'' else if c = CHR ''>'' then ''&gt;''
      else if c = CHR 34 then ''&quot;'' else if c = CHR 39 then ''&apos;'' else [c])"

declare escape_char.simps [simp del]

definition xml_escape :: "string \<Rightarrow> string" where
  "xml_escape t = concat (map escape_char t)"

lemma replace_all_skip:
  "a \<notin> set p \<Longrightarrow> replace_all (a # pat) new (p @ s) = p @ replace_all (a # pat) new s"
  by (induction p) auto

text \<open>Replacing one escape in text built from characters and escapes.\<close>

lemma replace_escape:
  assumes pat: "pat = CHR ''&'' # pat'"
    and f: "\<And>c. c \<in> set t \<Longrightarrow> f c = pat
        \<or> (\<exists>r. f c = CHR ''&'' # r \<and> CHR ''&'' \<notin> set r \<and> (\<forall>x. \<not> prefix pat (f c @ x)))
        \<or> CHR ''&'' \<notin> set (f c)"
  shows "replace_all pat new (concat (map f t)) = concat (map (\<lambda>c. if f c = pat then new else f c) t)"
  using f
proof (induction t)
  case Nil
  show ?case by simp
next
  case (Cons c t)
  have IH: "replace_all pat new (concat (map f t)) = concat (map (\<lambda>c. if f c = pat then new else f c) t)"
    using Cons by auto
  consider "f c = pat"
    | r where "f c \<noteq> pat" "f c = CHR ''&'' # r" "CHR ''&'' \<notin> set r" "\<forall>x. \<not> prefix pat (f c @ x)"
    | "f c \<noteq> pat" "CHR ''&'' \<notin> set (f c)"
    using Cons.prems [of c] by (cases "f c = pat") auto
  then show ?case
  proof cases
    case 1
    then show ?thesis using IH by (simp add: pat)
  next
    case 2
    then have np: "\<not> prefix pat (CHR ''&'' # r @ concat (map f t))" by (metis append_Cons)
    have "replace_all pat new (CHR ''&'' # r @ concat (map f t))
        = CHR ''&'' # replace_all pat new (r @ concat (map f t))"
      using np by simp
    also have "\<dots> = CHR ''&'' # r @ replace_all pat new (concat (map f t))"
      unfolding pat using 2(3) by (simp add: replace_all_skip)
    finally show ?thesis using 2 IH by simp
  next
    case 3
    then show ?thesis using IH by (simp add: pat replace_all_skip)
  qed
qed

lemma decode_escape:
  assumes "CHR ''&'' \<notin> set t"
  shows "decode_plist_text (xml_escape t) = t"
proof -
  let ?f0 = escape_char
  let ?f1 = "\<lambda>c. if c = CHR ''>'' then ''&gt;'' else if c = CHR 34 then ''&quot;''
      else if c = CHR 39 then ''&apos;'' else [c]"
  let ?f2 = "\<lambda>c. if c = CHR 34 then ''&quot;'' else if c = CHR 39 then ''&apos;'' else [c]"
  let ?f3 = "\<lambda>c. if c = CHR 39 then ''&apos;'' else [c]"
  have amp: "c \<noteq> CHR ''&''" if "c \<in> set t" for c using that assms by auto
  have 0: "replace_all ''&amp;'' ''&'' (concat (map ?f0 t)) = concat (map ?f0 t)"
    by (subst replace_escape) (auto simp: escape_char.simps amp assms intro!: arg_cong [where f = concat])
  have 1: "replace_all ''&lt;'' ''<'' (concat (map ?f0 t)) = concat (map ?f1 t)"
    by (subst replace_escape) (auto simp: escape_char.simps amp assms intro!: arg_cong [where f = concat])
  have 2: "replace_all ''&gt;'' ''>'' (concat (map ?f1 t)) = concat (map ?f2 t)"
    by (subst replace_escape) (auto simp: amp assms intro!: arg_cong [where f = concat])
  have 3: "replace_all ''&quot;'' [CHR 34] (concat (map ?f2 t)) = concat (map ?f3 t)"
    by (subst replace_escape) (auto simp: amp assms intro!: arg_cong [where f = concat])
  have "replace_all ''&apos;'' [CHR 39] (concat (map ?f3 t))
      = concat (map (\<lambda>c. if ?f3 c = ''&apos;'' then [CHR 39] else ?f3 c) t)"
    by (rule replace_escape) (auto simp: amp assms)
  also have "\<dots> = concat (map (\<lambda>c. [c]) t)"
    by (intro arg_cong [where f = concat] map_cong refl) simp
  finally show ?thesis by (simp add: decode_plist_text_def xml_escape_def 0 1 2 3)
qed

lemma escape_char_ends:
  "escape_char c \<noteq> []"
  "32 < code c \<and> code c < 128 \<Longrightarrow>
     32 < code (hd (escape_char c)) \<and> code (hd (escape_char c)) < 128
     \<and> 32 < code (last (escape_char c)) \<and> code (last (escape_char c)) < 128"
  by (auto simp: escape_char.simps code_def)

lemma xml_escape_plain: "CHR ''<'' \<notin> set (xml_escape t)"
  by (auto simp: xml_escape_def escape_char.simps split: if_splits)

text \<open>Text that begins and ends with a printable ASCII character; trimming keeps it.\<close>

definition edges_printable :: "string \<Rightarrow> bool" where
  "edges_printable s \<longleftrightarrow>
     s = [] \<or> (32 < code (hd s) \<and> code (hd s) < 128 \<and> 32 < code (last s) \<and> code (last s) < 128)"

lemma edges_printable_escape: "edges_printable t \<Longrightarrow> edges_printable (xml_escape t)"
proof (cases t rule: rev_cases)
  case (snoc u d)
  assume t: "edges_printable t"
  have l: "last (xml_escape t) = last (escape_char d)"
    using snoc escape_char_ends(1) [of d] by (simp add: xml_escape_def)
  obtain c v where cv: "t = c # v"
    using snoc by (metis append_is_Nil_conv list.exhaust not_Cons_self2)
  have h: "hd (xml_escape t) = hd (escape_char c)"
    using cv escape_char_ends(1) [of c] by (simp add: xml_escape_def)
  have "t \<noteq> []" "hd t = c" using cv by simp_all
  moreover have "last t = d" using snoc by simp
  moreover note t
  ultimately have "32 < code c \<and> code c < 128" "32 < code d \<and> code d < 128"
    by (auto simp: edges_printable_def)
  with escape_char_ends(2) show ?thesis by (simp add: edges_printable_def l h)
qed (simp add: edges_printable_def xml_escape_def)

text \<open>A string setting is read back as it was written: the text between the \<open>string\<close>
  tags after the first \<open>key\<close> element of that name, with XML's escapes undone, for every text
  without an ampersand whose ends are printable.\<close>

theorem plist_string_roundtrip:
  assumes "\<not> contains (pre @ butlast (key_marker key)) (key_marker key)"
    and "CHR ''<'' \<notin> set gap" and "CHR ''&'' \<notin> set t" and "edges_printable t"
  shows "plist_string_value
      (pre @ key_marker key @ gap @ ''<string>'' @ xml_escape t @ ''</string>'' @ post) key = Some t"
proof -
  let ?body = "gap @ ''<string>'' @ xml_escape t @ ''</string>''"
  let ?plist = "pre @ key_marker key @ ?body @ post"
  have at: "find_sub (key_marker key) ?plist = Some (length pre)"
    by (rule find_sub_earliest) (use assms(1) in \<open>simp_all add: key_marker_def\<close>)
  have "find_sub ''<key>'' (?body @ post) = map_option ((+) (length ?body)) (find_sub ''<key>'' post)"
    using assms(2) by (cases "find_sub ''<key>'' post") (simp_all add: find_sub_past xml_escape_plain)
  then have "\<exists>e. unwrap_or (length (?body @ post)) (find_sub ''<key>'' (?body @ post)) = length ?body + e"
    by (cases "find_sub ''<key>'' post") auto
  then obtain e where
    e: "unwrap_or (length (?body @ post)) (find_sub ''<key>'' (?body @ post)) = length ?body + e" ..
  have "drop (length pre + length (key_marker key)) ?plist = ?body @ post" by simp
  then have "plist_value_region ?plist key = Some (take (length ?body + e) (?body @ post))"
    using at e by (simp only: plist_value_region_def Let_def bind.bind_lunit)
  moreover have "take (length B + e) (B @ post) = B @ take e post" for B :: string by simp
  ultimately obtain q where region: "plist_value_region ?plist key = Some (?body @ q)" by metis
  have 1: "find_sub ''<string>'' (?body @ q) = Some (length gap)"
    using assms(2) by (simp add: find_sub_past)
  have 2: "find_sub ''</string>'' (xml_escape t @ ''</string>'' @ q) = Some (length (xml_escape t))"
    using xml_escape_plain by (simp add: find_sub_past)
  have "between ''<string>'' ''</string>'' (?body @ q) = Some (xml_escape t)"
    using 1 2 by (simp add: between_def Let_def)
  moreover have "trim (xml_escape t) = xml_escape t"
    using edges_printable_escape [OF assms(4)] by (intro trim_id) (simp add: edges_printable_def)
  ultimately show ?thesis
    using region assms(3) by (simp add: plist_string_value_def decode_escape)
qed

theorem plist_string_roundtrip_witness:
  "plist_string_value
      (''<dict>'' @ key_marker ''fallbackProviderPath'' @ '' '' @ ''<string>'' @ xml_escape ''/opt/a<b/op''
        @ ''</string>'' @ ''</dict>'') ''fallbackProviderPath'' = Some ''/opt/a<b/op''"
  by (rule plist_string_roundtrip)
    (simp_all add: key_marker_def contains_code edges_printable_def code_def)

text \<open>The decoder replaces the ampersand's escape first, so an escaped escape is undone twice:
  the text \<open>&lt;\<close>, written as XML requires, comes back as \<open><\<close>.\<close>

lemma double_unescape: "decode_plist_text ''&amp;lt;'' = ''<''"
  by (simp add: decode_plist_text_def)

lemma managed_of_plist_Some:
  "managed_of_plist plist = Some m \<Longrightarrow>
     mg_managed_keys m =
       record_key ''fallbackProvider'' (mg_fallback_provider m)
       @ record_key ''fallbackProviderPath'' (mg_fallback_provider_path m)
       @ record_key ''fallbackProviderTimeoutMs'' (mg_fallback_provider_timeout_ms m)
       @ record_key ''fallbackProviderMaxInvocations'' (mg_fallback_provider_max_invocations m)
       @ record_key ''supportedDomains'' (mg_supported_domains m)
       @ record_key ''disableDemo'' (mg_disable_demo m)
     \<and> mg_managed_keys m \<noteq> []
     \<and> mg_fallback_provider m \<in> {None, Some OnePassword, Some Bitwarden}"
proof -
  assume m: "managed_of_plist plist = Some m"
  let ?p = "Option.bind (plist_string_value plist ''fallbackProvider'')
      (\<lambda>p. if p = ''1password'' then Some OnePassword
           else if p = ''bitwarden'' then Some Bitwarden else None)"
  have "?p \<in> {None, Some OnePassword, Some Bitwarden}"
    by (cases "plist_string_value plist ''fallbackProvider''") simp_all
  moreover from m have "mg_fallback_provider m = ?p"
    unfolding managed_of_plist_def Let_def
    by (simp only: option.inject option.distinct split: if_split_asm) (erule subst, simp only: managed_config.simps)
  ultimately have p: "mg_fallback_provider m \<in> {None, Some OnePassword, Some Bitwarden}"
    by (simp only:)
  from m have keys: "mg_managed_keys m =
       record_key ''fallbackProvider'' (mg_fallback_provider m)
       @ record_key ''fallbackProviderPath'' (mg_fallback_provider_path m)
       @ record_key ''fallbackProviderTimeoutMs'' (mg_fallback_provider_timeout_ms m)
       @ record_key ''fallbackProviderMaxInvocations'' (mg_fallback_provider_max_invocations m)
       @ record_key ''supportedDomains'' (mg_supported_domains m)
       @ record_key ''disableDemo'' (mg_disable_demo m) \<and> mg_managed_keys m \<noteq> []"
    unfolding managed_of_plist_def Let_def
    by (simp only: option.inject option.distinct split: if_split_asm) (erule subst, simp only: managed_config.simps simp_thms)
  show ?thesis using keys p by blast
qed

lemma record_key_simps [simp]:
  "k \<in> set (record_key k' v) \<longleftrightarrow> k = k' \<and> v \<noteq> None" "distinct (record_key k' v)"
  by (simp_all add: record_key_def)

lemma record_key_disjoint: "set (record_key k v) \<inter> S = {} \<longleftrightarrow> v = None \<or> k \<notin> S"
  by (auto simp: record_key_def)

lemma managed_of_plist_distinct:
  "managed_of_plist plist = Some m \<Longrightarrow> distinct (mg_managed_keys m)"
proof -
  assume "managed_of_plist plist = Some m"
  from managed_of_plist_Some [OF this] show ?thesis
    by (elim conjE) (simp only: distinct_append set_append record_key_disjoint Un_iff record_key_simps, simp)
qed

lemma or_else_if: "or_else v d = (if v \<noteq> None then v else d)"
  by (cases v) auto

lemma unwrap_or_if: "unwrap_or d v = (if v \<noteq> None then the v else d)"
  by (cases v) auto

text \<open>The settings listed in \<open>managed_keys\<close> are exactly those the property list carries;
  each of them replaces the user's value, every other setting stays, and the only providers a
  property list can select are 1Password and Bitwarden.\<close>

theorem managed_precedence:
  assumes "managed_of_plist plist = Some m"
  shows "distinct (mg_managed_keys m) \<and> mg_managed_keys m \<noteq> []
    \<and> mg_fallback_provider m \<in> {None, Some OnePassword, Some Bitwarden}
    \<and> apply_managed_config config m = config
        \<lparr>cfg_fallback_provider := (if ''fallbackProvider'' \<in> set (mg_managed_keys m)
            then mg_fallback_provider m else cfg_fallback_provider config),
         cfg_fallback_provider_path := (if ''fallbackProviderPath'' \<in> set (mg_managed_keys m)
            then mg_fallback_provider_path m else cfg_fallback_provider_path config),
         cfg_fallback_provider_timeout_ms := (if ''fallbackProviderTimeoutMs'' \<in> set (mg_managed_keys m)
            then mg_fallback_provider_timeout_ms m else cfg_fallback_provider_timeout_ms config),
         cfg_fallback_provider_max_invocations :=
           (if ''fallbackProviderMaxInvocations'' \<in> set (mg_managed_keys m)
            then mg_fallback_provider_max_invocations m
            else cfg_fallback_provider_max_invocations config),
         cfg_supported_domains := (if ''supportedDomains'' \<in> set (mg_managed_keys m)
            then the (mg_supported_domains m) else cfg_supported_domains config),
         cfg_disable_demo := (if ''disableDemo'' \<in> set (mg_managed_keys m)
            then mg_disable_demo m else cfg_disable_demo config)\<rparr>"
proof -
  note keys = managed_of_plist_Some [OF assms]
  have "''fallbackProvider'' \<in> set (mg_managed_keys m) \<longleftrightarrow> mg_fallback_provider m \<noteq> None"
    "''fallbackProviderPath'' \<in> set (mg_managed_keys m) \<longleftrightarrow> mg_fallback_provider_path m \<noteq> None"
    "''fallbackProviderTimeoutMs'' \<in> set (mg_managed_keys m)
      \<longleftrightarrow> mg_fallback_provider_timeout_ms m \<noteq> None"
    "''fallbackProviderMaxInvocations'' \<in> set (mg_managed_keys m)
      \<longleftrightarrow> mg_fallback_provider_max_invocations m \<noteq> None"
    "''supportedDomains'' \<in> set (mg_managed_keys m) \<longleftrightarrow> mg_supported_domains m \<noteq> None"
    "''disableDemo'' \<in> set (mg_managed_keys m) \<longleftrightarrow> mg_disable_demo m \<noteq> None"
    unfolding conjunct1 [OF keys] set_append Un_iff record_key_simps by simp_all
  note mem = this
  have "mg_managed_keys m \<noteq> []"
    "mg_fallback_provider m \<in> {None, Some OnePassword, Some Bitwarden}"
    using keys by blast+
  then show ?thesis
    unfolding apply_managed_config_def or_else_if unwrap_or_if mem
    by (intro conjI refl managed_of_plist_distinct [OF assms])
qed

text \<open>A property list that fixes the provider and switches the demo off.\<close>

definition sample_plist :: string where
  "sample_plist =
     ''<plist><dict><key>fallbackProvider</key><string>bitwarden</string><key>disableDemo</key><true/></dict></plist>''"

definition sample_managed :: managed_config where
  "sample_managed =
     \<lparr>mg_fallback_provider = Some Bitwarden, mg_fallback_provider_path = None,
      mg_fallback_provider_timeout_ms = None, mg_fallback_provider_max_invocations = None,
      mg_supported_domains = None, mg_disable_demo = Some True,
      mg_managed_keys = [''fallbackProvider'', ''disableDemo'']\<rparr>"

lemma sample_managed_of_plist: "managed_of_plist sample_plist = Some sample_managed"
  by code_simp

theorem managed_precedence_witness:
  "mg_managed_keys sample_managed \<noteq> []
   \<and> cfg_fallback_provider (apply_managed_config (default_config_v1 []) sample_managed) = Some Bitwarden"
  using managed_precedence [OF sample_managed_of_plist, of "default_config_v1 []"]
  by (simp add: sample_managed_def)

end
