(* ===== verification/Secrets.thy ===== *)
theory Secrets
  imports Os
begin

text \<open>
  \<open>rust/src/secrets.rs\<close>: the shared key in the macOS keychain, through the \<open>security\<close>
  command. What the command answers is part of \<open>ext\<close>; the theory fixes which command is run
  and how each answer becomes a result.
\<close>

definition KEYCHAIN_SERVICE :: string where
  "KEYCHAIN_SERVICE = ''dev.benjaminedwards.apw.sharedKey''"

record security_result =
  sec_code :: int
  sec_stdout :: string
  sec_stderr :: string

definition is_not_found :: "security_result \<Rightarrow> bool" where
  "is_not_found r =
     (if sec_code r = 0 then False
      else let lowered = to_ascii_lowercase (sec_stderr r)
           in contains lowered ''not found'' \<or> contains lowered ''no such item''
              \<or> contains lowered ''could not be found'')"

definition default_security_runner :: "ext \<Rightarrow> string list \<Rightarrow> security_result io" where
  "default_security_runner X as =
     bind_io
       (map_err (\<lambda>e. mk_err GenericError (''Failed to execute security command: '' @ e))
          (run_output X (invoke ''security'' as)))
       (\<lambda>out. ret
          \<lparr>sec_code = unwrap_or (-1) (po_code out),
           sec_stdout = trim (from_utf8_lossy (po_stdout out)),
           sec_stderr = trim (from_utf8_lossy (po_stderr out))\<rparr>)"

definition supports_keychain :: "ext \<Rightarrow> bool" where
  "supports_keychain X = x_macos X"

definition keychain_unavailable :: apw_error where
  "keychain_unavailable =
     mk_err ProcessNotRunning ''Keychain storage is only available on macOS.''"

definition read_shared_key :: "ext \<Rightarrow> string \<Rightarrow> string option io" where
  "read_shared_key X username =
     (if username = [] then ret None
      else if \<not> supports_keychain X then fail keychain_unavailable
      else
        bind_io
          (default_security_runner X
             [''find-generic-password'', ''-a'', username, ''-s'', KEYCHAIN_SERVICE, ''-w''])
          (\<lambda>result.
             if sec_code result = 0 then ret (Some (sec_stdout result))
             else if is_not_found result then ret None
             else if sec_stderr result = [] then
               fail (mk_err InvalidConfig ''Keychain lookup failed.'')
             else fail (mk_err InvalidConfig (sec_stderr result))))"

definition write_shared_key :: "ext \<Rightarrow> string \<Rightarrow> string \<Rightarrow> unit io" where
  "write_shared_key X username shared_key =
     (if username = [] then fail (mk_err InvalidConfig ''Invalid session username.'')
      else if shared_key = [] then fail (mk_err InvalidConfig ''Invalid shared key value.'')
      else if \<not> supports_keychain X then fail keychain_unavailable
      else
        bind_io
          (default_security_runner X
             [''add-generic-password'', ''-a'', username, ''-s'', KEYCHAIN_SERVICE, ''-w'',
              shared_key, ''-U''])
          (\<lambda>result.
             if sec_code result = 0 then ret ()
             else fail (mk_err InvalidConfig
               (if sec_stderr result = [] then ''Failed to store secret.''
                else sec_stderr result))))"

definition delete_shared_key :: "ext \<Rightarrow> string \<Rightarrow> unit io" where
  "delete_shared_key X username =
     (if username = [] then ret ()
      else if \<not> supports_keychain X then fail keychain_unavailable
      else
        bind_io
          (default_security_runner X
             [''delete-generic-password'', ''-a'', username, ''-s'', KEYCHAIN_SERVICE])
          (\<lambda>result.
             if sec_code result = 0 \<or> is_not_found result then ret ()
             else if sec_stderr result = [] then
               fail (mk_err InvalidConfig ''Failed to delete secret.'')
             else fail (mk_err InvalidConfig (sec_stderr result))))"

text \<open>The keychain operations touch no file, and start nothing but \<open>security\<close>.\<close>

lemma run_output_fs [frame_rules]: "frame w_fs (run_output X i)" "frame w_env (run_output X i)"
  "frame w_now (run_output X i)" "frame w_euid (run_output X i)" "frame w_root (run_output X i)"
  by (simp_all add: frame_def run_output_def)

lemma runner_frame [frame_rules]:
  "frame w_fs (default_security_runner X as)" "frame w_env (default_security_runner X as)"
  "frame w_now (default_security_runner X as)" "frame w_euid (default_security_runner X as)"
  "frame w_root (default_security_runner X as)"
  unfolding default_security_runner_def by (intro frame_rules)+

lemma read_shared_key_frame [frame_rules]:
  "frame w_fs (read_shared_key X u)" "frame w_env (read_shared_key X u)"
  "frame w_now (read_shared_key X u)" "frame w_euid (read_shared_key X u)"
  "frame w_root (read_shared_key X u)"
  unfolding read_shared_key_def by (intro frame_rules)+

lemma write_shared_key_frame [frame_rules]:
  "frame w_fs (write_shared_key X u k)" "frame w_env (write_shared_key X u k)"
  "frame w_now (write_shared_key X u k)" "frame w_euid (write_shared_key X u k)"
  "frame w_root (write_shared_key X u k)"
  unfolding write_shared_key_def by (intro frame_rules)+

lemma delete_shared_key_frame [frame_rules]:
  "frame w_fs (delete_shared_key X u)" "frame w_env (delete_shared_key X u)"
  "frame w_now (delete_shared_key X u)" "frame w_euid (delete_shared_key X u)"
  "frame w_root (delete_shared_key X u)"
  unfolding delete_shared_key_def by (intro frame_rules)+

end
