(* ===== verification/Bignum.thy ===== *)
theory Bignum
  imports Os
begin

text \<open>
  The arithmetic at the end of \<open>rust/src/utils.rs\<close>: big integers (\<open>BigUint\<close>, a natural
  number here) as big-endian bytes and in base 64, padding, reduction and modular
  exponentiation by squaring.
\<close>

text \<open>\<open>BigUint::to_bytes_be\<close> and \<open>from_bytes_be\<close>; zero is one zero byte.\<close>

fun bytes_from :: "nat \<Rightarrow> nat list" where
  "bytes_from n = (if n < 256 then [n] else bytes_from (n div 256) @ [n mod 256])"

declare bytes_from.simps [simp del]

definition to_bytes_be :: "nat \<Rightarrow> nat list" where
  "to_bytes_be n = bytes_from n"

definition from_bytes_be :: "nat list \<Rightarrow> nat" where
  "from_bytes_be bs = foldl (\<lambda>acc b. acc * 256 + b) 0 bs"

definition read_bigint :: "ext \<Rightarrow> string \<Rightarrow> nat res" where
  "read_bigint X input =
     (case x_b64_decode X input of
        None \<Rightarrow> Inl (mk_err InvalidConfig ''Invalid config payload format.'')
      | Some bytes \<Rightarrow> Inr (from_bytes_be bytes))"

definition bigint_to_base64 :: "ext \<Rightarrow> nat \<Rightarrow> string" where
  "bigint_to_base64 X value = x_b64_encode X (to_bytes_be value)"

definition pad :: "nat list \<Rightarrow> nat \<Rightarrow> nat list" where
  "pad input len =
     (if length input \<ge> len then drop (length input - len) input
      else replicate (len - length input) 0 @ input)"

definition mod_big :: "nat \<Rightarrow> nat \<Rightarrow> nat" where
  "mod_big left modulus =
     (if modulus = 0 then 0
      else let remainder = left mod modulus
           in if remainder > modulus then remainder mod modulus else remainder)"

function powermod_loop :: "nat \<Rightarrow> nat \<Rightarrow> nat \<Rightarrow> nat \<Rightarrow> nat" where
  "powermod_loop modulus result base exp =
     (if exp = 0 then result
      else
        let result' = (if exp mod 2 = 1 then mod_big (result * base) modulus else result);
            exp' = exp div 2;
            base' = (if exp' \<noteq> 0 then mod_big (base * base) modulus else base)
        in powermod_loop modulus result' base' exp')"
  by pat_completeness auto
termination
  by (relation "measure (\<lambda>(m, r, b, e). e)") auto

declare powermod_loop.simps [simp del]

definition powermod :: "nat \<Rightarrow> nat \<Rightarrow> nat \<Rightarrow> nat res" where
  "powermod base exponent modulus =
     (if exponent = 0 then Inr 1
      else Inr (powermod_loop modulus 1 (mod_big base modulus) exponent))"

lemma mod_big_eq: "mod_big a m = (if m = 0 then 0 else a mod m)"
proof (cases "m = 0")
  case False
  then have "\<not> a mod m > m" by (simp add: not_less less_imp_le)
  then show ?thesis by (simp add: mod_big_def Let_def)
qed (simp add: mod_big_def)

text \<open>The loop invariant: \<open>result * base ^ exp\<close> keeps its residue.\<close>

lemma powermod_loop_mod:
  "0 < m \<Longrightarrow> powermod_loop m r b e mod m = (r * b ^ e) mod m"
proof (induction m r b e rule: powermod_loop.induct)
  case (1 m r b e)
  show ?case
  proof (cases "e = 0")
    case True
    then show ?thesis by (subst powermod_loop.simps) simp
  next
    case False
    let ?r = "if e mod 2 = 1 then mod_big (r * b) m else r"
    let ?b = "if e div 2 \<noteq> 0 then mod_big (b * b) m else b"
    have "powermod_loop m r b e mod m = (?r * ?b ^ (e div 2)) mod m"
      using "1.IH" [OF False refl refl refl "1.prems"] False
      by (subst powermod_loop.simps) (simp add: Let_def)
    also have "\<dots> = (?r * (b * b) ^ (e div 2)) mod m"
    proof (cases "e div 2 = 0")
      case False
      with "1.prems" have b: "?b = b * b mod m" by (simp add: mod_big_eq)
      show ?thesis unfolding b by (metis mod_mult_right_eq power_mod)
    qed simp
    also have "\<dots> = ((if e mod 2 = 1 then r * b else r) * (b * b) ^ (e div 2)) mod m"
      using "1.prems" by (simp add: mod_big_eq mod_mult_left_eq)
    also have "(if e mod 2 = 1 then r * b else r) * (b * b) ^ (e div 2) = r * b ^ e"
    proof -
      have sq: "(b * b) ^ (e div 2) = b ^ (2 * (e div 2))"
        by (simp add: power_mult power2_eq_square)
      show ?thesis
      proof (cases "e mod 2 = 1")
        case True
        then have "e = Suc (2 * (e div 2))" by presburger
        then have "b ^ e = b * b ^ (2 * (e div 2))" by (metis power_Suc)
        with True sq show ?thesis by simp
      next
        case False
        then have "e = 2 * (e div 2)" by presburger
        with False sq show ?thesis by simp
      qed
    qed
    finally show ?thesis .
  qed
qed

text \<open>The result is reduced: the last step that multiplies reduces it.\<close>

lemma powermod_loop_less: "0 < m \<Longrightarrow> 0 < e \<or> r < m \<Longrightarrow> powermod_loop m r b e < m"
proof (induction m r b e rule: powermod_loop.induct)
  case (1 m r b e)
  show ?case
  proof (cases "e = 0")
    case True
    with "1.prems" show ?thesis by (subst powermod_loop.simps) simp
  next
    case False
    let ?r = "if e mod 2 = 1 then mod_big (r * b) m else r"
    have "0 < e div 2 \<or> ?r < m"
    proof (cases "e div 2 = 0")
      case True
      with False have "e mod 2 = 1" by presburger
      with "1.prems" show ?thesis by (simp add: mod_big_eq)
    qed simp
    with "1.IH" [OF False refl refl refl] "1.prems" False show ?thesis
      by (subst powermod_loop.simps) (simp add: Let_def)
  qed
qed

lemma powermod_loop_zero: "0 < e \<Longrightarrow> powermod_loop 0 r b e = 0"
proof (induction "0 :: nat" r b e rule: powermod_loop.induct)
  case (1 r b e)
  show ?case
  proof (cases "e div 2 = 0")
    case True
    with 1 have "e = 1" by presburger
    have "powermod_loop 0 x y 0 = x" for x y by (subst powermod_loop.simps) simp
    with \<open>e = 1\<close> show ?thesis
      by (subst powermod_loop.simps) (simp add: Let_def mod_big_eq)
  next
    case False
    with 1 show ?thesis
      by (subst powermod_loop.simps) (simp add: Let_def)
  qed
qed

text \<open>C38: modular exponentiation by squaring computes \<open>base ^ exponent mod modulus\<close>, for
  every base and exponent; an exponent of 0 gives 1 whatever the modulus, and a modulus of 0
  gives 0 instead of an error.\<close>

theorem powermod_correct:
  "powermod base exponent modulus =
     Inr (if exponent = 0 then 1 else if modulus = 0 then 0 else base ^ exponent mod modulus)"
proof (cases "exponent = 0 \<or> modulus = 0")
  case True
  then show ?thesis
    by (cases "exponent = 0") (simp_all add: powermod_def powermod_loop_zero)
next
  case False
  then have "powermod_loop modulus 1 (mod_big base modulus) exponent < modulus"
    by (intro powermod_loop_less) auto
  moreover have "powermod_loop modulus 1 (mod_big base modulus) exponent mod modulus
      = base ^ exponent mod modulus"
    using False by (simp add: powermod_loop_mod mod_big_eq power_mod)
  ultimately show ?thesis using False by (simp add: powermod_def)
qed

section \<open>Bytes\<close>

lemma from_bytes_be_snoc: "from_bytes_be (bs @ [b]) = from_bytes_be bs * 256 + b"
  by (simp add: from_bytes_be_def)

lemma from_bytes_be_Nil [simp]: "from_bytes_be [] = 0"
  by (simp add: from_bytes_be_def)

lemma from_to_bytes [simp]: "from_bytes_be (to_bytes_be n) = n"
  unfolding to_bytes_be_def
proof (induction n rule: bytes_from.induct)
  case (1 n)
  show ?case
  proof (cases "n < 256")
    case True
    then show ?thesis by (subst bytes_from.simps) (simp add: from_bytes_be_def)
  next
    case False
    with 1 show ?thesis by (subst bytes_from.simps) (simp add: from_bytes_be_snoc)
  qed
qed

lemma bytes_from_range: "\<forall>b \<in> set (to_bytes_be n). b < 256"
  unfolding to_bytes_be_def
proof (induction n rule: bytes_from.induct)
  case (1 n)
  then show ?case by (subst bytes_from.simps) auto
qed

lemma to_bytes_be_ne [simp]: "to_bytes_be n \<noteq> []"
  unfolding to_bytes_be_def by (subst bytes_from.simps) simp

lemma foldl_be: "foldl (\<lambda>acc b. acc * 256 + b) a bs = a * 256 ^ length bs + from_bytes_be bs"
proof (induction bs arbitrary: a)
  case Nil
  show ?case by simp
next
  case (Cons b bs)
  have "from_bytes_be (b # bs) = b * 256 ^ length bs + from_bytes_be bs"
    using Cons [of b] by (simp add: from_bytes_be_def)
  with Cons [of "a * 256 + b"] show ?case by (simp add: algebra_simps)
qed

lemma from_bytes_be_append: "from_bytes_be (as @ bs) = from_bytes_be as * 256 ^ length bs + from_bytes_be bs"
  using foldl_be [of "from_bytes_be as" bs] by (simp add: from_bytes_be_def)

lemma from_bytes_be_zeros [simp]: "from_bytes_be (replicate n 0) = 0"
  by (induction n) (simp_all add: from_bytes_be_def)

lemma from_bytes_be_less: "\<forall>b \<in> set bs. b < 256 \<Longrightarrow> from_bytes_be bs < 256 ^ length bs"
proof (induction bs rule: rev_induct)
  case Nil
  show ?case by simp
next
  case (snoc b bs)
  then have "from_bytes_be bs + 1 \<le> 256 ^ length bs" "b < 256" by auto
  then have "(from_bytes_be bs + 1) * 256 \<le> 256 ^ length bs * 256" by (intro mult_right_mono) auto
  with \<open>b < 256\<close> show ?case by (simp add: from_bytes_be_snoc)
qed

text \<open>\<open>pad\<close> gives exactly the length asked for, and the number its bytes stand for is
  the input's, reduced modulo \<open>256 ^ len\<close> when the input is longer.\<close>

theorem pad_value:
  "length (pad input len) = len
   \<and> (list_all (\<lambda>b. b < 256) input \<longrightarrow>
        from_bytes_be (pad input len) = from_bytes_be input mod 256 ^ len)"
proof (cases "length input \<ge> len")
  case True
  let ?k = "length input - len"
  have len: "length (drop ?k input) = len" using True by simp
  have "from_bytes_be input = from_bytes_be (take ?k input) * 256 ^ len + from_bytes_be (drop ?k input)"
    using from_bytes_be_append [of "take ?k input" "drop ?k input"] len by simp
  moreover have "from_bytes_be (drop ?k input) < 256 ^ len" if "list_all (\<lambda>b. b < 256) input"
    using that from_bytes_be_less [of "drop ?k input"] len by (auto simp: list_all_iff dest: in_set_dropD)
  ultimately show ?thesis using True by (auto simp: pad_def)
next
  case False
  then have "from_bytes_be (pad input len) = from_bytes_be input"
    by (simp add: pad_def from_bytes_be_append)
  moreover have "from_bytes_be input < 256 ^ len" if "list_all (\<lambda>b. b < 256) input"
  proof -
    have "from_bytes_be input < 256 ^ length input"
      using that by (intro from_bytes_be_less) (simp add: list_all_iff)
    also have "\<dots> \<le> 256 ^ len" using False by (intro power_increasing) auto
    finally show ?thesis .
  qed
  ultimately show ?thesis using False by (auto simp: pad_def)
qed

theorem pad_value_witness:
  "list_all (\<lambda>b. b < 256) [1, 2, 3 :: nat] \<and> from_bytes_be (pad [1, 2, 3] 2) = from_bytes_be [1, 2, 3] mod 256 ^ 2"
  using pad_value [of "[1, 2, 3]" 2] by simp

text \<open>The key as text: base 64 read back gives the number.\<close>

lemma read_bigint_encoded:
  "(\<And>bs. x_b64_decode X (x_b64_encode X bs) = Some bs) \<Longrightarrow> read_bigint X (bigint_to_base64 X n) = Inr n"
  by (simp add: read_bigint_def bigint_to_base64_def)

end
