(* ===== verification/Config.thy ===== *)
theory Config
  imports Managed Secrets Bignum
begin

text \<open>
  The stored configuration (\<open>rust/src/utils.rs\<close>): reading \<open>config.json\<close> with its checks,
  the legacy shape, managed settings and the external provider's path, the session rules of
  \<open>read_config\<close>, and the write that goes through a temporary file. Several checks delete the
  configuration they refuse, so reading is an operation on the world too. Times are in
  nanoseconds since 1970.
\<close>

unbundle bit_operations_syntax

section \<open>Constants, options, paths\<close>

definition SESSION_MAX_AGE_MS :: u64 where
  "SESSION_MAX_AGE_MS = 30 * 24 * 60 * 60 * 1000"

definition CONFIG_DIRECTORY_MODE :: u32 where
  "CONFIG_DIRECTORY_MODE = 0x1C0"

definition CONFIG_FILE_MODE :: u32 where
  "CONFIG_FILE_MODE = 0x180"

definition MAX_CONFIG_SIZE_BYTES :: nat where
  "MAX_CONFIG_SIZE_BYTES = 10 * 1024"

definition EXTERNAL_PROVIDER_MAX_MODE :: u32 where
  "EXTERNAL_PROVIDER_MAX_MODE = 0x1ED"

record config_read_options =
  ro_require_auth :: bool
  ro_max_age_ms :: u64
  ro_ignore_expiry :: bool

definition default_read_options :: config_read_options where
  "default_read_options =
     \<lparr>ro_require_auth = False, ro_max_age_ms = SESSION_MAX_AGE_MS, ro_ignore_expiry = False\<rparr>"

record write_config_input =
  wi_username :: "string option"
  wi_shared_key :: "nat option"
  wi_port :: "u16 option"
  wi_host :: "string option"
  wi_allow_empty :: bool
  wi_clear_auth :: bool
  wi_runtime_mode :: "runtime_mode option"
  wi_last_launch_status :: "string option"
  wi_last_launch_error :: "string option"
  wi_last_launch_strategy :: "string option"
  wi_bridge_status :: "string option"
  wi_bridge_browser :: "string option"
  wi_bridge_connected_at :: "string option"
  wi_bridge_last_error :: "string option"
  wi_reset_launch_metadata :: bool
  wi_reset_bridge_metadata :: bool
  wi_refresh_created_at :: bool

definition config_path :: "world \<Rightarrow> string" where
  "config_path w = path_join (w_root w) ''config.json''"

text \<open>\<open>let _ = m\<close> as a step, and a step whose result is kept as a value.\<close>

definition quietly :: "(world \<Rightarrow> 'r \<times> world) \<Rightarrow> unit io" where
  "quietly m w = (Inr (), ignore m w)"

definition attempt :: "'a io \<Rightarrow> 'a res io" where
  "attempt m w = (Inr (fst (m w)), snd (m w))"

definition set_permissions :: "ext \<Rightarrow> string \<Rightarrow> u32 \<Rightarrow> unit io" where
  "set_permissions X path mode = quietly (fs_set_permissions X path mode)"

definition ensure_config_directory :: "ext \<Rightarrow> unit io" where
  "ensure_config_directory X w =
     bind_io
       (map_err (\<lambda>e. mk_err InvalidConfig (''Failed to create config directory: '' @ e))
          (fs_create_dir_all X (w_root w)))
       (\<lambda>_. set_permissions X (w_root w) CONFIG_DIRECTORY_MODE) w"

definition is_valid_port :: "u16 \<Rightarrow> bool" where
  "is_valid_port port \<longleftrightarrow> port \<noteq> 0"

definition is_valid_host :: "string \<Rightarrow> bool" where
  "is_valid_host host \<longleftrightarrow> trim host \<noteq> [] \<and> CHR 0x00 \<notin> set host"

definition parse_created_at :: "ext \<Rightarrow> string \<Rightarrow> int option" where
  "parse_created_at X created_at = x_rfc3339_parse X created_at"

text \<open>The age is compared as \<open>i64\<close>, which the \<open>u64\<close> limit is cast to.\<close>

definition stale_config :: "ext \<Rightarrow> world \<Rightarrow> string \<Rightarrow> u64 \<Rightarrow> bool" where
  "stale_config X w created_at max_age_ms =
     unwrap_or True
       (map_option
          (\<lambda>value.
             if value > w_now w then True
             else (w_now w - value) div 1000000 > sint max_age_ms)
          (parse_created_at X created_at))"

section \<open>Clearing\<close>

definition forget_secret :: "ext \<Rightarrow> world \<Rightarrow> world" where
  "forget_secret X w =
     (case read_to_string X w (config_path w) of
        Inl _ \<Rightarrow> w
      | Inr raw \<Rightarrow>
          (case Option.bind (res_ok (x_json_parse X raw)) dec_config_v1 of
             Some v1 \<Rightarrow>
               if cfg_secret_source v1 = Some SecretKeychain \<and> cfg_username v1 \<noteq> []
               then ignore (delete_shared_key X (cfg_username v1)) w
               else w
           | None \<Rightarrow>
               (case Option.bind (res_ok (x_json_parse X raw)) dec_config of
                  Some legacy \<Rightarrow>
                    if unwrap_or [] (leg_shared_key legacy) \<noteq> []
                    then (case leg_username legacy of
                            Some username \<Rightarrow> ignore (delete_shared_key X username) w
                          | None \<Rightarrow> w)
                    else w
                | None \<Rightarrow> w)))"

definition clear_config :: "ext \<Rightarrow> world \<Rightarrow> world" where
  "clear_config X w =
     (let w1 = forget_secret X w in ignore (fs_remove_file X (config_path w1)) w1)"

text \<open>The recurring refusal: clear, then report.\<close>

definition clear_and_fail :: "ext \<Rightarrow> apw_error \<Rightarrow> 'a io" where
  "clear_and_fail X e w = (Inl e, clear_config X w)"

section \<open>The external provider's path\<close>

definition provider_path_error :: "provider \<Rightarrow> string \<Rightarrow> string \<Rightarrow> apw_error" where
  "provider_path_error provider path what =
     mk_err InvalidConfig
       (''Fallback provider `'' @ provider_str provider @ ''` path '' @ path @ what)"

text \<open>\<open>{:04o}\<close>: octal, at least four digits.\<close>

definition show_oct4 :: "nat \<Rightarrow> string" where
  "show_oct4 n = replicate (4 - length (show_oct n)) CHR ''0'' @ show_oct n"

definition validate_external_provider_path :: "ext \<Rightarrow> world \<Rightarrow> provider \<Rightarrow> string \<Rightarrow> string res" where
  "validate_external_provider_path X w provider provider_path =
     (if prefix ''~'' provider_path \<or> \<not> is_absolute provider_path then
        Inl (mk_err InvalidConfig
          (''Fallback provider `'' @ provider_str provider
           @ ''` must use an absolute executable path; `~` and relative paths are not allowed.''))
      else
        (case canonicalize X w provider_path of
           Inl e \<Rightarrow> Inl (provider_path_error provider provider_path ('' could not be resolved: '' @ e))
         | Inr resolved_path \<Rightarrow>
             (case stat X w resolved_path of
                None \<Rightarrow>
                  Inl (provider_path_error provider resolved_path
                    ('' could not be inspected: '' @ enoent))
              | Some metadata \<Rightarrow>
                  if i_kind metadata \<noteq> KFile then
                    Inl (provider_path_error provider resolved_path
                      '' must resolve to a regular file.'')
                  else if i_uid metadata \<noteq> w_euid w then
                    Inl (provider_path_error provider resolved_path
                      '' must be owned by the current user.'')
                  else
                    let mode = i_mode metadata AND 0xFFF in
                    if mode AND NOT EXTERNAL_PROVIDER_MAX_MODE \<noteq> 0 then
                      Inl (provider_path_error provider resolved_path
                        ('' has insecure permissions '' @ show_oct4 (unat mode)
                         @ ''; use 0755 or more restrictive permissions.''))
                    else Inr resolved_path)))"

definition validate_external_provider_config :: "ext \<Rightarrow> world \<Rightarrow> apw_config_v1 \<Rightarrow> apw_config_v1 res" where
  "validate_external_provider_config X w config =
     (case cfg_fallback_provider config of
        None \<Rightarrow> Inr config
      | Some provider \<Rightarrow>
          (case cfg_fallback_provider_path config of
             None \<Rightarrow>
               Inl (mk_err InvalidConfig
                 (''Fallback provider `'' @ provider_str provider
                  @ ''` requires an absolute `fallbackProviderPath`.''))
           | Some provider_path \<Rightarrow>
               bind_res (validate_external_provider_path X w provider provider_path)
                 (\<lambda>resolved. Inr (config\<lparr>cfg_fallback_provider_path := Some resolved\<rparr>))))"

text \<open>A check that only looks at the world.\<close>

definition check_io :: "(world \<Rightarrow> 'a res) \<Rightarrow> 'a io" where
  "check_io f w = (f w, w)"

section \<open>Reading the file\<close>

definition resolve_secret_source :: "apw_config_v1 \<Rightarrow> secret_source" where
  "resolve_secret_source raw =
     (case cfg_secret_source raw of
        Some value \<Rightarrow> value
      | None \<Rightarrow> if cfg_shared_key raw = [] then SecretKeychain else SecretFile)"

definition normalize_legacy_config :: "ext \<Rightarrow> world \<Rightarrow> apw_config \<Rightarrow> apw_config_v1" where
  "normalize_legacy_config X w raw =
     \<lparr>cfg_schema = CONFIG_SCHEMA,
      cfg_port = unwrap_or DEFAULT_PORT (leg_port raw),
      cfg_host = unwrap_or DEFAULT_HOST (leg_host raw),
      cfg_username = unwrap_or [] (leg_username raw),
      cfg_shared_key = unwrap_or [] (leg_shared_key raw),
      cfg_runtime_mode = Auto,
      cfg_last_launch_status = None, cfg_last_launch_error = None,
      cfg_last_launch_strategy = None, cfg_bridge_status = None, cfg_bridge_browser = None,
      cfg_bridge_connected_at = None, cfg_bridge_last_error = None,
      cfg_secret_source =
        (if filter_opt (\<lambda>value. value \<noteq> []) (leg_shared_key raw) \<noteq> None
         then Some SecretFile else None),
      cfg_supported_domains = [], cfg_fallback_provider = None,
      cfg_fallback_provider_path = None, cfg_fallback_provider_database = None,
      cfg_fallback_provider_timeout_ms = None, cfg_fallback_provider_max_invocations = None,
      cfg_disable_demo = None,
      cfg_created_at = unwrap_or (x_rfc3339_show X (w_now w)) (leg_created_at raw)\<rparr>"

definition no_config_file :: "string \<Rightarrow> apw_error" where
  "no_config_file path = mk_err InvalidConfig (''No config file at '' @ path @ ''.'')"

definition read_user_config_file_or_null :: "ext \<Rightarrow> apw_config_v1 io" where
  "read_user_config_file_or_null X w =
     (let path = config_path w in
      case lstat w path of
        None \<Rightarrow> fail (no_config_file path) w
      | Some metadata \<Rightarrow>
          if i_kind metadata \<noteq> KFile then
            clear_and_fail X (mk_err InvalidConfig ''Config file is not a regular file.'') w
          else if length (i_data metadata) > MAX_CONFIG_SIZE_BYTES then
            clear_and_fail X (mk_err InvalidConfig ''Config file is too large.'') w
          else
            (case read_to_string X w path of
               Inl _ \<Rightarrow> fail (no_config_file path) w
             | Inr content \<Rightarrow>
                 (case x_json_parse X content of
                    Inl _ \<Rightarrow>
                      clear_and_fail X
                        (mk_err InvalidConfig ''Config file contains invalid JSON.'') w
                  | Inr tree \<Rightarrow>
                      let parsed = to_value tree in
                      (case dec_config_v1 parsed of
                         Some v1 \<Rightarrow>
                           if cfg_schema v1 \<noteq> CONFIG_SCHEMA then
                             clear_and_fail X (mk_err InvalidConfig ''Unsupported config schema.'') w
                           else if \<not> is_valid_port (cfg_port v1) \<or> \<not> is_valid_host (cfg_host v1) then
                             clear_and_fail X
                               (mk_err InvalidConfig ''Invalid config host or port.'') w
                           else (validate_external_provider_config X w v1, w)
                       | None \<Rightarrow>
                           (case dec_config parsed of
                              None \<Rightarrow> fail (mk_err InvalidConfig
                                ''Invalid config format. Run `apw doctor` and use `apw login <url>` through the native app broker.'') w
                            | Some legacy \<Rightarrow> ret (normalize_legacy_config X w legacy) w)))))"

definition read_config_file_or_null :: "ext \<Rightarrow> apw_config_v1 io" where
  "read_config_file_or_null X =
     bind_io (read_user_config_file_or_null X)
       (\<lambda>c. check_io (\<lambda>w. validate_external_provider_config X w c))"

definition read_config_file :: "ext \<Rightarrow> apw_config_v1 io" where
  "read_config_file X w =
     (let user_config_was_present = (lstat w (config_path w) \<noteq> None);
          (user, w1) = read_user_config_file_or_null X w;
          (managed, w2) = read_managed_config X w1
      in (case (user, managed) of
            (Inr config, Some m) \<Rightarrow>
              validate_external_provider_config X w2 (apply_managed_config config m)
          | (Inr config, None) \<Rightarrow> validate_external_provider_config X w2 config
          | (Inl error, Some m) \<Rightarrow>
              if \<not> user_config_was_present then
                validate_external_provider_config X w2
                  (apply_managed_config (default_config_v1 (x_rfc3339_show X (w_now w2))) m)
              else Inl error
          | (Inl error, None) \<Rightarrow> Inl error, w2))"

definition read_config_file_or_empty :: "ext \<Rightarrow> world \<Rightarrow> apw_config_v1 \<times> world" where
  "read_config_file_or_empty X w =
     (case read_config_file X w of
        (Inr c, w') \<Rightarrow> (c, w')
      | (Inl _, w') \<Rightarrow> (default_config_v1 (x_rfc3339_show X 0), w'))"

section \<open>The session: \<open>read_config\<close>\<close>

definition runtime_of :: "apw_config_v1 \<Rightarrow> i32 \<Rightarrow> nat \<Rightarrow> runtime_config" where
  "runtime_of raw schema key =
     \<lparr>rt_schema = schema, rt_port = cfg_port raw, rt_host = cfg_host raw,
      rt_username = cfg_username raw, rt_shared_key = key,
      rt_runtime_mode = cfg_runtime_mode raw,
      rt_last_launch_status = cfg_last_launch_status raw,
      rt_last_launch_error = cfg_last_launch_error raw,
      rt_last_launch_strategy = cfg_last_launch_strategy raw,
      rt_bridge_status = cfg_bridge_status raw, rt_bridge_browser = cfg_bridge_browser raw,
      rt_bridge_connected_at = cfg_bridge_connected_at raw,
      rt_bridge_last_error = cfg_bridge_last_error raw,
      rt_fallback_provider = cfg_fallback_provider raw,
      rt_fallback_provider_path = cfg_fallback_provider_path raw,
      rt_fallback_provider_database = cfg_fallback_provider_database raw,
      rt_fallback_provider_timeout_ms = cfg_fallback_provider_timeout_ms raw,
      rt_fallback_provider_max_invocations = cfg_fallback_provider_max_invocations raw,
      rt_supported_domains = cfg_supported_domains raw,
      rt_disable_demo = cfg_disable_demo raw, rt_created_at = cfg_created_at raw\<rparr>"

definition shared_secret :: "ext \<Rightarrow> apw_config_v1 \<Rightarrow> string option io" where
  "shared_secret X raw =
     (let stored = (if cfg_shared_key raw = [] then None else Some (cfg_shared_key raw)) in
      case resolve_secret_source raw of
        SecretFile \<Rightarrow> ret stored
      | SecretKeychain \<Rightarrow>
          if cfg_username raw = [] then ret None
          else
            bind_io (attempt (read_shared_key X (cfg_username raw)))
              (\<lambda>r. ret (or_else (unwrap_or None (res_ok r)) stored)))"

definition session_expired :: apw_error where
  "session_expired = mk_err InvalidSession
     ''Session expired. Use `apw app launch` and `apw login <url>` through the native app broker.''"

definition no_active_session :: apw_error where
  "no_active_session = mk_err InvalidSession
     ''No active session. Use `apw app launch` and `apw login <url>` through the native app broker.''"

text \<open>The key the session carries; text that is no base 64 clears the configuration.\<close>

definition decode_secret :: "ext \<Rightarrow> string option \<Rightarrow> nat option io" where
  "decode_secret X secret =
     (case secret of
        None \<Rightarrow> ret None
      | Some text \<Rightarrow>
          (case read_bigint X text of
             Inl e \<Rightarrow> clear_and_fail X e
           | Inr value \<Rightarrow> ret (if value = 0 then None else Some value)))"

definition read_config :: "ext \<Rightarrow> config_read_options option \<Rightarrow> runtime_config io" where
  "read_config X opts w =
     (let options = unwrap_or default_read_options opts;
          empty = default_runtime_config (x_rfc3339_show X 0) in
      case read_config_file X w of
        (Inl error, w1) \<Rightarrow> if ro_require_auth options then (Inl error, w1) else (Inr empty, w1)
      | (Inr raw, w1) \<Rightarrow>
          if \<not> is_valid_port (cfg_port raw) \<or> \<not> is_valid_host (cfg_host raw) then
            if ro_require_auth options then
              clear_and_fail X (mk_err InvalidConfig ''Invalid config host/port.'') w1
            else (Inr empty, clear_config X w1)
          else if stale_config X w1 (cfg_created_at raw) (ro_max_age_ms options)
              \<and> \<not> ro_ignore_expiry options then
            if ro_require_auth options then clear_and_fail X session_expired w1
            else (Inr (runtime_of raw CONFIG_SCHEMA 0), clear_config X w1)
          else
            bind_io (bind_io (shared_secret X raw) (decode_secret X))
              (\<lambda>shared_key.
                 if ro_require_auth options \<and> (cfg_username raw = [] \<or> shared_key = None) then
                   clear_and_fail X no_active_session
                 else ret (runtime_of raw (cfg_schema raw) (unwrap_or 0 shared_key))) w1)"

section \<open>Where a setting comes from\<close>

definition setting_aliases :: "string \<Rightarrow> string list" where
  "setting_aliases key =
     (if key = ''fallbackProvider'' then [''fallbackProvider'', ''fallback_provider'']
      else if key = ''fallbackProviderPath'' then [''fallbackProviderPath'', ''fallback_provider_path'']
      else if key = ''fallbackProviderTimeoutMs'' then
        [''fallbackProviderTimeoutMs'', ''fallback_provider_timeout_ms'']
      else if key = ''fallbackProviderMaxInvocations'' then
        [''fallbackProviderMaxInvocations'', ''fallback_provider_max_invocations'']
      else if key = ''supportedDomains'' then [''supportedDomains'', ''supported_domains'']
      else if key = ''disableDemo'' then [''disableDemo'', ''disable_demo'']
      else [key])"

definition user_config_has_setting :: "ext \<Rightarrow> world \<Rightarrow> string \<Rightarrow> bool" where
  "user_config_has_setting X w key =
     (case read_to_string X w (config_path w) of
        Inl _ \<Rightarrow> False
      | Inr raw \<Rightarrow>
          (case x_json_parse X raw of
             Inr (JObject kvs) \<Rightarrow>
               list_ex (\<lambda>alias. case get alias (to_value (JObject kvs)) of
                                  None \<Rightarrow> False | Some value \<Rightarrow> value \<noteq> JNull)
                 (setting_aliases key)
           | _ \<Rightarrow> False))"

definition managed_setting_names :: "string list" where
  "managed_setting_names =
     [''fallbackProvider'', ''fallbackProviderPath'', ''fallbackProviderTimeoutMs'',
      ''fallbackProviderMaxInvocations'', ''supportedDomains'', ''disableDemo'']"

definition provenance_setting :: "ext \<Rightarrow> world \<Rightarrow> string list \<Rightarrow> string \<Rightarrow> json" where
  "provenance_setting X w managed_keys key =
     obj [(''key'', JString key),
          (''source'', JString
             (if key \<in> set managed_keys then ''managed''
              else if user_config_has_setting X w key then ''user''
              else ''default''))]"

definition config_provenance_details :: "ext \<Rightarrow> world \<Rightarrow> json \<times> world" where
  "config_provenance_details X w =
     (let user_config_present = is_file X w (config_path w);
          (managed, w1) = read_managed_config X w;
          managed_keys = (case managed of None \<Rightarrow> [] | Some m \<Rightarrow> mg_managed_keys m)
      in (obj [(''domain'', JString MANAGED_PREFS_DOMAIN),
               (''managed'', JBool (managed \<noteq> None)),
               (''userConfigPresent'', JBool user_config_present),
               (''settings'', JArray
                  (map (provenance_setting X w1 managed_keys) managed_setting_names))], w1))"

definition read_user_supported_domains_non_destructive :: "ext \<Rightarrow> world \<Rightarrow> string list" where
  "read_user_supported_domains_non_destructive X w =
     (case read_to_string X w (config_path w) of
        Inl _ \<Rightarrow> []
      | Inr content \<Rightarrow>
          (case x_json_parse X content of
             Inl _ \<Rightarrow> []
           | Inr tree \<Rightarrow>
               unwrap_or []
                 (map_option cfg_supported_domains
                   (filter_opt (\<lambda>c. cfg_schema c = CONFIG_SCHEMA) (dec_config_v1 (to_value tree))))))"

definition configured_supported_domains_non_destructive :: "ext \<Rightarrow> world \<Rightarrow> string list \<times> world" where
  "configured_supported_domains_non_destructive X w =
     (case read_managed_config X w of
        (managed, w1) \<Rightarrow>
          (case Option.bind managed mg_supported_domains of
             Some domains \<Rightarrow> (domains, w1)
           | None \<Rightarrow> (read_user_supported_domains_non_destructive X w1, w1)))"

section \<open>Writing\<close>

definition incomplete_config :: apw_error where
  "incomplete_config = mk_err InvalidConfig
     ''Cannot persist incomplete config. Use `apw app launch` and `apw login <url>` through the native app broker.''"

text \<open>The secret: the keychain when there is one, else the file.\<close>

definition write_secret ::
    "ext \<Rightarrow> write_config_input \<Rightarrow> apw_config_v1 option \<Rightarrow> string \<Rightarrow> (secret_source \<times> string) io" where
  "write_secret X input existing username =
     (let clear_auth = wi_clear_auth input;
          secret_source =
            (if clear_auth then SecretFile
             else unwrap_or SecretFile (Option.bind existing cfg_secret_source));
          shared_key =
            (if clear_auth then [] else unwrap_or [] (map_option cfg_shared_key existing));
          in_keychain =
            (case existing of None \<Rightarrow> False | Some v \<Rightarrow> cfg_secret_source v = Some SecretKeychain)
      in
      bind_io
        (case filter_opt (\<lambda>v. cfg_username v \<noteq> [])
                (filter_opt (\<lambda>v. cfg_secret_source v = Some SecretKeychain) existing) of
           Some v \<Rightarrow> if clear_auth then quietly (delete_shared_key X (cfg_username v)) else ret ()
         | None \<Rightarrow> ret ())
        (\<lambda>_.
          case wi_shared_key input of
            Some incoming \<Rightarrow>
              if username \<noteq> [] \<and> supports_keychain X then
                bind_io (write_shared_key X username (bigint_to_base64 X incoming))
                  (\<lambda>_. ret (SecretKeychain, []))
              else ret (SecretFile, bigint_to_base64 X incoming)
          | None \<Rightarrow>
              if wi_allow_empty input \<and> in_keychain \<and> username \<noteq> [] then
                bind_io (quietly (delete_shared_key X username)) (\<lambda>_. ret (SecretKeychain, []))
              else if existing = None \<and> secret_source = SecretKeychain \<and> username \<noteq> [] then
                bind_io (quietly (delete_shared_key X username)) (\<lambda>_. ret (secret_source, []))
              else ret (secret_source, shared_key)))"

text \<open>The completeness check, and the downgrade after it.\<close>

definition check_complete ::
    "ext \<Rightarrow> write_config_input \<Rightarrow> string \<Rightarrow> secret_source \<times> string \<Rightarrow> (secret_source \<times> string) res" where
  "check_complete X input username sk =
     (case sk of (secret_source, shared_key) \<Rightarrow>
        if wi_allow_empty input then Inr (secret_source, shared_key)
        else if username = [] \<or> (secret_source = SecretFile \<and> shared_key = []) then
          Inl incomplete_config
        else if secret_source = SecretKeychain \<and> \<not> supports_keychain X then
          Inr (SecretFile, shared_key)
        else Inr (secret_source, shared_key))"

text \<open>A metadata field: the new value, else the old one unless it is to be reset.\<close>

definition merged :: "bool \<Rightarrow> apw_config_v1 option \<Rightarrow> (apw_config_v1 \<Rightarrow> 'a option) \<Rightarrow> 'a option \<Rightarrow> 'a option" where
  "merged reset existing field incoming =
     or_else incoming (if reset then None else Option.bind existing field)"

definition updated_config ::
    "ext \<Rightarrow> world \<Rightarrow> write_config_input \<Rightarrow> apw_config_v1 option \<Rightarrow> u16 \<Rightarrow> string \<Rightarrow> string
     \<Rightarrow> secret_source \<times> string \<Rightarrow> apw_config_v1" where
  "updated_config X w input existing port host username sk =
     (let launch = merged (wi_reset_launch_metadata input) existing;
          bridge = merged (wi_reset_bridge_metadata input) existing;
          now_text = x_rfc3339_show X (w_now w)
      in
      \<lparr>cfg_schema = CONFIG_SCHEMA, cfg_port = port, cfg_host = host, cfg_username = username,
       cfg_shared_key = snd sk,
       cfg_runtime_mode =
         unwrap_or (unwrap_or Auto (map_option cfg_runtime_mode existing)) (wi_runtime_mode input),
       cfg_last_launch_status = launch cfg_last_launch_status (wi_last_launch_status input),
       cfg_last_launch_error = launch cfg_last_launch_error (wi_last_launch_error input),
       cfg_last_launch_strategy = launch cfg_last_launch_strategy (wi_last_launch_strategy input),
       cfg_bridge_status = bridge cfg_bridge_status (wi_bridge_status input),
       cfg_bridge_browser = bridge cfg_bridge_browser (wi_bridge_browser input),
       cfg_bridge_connected_at = bridge cfg_bridge_connected_at (wi_bridge_connected_at input),
       cfg_bridge_last_error = bridge cfg_bridge_last_error (wi_bridge_last_error input),
       cfg_secret_source = Some (fst sk),
       cfg_supported_domains = unwrap_or [] (map_option cfg_supported_domains existing),
       cfg_fallback_provider = Option.bind existing cfg_fallback_provider,
       cfg_fallback_provider_path = Option.bind existing cfg_fallback_provider_path,
       cfg_fallback_provider_database = Option.bind existing cfg_fallback_provider_database,
       cfg_fallback_provider_timeout_ms = Option.bind existing cfg_fallback_provider_timeout_ms,
       cfg_fallback_provider_max_invocations =
         Option.bind existing cfg_fallback_provider_max_invocations,
       cfg_disable_demo = Option.bind existing cfg_disable_demo,
       cfg_created_at =
         (if wi_refresh_created_at input \<or> wi_clear_auth input \<or> existing = None then now_text
          else unwrap_or now_text (map_option cfg_created_at existing))\<rparr>)"

definition config_temp_path :: "ext \<Rightarrow> world \<Rightarrow> string" where
  "config_temp_path X w = path_join (w_root w) (''config.tmp.'' @ x_random_hex X w 8)"

text \<open>The temporary file is created, protected, written, flushed and renamed into place.\<close>

definition save_text :: "ext \<Rightarrow> string \<Rightarrow> string \<Rightarrow> string \<Rightarrow> unit io" where
  "save_text X temp path text =
     bind_io (map_err (\<lambda>e. mk_err InvalidConfig (''Failed to create config file: '' @ e))
                (fs_open_truncate X temp))
       (\<lambda>_. bind_io (set_permissions X temp CONFIG_FILE_MODE)
       (\<lambda>_. bind_io (map_err (\<lambda>e. mk_err InvalidConfig (''Failed to write config: '' @ e))
                       (fs_write_all X temp text))
       (\<lambda>_. bind_io (map_err (\<lambda>e. mk_err InvalidConfig (''Failed to sync config: '' @ e))
                       (fs_sync_all X temp))
       (\<lambda>_. bind_io (map_err (\<lambda>e. mk_err InvalidConfig (''Failed to save config: '' @ e))
                       (fs_rename X temp path))
       (\<lambda>_. set_permissions X path CONFIG_FILE_MODE)))))"

definition persist_config :: "ext \<Rightarrow> apw_config_v1 \<Rightarrow> apw_config_v1 io" where
  "persist_config X updated w =
     (case x_json_pretty X (enc_config_v1 updated) of
        Inl e \<Rightarrow> fail (mk_err GenericError (''Failed to serialize config: '' @ e)) w
      | Inr serialized \<Rightarrow>
          if length serialized > MAX_CONFIG_SIZE_BYTES then
            fail (mk_err InvalidConfig ''Config payload too large.'') w
          else
            bind_io (save_text X (config_temp_path X w) (config_path w) serialized)
              (\<lambda>_. ret updated) w)"

definition write_config_over ::
    "ext \<Rightarrow> write_config_input \<Rightarrow> apw_config_v1 option \<Rightarrow> apw_config_v1 io" where
  "write_config_over X input existing =
     (let port = unwrap_or DEFAULT_PORT (or_else (wi_port input) (map_option cfg_port existing));
          host = unwrap_or DEFAULT_HOST
            (or_else (filter_opt is_valid_host (wi_host input)) (map_option cfg_host existing));
          username =
            (if wi_clear_auth input then unwrap_or [] (wi_username input)
             else unwrap_or [] (or_else (wi_username input) (map_option cfg_username existing)))
      in
      if port = 0 \<or> \<not> is_valid_host host then
        fail (mk_err InvalidParam ''Invalid config host/port.'')
      else if \<not> wi_allow_empty input \<and> username = [] then fail incomplete_config
      else
        bind_io (write_secret X input existing username)
          (\<lambda>sk. bind_io (lift_res (check_complete X input username sk))
            (\<lambda>sk. bind_io get_world
              (\<lambda>w. persist_config X (updated_config X w input existing port host username sk)))))"

definition write_config :: "ext \<Rightarrow> write_config_input \<Rightarrow> apw_config_v1 io" where
  "write_config X input =
     bind_io (ensure_config_directory X)
       (\<lambda>_. bind_io (attempt (read_config_file_or_null X))
         (\<lambda>existing. write_config_over X input (res_ok existing)))"

end
