(* ===== verification/Samples.thy ===== *)
theory Samples
  imports Os
begin

text \<open>
  A small concrete machine on which the theorems are applied: no file system call fails, every
  path resolves to itself, no external program answers, JSON text is looked up in a table, and
  times are written as decimal numbers. It shows that the hypotheses of the theorems can be
  met; nothing in the model depends on it.
\<close>

definition sample_ext :: "(string \<times> json) list \<Rightarrow> ext" where
  "sample_ext docs =
     \<lparr>x_fault = (\<lambda>w op. None),
      x_resolve = (\<lambda>w p. Inr p),
      x_read_dir = (\<lambda>w p. Inr []),
      x_output = (\<lambda>w i. Inl ''No such file or directory (os error 2)''),
      x_late = (\<lambda>w i. False),
      x_after = (\<lambda>w i. w_fs w),
      x_child = (\<lambda>w i. Inl ''No such file or directory (os error 2)''),
      x_connect = (\<lambda>w p n. None),
      x_macos = False,
      x_arch = ''x86_64'', x_os = ''linux'', x_cwd = None, x_exe = None,
      x_temp_dir = (\<lambda>w. ''/tmp''),
      x_build = \<lparr>bi_date = ''unknown'', bi_sha = ''unknown'', bi_rust = ''unknown'', bi_target = ''unknown''\<rparr>,
      x_json_parse = (\<lambda>s. case map_of docs s of None \<Rightarrow> Inl ''expected value'' | Some v \<Rightarrow> Inr v),
      x_json_pretty = (\<lambda>v. case map_of (map prod.swap docs) v of None \<Rightarrow> Inl ''unknown'' | Some s \<Rightarrow> Inr s),
      x_json_compact = (\<lambda>v. case map_of (map prod.swap docs) v of None \<Rightarrow> Inl ''unknown'' | Some s \<Rightarrow> Inr s),
      x_url_parse = (\<lambda>s. None),
      x_b64_encode = (\<lambda>bs. map char_of bs),
      x_b64_decode = (\<lambda>s. Some (map code s)),
      x_rfc3339_parse = parse_i64,
      x_rfc3339_show = (\<lambda>t. show_nat (nat t)),
      x_random_hex = (\<lambda>w n. replicate n CHR ''0'')\<rparr>"

definition sample_world :: "(string \<times> inode) list \<Rightarrow> world" where
  "sample_world files =
     \<lparr>w_fs = map_of files, w_env = (\<lambda>k. None), w_now = 1000000, w_euid = 501,
      w_root = ''/h/.apw'', w_spawned = [], w_sent = [], w_out = []\<rparr>"

definition sample_file :: "string \<Rightarrow> inode" where
  "sample_file d = \<lparr>i_kind = KFile, i_mode = 0x180, i_uid = 501, i_data = d\<rparr>"

lemma sample_ext_simps [simp]:
  "x_fault (sample_ext docs) w op = None" "x_resolve (sample_ext docs) w p = Inr p"
  "x_output (sample_ext docs) w i = Inl ''No such file or directory (os error 2)''"
  "x_child (sample_ext docs) w i = Inl ''No such file or directory (os error 2)''"
  "x_connect (sample_ext docs) w p n = None" "\<not> x_macos (sample_ext docs)"
  "x_read_dir (sample_ext docs) w p = Inr []" "x_late (sample_ext docs) w i = False"
  "x_after (sample_ext docs) w i = w_fs w" "x_temp_dir (sample_ext docs) w = ''/tmp''"
  "x_json_parse (sample_ext docs) s = (case map_of docs s of None \<Rightarrow> Inl ''expected value'' | Some v \<Rightarrow> Inr v)"
  "x_json_pretty (sample_ext docs) v =
     (case map_of (map prod.swap docs) v of None \<Rightarrow> Inl ''unknown'' | Some s \<Rightarrow> Inr s)"
  "x_b64_decode (sample_ext docs) s = Some (map code s)"
  "x_b64_encode (sample_ext docs) bs = map char_of bs"
  "x_rfc3339_parse (sample_ext docs) t = parse_i64 t"
  "x_rfc3339_show (sample_ext docs) m = show_nat (nat m)"
  "x_random_hex (sample_ext docs) w k = replicate k CHR ''0''"
  by (simp_all add: sample_ext_def)

lemma sample_world_simps [simp]:
  "w_fs (sample_world files) = map_of files" "w_env (sample_world files) k = None"
  "w_now (sample_world files) = 1000000" "w_euid (sample_world files) = 501"
  "w_root (sample_world files) = ''/h/.apw''" "w_spawned (sample_world files) = []"
  "w_sent (sample_world files) = []" "w_out (sample_world files) = []"
  by (simp_all add: sample_world_def)

lemma sample_file_simps [simp]:
  "i_kind (sample_file d) = KFile" "i_mode (sample_file d) = 0x180"
  "i_uid (sample_file d) = 501" "i_data (sample_file d) = d"
  by (simp_all add: sample_file_def)

lemma sample_plain [simp]: "plain_path (sample_ext docs) p"
  by (simp add: plain_path_def)

text \<open>The same machine when every program exits at once with the given output.\<close>

definition talking_child :: "string \<Rightarrow> child" where
  "talking_child out =
     \<lparr>ch_wait = (\<lambda>i. Exited True), ch_drift = (\<lambda>i. 0), ch_stdin_error = None,
      ch_stdout = Inr out, ch_stderr = Inr []\<rparr>"

definition talking_ext :: "(string \<times> json) list \<Rightarrow> string \<Rightarrow> ext" where
  "talking_ext docs out = (sample_ext docs)\<lparr>x_child := (\<lambda>w i. Inr (talking_child out))\<rparr>"

lemma talking_child_simps [simp]:
  "ch_wait (talking_child out) i = Exited True" "ch_stdin_error (talking_child out) = None"
  "ch_stdout (talking_child out) = Inr out" "ch_stderr (talking_child out) = Inr []"
  by (simp_all add: talking_child_def)

lemma talking_ext_child [simp]: "x_child (talking_ext docs out) w i = Inr (talking_child out)"
  by (simp add: talking_ext_def)

lemma talking_ext_simps [simp]:
  "x_fault (talking_ext docs out) w op = None" "x_resolve (talking_ext docs out) w p = Inr p"
  "\<not> x_macos (talking_ext docs out)"
  "x_json_parse (talking_ext docs out) s = (case map_of docs s of None \<Rightarrow> Inl ''expected value'' | Some v \<Rightarrow> Inr v)"
  "x_json_pretty (talking_ext docs out) v =
     (case map_of (map prod.swap docs) v of None \<Rightarrow> Inl ''unknown'' | Some s \<Rightarrow> Inr s)"
  "plain_path (talking_ext docs out) p"
  by (simp_all add: talking_ext_def sample_ext_def plain_path_def)

end
