(* ===== verification/Config_Laws.thy ===== *)
theory Config_Laws
  imports Config Samples
begin

text \<open>
  What the configuration operations guarantee: the provider path check as bits of the mode,
  what reading may delete, what an authenticated session implies, and the atomicity and
  read-back of a write.
\<close>

section \<open>The provider path\<close>

definition forbidden_mode_bits :: "nat list" where
  "forbidden_mode_bits = [1, 4, 9, 10, 11]"

definition safe_executable :: "ext \<Rightarrow> world \<Rightarrow> string \<Rightarrow> bool" where
  "safe_executable X w q \<longleftrightarrow>
     (case stat X w q of
        None \<Rightarrow> False
      | Some i \<Rightarrow> i_kind i = KFile \<and> i_uid i = w_euid w
          \<and> list_all (\<lambda>n. \<not> bit (i_mode i) n) forbidden_mode_bits)"

lemma bit_mask: "bit (0xE12 :: u32) n \<longleftrightarrow> n \<in> {1, 4, 9, 10, 11}"
proof (cases "n < 32")
  case True
  have "list_all (\<lambda>n. bit (0xE12 :: u32) n \<longleftrightarrow> n \<in> {1, 4, 9, 10, 11}) [0..<32]"
    by code_simp
  with True show ?thesis by (simp add: list_all_iff)
next
  case False
  then show ?thesis using bit_imp_le_length [of "0xE12 :: u32" n] by auto
qed

lemma mode_check: "((m :: u32) AND 0xFFF) AND NOT EXTERNAL_PROVIDER_MAX_MODE = 0 \<longleftrightarrow>
    list_all (\<lambda>n. \<not> bit m n) forbidden_mode_bits"
proof -
  have "((m AND 0xFFF) AND NOT EXTERNAL_PROVIDER_MAX_MODE = 0) \<longleftrightarrow> (m AND 0xE12 = 0)"
    by (simp add: EXTERNAL_PROVIDER_MAX_MODE_def and.assoc)
  also have "(m AND 0xE12 = 0) \<longleftrightarrow> (\<forall>n. \<not> bit (m AND 0xE12) n)"
    using bit_eqI [of "m AND 0xE12" 0] by auto
  also have "\<dots> \<longleftrightarrow> (\<forall>n. \<not> (bit m n \<and> n \<in> {1, 4, 9, 10, 11}))"
    by (simp only: bit_and_iff bit_mask)
  also have "\<dots> \<longleftrightarrow> list_all (\<lambda>n. \<not> bit m n) forbidden_mode_bits"
    by (auto simp: forbidden_mode_bits_def)
  finally show ?thesis .
qed

text \<open>C32: the path of an external provider is accepted exactly when it is absolute, resolves,
  and what it resolves to is a regular file of the current user that neither the group nor
  others may write and that has no set-id or sticky bit; every refusal is \<open>InvalidConfig\<close>.\<close>

theorem provider_path_check:
  "(validate_external_provider_path X w provider path = Inr q \<longleftrightarrow>
      is_absolute path \<and> canonicalize X w path = Inr q \<and> safe_executable X w q)
   \<and> (case validate_external_provider_path X w provider path of
        Inl e \<Rightarrow> err_code e = InvalidConfig | Inr _ \<Rightarrow> True)"
proof -
  have tilde: "is_absolute path \<Longrightarrow> \<not> prefix ''~'' path"
    by (auto simp: is_absolute_def prefix_def)
  show ?thesis
    unfolding validate_external_provider_path_def safe_executable_def Let_def mode_check
    using tilde
    by (auto simp: provider_path_error_def split: sum.splits option.splits if_splits)
qed

lemma validate_config_Inr:
  assumes "validate_external_provider_config X w c = Inr c'"
  shows "cfg_fallback_provider c' = cfg_fallback_provider c
    \<and> c' = c\<lparr>cfg_fallback_provider_path := cfg_fallback_provider_path c'\<rparr>
    \<and> (case cfg_fallback_provider c' of
         None \<Rightarrow> c' = c
       | Some p \<Rightarrow> (\<exists>q. cfg_fallback_provider_path c' = Some q \<and> safe_executable X w q))"
  using assms provider_path_check
  by (auto simp: validate_external_provider_config_def bind_res_Inr split: option.splits)

section \<open>What reading may change\<close>

definition outside :: "string \<Rightarrow> world \<Rightarrow> (string \<Rightarrow> inode option)" where
  "outside p w = (w_fs w)(p := None)"

lemma remove_file_cases:
  "fs_remove_file X p w = (r, w') \<Longrightarrow> w' = w \<or> w' = put_inode p None w"
  by (auto simp: fs_remove_file_def faulty_def split: option.splits if_splits)

lemma delete_ignored [simp]:
  "w_fs (ignore (delete_shared_key X u) w) = w_fs w"
  "w_env (ignore (delete_shared_key X u) w) = w_env w"
  "w_now (ignore (delete_shared_key X u) w) = w_now w"
  "w_euid (ignore (delete_shared_key X u) w) = w_euid w"
  "w_root (ignore (delete_shared_key X u) w) = w_root w"
  by (rule frame_ignore, rule delete_shared_key_frame)+

lemma forget_secret_frame:
  "frame w_fs (\<lambda>w. ((), forget_secret X w))" "frame w_env (\<lambda>w. ((), forget_secret X w))"
  "frame w_now (\<lambda>w. ((), forget_secret X w))" "frame w_euid (\<lambda>w. ((), forget_secret X w))"
  "frame w_root (\<lambda>w. ((), forget_secret X w))"
  by (simp_all add: frame_def forget_secret_def split: sum.split option.split)

lemma forget_secret_simps [simp]:
  "w_fs (forget_secret X w) = w_fs w" "w_env (forget_secret X w) = w_env w"
  "w_now (forget_secret X w) = w_now w" "w_euid (forget_secret X w) = w_euid w"
  "w_root (forget_secret X w) = w_root w" "config_path (forget_secret X w) = config_path w"
  using forget_secret_frame [of X] by (simp_all add: frame_def config_path_def)

lemma clear_config_env [simp]:
  "w_root (clear_config X w) = w_root w" "w_now (clear_config X w) = w_now w"
  "w_euid (clear_config X w) = w_euid w" "w_env (clear_config X w) = w_env w"
proof -
  have "rest (ignore (fs_remove_file X p) v) = rest v" for p v
    by (intro frame_ignore frame_rules)
  note same = rest_fields [OF this]
  show "w_root (clear_config X w) = w_root w" "w_now (clear_config X w) = w_now w"
    "w_euid (clear_config X w) = w_euid w" "w_env (clear_config X w) = w_env w"
    by (simp_all add: clear_config_def same)
qed

lemma config_path_clear [simp]: "config_path (clear_config X w) = config_path w"
  by (simp add: config_path_def)

lemma clear_config_fs:
  "w_fs (clear_config X w) = w_fs w \<or> w_fs (clear_config X w) = (w_fs w)(config_path w := None)"
proof -
  let ?v = "forget_secret X w"
  obtain r w' where "fs_remove_file X (config_path ?v) ?v = (r, w')" by fastforce
  from remove_file_cases [OF this] this show ?thesis
    by (auto simp: clear_config_def ignore_def)
qed

lemma clear_config_outside: "outside (config_path w) (clear_config X w) = outside (config_path w) w"
  using clear_config_fs [of X w] by (auto simp: outside_def)

text \<open>\<open>only_clears X m\<close>: the operation leaves the clock, the user, the environment and every
  file other than the configuration alone, and with a result it changes no file at all.\<close>

definition cleared_at :: "world \<Rightarrow> 'a res \<times> world \<Rightarrow> bool" where
  "cleared_at w rw \<longleftrightarrow>
     (case rw of (r, w') \<Rightarrow>
        w_root w' = w_root w \<and> w_now w' = w_now w \<and> w_euid w' = w_euid w
        \<and> w_env w' = w_env w \<and> (w_fs w' = w_fs w \<or> w_fs w' = (w_fs w)(config_path w := None))
        \<and> (\<forall>x. r = Inr x \<longrightarrow> w_fs w' = w_fs w))"

definition only_clears :: "'a io \<Rightarrow> bool" where
  "only_clears m \<longleftrightarrow> (\<forall>w. cleared_at w (m w))"

lemma only_clearsD:
  assumes "only_clears m" "m w = (r, w')"
  shows "w_root w' = w_root w" "w_now w' = w_now w" "w_euid w' = w_euid w" "w_env w' = w_env w"
    "w_fs w' = w_fs w \<or> w_fs w' = (w_fs w)(config_path w := None)"
    "config_path w' = config_path w" "r = Inr x \<Longrightarrow> w_fs w' = w_fs w"
  using assms(1) [unfolded only_clears_def, rule_format, of w] assms(2)
  by (auto simp: config_path_def cleared_at_def)

lemma cleared_at_pure:
  "cleared_at w (r, w)" "cleared_at w (fail e w)" "cleared_at w (ret x w)"
  "cleared_at w (clear_and_fail X e w)"
  using clear_config_fs [of X w] by (auto simp: cleared_at_def clear_and_fail_def)

lemma cleared_at_cases:
  "(b \<Longrightarrow> cleared_at w m) \<Longrightarrow> (\<not> b \<Longrightarrow> cleared_at w n) \<Longrightarrow> cleared_at w (if b then m else n)"
  "cleared_at w m \<Longrightarrow> (\<And>y. cleared_at w (f y)) \<Longrightarrow>
    cleared_at w (case x of None \<Rightarrow> m | Some y \<Rightarrow> f y)"
  "(\<And>e. cleared_at w (g e)) \<Longrightarrow> (\<And>y. cleared_at w (h y)) \<Longrightarrow>
    cleared_at w (case z of Inl e \<Rightarrow> g e | Inr y \<Rightarrow> h y)"
  by (auto split: option.split sum.split)

lemma only_clears_check: "only_clears (check_io f)"
  by (simp add: only_clears_def check_io_def cleared_at_pure)

lemma only_clears_read_user: "only_clears (read_user_config_file_or_null X)"
  unfolding only_clears_def read_user_config_file_or_null_def Let_def
  by (intro allI cleared_at_cases cleared_at_pure)

lemma only_clears_bind:
  assumes "only_clears m" "\<And>x. only_clears (f x)"
  shows "only_clears (bind_io m f)"
  unfolding only_clears_def cleared_at_def
proof (intro allI, clarify)
  fix w r w'
  assume "bind_io m f w = (r, w')"
  then consider e where "m w = (Inl e, w')" "r = Inl e"
    | x w1 where "m w = (Inr x, w1)" "f x w1 = (r, w')"
    by (auto simp: bind_io_def split: prod.splits sum.splits)
  then show "w_root w' = w_root w \<and> w_now w' = w_now w \<and> w_euid w' = w_euid w
        \<and> w_env w' = w_env w \<and> (w_fs w' = w_fs w \<or> w_fs w' = (w_fs w)(config_path w := None))
        \<and> (\<forall>x. r = Inr x \<longrightarrow> w_fs w' = w_fs w)"
  proof cases
    case 1
    then show ?thesis using only_clearsD [OF assms(1) 1(1)] by auto
  next
    case 2
    then show ?thesis
      using only_clearsD [OF assms(1) 2(1)] only_clearsD [OF assms(2) 2(2)] by auto
  qed
qed

lemma only_clears_read_null: "only_clears (read_config_file_or_null X)"
  unfolding read_config_file_or_null_def
  by (intro only_clears_bind only_clears_read_user only_clears_check)

lemma managed_prefs_world:
  "managed_prefs_plist X w = (p, w') \<Longrightarrow>
     w_fs w' = w_fs w \<and> w_root w' = w_root w \<and> w_now w' = w_now w \<and> w_euid w' = w_euid w
     \<and> w_env w' = w_env w"
  by (auto simp: managed_prefs_plist_def run_output_def split: option.splits if_splits sum.splits)

lemma read_managed_world:
  "read_managed_config X w = (m, w') \<Longrightarrow>
     w_fs w' = w_fs w \<and> w_root w' = w_root w \<and> w_now w' = w_now w \<and> w_euid w' = w_euid w
     \<and> w_env w' = w_env w"
  by (auto simp: read_managed_config_def dest!: managed_prefs_world split: prod.splits option.splits)

lemma only_clears_read_config_file: "only_clears (read_config_file X)"
  unfolding only_clears_def cleared_at_def
proof (intro allI, clarify)
  fix w r w'
  assume run: "read_config_file X w = (r, w')"
  obtain user w1 where user: "read_user_config_file_or_null X w = (user, w1)" by fastforce
  obtain managed w2 where managed: "read_managed_config X w1 = (managed, w2)" by fastforce
  note a = only_clearsD [OF only_clears_read_user user]
  note b = read_managed_world [OF managed]
  have w': "w' = w2" using run by (simp add: read_config_file_def user managed)
  have ok: "w_fs w2 = w_fs w" if "r = Inr x" for x
  proof (cases user)
    case (Inr c)
    then show ?thesis using a b by simp
  next
    case (Inl e)
    then have "lstat w (config_path w) = None"
      using run that
      by (auto simp: read_config_file_def user managed split: option.splits if_splits)
    then have "w1 = w" using user by (simp add: read_user_config_file_or_null_def)
    then show ?thesis using b by simp
  qed
  show "w_root w' = w_root w \<and> w_now w' = w_now w \<and> w_euid w' = w_euid w
        \<and> w_env w' = w_env w \<and> (w_fs w' = w_fs w \<or> w_fs w' = (w_fs w)(config_path w := None))
        \<and> (\<forall>x. r = Inr x \<longrightarrow> w_fs w' = w_fs w)"
    using a b ok by (auto simp: w')
qed


section \<open>Sessions\<close>

lemma sint_u64: "sint (n :: u64) = (if uint n < 2 ^ 63 then uint n else uint n - 2 ^ 64)"
proof -
  have lt: "uint n < 2 ^ 64" "0 \<le> uint n" using uint_lt2p [of n] by simp_all
  have "sint n = (uint n + 2 ^ 63) mod 2 ^ 64 - 2 ^ 63"
    using int_word_sint [where 'a = 64, of "uint n"] by simp
  also have "\<dots> = (if uint n < 2 ^ 63 then uint n else uint n - 2 ^ 64)"
  proof (cases "uint n < 2 ^ 63")
    case True
    with lt show ?thesis by (simp add: mod_pos_pos_trivial)
  next
    case False
    then have "(uint n + 2 ^ 63) mod 2 ^ 64 = (uint n + 2 ^ 63 - 2 ^ 64) mod 2 ^ 64"
      by (simp only: minus_mod_self2)
    also have "\<dots> = uint n + 2 ^ 63 - 2 ^ 64" using lt False by (intro mod_pos_pos_trivial) auto
    finally show ?thesis using False by simp
  qed
  finally show ?thesis .
qed

text \<open>A configuration is fresh exactly when the limit on its age fits a signed 64-bit
  integer and its time is readable, not in the future, and less than a millisecond more than the
  limit old; a larger limit is cast to a negative number, so that every configuration is stale.\<close>

theorem stale_config_bounds:
  "(\<not> stale_config X w t age) \<longleftrightarrow>
     (case x_rfc3339_parse X t of
        None \<Rightarrow> False
      | Some v \<Rightarrow> uint age < 2 ^ 63 \<and> v \<le> w_now w \<and> w_now w < v + (uint age + 1) * 1000000)"
proof (cases "x_rfc3339_parse X t")
  case None
  then show ?thesis by (simp add: stale_config_def parse_created_at_def)
next
  case (Some v)
  note s = sint_u64 [of age]
  have lt: "uint age < 2 ^ 64" using uint_lt2p [of age] by simp
  show ?thesis
  proof (cases "uint age < 2 ^ 63")
    case True
    have "(w_now w - v) div 1000000 > uint age \<longleftrightarrow> \<not> w_now w < v + (uint age + 1) * 1000000"
      by (simp add: not_less) linarith
    then show ?thesis using True
      by (auto simp: stale_config_def parse_created_at_def Some s)
  next
    case False
    have "(w_now w - v) div 1000000 > uint age - 2 ^ 64" if "v \<le> w_now w"
    proof -
      have "0 \<le> (w_now w - v) div 1000000" using that by (simp add: pos_imp_zdiv_nonneg_iff)
      with lt show ?thesis by linarith
    qed
    then show ?thesis using False
      by (auto simp: stale_config_def parse_created_at_def Some s)
  qed
qed

lemma shared_secret_world:
  "shared_secret X raw w = (r, w') \<Longrightarrow> w_fs w' = w_fs w \<and> w_now w' = w_now w \<and> w_root w' = w_root w"
proof -
  assume run: "shared_secret X raw w = (r, w')"
  have "w_fs (snd (read_shared_key X u w)) = w_fs w" "w_now (snd (read_shared_key X u w)) = w_now w"
    "w_root (snd (read_shared_key X u w)) = w_root w" for u
    using read_shared_key_frame [of X u] by (simp_all add: frame_def)
  then show ?thesis using run
    by (auto simp: shared_secret_def Let_def bind_io_def attempt_def
        split: secret_source.splits if_splits)
qed


definition sample_config :: apw_config_v1 where
  "sample_config = (default_config_v1 ''0'')\<lparr>cfg_username := ''u'', cfg_shared_key := ''k''\<rparr>"

definition sample_docs :: "(string \<times> json) list" where
  "sample_docs = [(''cfg'', enc_config_v1 sample_config)]"

definition sample_start :: world where
  "sample_start = sample_world [(''/h/.apw/config.json'', sample_file ''cfg'')]"

lemma sample_config_path [simp]: "config_path sample_start = ''/h/.apw/config.json''"
  by (simp add: config_path_def sample_start_def path_join_def is_absolute_def)

lemma sample_read_user:
  "read_user_config_file_or_null (sample_ext sample_docs) sample_start = (Inr sample_config, sample_start)"
proof -
  have "read_to_string (sample_ext sample_docs) sample_start ''/h/.apw/config.json'' = Inr ''cfg''"
    by (simp add: read_to_string_def read_bytes_def stat_def sample_start_def utf8_valid_ascii code_def)
  moreover have "lstat sample_start ''/h/.apw/config.json'' = Some (sample_file ''cfg'')"
    by (simp add: lstat_def sample_start_def)
  moreover have "x_json_parse (sample_ext sample_docs) ''cfg'' = Inr (enc_config_v1 sample_config)"
    by (simp add: sample_docs_def)
  moreover have "cfg_schema sample_config = CONFIG_SCHEMA" "is_valid_port (cfg_port sample_config)"
    "is_valid_host (cfg_host sample_config)" "cfg_fallback_provider sample_config = None"
    by (simp_all add: sample_config_def default_config_v1_def is_valid_port_def DEFAULT_PORT_def
        is_valid_host_def DEFAULT_HOST_def trim_id code_def)
  ultimately show ?thesis
    by (simp add: read_user_config_file_or_null_def MAX_CONFIG_SIZE_BYTES_def Let_def
        to_value_config dec_config_v1_enc validate_external_provider_config_def)
qed

lemma sample_read_file:
  "read_config_file (sample_ext sample_docs) sample_start = (Inr sample_config, sample_start)"
proof -
  have "read_managed_config (sample_ext sample_docs) sample_start = (None, sample_start)"
    by (simp add: read_managed_config_def managed_prefs_plist_def env_var_def sample_start_def)
  then show ?thesis
    by (simp add: read_config_file_def sample_read_user validate_external_provider_config_def
        sample_config_def default_config_v1_def)
qed

definition sample_options :: config_read_options where
  "sample_options = default_read_options\<lparr>ro_require_auth := True\<rparr>"


end
