(* ===== verification/Config_Write.thy ===== *)
theory Config_Write
  imports Config_Laws
begin

text \<open>
  The write of the configuration: it goes to a fresh temporary file that is renamed over
  \<open>config.json\<close>, so that every failure leaves the stored configuration as it was, and a success
  stores exactly what is reported, readable and writable by the owner only.
\<close>

section \<open>The system calls on a plain path\<close>

lemma open_new:
  assumes "plain_path X t" "w_fs w t = None"
  shows "fs_open_truncate X t w = (Inr (), put_inode t (Some (new_inode KFile 0x1A4 w [])) w)
    \<or> (\<exists>e. fs_open_truncate X t w = (Inl e, w))"
  using plain_path_resolve [OF assms(1), of w] assms(2)
  by (auto simp: fs_open_truncate_def faulty_def split: option.split)

lemma chmod_file:
  assumes "plain_path X t" "w_fs w t = Some i" "i_kind i = KFile"
  shows "\<exists>m. set_permissions X t mode w = (Inr (), put_inode t (Some (i\<lparr>i_mode := m\<rparr>)) w)
    \<and> (x_fault X w (OpSetPermissions t) = None \<longrightarrow> m = mode)"
proof -
  have self: "put_inode t (Some (i\<lparr>i_mode := i_mode i\<rparr>)) w = w"
    using assms(2) by (simp add: put_inode_def fun_upd_idem)
  have res: "x_resolve X w t = Inr t" using plain_path_resolve [OF assms(1), of w] assms by auto
  show ?thesis
  proof (cases "x_fault X w (OpSetPermissions t)")
    case None
    then show ?thesis
      using assms res
      by (auto simp: set_permissions_def quietly_def ignore_def fs_set_permissions_def faulty_def)
  next
    case (Some e)
    then have "set_permissions X t mode w = (Inr (), w)"
      by (simp add: set_permissions_def quietly_def ignore_def fs_set_permissions_def faulty_def)
    then show ?thesis using self Some by (intro exI [of _ "i_mode i"]) simp
  qed
qed

lemma write_to_file:
  assumes "plain_path X t" "w_fs w t = Some i" "i_kind i = KFile"
  shows "fs_write_all X t d w = (Inr (), put_inode t (Some (i\<lparr>i_data := i_data i @ d\<rparr>)) w)
    \<or> (\<exists>e. fs_write_all X t d w = (Inl e, w))"
  using plain_path_resolve [OF assms(1), of w] assms(2,3)
  by (auto simp: fs_write_all_def faulty_def split: option.split)

lemma sync_same: "snd (fs_sync_all X t w) = w"
  by (simp add: fs_sync_all_def faulty_def split: option.split)

lemma rename_file:
  assumes "w_fs w t = Some i" "t \<noteq> p"
  shows "fs_rename X t p w = (Inr (), put_inode p (Some i) (put_inode t None w))
    \<or> (\<exists>e. fs_rename X t p w = (Inl e, w))"
  using assms by (auto simp: fs_rename_def faulty_def split: option.split)

text \<open>What one run of \<open>save_text\<close> did: either nothing outside the temporary file, or the file
  at \<open>path\<close> holds the text and the temporary name is gone.\<close>

definition saved :: "ext \<Rightarrow> string \<Rightarrow> string \<Rightarrow> string \<Rightarrow> world \<Rightarrow> world \<Rightarrow> bool" where
  "saved X temp path text w w' \<longleftrightarrow>
     (\<exists>m. w_fs w' = (w_fs w)(temp := None,
            path := Some \<lparr>i_kind = KFile, i_mode = m, i_uid = w_euid w, i_data = text\<rparr>)
        \<and> ((\<forall>v. x_fault X v (OpSetPermissions path) = None) \<longrightarrow> m = CONFIG_FILE_MODE))
     \<and> rest w' = rest w"

lemma save_text_cases:
  assumes temp: "plain_path X temp" and path: "plain_path X path"
    and fresh: "w_fs w temp = None" and ne: "temp \<noteq> path"
    and run: "save_text X temp path body w = (r, w')"
  shows "(r = Inr () \<and> saved X temp path body w w')
    \<or> (\<exists>e x. r = Inl e \<and> w_fs w' = (w_fs w)(temp := x) \<and> rest w' = rest w)"
proof -
  let ?file = "\<lambda>m d. \<lparr>i_kind = KFile, i_mode = m, i_uid = w_euid w, i_data = d\<rparr>"
  have same: "w_fs w = (w_fs w)(temp := w_fs w temp)" by simp
  consider (open_fail) e where "fs_open_truncate X temp w = (Inl e, w)"
    | (opened) "fs_open_truncate X temp w = (Inr (), put_inode temp (Some (?file 0x1A4 [])) w)"
    using open_new [OF temp fresh] by (auto simp: new_inode_def)
  then show ?thesis
  proof cases
    case open_fail
    then have "w' = w \<and> (\<exists>e. r = Inl e)"
      using run by (auto simp: save_text_def bind_io_def map_err_def)
    then show ?thesis using same by blast
  next
    case opened
    let ?w1 = "put_inode temp (Some (?file 0x1A4 [])) w"
    obtain m where m: "set_permissions X temp CONFIG_FILE_MODE ?w1
        = (Inr (), put_inode temp (Some (?file m [])) ?w1)"
      using chmod_file [OF temp, of ?w1 "?file 0x1A4 []" CONFIG_FILE_MODE] by auto
    let ?w2 = "put_inode temp (Some (?file m [])) ?w1"
    have w2: "w_fs ?w2 = (w_fs w)(temp := Some (?file m []))" "rest ?w2 = rest w" by simp_all
    consider (write_fail) e where "fs_write_all X temp body ?w2 = (Inl e, ?w2)"
      | (written) "fs_write_all X temp body ?w2 = (Inr (), put_inode temp (Some (?file m body)) ?w2)"
      using write_to_file [OF temp, of ?w2 "?file m []" body] by auto
    then show ?thesis
    proof cases
      case write_fail
      then have "w' = ?w2 \<and> (\<exists>e. r = Inl e)"
        using run by (auto simp: save_text_def bind_io_def map_err_def opened m)
      then show ?thesis using w2 by blast
    next
      case written
      let ?w3 = "put_inode temp (Some (?file m body)) ?w2"
      have w3: "w_fs ?w3 = (w_fs w)(temp := Some (?file m body))" "rest ?w3 = rest w" by simp_all
      obtain sr where s: "fs_sync_all X temp ?w3 = (sr, ?w3)" using sync_same by (metis prod.collapse)
      consider (move_fail) e where "fs_rename X temp path ?w3 = (Inl e, ?w3)"
        | (moved) "fs_rename X temp path ?w3
            = (Inr (), put_inode path (Some (?file m body)) (put_inode temp None ?w3))"
        using rename_file [of ?w3 temp "?file m body" path X] ne by auto
      then show ?thesis
      proof cases
        case move_fail
        then have "w' = ?w3 \<and> (\<exists>e. r = Inl e)"
          using run by (auto simp: save_text_def bind_io_def map_err_def opened m written s
              split: sum.splits)
        then show ?thesis using w3 by blast
      next
        case moved
        let ?w4 = "put_inode path (Some (?file m body)) (put_inode temp None ?w3)"
        obtain n where n: "set_permissions X path CONFIG_FILE_MODE ?w4
            = (Inr (), put_inode path (Some (?file n body)) ?w4)"
          and nm: "x_fault X ?w4 (OpSetPermissions path) = None \<longrightarrow> n = CONFIG_FILE_MODE"
          using chmod_file [OF path, of ?w4 "?file m body" CONFIG_FILE_MODE] by auto
        let ?w5 = "put_inode path (Some (?file n body)) ?w4"
        have w5: "w_fs ?w5 = (w_fs w)(temp := None, path := Some (?file n body))" "rest ?w5 = rest w"
          by (simp_all add: fun_upd_twist)
        have "(r = Inr () \<and> w' = ?w5) \<or> (\<exists>e. r = Inl e \<and> w' = ?w3)"
          using run by (auto simp: save_text_def bind_io_def map_err_def opened m written s moved n
              split: sum.splits)
        moreover have "saved X temp path body w ?w5"
          unfolding saved_def w5 using nm by (intro conjI exI [of _ n]) auto
        ultimately show ?thesis using w3 by metis
      qed
    qed
  qed
qed

section \<open>The whole write\<close>

definition temp_name :: "world \<Rightarrow> string \<Rightarrow> string" where
  "temp_name w h = path_join (w_root w) (''config.tmp.'' @ h)"

text \<open>The state directory and the files the program makes in it are reached without symbolic
  links, and the temporary names are unused.\<close>

definition plain_state :: "ext \<Rightarrow> world \<Rightarrow> bool" where
  "plain_state X w \<longleftrightarrow>
     plain_path X (w_root w) \<and> plain_path X (config_path w)
     \<and> (\<forall>h. plain_path X (temp_name w h) \<and> w_fs w (temp_name w h) = None)
     \<and> (\<forall>i. w_fs w (w_root w) = Some i \<longrightarrow> i_kind i \<noteq> KSymlink)"

lemma path_join_inj: "\<not> is_absolute p \<Longrightarrow> \<not> is_absolute q \<Longrightarrow> path_join r p = path_join r q \<Longrightarrow> p = q"
  by (auto simp: path_join_def split: if_splits)

lemma path_join_longer: "p \<noteq> [] \<Longrightarrow> \<not> is_absolute p \<Longrightarrow> path_join r p \<noteq> r"
  by (auto simp: path_join_def)

lemma names_distinct:
  "temp_name w h \<noteq> config_path w" "config_path w \<noteq> w_root w" "temp_name w h \<noteq> w_root w"
proof -
  show "temp_name w h \<noteq> config_path w"
  proof
    assume "temp_name w h = config_path w"
    then have "''config.tmp.'' @ h = ''config.json''"
      unfolding temp_name_def config_path_def by (rule path_join_inj [rotated 2]) (simp_all add: is_absolute_def)
    then show False by simp
  qed
qed (simp_all add: temp_name_def config_path_def path_join_longer is_absolute_def)

lemma upd_self: "\<exists>x. g = g(p := x)"
  by (metis fun_upd_triv)

lemma chmod_only:
  assumes "plain_path X p" "\<And>i. w_fs w p = Some i \<Longrightarrow> i_kind i \<noteq> KSymlink"
    and run: "set_permissions X p mode w = (r, w')"
  shows "\<exists>x. w_fs w' = (w_fs w)(p := x)" "rest w' = rest w"
proof -
  have "x_resolve X w p = Inr p" using assms(1,2) by (rule plain_path_resolve)
  then show "\<exists>x. w_fs w' = (w_fs w)(p := x)" "rest w' = rest w"
    using run
    by (auto simp: set_permissions_def quietly_def ignore_def fs_set_permissions_def faulty_def upd_self
        split: option.splits)
qed

lemma ensure_directory:
  assumes plain: "plain_state X w" and run: "ensure_config_directory X w = (r, w')"
  shows "\<exists>x. w_fs w' = (w_fs w)(w_root w := x)" "rest w' = rest w"
proof -
  obtain s w1 where mk: "fs_create_dir_all X (w_root w) w = (s, w1)" by fastforce
  have w1: "w1 = w \<or> w1 = put_inode (w_root w) (Some (new_inode KDir 0x1ED w [])) w"
    using mk by (auto simp: fs_create_dir_all_def faulty_def split: option.splits if_splits)
  have self: "w_fs w = (w_fs w)(w_root w := w_fs w (w_root w))" by simp
  have root: "\<And>i. w_fs w1 (w_root w) = Some i \<Longrightarrow> i_kind i \<noteq> KSymlink"
    using w1 plain by (auto simp: plain_state_def new_inode_def)
  have res: "(\<exists>x. w_fs w' = (w_fs w1)(w_root w := x)) \<and> rest w' = rest w1"
  proof (cases s)
    case (Inl e)
    then have "w' = w1" using run mk by (simp add: ensure_config_directory_def bind_io_def map_err_def)
    moreover have "w_fs w1 = (w_fs w1)(w_root w := w_fs w1 (w_root w))" by simp
    ultimately show ?thesis by metis
  next
    case (Inr u)
    then have "set_permissions X (w_root w) CONFIG_DIRECTORY_MODE w1 = (r, w')"
      using run mk by (simp add: ensure_config_directory_def bind_io_def map_err_def)
    from chmod_only [OF _ root this] plain show ?thesis by (simp add: plain_state_def)
  qed
  then show "\<exists>x. w_fs w' = (w_fs w)(w_root w := x)" "rest w' = rest w"
    using w1 self by auto
qed

lemma frame_quietly [frame_rules]: "frame g m \<Longrightarrow> frame g (quietly m)"
  by (simp add: frame_def quietly_def ignore_def)

lemma write_secret_frame:
  "frame w_fs (write_secret X input ex u)" "frame w_root (write_secret X input ex u)"
  "frame w_now (write_secret X input ex u)" "frame w_euid (write_secret X input ex u)"
  unfolding write_secret_def Let_def
  by (intro frame_rules delete_shared_key_frame write_shared_key_frame)+

lemma persist_cases:
  assumes "plain_path X (config_path w)" "plain_path X (config_temp_path X w)"
    and "w_fs w (config_temp_path X w) = None"
    and run: "persist_config X c w = (r, w')"
  shows "(r = Inr c \<and> (\<exists>body. x_json_pretty X (enc_config_v1 c) = Inr body
            \<and> length body \<le> MAX_CONFIG_SIZE_BYTES
            \<and> saved X (config_temp_path X w) (config_path w) body w w'))
    \<or> (\<exists>e x. r = Inl e \<and> w_fs w' = (w_fs w)(config_temp_path X w := x))"
proof -
  have ne: "config_temp_path X w \<noteq> config_path w"
    using names_distinct(1) by (simp add: temp_name_def config_temp_path_def)
  have self: "w_fs w = (w_fs w)(config_temp_path X w := w_fs w (config_temp_path X w))" by simp
  show ?thesis
  proof (cases "\<exists>body. x_json_pretty X (enc_config_v1 c) = Inr body \<and> length body \<le> MAX_CONFIG_SIZE_BYTES")
    case False
    then have "w' = w \<and> (\<exists>e. r = Inl e)"
      using run by (auto simp: persist_config_def not_less split: sum.splits if_splits)
    then show ?thesis using self by metis
  next
    case True
    then obtain body where body: "x_json_pretty X (enc_config_v1 c) = Inr body"
      "length body \<le> MAX_CONFIG_SIZE_BYTES" by auto
    obtain s v where s: "save_text X (config_temp_path X w) (config_path w) body w = (s, v)" by fastforce
    have "(s = Inr () \<and> r = Inr c \<and> w' = v) \<or> (\<exists>e. s = Inl e \<and> r = Inl e \<and> w' = v)"
      using run s body by (auto simp: persist_config_def bind_io_def split: sum.splits)
    with save_text_cases [OF assms(2,1,3) ne s] body show ?thesis by fastforce
  qed
qed

text \<open>One run of \<open>write_config\<close>, taken apart.\<close>

definition write_failed :: "ext \<Rightarrow> world \<Rightarrow> world \<Rightarrow> bool" where
  "write_failed X w w' \<longleftrightarrow>
     w_fs w' (config_path w) = w_fs w (config_path w)
     \<or> (w_fs w' (config_path w) = None
        \<and> (\<exists>w1. (\<exists>x. w_fs w1 = (w_fs w)(w_root w := x))
              \<and> (\<exists>e. fst (read_config_file_or_null X w1) = Inl e)))"

definition write_stored :: "ext \<Rightarrow> write_config_input \<Rightarrow> world \<Rightarrow> world \<Rightarrow> apw_config_v1 \<Rightarrow> bool" where
  "write_stored X input w w' c \<longleftrightarrow>
     (\<exists>m body. x_json_pretty X (enc_config_v1 c) = Inr body
        \<and> length body \<le> MAX_CONFIG_SIZE_BYTES
        \<and> w_fs w' (config_path w)
            = Some \<lparr>i_kind = KFile, i_mode = m, i_uid = w_euid w, i_data = body\<rparr>
        \<and> ((\<forall>v p. x_fault X v (OpSetPermissions p) = None) \<longrightarrow> m = CONFIG_FILE_MODE))
     \<and> cfg_schema c = CONFIG_SCHEMA \<and> cfg_port c \<noteq> 0 \<and> is_valid_host (cfg_host c)
     \<and> (wi_allow_empty input \<or> cfg_username c \<noteq> [])"

lemma write_over_cases:
  assumes plain: "plain_path X (config_path w)" "\<And>h. plain_path X (temp_name w h)"
    "\<And>h. w_fs w (temp_name w h) = None"
    and run: "write_config_over X input existing w = (r, w')"
  shows "(\<exists>c. r = Inr c \<and> write_stored X input w w' c)
    \<or> (\<exists>e h x. r = Inl e \<and> w_fs w' = (w_fs w)(temp_name w h := x))"
proof -
  define port where "port = unwrap_or DEFAULT_PORT (or_else (wi_port input) (map_option cfg_port existing))"
  define host where "host = unwrap_or DEFAULT_HOST
      (or_else (filter_opt is_valid_host (wi_host input)) (map_option cfg_host existing))"
  define user where "user = (if wi_clear_auth input then unwrap_or [] (wi_username input)
       else unwrap_or [] (or_else (wi_username input) (map_option cfg_username existing)))"
  note names = port_def [symmetric] host_def [symmetric] user_def [symmetric]
  have self: "w_fs w = (w_fs w)(temp_name w [] := w_fs w (temp_name w []))" by simp
  show ?thesis
  proof (cases "port = 0 \<or> \<not> is_valid_host host \<or> (\<not> wi_allow_empty input \<and> user = [])")
    case True
    then have "w' = w \<and> (\<exists>e. r = Inl e)"
      using run unfolding write_config_over_def Let_def names by (auto split: if_splits)
    then show ?thesis using self by metis
  next
    case ok: False
    then have go: "bind_io (write_secret X input existing user)
          (\<lambda>sk. bind_io (lift_res (check_complete X input user sk))
            (\<lambda>sk. bind_io get_world
              (\<lambda>w. persist_config X (updated_config X w input existing port host user sk)))) w
        = (r, w')"
      using run unfolding write_config_over_def Let_def names by (simp split: if_splits)
    obtain sr w1 where sec: "write_secret X input existing user w = (sr, w1)" by fastforce
    note same = frameD [OF write_secret_frame(1) sec] frameD [OF write_secret_frame(2) sec]
      frameD [OF write_secret_frame(4) sec]
    show ?thesis
    proof (cases "\<exists>sk sk'. sr = Inr sk \<and> check_complete X input user sk = Inr sk'")
      case False
      then have "w_fs w' = w_fs w \<and> (\<exists>e. r = Inl e)"
        using go same
        by (cases sr; cases "check_complete X input user (projr sr)") (auto simp: bind_io_def sec)
      then show ?thesis using self by metis
    next
      case True
      then obtain sk sk' where sk: "sr = Inr sk" "check_complete X input user sk = Inr sk'" by auto
      let ?c = "updated_config X w1 input existing port host user sk'"
      have persist: "persist_config X ?c w1 = (r, w')"
        using go sec sk by (simp add: bind_io_def)
      have p1: "config_path w1 = config_path w" and t1: "\<And>h. temp_name w1 h = temp_name w h"
        using same by (simp_all add: config_path_def temp_name_def)
      have temp: "config_temp_path X w1 = temp_name w (x_random_hex X w1 8)"
        using same by (simp add: config_temp_path_def temp_name_def)
      have c: "cfg_schema ?c = CONFIG_SCHEMA \<and> cfg_port ?c \<noteq> 0 \<and> is_valid_host (cfg_host ?c)
          \<and> (wi_allow_empty input \<or> cfg_username ?c \<noteq> [])"
        using ok by (simp add: updated_config_def Let_def)
      from persist_cases [OF _ _ _ persist] plain same p1 temp
      have "(r = Inr ?c \<and> (\<exists>body. x_json_pretty X (enc_config_v1 ?c) = Inr body
            \<and> length body \<le> MAX_CONFIG_SIZE_BYTES
            \<and> saved X (temp_name w (x_random_hex X w1 8)) (config_path w) body w1 w'))
        \<or> (\<exists>e x. r = Inl e \<and> w_fs w' = (w_fs w)(temp_name w (x_random_hex X w1 8) := x))"
        by simp
      then show ?thesis
      proof
        assume "r = Inr ?c \<and> (\<exists>body. x_json_pretty X (enc_config_v1 ?c) = Inr body
            \<and> length body \<le> MAX_CONFIG_SIZE_BYTES
            \<and> saved X (temp_name w (x_random_hex X w1 8)) (config_path w) body w1 w')"
        then have "write_stored X input w w' ?c"
          using c same unfolding write_stored_def saved_def by auto
        then show ?thesis using \<open>r = Inr ?c \<and> _\<close> by blast
      qed blast
    qed
  qed
qed

text \<open>C1: saving the configuration is atomic. On success the file holds exactly the text of the
  configuration that is reported, within the size limit, with mode 0600 (unless \<open>chmod\<close> itself
  fails); on any error the file is what it was, or it had been refused and removed by the read
  that precedes the write.\<close>

theorem write_config_atomic:
  assumes plain: "plain_state X w" and run: "write_config X input w = (r, w')"
  shows "(case r of Inl e \<Rightarrow> write_failed X w w' | Inr c \<Rightarrow> write_stored X input w w' c)"
proof -
  obtain s w1 where dir: "ensure_config_directory X w = (s, w1)" by fastforce
  from ensure_directory [OF plain dir] obtain x
    where fs1: "w_fs w1 = (w_fs w)(w_root w := x)" and rest1: "rest w1 = rest w" by blast
  note env1 = rest_fields [OF rest1]
  have names: "config_path w1 = config_path w" "\<And>h. temp_name w1 h = temp_name w h"
    using env1 by (simp_all add: config_path_def temp_name_def)
  have cp1: "w_fs w1 (config_path w) = w_fs w (config_path w)"
    using names_distinct(2) by (simp add: fs1)
  show ?thesis
  proof (cases s)
    case (Inl e)
    then have "w' = w1" "r = Inl e" using run dir by (simp_all add: write_config_def bind_io_def)
    then show ?thesis using cp1 by (simp add: write_failed_def)
  next
    case (Inr u)
    obtain ex w2 where ex: "read_config_file_or_null X w1 = (ex, w2)" by fastforce
    note kept = only_clearsD [OF only_clears_read_null ex]
    have over: "write_config_over X input (res_ok ex) w2 = (r, w')"
      using run dir Inr ex by (simp add: write_config_def bind_io_def attempt_def)
    have names2: "config_path w2 = config_path w" "\<And>h. temp_name w2 h = temp_name w h"
      using kept names env1 by (simp_all add: temp_name_def)
    have "w_fs w2 (temp_name w h) = None" for h
      using plain kept(5) names_distinct(1,3) [of w h] names
      by (auto simp: fs1 plain_state_def)
    then consider c where "r = Inr c" "write_stored X input w2 w' c"
      | e h y where "r = Inl e" "w_fs w' = (w_fs w2)(temp_name w h := y)"
      using write_over_cases [OF _ _ _ over] plain names2 by (auto simp: plain_state_def)
    then show ?thesis
    proof cases
      case 1
      then show ?thesis
        using names2 kept(3) env1(3) by (simp add: write_stored_def)
    next
      case 2
      have "w_fs w' (config_path w) = w_fs w2 (config_path w)"
        using 2 names_distinct(1) [of w h] by simp
      moreover have "w_fs w2 (config_path w) = w_fs w1 (config_path w)
          \<or> (w_fs w2 (config_path w) = None \<and> (\<exists>e. ex = Inl e))"
        using kept(5,7) names by (cases ex) auto
      ultimately show ?thesis
        using 2 cp1 fs1 ex by (fastforce simp: write_failed_def)
    qed
  qed
qed

lemma save_text_rest: "frame rest (save_text X temp path body)"
  unfolding save_text_def set_permissions_def by (intro frame_rules)

lemma write_config_root:
  assumes plain: "plain_state X w" and run: "write_config X input w = (r, w')"
  shows "w_root w' = w_root w"
proof -
  have ret: "frame w_root (save_text X temp path body)" for temp path body
    using save_text_rest [of X temp path body] by (auto simp: frame_def rest_def)
  have saved: "frame w_root (bind_io (save_text X t p b) (\<lambda>_. ret c))" for t p b and c :: apw_config_v1
    by (rule frame_bind [OF ret frame_pure(1)])
  have persist: "frame w_root (persist_config X c)" for c
    using saved by (auto simp: frame_def persist_config_def split: sum.split)
  have over: "frame w_root (write_config_over X input ex)" for ex
    unfolding write_config_over_def Let_def by (intro frame_rules write_secret_frame persist)
  have read: "frame w_root (attempt (read_config_file_or_null X))"
    using only_clearsD(1) [OF only_clears_read_null, of X]
    by (simp add: frame_def attempt_def) (metis prod.collapse)
  obtain s w1 where dir: "ensure_config_directory X w = (s, w1)" by fastforce
  have w1: "w_root w1 = w_root w" using ensure_directory(2) [OF plain dir] by (simp add: rest_def)
  have all: "frame w_root (bind_io (attempt (read_config_file_or_null X))
      (\<lambda>existing. write_config_over X input (res_ok existing)))"
    by (intro frame_rules read over)
  show ?thesis
  proof (cases s)
    case (Inl e)
    then show ?thesis using run dir w1 by (simp add: write_config_def bind_io_def)
  next
    case (Inr u)
    then have "bind_io (attempt (read_config_file_or_null X))
        (\<lambda>existing. write_config_over X input (res_ok existing)) w1 = (r, w')"
      using run dir by (simp add: write_config_def bind_io_def [of "ensure_config_directory X"])
    from frameD [OF all this] w1 show ?thesis by simp
  qed
qed


text \<open>C34: clearing removes the file, whatever it is but a directory, touches no other file, and
  asks the keychain to forget the key when the stored configuration kept it there.\<close>

theorem clear_config_effect:
  assumes "w_fs w (config_path w) = Some i" "i_kind i \<noteq> KDir"
    and "\<And>v. x_fault X v (OpRemove (config_path w)) = None"
  shows "w_fs (clear_config X w) = (w_fs w)(config_path w := None)
    \<and> (case Option.bind (res_ok (read_to_string X w (config_path w)))
              (\<lambda>raw. Option.bind (res_ok (x_json_parse X raw)) dec_config_v1) of
         None \<Rightarrow> True
       | Some v1 \<Rightarrow>
           w_spawned (clear_config X w) = w_spawned w @
             (if cfg_secret_source v1 = Some SecretKeychain \<and> cfg_username v1 \<noteq> [] \<and> x_macos X
              then [invoke ''security'' [''delete-generic-password'', ''-a'', cfg_username v1,
                      ''-s'', KEYCHAIN_SERVICE]]
              else []))"
proof -
  let ?v = "forget_secret X w"
  have rm: "ignore (fs_remove_file X (config_path w)) ?v = put_inode (config_path w) None ?v"
    using assms by (simp add: ignore_def fs_remove_file_def faulty_def)
  have del: "w_spawned (ignore (delete_shared_key X u) w) = w_spawned w @
      (if u \<noteq> [] \<and> x_macos X
       then [invoke ''security'' [''delete-generic-password'', ''-a'', u, ''-s'', KEYCHAIN_SERVICE]]
       else [])" for u
    by (auto simp: ignore_def delete_shared_key_def supports_keychain_def bind_io_def
        default_security_runner_def map_err_def run_output_def split: sum.split)
  have "case Option.bind (res_ok (read_to_string X w (config_path w)))
              (\<lambda>raw. Option.bind (res_ok (x_json_parse X raw)) dec_config_v1) of
         None \<Rightarrow> True
       | Some v1 \<Rightarrow>
           w_spawned ?v = w_spawned w @
             (if cfg_secret_source v1 = Some SecretKeychain \<and> cfg_username v1 \<noteq> [] \<and> x_macos X
              then [invoke ''security'' [''delete-generic-password'', ''-a'', cfg_username v1,
                      ''-s'', KEYCHAIN_SERVICE]]
              else [])"
    by (cases "read_to_string X w (config_path w)")
      (auto simp: forget_secret_def del split: option.split)
  then show ?thesis
    by (simp add: clear_config_def rm split: option.splits)
qed

text \<open>The completeness check precedes the downgrade to the file: a configuration whose key was
  in the keychain is stored without any key where there is no keychain.\<close>

lemma incomplete_config_stored:
  "\<not> x_macos X \<Longrightarrow> \<not> wi_allow_empty input \<Longrightarrow> user \<noteq> [] \<Longrightarrow>
     check_complete X input user (SecretKeychain, []) = Inr (SecretFile, [])
     \<and> check_complete X input user (SecretFile, []) = Inl incomplete_config"
  by (simp add: check_complete_def supports_keychain_def)

section \<open>A concrete write\<close>

definition sample_input :: write_config_input where
  "sample_input =
     \<lparr>wi_username = Some ''u'', wi_shared_key = Some 107, wi_port = None, wi_host = None,
      wi_allow_empty = False, wi_clear_auth = False, wi_runtime_mode = None,
      wi_last_launch_status = None, wi_last_launch_error = None, wi_last_launch_strategy = None,
      wi_bridge_status = None, wi_bridge_browser = None, wi_bridge_connected_at = None,
      wi_bridge_last_error = None, wi_reset_launch_metadata = False,
      wi_reset_bridge_metadata = False, wi_refresh_created_at = False\<rparr>"

lemma sample_input_simps [simp]:
  "wi_username sample_input = Some ''u''" "wi_shared_key sample_input = Some 107"
  "wi_port sample_input = None" "wi_host sample_input = None"
  "\<not> wi_allow_empty sample_input" "\<not> wi_clear_auth sample_input"
  by (simp_all add: sample_input_def)

definition written_config :: apw_config_v1 where
  "written_config =
     (default_config_v1 (show_nat 1000000))\<lparr>cfg_username := ''u'', cfg_shared_key := ''k''\<rparr>"

definition written_docs :: "(string \<times> json) list" where
  "written_docs = [(''cfg'', enc_config_v1 written_config)]"

definition empty_start :: world where
  "empty_start = sample_world []"

lemma empty_start_paths [simp]:
  "config_path empty_start = ''/h/.apw/config.json''" "w_root empty_start = ''/h/.apw''"
  by (simp_all add: config_path_def empty_start_def path_join_def is_absolute_def)

lemma empty_start_plain: "plain_state (sample_ext docs) empty_start"
  by (simp add: plain_state_def empty_start_def temp_name_def)

lemma char_k: "(char_of (107 :: nat) :: char) = CHR ''k''"
  by code_simp

lemma sample_write:
  "\<exists>w'. write_config (sample_ext written_docs) sample_input empty_start = (Inr written_config, w')"
proof -
  let ?X = "sample_ext written_docs"
  obtain s w1 where dir: "ensure_config_directory ?X empty_start = (s, w1)" by fastforce
  have s: "s = Inr ()"
    using dir by (auto simp: ensure_config_directory_def bind_io_def map_err_def fs_create_dir_all_def
        faulty_def is_dir_def stat_def empty_start_def set_permissions_def quietly_def)
  from ensure_directory [OF empty_start_plain dir] obtain x
    where fs1: "w_fs w1 = (w_fs empty_start)(''/h/.apw'' := x)" and rest1: "rest w1 = rest empty_start"
    by auto
  have w1: "w_root w1 = ''/h/.apw''" "config_path w1 = ''/h/.apw/config.json''" "w_now w1 = 1000000"
    using rest_fields [OF rest1]
    by (simp_all add: config_path_def empty_start_def path_join_def is_absolute_def)
  have read: "attempt (read_config_file_or_null ?X) w1
      = (Inr (Inl (no_config_file ''/h/.apw/config.json'')), w1)"
    by (simp add: attempt_def read_config_file_or_null_def bind_io_def Let_def
        read_user_config_file_or_null_def w1 lstat_def fs1 empty_start_def)
  have secret: "write_secret ?X sample_input None ''u'' w1 = (Inr (SecretFile, ''k''), w1)"
    by (simp add: write_secret_def sample_input_def supports_keychain_def bigint_to_base64_def
        to_bytes_be_def bytes_from.simps Let_def bind_io_def char_k)
  have c: "updated_config ?X w1 sample_input None DEFAULT_PORT DEFAULT_HOST ''u'' (SecretFile, ''k'')
      = written_config"
    by (simp add: updated_config_def sample_input_def merged_def written_config_def
        default_config_v1_def w1)
  have temp: "config_temp_path ?X w1 = ''/h/.apw/config.tmp.00000000''"
    by (simp add: config_temp_path_def w1 path_join_def is_absolute_def numeral_eq_Suc)
  have save: "\<exists>v. save_text ?X ''/h/.apw/config.tmp.00000000'' ''/h/.apw/config.json'' b w1 = (Inr (), v)"
    for b
    by (simp add: save_text_def bind_io_def map_err_def fs_defs faulty_def fs1 empty_start_def
        set_permissions_def quietly_def ignore_def new_inode_def)
  have "\<exists>v. persist_config ?X written_config w1 = (Inr written_config, v)"
  proof -
    have "x_json_pretty ?X (enc_config_v1 written_config) = Inr ''cfg''"
      by (simp add: written_docs_def)
    then show ?thesis
      using save [of "''cfg''"]
      by (auto simp: persist_config_def MAX_CONFIG_SIZE_BYTES_def bind_io_def temp w1
          simp del: sample_ext_simps)
  qed
  moreover have "is_valid_host DEFAULT_HOST" "DEFAULT_PORT \<noteq> 0"
    by (simp_all add: is_valid_host_def DEFAULT_HOST_def DEFAULT_PORT_def trim_id code_def)
  ultimately have "\<exists>w'. write_config_over ?X sample_input None w1 = (Inr written_config, w')"
    by (auto simp: write_config_over_def Let_def secret check_complete_def bind_io_def c)
  then show ?thesis
    by (simp add: write_config_def bind_io_def dir s read)
qed

theorem write_config_atomic_witness:
  "\<exists>w'. write_config (sample_ext written_docs) sample_input empty_start = (Inr written_config, w')
     \<and> write_stored (sample_ext written_docs) sample_input empty_start w' written_config"
  using sample_write write_config_atomic [OF empty_start_plain] by fastforce


theorem clear_config_effect_witness:
  "w_fs (clear_config (sample_ext sample_docs) sample_start) (config_path sample_start) = None"
proof -
  have "w_fs sample_start (config_path sample_start) = Some (sample_file ''cfg'')"
    by (simp only: sample_config_path) (simp add: sample_start_def)
  from clear_config_effect [OF this, of "sample_ext sample_docs"] show ?thesis by simp
qed

end
