(* ===== verification/State_Root.thy ===== *)
theory State_Root
  imports Os
begin

text \<open>
  \<open>rust/src/state_root.rs\<close>: the state directory is \<open>.apw\<close> in the home directory, which is
  \<open>HOME\<close> if that is set, else \<open>USERPROFILE\<close>, and must be a non-empty absolute path. The
  program resolves it once before a command that needs it runs (\<open>main\<close>) and the field
  \<open>w_root\<close> of the world holds the result.
\<close>

definition resolve_home :: "string option \<Rightarrow> string option \<Rightarrow> string res" where
  "resolve_home home user_profile =
     bind_res
       (case home of
          Some v \<Rightarrow> Inr (''HOME'', v)
        | None \<Rightarrow> (case user_profile of
              Some v \<Rightarrow> Inr (''USERPROFILE'', v)
            | None \<Rightarrow> Inl (mk_err InvalidConfig
                ''HOME and USERPROFILE are not set; APW cannot resolve its state directory.'')))
       (\<lambda>(variable, value).
          if value = [] then
            Inl (mk_err InvalidConfig
              (variable @ '' is empty; APW cannot resolve its state directory.''))
          else if \<not> is_absolute value then
            Inl (mk_err InvalidConfig (variable @ '' must be an absolute path for APW state.''))
          else Inr value)"

definition home_dir :: "world \<Rightarrow> string res" where
  "home_dir w = resolve_home (w_env w ''HOME'') (w_env w ''USERPROFILE'')"

definition apw_state_root :: "world \<Rightarrow> string res" where
  "apw_state_root w = bind_res (home_dir w) (\<lambda>h. Inr (path_join h ''.apw''))"

lemma resolve_home_Inr:
  "resolve_home h u = Inr p \<longleftrightarrow>
     is_absolute p \<and> (h = Some p \<or> h = None \<and> u = Some p)"
  by (auto simp: resolve_home_def is_absolute_def split: option.split if_splits)

lemma resolve_home_Inl: "resolve_home h u = Inl e \<Longrightarrow> err_code e = InvalidConfig"
  by (auto simp: resolve_home_def split: option.splits if_splits)

text \<open>The state directory is resolved exactly when the variable that counts, \<open>HOME\<close>
  before \<open>USERPROFILE\<close> even if \<open>HOME\<close> is unusable, holds an absolute path; every refusal is
  an \<open>InvalidConfig\<close> error.\<close>

theorem state_root_resolution:
  "(case apw_state_root w of
      Inr r \<Rightarrow> \<exists>h. is_absolute h \<and> r = path_join h ''.apw'' \<and> is_absolute r
        \<and> (w_env w ''HOME'' = Some h \<or> w_env w ''HOME'' = None \<and> w_env w ''USERPROFILE'' = Some h)
    | Inl e \<Rightarrow> err_code e = InvalidConfig
        \<and> \<not> (\<exists>h. is_absolute h
            \<and> (w_env w ''HOME'' = Some h \<or> w_env w ''HOME'' = None \<and> w_env w ''USERPROFILE'' = Some h)))"
proof (cases "home_dir w")
  case (Inl e)
  then have "err_code e = InvalidConfig"
    unfolding home_dir_def by (rule resolve_home_Inl)
  moreover have "resolve_home (w_env w ''HOME'') (w_env w ''USERPROFILE'') \<noteq> Inr h" for h
    using Inl by (simp add: home_dir_def)
  ultimately show ?thesis
    using Inl by (auto simp: apw_state_root_def resolve_home_Inr)
next
  case (Inr h)
  from Inr [unfolded home_dir_def resolve_home_Inr] show ?thesis
    by (simp add: apw_state_root_def Inr) blast
qed

end
