(* ===== verification/Redaction.thy ===== *)
theory Redaction
  imports Complex_Main Os
begin

text \<open>
  The redaction audit of the diagnostic bundle (\<open>rust/src/bundle.rs\<close>): which strings of a JSON
  value are looked at, and the heuristics that decide whether a string looks like a credential.
  The classes of characters the heuristics test are ASCII, so they can be read off the bytes.
\<close>

section \<open>Strings that look like credentials\<close>

datatype diagnostic_string_kind = FreeText | StructuralPath

definition count_where :: "(char \<Rightarrow> bool) \<Rightarrow> string \<Rightarrow> nat" where
  "count_where P s = length (filter P s)"

definition without_ws :: "string \<Rightarrow> string" where
  "without_ws s = filter (\<lambda>c. \<not> is_ascii_ws c) s"

definition is_token_char :: "char \<Rightarrow> bool" where
  "is_token_char c \<longleftrightarrow> is_ascii_alnum c \<or> c \<in> set ''+/=_-''"

definition is_symbol :: "char \<Rightarrow> bool" where
  "is_symbol c \<longleftrightarrow> c \<in> set ''!#$%&*@''"

definition TOKEN_PREFIXES :: "string list" where
  "TOKEN_PREFIXES =
     [''AKIA'', ''ASIA'', ''ghp_'', ''gho_'', ''ghs_'', ''ghu_'', ''github_pat_'', ''xox'', ''AIza'',
      ''sk-'', ''sk_live_'', ''pk_live_'']"

definition contains_vendor_token_prefix :: "string \<Rightarrow> bool" where
  "contains_vendor_token_prefix value = list_ex (contains value) TOKEN_PREFIXES"

definition looks_like_secret_payload :: "string \<Rightarrow> bool" where
  "looks_like_secret_payload value =
     (let trimmed = trim_matches ['','', '';'', ''.'', '')'', ''(''] value;
          compact = without_ws trimmed in
      if trimmed = [] then False
      else if length compact < 8 then False
      else if \<not> list_all (\<lambda>c. is_token_char c \<or> c = CHR ''.'') compact then False
      else
        let has_digit = list_ex is_ascii_digit compact;
            has_upper = list_ex is_ascii_upper compact;
            has_lower = list_ex is_ascii_lower compact
        in has_digit \<or> (has_upper \<and> has_lower) \<or> length compact \<ge> 20)"

text \<open>
  The loop over the occurrences of a keyword; the search goes on behind each one. None of the
  keywords is empty, which is what makes it end.
\<close>

definition keyword_hit :: "string \<Rightarrow> nat \<Rightarrow> nat \<Rightarrow> bool" where
  "keyword_hit value index after_index \<longleftrightarrow>
     (index = 0 \<or> \<not> is_ascii_alnum (value ! (index - 1)))
     \<and> (after_index \<ge> length value \<or> \<not> is_ascii_alnum (value ! after_index))
     \<and> (let tail = dropWhile (\<lambda>c. is_ascii_ws c \<or> c \<in> set '':=-_'') (drop after_index value)
        in tail = [] \<or> looks_like_secret_payload tail)"

function secret_keyword_from :: "string \<Rightarrow> string \<Rightarrow> nat \<Rightarrow> bool" where
  "secret_keyword_from value keyword search_start =
     (if keyword = [] then False
      else
        (case find_sub keyword (drop search_start value) of
           None \<Rightarrow> False
         | Some relative_index \<Rightarrow>
             let index = search_start + relative_index;
                 after_index = index + length keyword
             in if keyword_hit value index after_index then True
                else secret_keyword_from value keyword after_index))"
  by pat_completeness auto
termination
proof (relation "measure (\<lambda>(v, k, i). length v - i)")
  fix v k :: string and i r j a
  assume "k \<noteq> []" "find_sub k (drop i v) = Some r" "j = i + r" "a = j + length k"
  moreover from find_sub_Some [OF this(2)] \<open>k \<noteq> []\<close> have "drop i v \<noteq> []" "length k > 0" by auto
  ultimately show "((v, k, a), (v, k, i)) \<in> measure (\<lambda>(v, k, i). length v - i)"
    by (cases k) auto
qed simp

declare secret_keyword_from.simps [simp del]

definition contains_secret_keyword :: "string \<Rightarrow> string \<Rightarrow> bool" where
  "contains_secret_keyword value keyword = secret_keyword_from value keyword 0"

definition KEYWORDS :: "string list" where
  "KEYWORDS =
     [''password'', ''passphrase'', ''secret'', ''token'', ''bearer'', ''api key'', ''apikey'',
      ''passcode'', ''pin'']"

definition matches_secret_keyword :: "string \<Rightarrow> bool" where
  "matches_secret_keyword value =
     (let lower = to_ascii_lowercase value in list_ex (contains_secret_keyword lower) KEYWORDS)"

text \<open>
  Shannon entropy in bits per character. The program computes it in \<open>f64\<close>; the model is the
  real number.
\<close>

definition shannon_entropy :: "string \<Rightarrow> real" where
  "shannon_entropy value =
     (let len = real (length value) in
      if value = [] then 0
      else (\<Sum>c \<in> set value.
              (let p = real (count_list value c) / len in - p * log 2 p)))"

definition looks_like_entropy_secret :: "string \<Rightarrow> bool" where
  "looks_like_entropy_secret value =
     (let compact = filter is_ascii_alnum value in
      if length (split_whitespace value) \<noteq> 1 \<or> length compact < 28 then False
      else
        let word_count = length (split_whitespace value);
            separator_count = count_where (\<lambda>c. is_ascii_punct c \<or> is_ascii_ws c) value;
            tokenish = (separator_count \<le> 6 \<or> word_count \<le> 6)
        in if \<not> tokenish then False else shannon_entropy compact \<ge> 7 / 2)"

definition looks_like_symbol_delimited_secret :: "string \<Rightarrow> bool" where
  "looks_like_symbol_delimited_secret value =
     (let chunk_count = length (split_whitespace value) in
      if chunk_count > 4 then False
      else if \<not> list_ex is_symbol value then False
      else
        let chunk_like_count =
          length (filter
            (\<lambda>chunk. let compact = filter is_ascii_alnum chunk in
               length compact \<ge> 4 \<and> list_ex is_ascii_alpha compact \<and> list_ex is_ascii_digit compact)
            (split_by (\<lambda>c. is_ascii_ws c \<or> is_symbol c) value))
        in chunk_like_count \<ge> 3)"

definition contains_hard_secret_shape :: "string \<Rightarrow> bool" where
  "contains_hard_secret_shape value \<longleftrightarrow>
     contains value ''apw-demo-password''
     \<or> contains_vendor_token_prefix value
     \<or> matches_secret_keyword value
     \<or> eq_ignore_ascii_case (without_ws value) ''hunter2''
     \<or> looks_like_symbol_delimited_secret value"

text \<open>The ratios are of numbers below 32, where \<open>alpha / len \<ge> 0.6\<close> in \<open>f64\<close> is exact.\<close>

definition looks_like_short_or_letter_only_secret :: "string \<Rightarrow> bool" where
  "looks_like_short_or_letter_only_secret value =
     (let compact = without_ws value;
          alpha = count_where is_ascii_alpha compact;
          digit = count_where is_ascii_digit compact;
          unique_alpha = length (remdups (map lower_char (filter is_ascii_alpha compact))) in
      if matches_secret_keyword value then True
      else if eq_ignore_ascii_case compact ''hunter2'' then True
      else if length compact < 8 then False
      else if length compact < 20 \<and> list_all is_ascii_alpha compact
          \<and> list_ex is_ascii_lower compact \<and> list_ex is_ascii_upper compact
          \<and> \<not> list_ex is_ascii_digit compact then False
      else if \<not> list_all is_token_char compact then False
      else if length (split_whitespace value) = 1 \<and> length compact \<ge> 20 \<and> digit = 0
          \<and> alpha = length compact \<and> unique_alpha \<ge> 8 then True
      else if length compact < 32 \<and> alpha + digit = length compact then
        (5 * alpha \<ge> 3 * length compact \<and> digit > 0)
        \<or> (alpha = length compact \<and> list_ex is_ascii_upper compact)
      else False)"

definition is_embedding_separator :: "char \<Rightarrow> bool" where
  "is_embedding_separator c \<longleftrightarrow>
     is_ascii_ws c \<or> c = CHR ''/'' \<or> c = CHR 0x5C \<or> c = CHR '':'' \<or> c = CHR ''=''"

definition contains_embedded_secret_shape :: "string \<Rightarrow> bool" where
  "contains_embedded_secret_shape value =
     (if contains value ''apw-demo-password'' \<or> matches_secret_keyword value
          \<or> looks_like_symbol_delimited_secret value \<or> contains_vendor_token_prefix value then True
      else if \<not> list_ex is_embedding_separator value then False
      else list_ex
        (\<lambda>part. looks_like_short_or_letter_only_secret part \<or> looks_like_entropy_secret part)
        (split_by is_embedding_separator value))"

definition is_version_token :: "string \<Rightarrow> bool" where
  "is_version_token token =
     (if token = [] then False
      else
        let has_digit = list_ex is_ascii_digit token;
            has_separator = list_ex (\<lambda>c. c = CHR ''.'' \<or> c = CHR ''-'') token in
        if \<not> has_digit \<or> \<not> has_separator then False
        else if CHR ''.'' \<in> set token then
          list_all (\<lambda>c. is_ascii_alnum c \<or> c \<in> set ''.-_'') token
        else
          let starts_with_digit = is_ascii_digit (hd token);
              has_letter = list_ex is_ascii_alpha token;
              hyphen_count = count_where (\<lambda>c. c = CHR ''-'') token in
          if starts_with_digit \<and> \<not> has_letter \<and> hyphen_count \<ge> 2 then
            list_all (\<lambda>c. is_ascii_digit c \<or> c \<in> set ''-_'') token
          else False)"

definition contains_version_token :: "string \<Rightarrow> bool" where
  "contains_version_token value =
     list_ex (\<lambda>token. is_version_token (trim_matches [''('', '')'', '','', '';''] token))
       (split_whitespace value)"

definition looks_like_tool_status_text :: "string \<Rightarrow> bool" where
  "looks_like_tool_status_text value =
     (let lower = to_ascii_lowercase value in
      contains lower '' is available'' \<or> contains lower ''was not found''
      \<or> contains lower ''not installed'' \<or> contains lower ''exited with status'')"

definition safe_setting_names :: "string list" where
  "safe_setting_names =
     [''fallbackProvider'', ''fallbackProviderPath'', ''fallbackProviderTimeoutMs'',
      ''fallbackProviderMaxInvocations'', ''supportedDomains'', ''disableDemo'',
      ''bundleVersion'', ''bundlePath'', ''createdAt'', ''redactionGuarantees'',
      ''redactionChecks'', ''filesIncluded'']"

definition looks_like_safe_diagnostic_text :: "string \<Rightarrow> bool" where
  "looks_like_safe_diagnostic_text value =
     (let lower = to_ascii_lowercase value in
      if lower \<in> {''1password'', ''bitwarden'', ''keepassxc'', ''pass''} then True
      else if prefix ''provider'' lower \<or> contains lower ''fallback provider''
          \<or> contains lower ''external fallback provider'' \<or> contains lower ''providerpath''
          \<or> contains lower ''providertimeout'' \<or> contains lower ''providermaxinvocations''
          \<or> contains lower ''requires'' \<or> contains lower ''associated domains''
          \<or> contains lower ''associated'' \<or> contains lower ''supported domains'' then True
      else if value \<in> set safe_setting_names then True
      else if looks_like_tool_status_text value then True
      else contains_version_token value)"

definition looks_like_structural_json_key :: "string \<Rightarrow> bool" where
  "looks_like_structural_json_key key =
     (let trimmed = trim key in
      if trimmed = [] then False
      else if \<not> list_all is_ascii_alnum trimmed then False
      else if length trimmed < 4 then False
      else if to_ascii_lowercase trimmed
          \<in> {''password'', ''secret'', ''token'', ''apikey'', ''apiKey'', ''key''} then False
      else list_ex is_ascii_upper trimmed)"

definition looks_secret_like_for_kind :: "string \<Rightarrow> diagnostic_string_kind \<Rightarrow> bool" where
  "looks_secret_like_for_kind value kind =
     (let trimmed = trim value in
      if trimmed = [] then False
      else if contains_hard_secret_shape trimmed then True
      else if kind = StructuralPath then False
      else if looks_like_safe_diagnostic_text trimmed \<and> \<not> contains_embedded_secret_shape trimmed
        then False
      else if looks_like_short_or_letter_only_secret trimmed then True
      else if looks_like_symbol_delimited_secret trimmed then True
      else if looks_like_entropy_secret trimmed then True
      else if list_all is_token_char trimmed \<and> length trimmed \<ge> 32
          \<and> count_where is_ascii_alnum trimmed \<ge> length trimmed - 4
          \<and> count_where is_ascii_digit trimmed \<ge> 1 then True
      else contains_vendor_token_prefix trimmed)"

section \<open>The audit of a value\<close>

definition structural_fields :: "string list" where
  "structural_fields =
     [''bundlePath'', ''brokerLog'', ''brokerLogPath'', ''credentialsPath'', ''executablePath'',
      ''fallbackProviderPath'', ''files'', ''filesIncluded'', ''path'', ''providerPath'', ''root'',
      ''socketPath'', ''statusFile'']"

definition diagnostic_string_kind :: "string \<Rightarrow> diagnostic_string_kind" where
  "diagnostic_string_kind field =
     (if field \<in> set structural_fields then StructuralPath else FreeText)"

definition skipped_members :: "string list" where
  "skipped_members = [''remediation'', ''hint'', ''id'', ''name'']"

text \<open>\<open>walk_strings\<close> applies a stateful check to each string, in order, and stops at the first
  error.\<close>

type_synonym ('e, 's) check = "string \<Rightarrow> diagnostic_string_kind \<Rightarrow> 's \<Rightarrow> ('e + unit) \<times> 's"

definition and_then :: "('e + unit) \<times> 's \<Rightarrow> ('s \<Rightarrow> ('e + unit) \<times> 's) \<Rightarrow> ('e + unit) \<times> 's" where
  "and_then rs k = (case rs of (Inl e, s) \<Rightarrow> (Inl e, s) | (Inr _, s) \<Rightarrow> k s)"

lemma and_then_simps [simp]: "and_then (Inl e, s) k = (Inl e, s)" "and_then (Inr u, s) k = k s"
  by (simp_all add: and_then_def)

fun walk_strings :: "('e, 's) check \<Rightarrow> json \<Rightarrow> diagnostic_string_kind \<Rightarrow> 's \<Rightarrow> ('e + unit) \<times> 's"
  and walk_items :: "('e, 's) check \<Rightarrow> json list \<Rightarrow> diagnostic_string_kind \<Rightarrow> 's \<Rightarrow> ('e + unit) \<times> 's"
  and walk_members :: "('e, 's) check \<Rightarrow> (string \<times> json) list \<Rightarrow> 's \<Rightarrow> ('e + unit) \<times> 's"
where
  "walk_strings f (JString s) kind st = f s kind st"
| "walk_strings f (JArray items) kind st = walk_items f items kind st"
| "walk_strings f (JObject members) kind st = walk_members f members st"
| "walk_strings f JNull kind st = (Inr (), st)"
| "walk_strings f (JBool b) kind st = (Inr (), st)"
| "walk_strings f (JNumber n) kind st = (Inr (), st)"
| "walk_items f [] kind st = (Inr (), st)"
| "walk_items f (item # items) kind st =
     and_then (walk_strings f item kind st) (walk_items f items kind)"
| "walk_members f [] st = (Inr (), st)"
| "walk_members f ((key, item) # members) st =
     (if key \<in> set skipped_members then walk_members f members st
      else
        and_then
          (if \<not> looks_like_structural_json_key key then f key FreeText st else (Inr (), st))
          (\<lambda>st. and_then (walk_strings f item (diagnostic_string_kind key) st)
            (walk_members f members)))"

definition summarize_suspicious :: "string \<Rightarrow> string" where
  "summarize_suspicious value =
     ''`'' @ concat (take 8 (chars value)) @ [CHR 0xE2, CHR 0x80, CHR 0xA6] @ ''` (len=''
     @ show_nat (length value) @ '')''"

definition suspicious_error :: "string \<Rightarrow> apw_error" where
  "suspicious_error s =
     mk_err InvalidConfig
       (''Aborting bundle: a diagnostic field looks like a credential and was not safe to ship: ''
        @ summarize_suspicious s)"

definition audit_check :: "(apw_error, u32) check" where
  "audit_check s kind checks =
     (let checks' = checks + 1 in
      if looks_secret_like_for_kind s kind then (Inl (suspicious_error s), checks')
      else (Inr (), checks'))"

definition audit_redaction :: "json \<Rightarrow> u32 \<Rightarrow> unit res \<times> u32" where
  "audit_redaction value checks = walk_strings audit_check value FreeText checks"

end
