(* ===== verification/Command.thy ===== *)
theory Command
  imports Managed Samples
begin

text \<open>
  Commands the program polls (\<open>rust/src/native_app.rs\<close>): the loop that waits for a child with a
  limit on the time, the bounded command of the doctor checks and of the direct-exec fallback,
  and the checks made of it. The interface of the loop is a clock that is at least as late as
  the sleeps; it is stated as a locale and interpreted on the children of the model.
\<close>

section \<open>Polling\<close>

definition BOUNDED_COMMAND_POLL_MS :: nat where
  "BOUNDED_COMMAND_POLL_MS = 20"

text \<open>The clock when the n-th poll is made, and when the time is read again after a kill.\<close>

definition elapsed :: "child \<Rightarrow> nat \<Rightarrow> nat" where
  "elapsed c i = BOUNDED_COMMAND_POLL_MS * i + ch_drift c i"

definition elapsed_after_kill :: "child \<Rightarrow> nat \<Rightarrow> nat" where
  "elapsed_after_kill c i = elapsed c i + ch_drift c (Suc i)"

datatype poll_result = PollExited bool | PollError string | PollTimedOut nat

function poll_child :: "child \<Rightarrow> nat \<Rightarrow> nat \<Rightarrow> poll_result" where
  "poll_child c timeout i =
     (case ch_wait c i of
        Exited success \<Rightarrow> PollExited success
      | WaitError e \<Rightarrow> PollError e
      | Running \<Rightarrow>
          if elapsed c i \<ge> timeout then PollTimedOut (elapsed_after_kill c i)
          else poll_child c timeout (Suc i))"
  by pat_completeness auto
termination
  by (relation "measure (\<lambda>(c, timeout, i). timeout - i)")
    (auto simp: elapsed_def BOUNDED_COMMAND_POLL_MS_def)

declare poll_child.simps [simp del]

text \<open>What the loop needs of the clock and of the child, and what it then guarantees.\<close>

locale polled =
  fixes wait :: "nat \<Rightarrow> wait_status" and clock :: "nat \<Rightarrow> nat" and run :: "nat \<Rightarrow> nat \<Rightarrow> poll_result"
  assumes clock_late: "20 * i \<le> clock i"
    and run_exit: "wait i = Exited b \<Longrightarrow> run timeout i = PollExited b"
    and run_error: "wait i = WaitError e \<Longrightarrow> run timeout i = PollError e"
    and run_late: "wait i = Running \<Longrightarrow> timeout \<le> clock i \<Longrightarrow> \<exists>t \<ge> clock i. run timeout i = PollTimedOut t"
    and run_next: "wait i = Running \<Longrightarrow> clock i < timeout \<Longrightarrow> run timeout i = run timeout (Suc i)"
begin

text \<open>The poll at which the loop stops, and that it is among the first \<open>timeout / 20 + 1\<close>.\<close>

definition stops_at :: "nat \<Rightarrow> nat \<Rightarrow> bool" where
  "stops_at timeout n \<longleftrightarrow> wait n \<noteq> Running \<or> timeout \<le> clock n"

lemma stops_by: "timeout \<le> 20 * n \<Longrightarrow> stops_at timeout n"
  using clock_late [of n] by (simp add: stops_at_def)

lemma first_stop: "\<exists>n. n \<le> timeout div 20 + 1 \<and> stops_at timeout n \<and> (\<forall>j < n. \<not> stops_at timeout j)"
proof -
  have "timeout \<le> 20 * (timeout div 20 + 1)" by presburger
  then have ex: "stops_at timeout (timeout div 20 + 1)" by (rule stops_by)
  let ?n = "LEAST n. stops_at timeout n"
  have "?n \<le> timeout div 20 + 1" using ex by (rule Least_le)
  moreover have "stops_at timeout ?n" using ex by (rule LeastI)
  moreover have "\<forall>j < ?n. \<not> stops_at timeout j" using not_less_Least by blast
  ultimately show ?thesis by blast
qed

lemma run_until: "\<forall>j. i \<le> j \<and> j < n \<longrightarrow> \<not> stops_at timeout j \<Longrightarrow> i \<le> n \<Longrightarrow> run timeout i = run timeout n"
proof (induction "n - i" arbitrary: i)
  case 0
  then show ?case by simp
next
  case (Suc d)
  then have "\<not> stops_at timeout i" by simp
  then have "run timeout i = run timeout (Suc i)" using run_next by (simp add: stops_at_def)
  also have "\<dots> = run timeout n" using Suc by (intro Suc.hyps) auto
  finally show ?case .
qed

lemma outcome:
  "\<exists>n \<le> timeout div 20 + 1.
     (\<forall>j < n. wait j = Running \<and> clock j < timeout) \<and>
     (case wait n of
        Exited b \<Rightarrow> run timeout 0 = PollExited b
      | WaitError e \<Rightarrow> run timeout 0 = PollError e
      | Running \<Rightarrow> \<exists>t \<ge> timeout. run timeout 0 = PollTimedOut t)"
proof -
  obtain n where n: "n \<le> timeout div 20 + 1" "stops_at timeout n" "\<forall>j < n. \<not> stops_at timeout j"
    using first_stop by blast
  have "run timeout 0 = run timeout n" using n(3) by (intro run_until) auto
  then have "case wait n of
        Exited b \<Rightarrow> run timeout 0 = PollExited b
      | WaitError e \<Rightarrow> run timeout 0 = PollError e
      | Running \<Rightarrow> \<exists>t \<ge> timeout. run timeout 0 = PollTimedOut t"
    using n(2) run_exit run_error run_late [of n timeout]
    by (auto simp: stops_at_def split: wait_status.split intro: order_trans)
  with n show ?thesis by (auto simp: stops_at_def not_le)
qed

end

interpretation child_poll: polled "ch_wait c" "elapsed c" "poll_child c" for c
proof
  show "20 * i \<le> elapsed c i" for i by (simp add: elapsed_def BOUNDED_COMMAND_POLL_MS_def)
  show "ch_wait c i = Exited b \<Longrightarrow> poll_child c timeout i = PollExited b" for i b timeout
    by (subst poll_child.simps) simp
  show "ch_wait c i = WaitError e \<Longrightarrow> poll_child c timeout i = PollError e" for i e timeout
    by (subst poll_child.simps) simp
  show "ch_wait c i = Running \<Longrightarrow> timeout \<le> elapsed c i \<Longrightarrow>
      \<exists>t \<ge> elapsed c i. poll_child c timeout i = PollTimedOut t" for i timeout
    by (subst poll_child.simps) (simp add: elapsed_after_kill_def)
  show "ch_wait c i = Running \<Longrightarrow> elapsed c i < timeout \<Longrightarrow>
      poll_child c timeout i = poll_child c timeout (Suc i)" for i timeout
    by (subst poll_child.simps) simp
qed

text \<open>C39: waiting for a child ends after at most \<open>timeout / 20 + 2\<close> polls: with the child's own
  exit or error at the first poll that sees one, if every poll before it was early enough, and
  otherwise with a time-out that is never reported before the limit.\<close>

theorem poll_child_bounded:
  "\<exists>n \<le> timeout div 20 + 1.
     (\<forall>j < n. ch_wait c j = Running \<and> elapsed c j < timeout) \<and>
     (case ch_wait c n of
        Exited b \<Rightarrow> poll_child c timeout 0 = PollExited b
      | WaitError e \<Rightarrow> poll_child c timeout 0 = PollError e
      | Running \<Rightarrow> \<exists>t \<ge> timeout. poll_child c timeout 0 = PollTimedOut t)"
  by (rule child_poll.outcome)

theorem poll_child_bounded_witness: "poll_child (talking_child ''v1'') 100 0 = PollExited True"
  using poll_child_bounded [of 100 "talking_child ''v1''"] by auto

section \<open>The bounded command\<close>

definition MAX_BROKER_BYTES :: nat where
  "MAX_BROKER_BYTES = MAX_MESSAGE_BYTES"

definition DOCTOR_PROBE_TIMEOUT_MS :: nat where
  "DOCTOR_PROBE_TIMEOUT_MS = 3000"

record bounded_output =
  bo_success :: bool
  bo_stdout :: string
  bo_stderr :: string

datatype bounded_error = SpawnFailed string | IoFailed string | TimedOut nat | OutputTooLarge

fun bounded_message :: "bounded_error \<Rightarrow> string \<Rightarrow> string" where
  "bounded_message (SpawnFailed e) command = ''Failed to launch '' @ command @ '': '' @ e"
| "bounded_message (IoFailed e) command = ''Failed to read output from '' @ command @ '': '' @ e"
| "bounded_message (TimedOut elapsed_ms) command =
     command @ '' did not finish within '' @ show_nat elapsed_ms @ ''ms and was terminated.''"
| "bounded_message OutputTooLarge command =
     command @ '' produced more output than the configured cap allows.''"

text \<open>What the reader thread delivers: at most one byte more than the cap.\<close>

definition read_capped :: "nat \<Rightarrow> string + string \<Rightarrow> string + string" where
  "read_capped cap pipe = (case pipe of Inl e \<Rightarrow> Inl e | Inr d \<Rightarrow> Inr (take (cap + 1) d))"

definition run_bounded_command ::
    "ext \<Rightarrow> string \<Rightarrow> string list \<Rightarrow> nat \<Rightarrow> nat \<Rightarrow> world \<Rightarrow> (bounded_error + bounded_output) \<times> world" where
  "run_bounded_command X command args timeout max_bytes w =
     (case spawn_child X (invoke command args) w of
        (Inl e, w') \<Rightarrow> (Inl (SpawnFailed e), w')
      | (Inr c, w') \<Rightarrow>
          (case poll_child c timeout 0 of
             PollError e \<Rightarrow> Inl (IoFailed e)
           | PollTimedOut t \<Rightarrow> Inl (TimedOut t)
           | PollExited success \<Rightarrow>
               (case read_capped max_bytes (ch_stdout c) of
                  Inl e \<Rightarrow> Inl (IoFailed e)
                | Inr out \<Rightarrow>
                    (case read_capped max_bytes (ch_stderr c) of
                       Inl e \<Rightarrow> Inl (IoFailed e)
                     | Inr err \<Rightarrow>
                         if length out > max_bytes \<or> length err > max_bytes then Inl OutputTooLarge
                         else Inr \<lparr>bo_success = success, bo_stdout = out, bo_stderr = err\<rparr>)), w'))"

text \<open>C35: a bounded command that succeeds delivers both streams whole and within the cap, and
  none is cut: a longer stream is an error, never a prefix.\<close>

theorem bounded_command_whole:
  assumes "run_bounded_command X command args timeout max_bytes w = (Inr out, w')"
  shows "length (bo_stdout out) \<le> max_bytes \<and> length (bo_stderr out) \<le> max_bytes
    \<and> (\<exists>c. x_child X w (invoke command args) = Inr c \<and> ch_stdout c = Inr (bo_stdout out)
        \<and> ch_stderr c = Inr (bo_stderr out) \<and> poll_child c timeout 0 = PollExited (bo_success out))
    \<and> w_spawned w' = w_spawned w @ [invoke command args]"
proof -
  obtain c where c: "x_child X w (invoke command args) = Inr c" and w': "w' = log_spawn (invoke command args) w"
    using assms by (cases "x_child X w (invoke command args)")
      (auto simp: run_bounded_command_def spawn_child_def)
  obtain success where poll: "poll_child c timeout 0 = PollExited success"
    using assms by (cases "poll_child c timeout 0") (auto simp: run_bounded_command_def spawn_child_def c)
  obtain so se where pipes: "ch_stdout c = Inr so" "ch_stderr c = Inr se"
    using assms by (cases "ch_stdout c"; cases "ch_stderr c")
      (auto simp: run_bounded_command_def spawn_child_def c poll read_capped_def)
  have short: "\<not> length (take (max_bytes + 1) so) > max_bytes" "\<not> length (take (max_bytes + 1) se) > max_bytes"
    and out: "out = \<lparr>bo_success = success, bo_stdout = take (max_bytes + 1) so,
      bo_stderr = take (max_bytes + 1) se\<rparr>"
    using assms by (auto simp: run_bounded_command_def spawn_child_def c poll pipes read_capped_def
        split: if_splits)
  then have "length so \<le> max_bytes" "length se \<le> max_bytes" by auto
  then show ?thesis using out by (simp add: c poll pipes w')
qed

theorem bounded_command_whole_witness:
  "\<exists>out w'. run_bounded_command (talking_ext [] ''v1'') ''cargo'' [] 3000 2 (sample_world []) = (Inr out, w')
     \<and> bo_stdout out = ''v1''"
proof -
  have poll: "poll_child (talking_child ''v1'') 3000 0 = PollExited True"
    by (subst poll_child.simps) (simp add: talking_child_def)
  have "run_bounded_command (talking_ext [] ''v1'') ''cargo'' [] 3000 2 (sample_world [])
      = (Inr \<lparr>bo_success = True, bo_stdout = ''v1'', bo_stderr = []\<rparr>,
         log_spawn (invoke ''cargo'' []) (sample_world []))"
    by (simp add: run_bounded_command_def spawn_child_def poll read_capped_def)
  from bounded_command_whole [OF this] this show ?thesis by simp
qed

section \<open>The environment checks of the doctor\<close>

definition diagnostic :: "string \<Rightarrow> string \<Rightarrow> string \<Rightarrow> string \<Rightarrow> json" where
  "diagnostic status ident message hint =
     obj [(''id'', JString ident), (''status'', JString status), (''message'', JString message),
          (''hint'', JString hint)]"

text \<open>The text of an \<open>ExitStatus\<close> is made by the standard library from the signal or the code;
  \<open>status_text_of\<close> stands for it.\<close>

definition first_text_line :: "string \<Rightarrow> string \<Rightarrow> string" where
  "first_text_line out err =
     trim (unwrap_or ''available'' (find (\<lambda>line. trim line \<noteq> []) (lines out @ lines err)))"

definition command_version_check ::
    "ext \<Rightarrow> (child \<Rightarrow> string) \<Rightarrow> string \<Rightarrow> string \<Rightarrow> string list \<Rightarrow> string \<Rightarrow> world \<Rightarrow> json \<times> world" where
  "command_version_check X status_text_of ident command args hint w =
     (case run_bounded_command X command args DOCTOR_PROBE_TIMEOUT_MS MAX_BROKER_BYTES w of
        (r, w') \<Rightarrow>
          (case r of
             Inr output \<Rightarrow>
               if bo_success output then
                 diagnostic ''OK'' ident
                   (first_text_line (from_utf8_lossy (bo_stdout output))
                      (from_utf8_lossy (bo_stderr output))) []
               else
                 diagnostic ''FAIL'' ident
                   (command @ '' exited with status ''
                    @ (case x_child X w (invoke command args) of Inl _ \<Rightarrow> [] | Inr c \<Rightarrow> status_text_of c))
                   hint
           | Inl (SpawnFailed _) \<Rightarrow> diagnostic ''FAIL'' ident (command @ '' was not found'') hint
           | Inl e \<Rightarrow> diagnostic ''FAIL'' ident (bounded_message e command) hint, w'))"

definition ci_runner_environment_check :: "world \<Rightarrow> json" where
  "ci_runner_environment_check w =
     (if env_var ''CI'' w = Some ''true'' then
        let runner_os = unwrap_or ''unknown'' (env_var ''RUNNER_OS'' w);
            runner_arch = unwrap_or ''unknown'' (env_var ''RUNNER_ARCH'' w);
            runner_labels = unwrap_or [] (or_else (env_var ''RUNNER_LABELS'' w) (env_var ''APW_RUNNER_LABELS'' w))
        in if runner_labels = [] then
             diagnostic ''WARN'' ''runner_labels''
               (''CI runner reports os='' @ runner_os @ '', arch='' @ runner_arch
                @ '', but labels are not exposed'')
               ''Confirm the workflow runs on the documented runner in docs/bootstrap/onboarding.md.''
           else
             diagnostic ''OK'' ''runner_labels''
               (''CI runner labels: '' @ runner_labels @ ''; os='' @ runner_os @ ''; arch='' @ runner_arch)
               []
      else
        diagnostic ''WARN'' ''runner_labels''
          ''Not running in GitHub Actions; runner labels cannot be verified locally''
          ''In CI, confirm ordinary Linux jobs use ubuntu-24.04 and extended macOS validation uses [self-hosted, private, macOS, ARM64, xcode].'')"

definition code_signing_identity_check :: "ext \<Rightarrow> (child \<Rightarrow> string) \<Rightarrow> world \<Rightarrow> json \<times> world" where
  "code_signing_identity_check X status_text_of w =
     (let args = [''find-identity'', ''-v'', ''-p'', ''codesigning''];
          find_hint = ''Run `security find-identity -v -p codesigning` on the release runner.'' in
      case run_bounded_command X ''security'' args DOCTOR_PROBE_TIMEOUT_MS MAX_BROKER_BYTES w of
        (r, w') \<Rightarrow>
          (case r of
             Inr output \<Rightarrow>
               if bo_success output then
                 if contains (from_utf8_lossy (bo_stdout output)) ''Developer ID Application'' then
                   diagnostic ''OK'' ''developer_id_identity''
                     ''Developer ID Application identity found'' []
                 else
                   diagnostic ''WARN'' ''developer_id_identity''
                     ''No Developer ID Application signing identity was found''
                     ''Install the release signing certificate before notarized release builds.''
               else
                 diagnostic ''WARN'' ''developer_id_identity''
                   (''security find-identity exited with status ''
                    @ (case x_child X w (invoke ''security'' args) of Inl _ \<Rightarrow> [] | Inr c \<Rightarrow> status_text_of c))
                   find_hint
           | Inl (SpawnFailed _) \<Rightarrow>
               diagnostic ''WARN'' ''developer_id_identity'' ''security CLI was not found''
                 ''Run release signing diagnostics on macOS with Xcode command line tools installed.''
           | Inl e \<Rightarrow>
               diagnostic ''WARN'' ''developer_id_identity''
                 (bounded_message e ''security find-identity'') find_hint, w'))"

definition ci_diagnostic_checks :: "ext \<Rightarrow> (child \<Rightarrow> string) \<Rightarrow> world \<Rightarrow> json list \<times> world" where
  "ci_diagnostic_checks X status_text_of w =
     (let (xcodebuild, w1) =
            command_version_check X status_text_of ''xcodebuild'' ''xcodebuild'' [''-version'']
              ''Install Xcode and select it with `sudo xcode-select -s /Applications/Xcode.app`.'' w;
          (cargo, w2) =
            command_version_check X status_text_of ''cargo'' ''cargo'' [''--version'']
              ''Install Rust from https://rustup.rs/ before running Rust or release validation.'' w1;
          (secrets, w3) =
            command_version_check X status_text_of ''detect_secrets'' ''detect-secrets'' [''--version'']
              ''Install detect-secrets or run the repo's configured secret scan environment.'' w2;
          (signing, w4) = code_signing_identity_check X status_text_of w3
      in ([xcodebuild, cargo, secrets, signing, ci_runner_environment_check w4], w4))"

end
