(* ===== verification/Fallback.thy ===== *)
theory Fallback
  imports Command Config
begin

text \<open>
  External fallback providers (\<open>rust/src/native_app.rs\<close>): the limit on invocations, the command
  that runs a provider's program, the four providers (1Password, Bitwarden, KeePassXC, pass)
  with the parsing of what their programs print, and the login that chooses one.
\<close>

section \<open>Paths and limits\<close>

definition NATIVE_APP_RUNTIME_DIR_MODE :: u32 where
  "NATIVE_APP_RUNTIME_DIR_MODE = 0x1C0"

definition NATIVE_APP_FILE_MODE :: u32 where
  "NATIVE_APP_FILE_MODE = 0x180"

definition EXTERNAL_PROVIDER_DEFAULT_TIMEOUT_MS :: u64 where
  "EXTERNAL_PROVIDER_DEFAULT_TIMEOUT_MS = 5000"

definition EXTERNAL_PROVIDER_DEFAULT_MAX_INVOCATIONS :: u32 where
  "EXTERNAL_PROVIDER_DEFAULT_MAX_INVOCATIONS = 10"

definition native_app_runtime_dir :: "world \<Rightarrow> string" where
  "native_app_runtime_dir w = path_join (w_root w) ''native-app''"

definition native_app_fallback_provider_state_path :: "world \<Rightarrow> string" where
  "native_app_fallback_provider_state_path w =
     path_join (native_app_runtime_dir w) ''fallback-provider-session.json''"

text \<open>The \<open>set_permissions\<close> of this file reports its error.\<close>

definition set_permissions_strict :: "ext \<Rightarrow> string \<Rightarrow> u32 \<Rightarrow> unit io" where
  "set_permissions_strict X path mode =
     map_err (\<lambda>e. mk_err InvalidConfig (''Failed to set permissions on '' @ path @ '': '' @ e))
       (fs_set_permissions X path mode)"

definition ensure_runtime_dir :: "ext \<Rightarrow> unit io" where
  "ensure_runtime_dir X w =
     bind_io
       (map_err (\<lambda>e. mk_err InvalidConfig
           (''Failed to create native app runtime directory: '' @ e))
         (fs_create_dir_all X (native_app_runtime_dir w)))
       (\<lambda>_. set_permissions_strict X (native_app_runtime_dir w) NATIVE_APP_RUNTIME_DIR_MODE) w"

record provider_limits =
  pl_session_id :: string
  pl_timeout_ms :: u64
  pl_max_invocations :: u32

definition external_provider_limits :: "apw_config_v1 \<Rightarrow> provider_limits" where
  "external_provider_limits config =
     \<lparr>pl_session_id = cfg_created_at config,
      pl_timeout_ms = unwrap_or EXTERNAL_PROVIDER_DEFAULT_TIMEOUT_MS
        (filter_opt (\<lambda>value. value > 0) (cfg_fallback_provider_timeout_ms config)),
      pl_max_invocations = unwrap_or EXTERNAL_PROVIDER_DEFAULT_MAX_INVOCATIONS
        (cfg_fallback_provider_max_invocations config)\<rparr>"

text \<open>The number of invocations the state file records for a session.\<close>

definition current_count :: "ext \<Rightarrow> world \<Rightarrow> string \<Rightarrow> string \<Rightarrow> u64" where
  "current_count X w path session_id =
     unwrap_or 0
       (Option.bind
         (filter_opt (\<lambda>value. get_str ''sessionId'' value = Some session_id)
           (map_option to_value
             (Option.bind (res_ok (read_to_string X w path)) (\<lambda>c. res_ok (x_json_parse X c)))))
         (\<lambda>value. Option.bind (get ''invocations'' value) as_u64))"

definition invocation_state :: "provider \<Rightarrow> provider_limits \<Rightarrow> u64 \<Rightarrow> json" where
  "invocation_state provider limits n =
     obj [(''sessionId'', JString (pl_session_id limits)),
          (''provider'', JString (provider_str provider)),
          (''invocations'', enc_u64 n)]"

definition limit_exceeded :: "provider \<Rightarrow> provider_limits \<Rightarrow> apw_error" where
  "limit_exceeded provider limits =
     mk_err GenericError
       (''External fallback provider `'' @ provider_str provider
        @ ''` invocation limit exceeded for this APW session (limit: ''
        @ show_nat (unat (pl_max_invocations limits))
        @ ''). Reauthenticate or increase `fallbackProviderMaxInvocations`.'')"

definition reserve_external_provider_invocation :: "ext \<Rightarrow> provider \<Rightarrow> provider_limits \<Rightarrow> unit io" where
  "reserve_external_provider_invocation X provider limits =
     bind_io (ensure_runtime_dir X) (\<lambda>_. bind_io get_world (\<lambda>w.
       let path = native_app_fallback_provider_state_path w;
           count = current_count X w path (pl_session_id limits)
       in
       if count \<ge> ucast (pl_max_invocations limits) then fail (limit_exceeded provider limits)
       else
         (case x_json_pretty X (invocation_state provider limits (count + 1)) of
            Inl e \<Rightarrow> fail (mk_err GenericError
              (''Failed to encode fallback provider invocation state: '' @ e))
          | Inr bytes \<Rightarrow>
              bind_io
                (map_err (\<lambda>e. mk_err InvalidConfig
                    (''Failed to write fallback provider invocation state: '' @ e))
                  (fs_write X path bytes))
                (\<lambda>_. set_permissions_strict X path NATIVE_APP_FILE_MODE))))"

section \<open>Running the provider's program\<close>

record provider_output =
  pr_success :: bool
  pr_stdout :: string
  pr_stderr :: string

definition provider_invocation :: "string \<Rightarrow> string list \<Rightarrow> string option \<Rightarrow> invocation" where
  "provider_invocation path args stdin_data =
     \<lparr>inv_program = path, inv_args = args, inv_stdin = stdin_data,
      inv_env_removed = [''APW_KEEPASSXC_PASSWORD'']\<rparr>"

definition provider_result :: "provider \<Rightarrow> string \<Rightarrow> provider_limits \<Rightarrow> bool \<Rightarrow> child \<Rightarrow> provider_output res" where
  "provider_result provider path limits feed c =
     (case (if feed then ch_stdin_error c else None) of
        Some e \<Rightarrow> Inl (mk_err ProcessNotRunning
          (''Failed to feed stdin to '' @ provider_str provider @ '' CLI: '' @ e))
      | None \<Rightarrow>
          (case poll_child c (unat (pl_timeout_ms limits)) 0 of
             PollError e \<Rightarrow> Inl (mk_err ProcessNotRunning
               (''Failed to inspect '' @ provider_str provider @ '' CLI at '' @ path @ '': '' @ e))
           | PollTimedOut _ \<Rightarrow> Inl (mk_err CommunicationTimeout
               (''External fallback provider `'' @ provider_str provider @ ''` timed out after ''
                @ show_nat (unat (pl_timeout_ms limits)) @ ''ms and was killed.''))
           | PollExited success \<Rightarrow>
               (case read_capped MAX_BROKER_BYTES (ch_stdout c) of
                  Inl e \<Rightarrow> Inl (mk_err ProtoInvalidResponse
                    (''Failed to read '' @ provider_str provider @ '' CLI stdout: '' @ e))
                | Inr out \<Rightarrow>
                    (case read_capped MAX_BROKER_BYTES (ch_stderr c) of
                       Inl e \<Rightarrow> Inl (mk_err ProtoInvalidResponse
                         (''Failed to read '' @ provider_str provider @ '' CLI stderr: '' @ e))
                     | Inr err \<Rightarrow>
                         if length out > MAX_BROKER_BYTES \<or> length err > MAX_BROKER_BYTES then
                           Inl (mk_err ProtoInvalidResponse
                             (provider_str provider @ '' CLI returned more than ''
                              @ show_nat MAX_BROKER_BYTES
                              @ '' bytes while looking up a credential.''))
                         else Inr \<lparr>pr_success = success, pr_stdout = out, pr_stderr = err\<rparr>))))"

definition run_external_provider_command_with_stdin ::
    "ext \<Rightarrow> provider \<Rightarrow> string \<Rightarrow> apw_config_v1 \<Rightarrow> string list \<Rightarrow> string option \<Rightarrow> provider_output io" where
  "run_external_provider_command_with_stdin X provider path config args stdin_data =
     (let limits = external_provider_limits config in
      bind_io (reserve_external_provider_invocation X provider limits) (\<lambda>_.
        bind_io
          (map_err (\<lambda>e. mk_err ProcessNotRunning
              (''Failed to execute '' @ provider_str provider @ '' CLI at '' @ path @ '': '' @ e))
            (spawn_child X (provider_invocation path args stdin_data)))
          (\<lambda>c. lift_res (provider_result provider path limits (stdin_data \<noteq> None) c))))"

definition run_external_provider_command ::
    "ext \<Rightarrow> provider \<Rightarrow> string \<Rightarrow> apw_config_v1 \<Rightarrow> string list \<Rightarrow> provider_output io" where
  "run_external_provider_command X provider path config args =
     run_external_provider_command_with_stdin X provider path config args None"

section \<open>Matching\<close>

definition host_from_uri_like :: "ext \<Rightarrow> string \<Rightarrow> string option" where
  "host_from_uri_like X uri =
     or_else (Option.bind (x_url_parse X uri) url_host)
       (Option.bind (x_url_parse X (''https://'' @ uri)) url_host)"

definition uri_matches_target :: "ext \<Rightarrow> string \<Rightarrow> string \<Rightarrow> string \<Rightarrow> bool" where
  "uri_matches_target X uri host raw_url \<longleftrightarrow>
     eq_ignore_ascii_case uri raw_url
     \<or> (case host_from_uri_like X uri of
          None \<Rightarrow> False | Some candidate \<Rightarrow> eq_ignore_ascii_case candidate host)"

definition member_strings :: "string \<Rightarrow> json list \<Rightarrow> string list" where
  "member_strings key values = List.map_filter (get_str key) values"

definition one_password_item_matches_url :: "ext \<Rightarrow> json \<Rightarrow> string \<Rightarrow> string \<Rightarrow> bool" where
  "one_password_item_matches_url X item host raw_url =
     (case get_array ''urls'' item of
        None \<Rightarrow> False
      | Some urls \<Rightarrow> list_ex (\<lambda>uri. uri_matches_target X uri host raw_url) (member_strings ''href'' urls))"

definition one_password_item_matches_title :: "json \<Rightarrow> string \<Rightarrow> string \<Rightarrow> bool" where
  "one_password_item_matches_title item host raw_url =
     (case get_str ''title'' item of
        None \<Rightarrow> False
      | Some title \<Rightarrow> eq_ignore_ascii_case title host \<or> eq_ignore_ascii_case title raw_url)"

definition bitwarden_item_matches_target :: "ext \<Rightarrow> json \<Rightarrow> string \<Rightarrow> string \<Rightarrow> bool" where
  "bitwarden_item_matches_target X item host raw_url =
     (case Option.bind (get ''login'' item) (get_array ''uris'') of
        None \<Rightarrow> False
      | Some uris \<Rightarrow> list_ex (\<lambda>uri. uri_matches_target X uri host raw_url) (member_strings ''uri'' uris))"

definition external_cli_payload :: "provider \<Rightarrow> string \<Rightarrow> string \<Rightarrow> string \<Rightarrow> string \<Rightarrow> json" where
  "external_cli_payload provider host url username password =
     obj [(''status'', JString ''approved''), (''url'', JString url), (''domain'', JString host),
          (''username'', JString username), (''password'', JString password),
          (''transport'', JString ''external_cli''), (''userMediated'', JBool True),
          (''mediation'', JString ''explicit_cli_flag''), (''externalFallbackExplicit'', JBool True),
          (''securityMode'', JString ''reduced_external_cli''),
          (''source'', JString (provider_str provider))]"

section \<open>1Password\<close>

definition no_credential :: "string \<Rightarrow> string \<Rightarrow> string \<Rightarrow> apw_error" where
  "no_credential tool what stderr =
     mk_err NoResults (tool @ '' CLI did not return a credential for '' @ what @ '': ''
       @ trim (from_utf8_lossy stderr))"

definition json_output :: "ext \<Rightarrow> string \<Rightarrow> string \<Rightarrow> json res" where
  "json_output X tool out =
     (case x_json_parse X out of
        Inl e \<Rightarrow> Inl (mk_err ProtoInvalidResponse (tool @ '' CLI returned invalid JSON: '' @ e))
      | Inr tree \<Rightarrow> Inr (to_value tree))"

definition one_password_field :: "string \<Rightarrow> string \<Rightarrow> json list \<Rightarrow> string option" where
  "one_password_field name purpose entry_fields =
     Option.bind
       (find (\<lambda>field. get_str ''id'' field = Some name \<or> get_str ''label'' field = Some name
          \<or> get_str ''purpose'' field = Some purpose) entry_fields)
       (get_str ''value'')"

definition one_password_pick :: "ext \<Rightarrow> json \<Rightarrow> string \<Rightarrow> string \<Rightarrow> string option" where
  "one_password_pick X items host raw_url =
     Option.bind
       (Option.bind (as_array items) (\<lambda>values.
          or_else (find (\<lambda>item. one_password_item_matches_url X item host raw_url) values)
            (find (\<lambda>item. one_password_item_matches_title item host raw_url) values)))
       (get_str ''id'')"

definition one_password_payload :: "json \<Rightarrow> string \<Rightarrow> string \<Rightarrow> json res" where
  "one_password_payload item host raw_url =
     (case get_array ''fields'' item of
        None \<Rightarrow> Inl (mk_err ProtoInvalidResponse ''1Password item is missing fields.'')
      | Some entry_fields \<Rightarrow>
          bind_res (ok_or (mk_err ProtoInvalidResponse ''1Password item is missing a username.'')
              (one_password_field ''username'' ''USERNAME'' entry_fields)) (\<lambda>username.
            bind_res (ok_or (mk_err ProtoInvalidResponse ''1Password item is missing a password.'')
                (one_password_field ''password'' ''PASSWORD'' entry_fields)) (\<lambda>password.
              let resolved_url = unwrap_or raw_url
                    (Option.bind (get_array ''urls'' item)
                      (\<lambda>urls. case urls of [] \<Rightarrow> None | entry # _ \<Rightarrow> get_str ''href'' entry))
              in Inr (external_cli_payload OnePassword host resolved_url username password))))"

definition load_1password_credential ::
    "ext \<Rightarrow> string \<Rightarrow> apw_config_v1 \<Rightarrow> string \<Rightarrow> string \<Rightarrow> json io" where
  "load_1password_credential X path config host raw_url =
     bind_io (run_external_provider_command X OnePassword path config
         [''item'', ''list'', ''--categories'', ''LOGIN'', ''--format'', ''json''])
       (\<lambda>list_output.
         if \<not> pr_success list_output then
           fail (no_credential ''1Password'' host (pr_stderr list_output))
         else
           bind_io (lift_res (json_output X ''1Password'' (pr_stdout list_output))) (\<lambda>items.
             bind_io (lift_res (ok_or
                 (mk_err NoResults (''1Password CLI returned no credential for '' @ host @ ''.''))
                 (one_password_pick X items host raw_url))) (\<lambda>item_id.
               bind_io (run_external_provider_command X OnePassword path config
                   [''item'', ''get'', item_id, ''--format'', ''json''])
                 (\<lambda>output.
                   if \<not> pr_success output then
                     fail (no_credential ''1Password'' host (pr_stderr output))
                   else
                     bind_io (lift_res (json_output X ''1Password'' (pr_stdout output)))
                       (\<lambda>item. lift_res (one_password_payload item host raw_url))))))"

section \<open>Bitwarden\<close>

definition bitwarden_payload :: "json \<Rightarrow> string \<Rightarrow> string \<Rightarrow> json res" where
  "bitwarden_payload item host raw_url =
     (case Option.bind (get ''login'' item) as_object of
        None \<Rightarrow> Inl (mk_err ProtoInvalidResponse ''Bitwarden item is missing login data.'')
      | Some members \<Rightarrow>
          let login = JObject members in
          bind_res (ok_or (mk_err ProtoInvalidResponse ''Bitwarden item is missing a username.'')
              (get_str ''username'' login)) (\<lambda>username.
            bind_res (ok_or (mk_err ProtoInvalidResponse ''Bitwarden item is missing a password.'')
                (get_str ''password'' login)) (\<lambda>password.
              let resolved_url = unwrap_or raw_url
                    (Option.bind (get_array ''uris'' login)
                      (\<lambda>uris. case uris of [] \<Rightarrow> None | entry # _ \<Rightarrow> get_str ''uri'' entry))
              in Inr (external_cli_payload Bitwarden host resolved_url username password))))"

definition load_bitwarden_credential ::
    "ext \<Rightarrow> string \<Rightarrow> apw_config_v1 \<Rightarrow> string \<Rightarrow> string \<Rightarrow> json io" where
  "load_bitwarden_credential X path config host raw_url =
     bind_io (run_external_provider_command X Bitwarden path config
         [''list'', ''items'', ''--search'', host])
       (\<lambda>output.
         if \<not> pr_success output then fail (no_credential ''Bitwarden'' host (pr_stderr output))
         else
           bind_io (lift_res (json_output X ''Bitwarden'' (pr_stdout output))) (\<lambda>items.
             bind_io (lift_res (ok_or
                 (mk_err NoResults (''Bitwarden CLI returned no credential for '' @ host @ ''.''))
                 (Option.bind (as_array items)
                   (find (\<lambda>item. bitwarden_item_matches_target X item host raw_url)))))
               (\<lambda>item. lift_res (bitwarden_payload item host raw_url))))"

section \<open>KeePassXC\<close>

text \<open>The lines of the program's output, trimmed, without blank ones and password prompts.\<close>

definition keepassxc_lines :: "string \<Rightarrow> string list" where
  "keepassxc_lines out =
     filter (\<lambda>line. line \<noteq> [] \<and> \<not> prefix ''Insert password'' line \<and> \<not> prefix ''Enter password'' line)
       (map trim (lines (from_utf8_lossy out)))"

definition keepassxc_payload :: "string \<Rightarrow> string \<Rightarrow> string \<Rightarrow> json res" where
  "keepassxc_payload out host raw_url =
     (case keepassxc_lines out of
        [username, password] \<Rightarrow> Inr (external_cli_payload KeePassXC host raw_url username password)
      | username # password # url # _ \<Rightarrow>
          Inr (external_cli_payload KeePassXC host (if url \<noteq> [] then url else raw_url) username password)
      | _ \<Rightarrow> Inl (mk_err ProtoInvalidResponse
          ''KeePassXC CLI did not return both a username and a password.''))"

definition KEEPASSXC_PASSWORD_ENV :: string where
  "KEEPASSXC_PASSWORD_ENV = ''APW_KEEPASSXC_PASSWORD''"

text \<open>\<open>SecretStdinPayload\<close>: the master password and a line feed.\<close>

definition secret_stdin_payload :: "string \<Rightarrow> string" where
  "secret_stdin_payload value = value @ [CHR 0x0A]"

definition take_master_password :: "string io" where
  "take_master_password w =
     (case env_var KEEPASSXC_PASSWORD_ENV w of
        None \<Rightarrow> fail (mk_err InvalidConfig
          ''Fallback provider `keepassxc` requires the master password in APW_KEEPASSXC_PASSWORD for non-interactive use.'') w
      | Some value \<Rightarrow> (Inr value, env_remove KEEPASSXC_PASSWORD_ENV w))"

definition keepassxc_database :: "apw_config_v1 \<Rightarrow> string res" where
  "keepassxc_database config =
     (case cfg_fallback_provider_database config of
        None \<Rightarrow> Inl (mk_err InvalidConfig
          ''Fallback provider `keepassxc` requires `fallbackProviderDatabase` to be set to an absolute .kdbx path.'')
      | Some database \<Rightarrow>
          if prefix ''~'' database \<or> \<not> is_absolute database then
            Inl (mk_err InvalidConfig
              (''Fallback provider `keepassxc` database path `'' @ database
               @ ''` must be absolute; `~` and relative paths are not allowed.''))
          else Inr database)"

definition load_keepassxc_credential ::
    "ext \<Rightarrow> string \<Rightarrow> apw_config_v1 \<Rightarrow> string \<Rightarrow> string \<Rightarrow> json io" where
  "load_keepassxc_credential X path config host raw_url =
     bind_io (lift_res (keepassxc_database config)) (\<lambda>database.
     bind_io take_master_password (\<lambda>master_password.
       let stdin_payload = Some (secret_stdin_payload master_password) in
       bind_io (run_external_provider_command_with_stdin X KeePassXC path config
           [''search'', database, host] stdin_payload)
         (\<lambda>search_output.
           if \<not> pr_success search_output then
             fail (no_credential ''KeePassXC'' host (pr_stderr search_output))
           else
             (case keepassxc_lines (pr_stdout search_output) of
                [] \<Rightarrow> fail (mk_err NoResults (''KeePassXC CLI returned no entry for '' @ host @ ''.''))
              | entry # _ \<Rightarrow>
                  bind_io (run_external_provider_command_with_stdin X KeePassXC path config
                      [''show'', ''--show-protected'', ''--attributes'', ''UserName,Password,URL'',
                       database, entry] stdin_payload)
                    (\<lambda>show_output.
                      if \<not> pr_success show_output then
                        fail (no_credential ''KeePassXC'' host (pr_stderr show_output))
                      else lift_res (keepassxc_payload (pr_stdout show_output) host raw_url))))))"

section \<open>pass\<close>

text \<open>The characters \<open>pass\<close> draws its tree with, in UTF-8: corner, branch, bar, dash.\<close>

definition tree_corner :: string where
  "tree_corner = [CHR 0xE2, CHR 0x94, CHR 0x94]"

definition tree_branch :: string where
  "tree_branch = [CHR 0xE2, CHR 0x94, CHR 0x9C]"

definition tree_chars :: "string list" where
  "tree_chars =
     ['' '', [CHR 0xE2, CHR 0x94, CHR 0x82], tree_branch, tree_corner,
      [CHR 0xE2, CHR 0x94, CHR 0x80], [CHR 0x09]]"

definition pass_line_is_tree_entry :: "string \<Rightarrow> bool" where
  "pass_line_is_tree_entry line = list_ex (\<lambda>c. c = tree_corner \<or> c = tree_branch) (chars line)"

definition pass_line_depth :: "string \<Rightarrow> nat" where
  "pass_line_depth line = length (takeWhile (\<lambda>c. c \<in> set tree_chars) (chars line)) div 4 - 1"

definition pass_strip_tree_prefix :: "string \<Rightarrow> string" where
  "pass_strip_tree_prefix line = trim_start_of tree_chars line"

fun join_slash :: "string list \<Rightarrow> string" where
  "join_slash [] = []"
| "join_slash [x] = x"
| "join_slash (x # xs) = x @ ''/'' @ join_slash xs"

text \<open>The rows of the tree with their full paths; the stack holds the path so far.\<close>

fun pass_rows :: "string list \<Rightarrow> string list \<Rightarrow> (nat \<times> string) list" where
  "pass_rows [] stack = []"
| "pass_rows (raw_line # rest_lines) stack =
     (let line = trim_end raw_line in
      if line = [] then pass_rows rest_lines stack
      else if \<not> pass_line_is_tree_entry line then pass_rows rest_lines stack
      else
        let depth = pass_line_depth line;
            name = pass_strip_tree_prefix line in
        if name = [] then pass_rows rest_lines stack
        else
          let stack' = take depth stack @ [name]
          in (depth, join_slash stack') # pass_rows rest_lines stack')"

fun pass_leaves :: "(nat \<times> string) list \<Rightarrow> string list" where
  "pass_leaves [] = []"
| "pass_leaves [(depth, path)] = [path]"
| "pass_leaves ((depth, path) # (next_depth, next_path) # rows) =
     (if next_depth \<le> depth then path # pass_leaves ((next_depth, next_path) # rows)
      else pass_leaves ((next_depth, next_path) # rows))"

definition pass_leaf_name :: "string \<Rightarrow> string" where
  "pass_leaf_name path = last (split_on CHR ''/'' path)"

definition pass_choose :: "string list \<Rightarrow> string \<Rightarrow> string option" where
  "pass_choose candidates host =
     or_else (find (\<lambda>c. pass_leaf_name c = host) candidates)
       (or_else (find (\<lambda>c. host \<in> set (split_on CHR ''/'' c)) candidates)
         (find (\<lambda>c. contains c host) candidates))"

definition pass_pick_entry :: "string \<Rightarrow> string \<Rightarrow> string option" where
  "pass_pick_entry find_output host = pass_choose (pass_leaves (pass_rows (lines find_output) [])) host"

text \<open>The \<open>key: value\<close> lines after the password; the first of each kind counts.\<close>

fun pass_attributes :: "string list \<Rightarrow> string option \<Rightarrow> string option \<Rightarrow> string option \<times> string option" where
  "pass_attributes [] username url = (username, url)"
| "pass_attributes (line # rest_lines) username url =
     (case split_once line '':'' of
        None \<Rightarrow> pass_attributes rest_lines username url
      | Some (raw_key, raw_value) \<Rightarrow>
          let key = to_ascii_lowercase (trim raw_key); value = trim raw_value in
          if value = [] then pass_attributes rest_lines username url
          else if key \<in> {''user'', ''username'', ''login''} \<and> username = None then
            pass_attributes rest_lines (Some value) url
          else if key \<in> {''url'', ''website''} \<and> url = None then
            pass_attributes rest_lines username (Some value)
          else pass_attributes rest_lines username url)"

definition pass_payload :: "string \<Rightarrow> string \<Rightarrow> string \<Rightarrow> string \<Rightarrow> json res" where
  "pass_payload out entry host raw_url =
     (case lines (from_utf8_lossy out) of
        [] \<Rightarrow> Inl (mk_err ProtoInvalidResponse (''pass entry '' @ entry @ '' returned no password.''))
      | first # others \<Rightarrow>
          let password = trim first in
          if password = [] then
            Inl (mk_err ProtoInvalidResponse
              (''pass entry '' @ entry @ '' returned an empty password line.''))
          else
            let (username, url) = pass_attributes others None None;
                leaf_user = trim_end_of [''-''] (trim_end_of [host] (pass_leaf_name entry))
            in Inr (external_cli_payload Pass host (unwrap_or raw_url url)
                 (unwrap_or leaf_user username) password))"

definition load_pass_credential ::
    "ext \<Rightarrow> string \<Rightarrow> apw_config_v1 \<Rightarrow> string \<Rightarrow> string \<Rightarrow> json io" where
  "load_pass_credential X path config host raw_url =
     bind_io (run_external_provider_command X Pass path config [''find'', host])
       (\<lambda>find_output.
         if \<not> pr_success find_output then fail (no_credential ''pass'' host (pr_stderr find_output))
         else
           (case pass_pick_entry (from_utf8_lossy (pr_stdout find_output)) host of
              None \<Rightarrow> fail (mk_err NoResults (''pass CLI returned no entry for '' @ host @ ''.''))
            | Some entry \<Rightarrow>
                bind_io (run_external_provider_command X Pass path config [''show'', entry])
                  (\<lambda>show_output.
                    if \<not> pr_success show_output then
                      fail (no_credential ''pass'' entry (pr_stderr show_output))
                    else lift_res (pass_payload (pr_stdout show_output) entry host raw_url))))"

section \<open>The login\<close>

definition invalid_fallback_url :: apw_error where
  "invalid_fallback_url = mk_err InvalidParam ''Invalid URL for external fallback.''"

definition load_credential ::
    "ext \<Rightarrow> provider \<Rightarrow> string \<Rightarrow> apw_config_v1 \<Rightarrow> string \<Rightarrow> string \<Rightarrow> json io" where
  "load_credential X provider path config host url =
     (case provider of
        OnePassword \<Rightarrow> load_1password_credential X path config host url
      | Bitwarden \<Rightarrow> load_bitwarden_credential X path config host url
      | KeePassXC \<Rightarrow> load_keepassxc_credential X path config host url
      | Pass \<Rightarrow> load_pass_credential X path config host url)"

definition external_provider_login :: "ext \<Rightarrow> string \<Rightarrow> json option io" where
  "external_provider_login X url w =
     (case read_config_file X w of
        (Inl e, w1) \<Rightarrow>
          if prefix ''No config file at '' (err_message e) then (Inr None, w1) else (Inl e, w1)
      | (Inr config, w1) \<Rightarrow>
          (case cfg_fallback_provider config of
             None \<Rightarrow> (Inr None, w1)
           | Some provider \<Rightarrow>
               (case cfg_fallback_provider_path config of
                  None \<Rightarrow> (Inl (mk_err InvalidConfig
                    (''Fallback provider `'' @ provider_str provider
                     @ ''` requires an absolute `fallbackProviderPath`.'')), w1)
                | Some provider_path \<Rightarrow>
                    bind_io (check_io (\<lambda>w. validate_external_provider_path X w provider provider_path))
                      (\<lambda>path. bind_io
                        (lift_res (ok_or invalid_fallback_url (Option.bind (x_url_parse X url) url_host)))
                        (\<lambda>host. bind_io (load_credential X provider path config host url)
                          (\<lambda>payload. ret (Some payload)))) w1)))"

end
