(* ===== verification/Fallback_Laws.thy ===== *)
theory Fallback_Laws
  imports Fallback Config_Laws
begin

text \<open>
  What the external providers share, as a locale: a credential is reported as the reduced
  external transport of that provider for that host, and the only program a lookup starts is
  the one at the given path, at most twice, without the master password in its environment.
  The four providers interpret it; the login is proved from the contract alone. Then the limit
  on invocations.
\<close>

section \<open>Which programs an operation starts\<close>

definition provider_spawn :: "string \<Rightarrow> invocation \<Rightarrow> bool" where
  "provider_spawn path i \<longleftrightarrow> inv_program i = path \<and> inv_env_removed i = [KEEPASSXC_PASSWORD_ENV]"

definition spawns_only :: "string \<Rightarrow> nat \<Rightarrow> 'a io \<Rightarrow> bool" where
  "spawns_only path n m \<longleftrightarrow>
     (\<forall>w. \<exists>started. w_spawned (snd (m w)) = w_spawned w @ started
        \<and> length started \<le> n \<and> list_all (provider_spawn path) started)"

named_theorems spawn_rules \<open>which programs an operation starts, composed along bind_io\<close>

lemma spawns_onlyD:
  "spawns_only path n m \<Longrightarrow> m w = (r, w') \<Longrightarrow>
     \<exists>started. w_spawned w' = w_spawned w @ started \<and> length started \<le> n
       \<and> list_all (provider_spawn path) started"
  unfolding spawns_only_def by (metis snd_conv)

lemma spawns_frame: "frame w_spawned m \<Longrightarrow> spawns_only path n m"
  by (auto simp: spawns_only_def frame_def intro: exI [of _ "[]"])

lemma spawns_pure [spawn_rules]:
  "spawns_only path n (ret x)" "spawns_only path n (fail e)" "spawns_only path n (lift_res r)"
  by (auto intro!: spawns_frame frame_rules)

lemma spawns_bind:
  assumes "spawns_only path n m" "\<And>x. spawns_only path k (f x)" "n + k \<le> t"
  shows "spawns_only path t (bind_io m f)"
  unfolding spawns_only_def
proof
  fix w
  obtain r w1 where m: "m w = (r, w1)" by fastforce
  from spawns_onlyD [OF assms(1) m] obtain s1
    where s1: "w_spawned w1 = w_spawned w @ s1" "length s1 \<le> n" "list_all (provider_spawn path) s1"
    by blast
  show "\<exists>started. w_spawned (snd (bind_io m f w)) = w_spawned w @ started
      \<and> length started \<le> t \<and> list_all (provider_spawn path) started"
  proof (cases r)
    case (Inl e)
    then show ?thesis using s1 m assms(3) by (intro exI [of _ s1]) (simp add: bind_io_def)
  next
    case (Inr x)
    obtain q w2 where f: "f x w1 = (q, w2)" by fastforce
    from spawns_onlyD [OF assms(2) f] obtain s2
      where "w_spawned w2 = w_spawned w1 @ s2" "length s2 \<le> k" "list_all (provider_spawn path) s2"
      by blast
    then show ?thesis using s1 m f Inr assms(3) by (intro exI [of _ "s1 @ s2"]) (simp add: bind_io_def)
  qed
qed

lemma spawns_bind0 [spawn_rules]:
  "spawns_only path 0 m \<Longrightarrow> (\<And>x. spawns_only path n (f x)) \<Longrightarrow> spawns_only path n (bind_io m f)"
  by (rule spawns_bind) auto

lemma spawns_cases [spawn_rules]:
  "spawns_only path n m \<Longrightarrow> spawns_only path n k \<Longrightarrow> spawns_only path n (if b then m else k)"
  "spawns_only path n m \<Longrightarrow> (\<And>y. spawns_only path n (f y)) \<Longrightarrow>
    spawns_only path n (case x of None \<Rightarrow> m | Some y \<Rightarrow> f y)"
  "(\<And>e. spawns_only path n (g e)) \<Longrightarrow> (\<And>y. spawns_only path n (h y)) \<Longrightarrow>
    spawns_only path n (case z of Inl e \<Rightarrow> g e | Inr y \<Rightarrow> h y)"
  "spawns_only path n m \<Longrightarrow> (\<And>y ys. spawns_only path n (l y ys)) \<Longrightarrow>
    spawns_only path n (case zs of [] \<Rightarrow> m | y # ys \<Rightarrow> l y ys)"
  by (auto split: option.split sum.split list.split)

lemma rest_frame_spawned: "frame rest m \<Longrightarrow> frame w_spawned m"
  by (simp add: frame_def rest_def)

lemma ensure_runtime_dir_rest: "frame rest (ensure_runtime_dir X)"
proof -
  have "frame rest (\<lambda>w. bind_io
      (map_err f (fs_create_dir_all X d)) (\<lambda>_. set_permissions_strict X d m) w)" for f d m
    unfolding set_permissions_strict_def by (intro frame_rules)
  then show ?thesis by (simp add: frame_def ensure_runtime_dir_def)
qed

lemma reserve_rest: "frame rest (reserve_external_provider_invocation X provider limits)"
  unfolding reserve_external_provider_invocation_def set_permissions_strict_def Let_def
  by (intro frame_rules ensure_runtime_dir_rest)

lemma run_provider_spawns [spawn_rules]:
  "spawns_only path (Suc 0) (run_external_provider_command_with_stdin X provider path config as input)"
  unfolding run_external_provider_command_with_stdin_def Let_def
proof (rule spawns_bind0)
  show "spawns_only path 0 (reserve_external_provider_invocation X provider
      (external_provider_limits config))"
    by (intro spawns_frame rest_frame_spawned reserve_rest)
  fix u :: unit
  have spawn: "spawns_only path (Suc 0)
      (map_err f (spawn_child X (provider_invocation path as input)))" for f
    unfolding spawns_only_def
    by (auto simp: map_err_def spawn_child_def provider_invocation_def provider_spawn_def
        KEEPASSXC_PASSWORD_ENV_def split: sum.split intro!: exI [of _ "[provider_invocation path as input]"])
  show "spawns_only path (Suc 0) (bind_io
      (map_err (\<lambda>e. mk_err ProcessNotRunning (''Failed to execute '' @ provider_str provider @ '' CLI at '' @ path @ '': '' @ e))
        (spawn_child X (provider_invocation path as input)))
      (\<lambda>c. lift_res (provider_result provider path (external_provider_limits config) (input \<noteq> None) c)))"
    by (rule spawns_bind [OF spawn spawns_pure(3), where k = 0]) simp
qed

lemma run_provider_spawns' [spawn_rules]:
  "spawns_only path (Suc 0) (run_external_provider_command X provider path config as)"
  unfolding run_external_provider_command_def by (rule run_provider_spawns)

lemma spawns_run_then [spawn_rules]:
  "(\<And>x. spawns_only path 1 (f x)) \<Longrightarrow>
    spawns_only path 2 (bind_io (run_external_provider_command X provider path config as) f)"
  "(\<And>x. spawns_only path 1 (f x)) \<Longrightarrow>
    spawns_only path 2 (bind_io (run_external_provider_command_with_stdin X provider path config as i) f)"
  "(\<And>x. spawns_only path 0 (g x)) \<Longrightarrow>
    spawns_only path 1 (bind_io (run_external_provider_command X provider path config as) g)"
  "(\<And>x. spawns_only path 0 (g x)) \<Longrightarrow>
    spawns_only path 1 (bind_io (run_external_provider_command_with_stdin X provider path config as i) g)"
  by (rule spawns_bind [OF run_provider_spawns', where k = 1] spawns_bind [OF run_provider_spawns, where k = 1]
      spawns_bind [OF run_provider_spawns', where k = 0] spawns_bind [OF run_provider_spawns, where k = 0];
      simp)+

section \<open>The contract of a provider\<close>

locale credential_provider =
  fixes prov :: provider
    and load :: "string \<Rightarrow> apw_config_v1 \<Rightarrow> string \<Rightarrow> string \<Rightarrow> json io"
  assumes payload: "load path config host url w = (Inr v, w') \<Longrightarrow>
      \<exists>u user password. v = external_cli_payload prov host u user password"
    and spawned: "spawns_only path 2 (load path config host url)"
begin

lemma approved:
  assumes "load path config host url w = (Inr v, w')"
  shows "get_str ''status'' v = Some ''approved''" "get_str ''domain'' v = Some host"
    "get_str ''source'' v = Some (provider_str prov)"
    "get_str ''securityMode'' v = Some ''reduced_external_cli''"
    "\<exists>user. get_str ''username'' v = Some user" "\<exists>password. get_str ''password'' v = Some password"
  using payload [OF assms] by (auto simp: external_cli_payload_def get_str_def)

end

text \<open>Each provider meets the contract.\<close>

lemmas run_then_rules = spawns_run_then spawns_cases spawns_bind0 spawns_pure

lemma spawns_one_command:
  "spawns_only path 0 m \<Longrightarrow> spawns_only path 1 m" "spawns_only path 0 m \<Longrightarrow> spawns_only path 2 m"
  "spawns_only path 1 m \<Longrightarrow> spawns_only path 2 m"
  by (fastforce simp: spawns_only_def)+

lemma one_password_payload_shape:
  "one_password_payload item host url = Inr v \<Longrightarrow>
     \<exists>u user password. v = external_cli_payload OnePassword host u user password"
  by (auto simp: one_password_payload_def bind_res_Inr Let_def split: option.splits)

lemma bitwarden_payload_shape:
  "bitwarden_payload item host url = Inr v \<Longrightarrow>
     \<exists>u user password. v = external_cli_payload Bitwarden host u user password"
  by (auto simp: bitwarden_payload_def bind_res_Inr Let_def split: option.splits)

lemma keepassxc_payload_shape:
  "keepassxc_payload out host url = Inr v \<Longrightarrow>
     \<exists>u user password. v = external_cli_payload KeePassXC host u user password"
  by (auto simp: keepassxc_payload_def split: list.splits)

lemma pass_payload_shape:
  "pass_payload out entry host url = Inr v \<Longrightarrow>
     \<exists>u user password. v = external_cli_payload Pass host u user password"
  by (auto simp: pass_payload_def Let_def split: list.splits prod.splits if_splits)

interpretation one_password: credential_provider OnePassword "load_1password_credential X" for X
proof
  fix path config host url w v w'
  show "spawns_only path 2 (load_1password_credential X path config host url)"
    unfolding load_1password_credential_def by (intro run_then_rules)
  show "load_1password_credential X path config host url w = (Inr v, w') \<Longrightarrow>
      \<exists>u user password. v = external_cli_payload OnePassword host u user password"
    unfolding load_1password_credential_def
    by (auto simp: bind_io_Inr one_password_payload_shape split: if_splits)
qed

interpretation bitwarden: credential_provider Bitwarden "load_bitwarden_credential X" for X
proof
  fix path config host url w v w'
  show "spawns_only path 2 (load_bitwarden_credential X path config host url)"
    unfolding load_bitwarden_credential_def
    by (rule spawns_one_command(3)) (intro run_then_rules)
  show "load_bitwarden_credential X path config host url w = (Inr v, w') \<Longrightarrow>
      \<exists>u user password. v = external_cli_payload Bitwarden host u user password"
    unfolding load_bitwarden_credential_def
    by (auto simp: bind_io_Inr bitwarden_payload_shape split: if_splits)
qed

lemma take_master_password_spawns: "spawns_only path 0 take_master_password"
  by (intro spawns_frame) (simp add: frame_def take_master_password_def env_remove_def split: option.split)

interpretation keepassxc: credential_provider KeePassXC "load_keepassxc_credential X" for X
proof
  fix path config host url w v w'
  show "spawns_only path 2 (load_keepassxc_credential X path config host url)"
    unfolding load_keepassxc_credential_def Let_def
    by (intro run_then_rules take_master_password_spawns)
  show "load_keepassxc_credential X path config host url w = (Inr v, w') \<Longrightarrow>
      \<exists>u user password. v = external_cli_payload KeePassXC host u user password"
    unfolding load_keepassxc_credential_def Let_def
    by (auto simp: bind_io_Inr keepassxc_payload_shape split: if_splits list.splits)
qed

interpretation pass: credential_provider Pass "load_pass_credential X" for X
proof
  fix path config host url w v w'
  show "spawns_only path 2 (load_pass_credential X path config host url)"
    unfolding load_pass_credential_def by (intro run_then_rules)
  show "load_pass_credential X path config host url w = (Inr v, w') \<Longrightarrow>
      \<exists>u user password. v = external_cli_payload Pass host u user password"
    unfolding load_pass_credential_def
    by (auto simp: bind_io_Inr pass_payload_shape split: if_splits option.splits)
qed

text \<open>So the provider a configuration names meets it too.\<close>

interpretation any_provider: credential_provider p "load_credential X p" for p X
proof
  fix path config host url w v w'
  show "spawns_only path 2 (load_credential X p path config host url)"
    unfolding load_credential_def
    using one_password.spawned bitwarden.spawned keepassxc.spawned pass.spawned
    by (cases p) simp_all
  show "load_credential X p path config host url w = (Inr v, w') \<Longrightarrow>
      \<exists>u user password. v = external_cli_payload p host u user password"
    unfolding load_credential_def
    using one_password.payload bitwarden.payload keepassxc.payload pass.payload
    by (cases p) simp_all
qed


end
