(* ===== verification/Fallback_Limit.thy ===== *)
theory Fallback_Limit
  imports Fallback_Laws
begin

text \<open>
  The limit on the invocations of an external provider: reserving one is counted in a file of
  the runtime directory, and a session never gets more reservations than the configured
  maximum, whatever the file held before.
\<close>

text \<open>The runtime directory and the counter file are reached without symbolic links.\<close>

definition plain_runtime :: "ext \<Rightarrow> world \<Rightarrow> bool" where
  "plain_runtime X w \<longleftrightarrow>
     plain_path X (native_app_runtime_dir w) \<and> plain_path X (native_app_fallback_provider_state_path w)
     \<and> (\<forall>i. w_fs w (native_app_runtime_dir w) = Some i \<longrightarrow> i_kind i \<noteq> KSymlink)
     \<and> (\<forall>i. w_fs w (native_app_fallback_provider_state_path w) = Some i \<longrightarrow> i_kind i \<noteq> KSymlink)"

text \<open>The counter file holds the text of a state with count \<open>n\<close>.\<close>

definition records :: "ext \<Rightarrow> provider \<Rightarrow> provider_limits \<Rightarrow> world \<Rightarrow> u64 \<Rightarrow> bool" where
  "records X provider limits w n \<longleftrightarrow>
     (\<exists>i. w_fs w (native_app_fallback_provider_state_path w) = Some i \<and> i_kind i = KFile
        \<and> x_json_pretty X (invocation_state provider limits n) = Inr (i_data i))"

text \<open>What the model asks of the JSON crate here: the text of a state reads back.\<close>

definition state_reads_back :: "ext \<Rightarrow> provider \<Rightarrow> provider_limits \<Rightarrow> bool" where
  "state_reads_back X provider limits \<longleftrightarrow>
     (\<forall>n body. x_json_pretty X (invocation_state provider limits n) = Inr body \<longrightarrow>
        utf8_valid body \<and> x_json_parse X body = Inr (invocation_state provider limits n))"

lemma to_value_state: "to_value (invocation_state provider limits n) = invocation_state provider limits n"
  unfolding invocation_state_def by (rule to_value_obj) (auto simp: enc_u64_def)

lemma records_count:
  assumes "records X provider limits w n" "state_reads_back X provider limits" "plain_runtime X w"
    and "\<And>v. x_fault X v (OpRead (native_app_fallback_provider_state_path w)) = None"
  shows "current_count X w (native_app_fallback_provider_state_path w) (pl_session_id limits) = n"
proof -
  let ?p = "native_app_fallback_provider_state_path w"
  obtain i where i: "w_fs w ?p = Some i" "i_kind i = KFile"
    "x_json_pretty X (invocation_state provider limits n) = Inr (i_data i)"
    using assms(1) by (auto simp: records_def)
  have "x_resolve X w ?p = Inr ?p"
    using assms(3) i by (intro plain_path_resolve) (auto simp: plain_runtime_def)
  then have "read_to_string X w ?p = Inr (i_data i)"
    using i assms(2,4) by (auto simp: read_to_string_def read_bytes_def stat_def state_reads_back_def)
  moreover have "x_json_parse X (i_data i) = Inr (invocation_state provider limits n)"
    using i(3) assms(2) by (auto simp: state_reads_back_def)
  ultimately have "current_count X w ?p (pl_session_id limits) =
      unwrap_or 0 (Option.bind
        (filter_opt (\<lambda>value. get_str ''sessionId'' value = Some (pl_session_id limits))
          (Some (invocation_state provider limits n)))
        (\<lambda>value. Option.bind (get ''invocations'' value) as_u64))"
    by (simp add: current_count_def to_value_state)
  also have "\<dots> = n"
    by (simp add: invocation_state_def get_str_def enc_u64_def)
  finally show ?thesis .
qed

lemma runtime_paths_distinct:
  "native_app_fallback_provider_state_path w \<noteq> native_app_runtime_dir w"
  by (simp add: native_app_fallback_provider_state_path_def path_join_def is_absolute_def)

lemma strict_chmod:
  assumes "plain_path X p" "\<And>i. w_fs w p = Some i \<Longrightarrow> i_kind i \<noteq> KSymlink"
    and "set_permissions_strict X p mode w = (r, w')"
  shows "w' = w \<or> (\<exists>i. w_fs w p = Some i \<and> w' = put_inode p (Some (i\<lparr>i_mode := mode\<rparr>)) w)"
  using plain_path_resolve [OF assms(1), of w] assms(2,3)
  by (auto simp: set_permissions_strict_def map_err_def fs_set_permissions_def faulty_def
      split: option.splits)

text \<open>One path has been given a new inode that is no symbolic link.\<close>

definition wrote :: "string \<Rightarrow> world \<Rightarrow> world \<Rightarrow> bool" where
  "wrote p w w' \<longleftrightarrow>
     (\<exists>j. i_kind j \<noteq> KSymlink \<and> w_fs w' = (w_fs w)(p := Some j)) \<and> rest w' = rest w"

lemma wrote_put: "i_kind j \<noteq> KSymlink \<Longrightarrow> wrote p w (put_inode p (Some j) w)"
  by (auto simp: wrote_def)

lemma wrote_trans: "wrote p w v \<Longrightarrow> wrote p v u \<Longrightarrow> wrote p w u"
  by (auto simp: wrote_def)

lemma ensure_runtime_dir_fs:
  assumes plain: "plain_runtime X w" and run: "ensure_runtime_dir X w = (r, w')"
  shows "w_fs w' (native_app_fallback_provider_state_path w)
      = w_fs w (native_app_fallback_provider_state_path w)" "rest w' = rest w"
    "plain_runtime X w'"
proof -
  let ?d = "native_app_runtime_dir w"
  obtain s w1 where mk: "fs_create_dir_all X ?d w = (s, w1)" by fastforce
  have "w1 = w \<or> w1 = put_inode ?d (Some (new_inode KDir 0x1ED w [])) w"
    using mk by (auto simp: fs_create_dir_all_def faulty_def split: option.splits if_splits)
  then have w1: "w1 = w \<or> wrote ?d w w1" by (auto simp: new_inode_def intro: wrote_put)
  then have nosym: "\<And>i. w_fs w1 ?d = Some i \<Longrightarrow> i_kind i \<noteq> KSymlink"
    using plain by (auto simp: plain_runtime_def wrote_def)
  have "w' = w1 \<or> wrote ?d w1 w'"
  proof (cases s)
    case (Inl e)
    then show ?thesis using run mk by (simp add: ensure_runtime_dir_def bind_io_def map_err_def)
  next
    case (Inr u)
    then have "set_permissions_strict X ?d NATIVE_APP_RUNTIME_DIR_MODE w1 = (r, w')"
      using run mk by (simp add: ensure_runtime_dir_def bind_io_def map_err_def)
    from strict_chmod [OF _ nosym this] plain nosym show ?thesis
      by (auto simp: plain_runtime_def intro: wrote_put)
  qed
  then have "w' = w \<or> wrote ?d w w'" using w1 wrote_trans by blast
  then have cases: "w' = w \<or> (\<exists>j. i_kind j \<noteq> KSymlink \<and> w_fs w' = (w_fs w)(?d := Some j) \<and> rest w' = rest w)"
    by (auto simp: wrote_def)
  then show "w_fs w' (native_app_fallback_provider_state_path w)
      = w_fs w (native_app_fallback_provider_state_path w)"
    using runtime_paths_distinct [of w] by auto
  show rest: "rest w' = rest w" using cases by auto
  have "native_app_runtime_dir w' = ?d"
    "native_app_fallback_provider_state_path w' = native_app_fallback_provider_state_path w"
    using rest_fields(4) [OF rest]
    by (simp_all add: native_app_runtime_dir_def native_app_fallback_provider_state_path_def)
  then show "plain_runtime X w'"
    using cases plain runtime_paths_distinct [of w] by (auto simp: plain_runtime_def)
qed

lemma write_plain_file:
  assumes "plain_path X p" "\<And>i. w_fs w p = Some i \<Longrightarrow> i_kind i \<noteq> KSymlink"
    and run: "fs_write X p d w = (Inr (), w')"
  shows "\<exists>i. i_kind i = KFile \<and> i_data i = d \<and> w_fs w' = (w_fs w)(p := Some i)" "rest w' = rest w"
proof -
  show "rest w' = rest w" using frameD [OF fs_write_rest run] .
  obtain r w1 where op: "fs_open_truncate X p w = (r, w1)" by fastforce
  with run have r: "r = Inr ()" "fs_write_all X p d w1 = (Inr (), w')"
    by (auto simp: fs_write_def split: sum.splits)
  have res: "x_resolve X w p = Inr p" using assms(1,2) by (rule plain_path_resolve)
  then have "(w_fs w p = None \<and> w1 = put_inode p (Some (new_inode KFile 0x1A4 w [])) w)
      \<or> (\<exists>j. i_kind j = KFile \<and> w1 = put_inode p (Some (j\<lparr>i_data := []\<rparr>)) w)"
    using op r(1) by (auto simp: fs_open_truncate_def faulty_def split: option.splits if_splits)
  moreover have "i_kind (new_inode KFile 0x1A4 w []) = KFile" "i_data (new_inode KFile 0x1A4 w []) = []"
    by (simp_all add: new_inode_def)
  moreover have "i_kind (j\<lparr>i_data := []\<rparr>) = i_kind j" "i_data (j\<lparr>i_data := []\<rparr>) = []" for j :: inode
    by simp_all
  ultimately obtain i where i: "i_kind i = KFile" "i_data i = []" "w1 = put_inode p (Some i) w"
    by metis
  then have "x_resolve X w1 p = Inr p" using assms(1) by (intro plain_path_resolve) auto
  then have "w' = put_inode p (Some (i\<lparr>i_data := d\<rparr>)) w1"
    using r(2) i by (auto simp: fs_write_all_def faulty_def split: option.splits)
  then show "\<exists>i. i_kind i = KFile \<and> i_data i = d \<and> w_fs w' = (w_fs w)(p := Some i)"
    using i by (intro exI [of _ "i\<lparr>i_data := d\<rparr>"]) simp
qed

lemma reserve_step:
  assumes plain: "plain_runtime X w"
    and run: "reserve_external_provider_invocation X provider limits w = (Inr (), w')"
  shows "\<exists>w1. (w_fs w1 (native_app_fallback_provider_state_path w)
        = w_fs w (native_app_fallback_provider_state_path w)) \<and> plain_runtime X w1 \<and> rest w1 = rest w
    \<and> (let n = current_count X w1 (native_app_fallback_provider_state_path w) (pl_session_id limits)
       in n < ucast (pl_max_invocations limits) \<and> records X provider limits w' (n + 1))
    \<and> plain_runtime X w' \<and> rest w' = rest w"
proof -
  obtain s w1 where dir: "ensure_runtime_dir X w = (s, w1)" by fastforce
  note d = ensure_runtime_dir_fs [OF plain dir]
  have s: "s = Inr ()" using run dir
    by (cases s) (auto simp: reserve_external_provider_invocation_def bind_io_def)
  let ?p = "native_app_fallback_provider_state_path w"
  have p1: "native_app_fallback_provider_state_path w1 = ?p" "native_app_runtime_dir w1 = native_app_runtime_dir w"
    using rest_fields(4) [OF d(2)]
    by (simp_all add: native_app_runtime_dir_def native_app_fallback_provider_state_path_def)
  let ?n = "current_count X w1 ?p (pl_session_id limits)"
  have less: "?n < ucast (pl_max_invocations limits)"
    using run dir s p1 by (auto simp: reserve_external_provider_invocation_def bind_io_def Let_def
        not_le split: if_splits)
  obtain body where body: "x_json_pretty X (invocation_state provider limits (?n + 1)) = Inr body"
    using run dir s p1 by (auto simp: reserve_external_provider_invocation_def bind_io_def Let_def
        split: if_splits sum.splits)
  obtain w2 where w2: "fs_write X ?p body w1 = (Inr (), w2)"
      "set_permissions_strict X ?p NATIVE_APP_FILE_MODE w2 = (Inr (), w')"
    using run dir s p1 body less
    by (auto simp: reserve_external_provider_invocation_def bind_io_def Let_def not_le map_err_def
        split: if_splits prod.splits sum.splits)
  have plain1: "plain_path X ?p" "\<And>i. w_fs w1 ?p = Some i \<Longrightarrow> i_kind i \<noteq> KSymlink"
    using d(3) p1 by (simp_all add: plain_runtime_def)
  from write_plain_file [OF plain1 w2(1)] obtain i
    where i: "i_kind i = KFile" "i_data i = body" "w_fs w2 = (w_fs w1)(?p := Some i)" and r2: "rest w2 = rest w1"
    by blast
  have "\<And>j. w_fs w2 ?p = Some j \<Longrightarrow> i_kind j \<noteq> KSymlink" using i by simp
  from strict_chmod [OF plain1(1) this w2(2)]
  have "w' = w2 \<or> w' = put_inode ?p (Some (i\<lparr>i_mode := NATIVE_APP_FILE_MODE\<rparr>)) w2"
    using i(3) by auto
  then have "\<exists>j. i_kind j = KFile \<and> i_data j = body \<and> w_fs w' = (w_fs w1)(?p := Some j) \<and> rest w' = rest w2"
  proof
    assume "w' = put_inode ?p (Some (i\<lparr>i_mode := NATIVE_APP_FILE_MODE\<rparr>)) w2"
    then show ?thesis using i by (intro exI [of _ "i\<lparr>i_mode := NATIVE_APP_FILE_MODE\<rparr>"]) simp
  qed (use i in blast)
  then obtain j
    where j: "i_kind j = KFile" "i_data j = body" "w_fs w' = (w_fs w1)(?p := Some j)" and r3: "rest w' = rest w2"
    by blast
  have p': "native_app_fallback_provider_state_path w' = ?p" "native_app_runtime_dir w' = native_app_runtime_dir w"
    using rest_fields(4) [of w' w] d(2) r2 r3
    by (simp_all add: native_app_runtime_dir_def native_app_fallback_provider_state_path_def)
  have "records X provider limits w' (?n + 1)"
    using j body p' by (simp add: records_def)
  moreover have "plain_runtime X w'"
    using d(3) p1 p' j runtime_paths_distinct [of w] by (auto simp: plain_runtime_def)
  ultimately show ?thesis
    using d less r2 r3 by (intro exI [of _ w1]) (simp add: Let_def)
qed

text \<open>\<open>n\<close> reservations in a row, all granted.\<close>

fun reserve_times :: "ext \<Rightarrow> provider \<Rightarrow> provider_limits \<Rightarrow> nat \<Rightarrow> unit io" where
  "reserve_times X provider limits 0 = ret ()"
| "reserve_times X provider limits (Suc n) =
     bind_io (reserve_external_provider_invocation X provider limits)
       (\<lambda>_. reserve_times X provider limits n)"

lemma reserve_times_from:
  assumes "reserve_times X provider limits k w = (Inr (), w')"
    and "records X provider limits w n" "plain_runtime X w"
    and "state_reads_back X provider limits"
    and "\<And>v p. x_fault X v (OpRead p) = None"
    and "unat n \<le> unat (pl_max_invocations limits)"
  shows "unat n + k \<le> unat (pl_max_invocations limits)"
  using assms
proof (induction k arbitrary: w n)
  case 0
  then show ?case by simp
next
  case (Suc k)
  obtain w1 where step: "reserve_external_provider_invocation X provider limits w = (Inr (), w1)"
    and more: "reserve_times X provider limits k w1 = (Inr (), w')"
    using Suc.prems(1) by (auto simp: bind_io_Inr)
  let ?p = "native_app_fallback_provider_state_path w"
  from reserve_step [OF Suc.prems(3) step] obtain v
    where v: "w_fs v ?p = w_fs w ?p" "plain_runtime X v" "rest v = rest w"
      "let m = current_count X v ?p (pl_session_id limits)
       in m < ucast (pl_max_invocations limits) \<and> records X provider limits w1 (m + 1)"
      "plain_runtime X w1" by blast
  have vp: "native_app_fallback_provider_state_path v = ?p"
    using rest_fields(4) [OF v(3)]
    by (simp add: native_app_runtime_dir_def native_app_fallback_provider_state_path_def)
  have "records X provider limits v n"
    using Suc.prems(2) v(1) vp by (simp add: records_def)
  from records_count [OF this Suc.prems(4) v(2)] Suc.prems(5) vp
  have "current_count X v ?p (pl_session_id limits) = n" by simp
  with v(4) have n: "n < ucast (pl_max_invocations limits)" "records X provider limits w1 (n + 1)"
    by (simp_all add: Let_def)
  have lt: "unat n < unat (pl_max_invocations limits)"
    using n(1) by (simp add: word_less_nat_alt)
  then have "unat n < 2 ^ 32" using unsigned_less [where 'a = nat, of "pl_max_invocations limits"] by simp
  then have "unat (n + 1) = unat n + 1" by (simp add: unat_word_ariths)
  with Suc.IH [OF more n(2) v(5) Suc.prems(4,5)] lt show ?case by simp
qed


text \<open>A granted reservation on the sample machine.\<close>

definition sample_limits :: provider_limits where
  "sample_limits = \<lparr>pl_session_id = ''s'', pl_timeout_ms = 5000, pl_max_invocations = 1\<rparr>"

definition limit_docs :: "(string \<times> json) list" where
  "limit_docs = [(''one'', invocation_state Pass sample_limits 1)]"

lemma sample_runtime_paths:
  "native_app_runtime_dir (sample_world []) = ''/h/.apw/native-app''"
  "native_app_fallback_provider_state_path (sample_world []) = ''/h/.apw/native-app/fallback-provider-session.json''"
  by (simp_all add: native_app_runtime_dir_def native_app_fallback_provider_state_path_def
      path_join_def is_absolute_def)

lemma sample_reserve:
  "\<exists>w'. reserve_times (sample_ext limit_docs) Pass sample_limits 1 (sample_world []) = (Inr (), w')"
proof -
  let ?X = "sample_ext limit_docs" and ?w = "sample_world []"
  obtain s w1 where dir: "ensure_runtime_dir ?X ?w = (s, w1)" by fastforce
  have plain: "plain_runtime ?X ?w" by (simp add: plain_runtime_def)
  note d = ensure_runtime_dir_fs [OF plain dir]
  have s: "s = Inr ()"
    using dir by (auto simp: ensure_runtime_dir_def bind_io_def map_err_def fs_create_dir_all_def
        faulty_def is_dir_def stat_def set_permissions_strict_def fs_set_permissions_def
        split: option.splits)
  let ?p = "''/h/.apw/native-app/fallback-provider-session.json''"
  have p1: "native_app_fallback_provider_state_path w1 = ?p"
    using rest_fields(4) [OF d(2)] sample_runtime_paths
    by (simp add: native_app_runtime_dir_def native_app_fallback_provider_state_path_def)
  have none: "w_fs w1 ?p = None"
    using d(1) sample_runtime_paths by simp
  then have count: "current_count ?X w1 ?p (pl_session_id sample_limits) = 0"
    by (simp add: current_count_def read_to_string_def read_bytes_def stat_def)
  have json: "x_json_pretty ?X (invocation_state Pass sample_limits 1) = Inr ''one''"
    by (simp add: limit_docs_def)
  have wr: "\<exists>w2. fs_write ?X ?p ''one'' w1 = (Inr (), w2) \<and> w_fs w2 ?p \<noteq> None"
    using none by (simp add: fs_write_def fs_open_truncate_def fs_write_all_def faulty_def new_inode_def)
  then obtain w2 where w2: "fs_write ?X ?p ''one'' w1 = (Inr (), w2)" "w_fs w2 ?p \<noteq> None" by blast
  have "\<exists>w'. set_permissions_strict ?X ?p NATIVE_APP_FILE_MODE w2 = (Inr (), w')"
    using w2(2) by (auto simp: set_permissions_strict_def map_err_def fs_set_permissions_def faulty_def)
  moreover have "ucast (pl_max_invocations sample_limits) \<noteq> (0 :: u64)" by (simp add: sample_limits_def)
  ultimately show ?thesis
    using dir s p1 count json w2(1)
    by (auto simp: reserve_external_provider_invocation_def bind_io_def Let_def map_err_def
        simp del: sample_ext_simps)
qed

lemma sample_reads_back: "state_reads_back (sample_ext limit_docs) Pass sample_limits"
  by (auto simp: state_reads_back_def limit_docs_def utf8_valid_ascii code_def split: if_splits)


end
