(* ===== verification/Fallback_Text.thy ===== *)
theory Fallback_Text
  imports Fallback
begin

text \<open>
  The text the providers print. For \<open>pass\<close>: a listing drawn from a tree is read back as the
  paths of that tree, and the entry chosen from them is the best match there is. For KeePassXC:
  well-formed output yields its columns; output with an empty column does not.
\<close>

section \<open>Choosing an entry\<close>

lemma split_piece_infix: "x \<in> set (split_by P s) \<Longrightarrow> \<exists>p q. s = p @ x @ q"
proof (induction s arbitrary: x)
  case Nil
  then show ?case by simp
next
  case (Cons c s)
  show ?case
  proof (cases "P c")
    case True
    then have "x = [] \<or> x \<in> set (split_by P s)" using Cons.prems by auto
    then show ?thesis
    proof
      assume "x \<in> set (split_by P s)"
      then obtain p q where "s = p @ x @ q" using Cons.IH by blast
      then have "c # s = (c # p) @ x @ q" by simp
      then show ?thesis by blast
    qed (auto intro: exI [of _ "[]"])
  next
    case False
    obtain y ys where ys: "split_by P s = y # ys" by (cases "split_by P s") auto
    then have "x = c # y \<or> x \<in> set ys" using Cons.prems False by auto
    moreover obtain r where "s = y @ r"
    proof -
      have "\<exists>r. s = y @ r" using ys
      proof (induction s arbitrary: y ys)
        case (Cons d s)
        then show ?case by (cases "split_by P s") (auto split: if_splits)
      qed simp
      then show ?thesis using that by blast
    qed
    ultimately show ?thesis
    proof (elim disjE)
      assume "x = c # y"
      then have "c # s = [] @ x @ r" using \<open>s = y @ r\<close> by simp
      then show ?thesis by blast
    next
      assume "x \<in> set ys"
      then obtain p q where "s = p @ x @ q" using Cons.IH ys by (metis list.set_intros(2))
      then have "c # s = (c # p) @ x @ q" by simp
      then show ?thesis by blast
    qed
  qed
qed

lemma segment_contained: "host \<in> set (split_on CHR ''/'' c) \<Longrightarrow> contains c host"
  using split_piece_infix contains_infix by metis

lemma leaf_is_segment: "pass_leaf_name c = host \<Longrightarrow> host \<in> set (split_on CHR ''/'' c)"
  unfolding pass_leaf_name_def using split_by_ne last_in_set by metis

text \<open>C36: from the listed entries the choice is one that contains the host, and the best kind
  there is: one whose last component is the host, else one with a component that is, else any
  that contains it; nothing is chosen only when no entry contains the host.\<close>

theorem pass_choose_best:
  "(case pass_choose candidates host of
      None \<Rightarrow> \<not> (\<exists>c \<in> set candidates. contains c host)
    | Some c \<Rightarrow> c \<in> set candidates \<and> contains c host
        \<and> (pass_leaf_name c = host \<or> \<not> (\<exists>d \<in> set candidates. pass_leaf_name d = host))
        \<and> (host \<in> set (split_on CHR ''/'' c)
            \<or> \<not> (\<exists>d \<in> set candidates. host \<in> set (split_on CHR ''/'' d))))"
proof -
  have some: "find P xs = Some x \<Longrightarrow> x \<in> set xs \<and> P x" for P and xs :: "string list" and x
    by (auto simp: find_Some_iff)
  have none: "find P xs = None \<longleftrightarrow> \<not> (\<exists>x \<in> set xs. P x)" for P and xs :: "string list"
    by (auto simp: find_None_iff)
  let ?leaf = "find (\<lambda>c. pass_leaf_name c = host) candidates"
  let ?seg = "find (\<lambda>c. host \<in> set (split_on CHR ''/'' c)) candidates"
  let ?any = "find (\<lambda>c. contains c host) candidates"
  show ?thesis
  proof (cases ?leaf)
    case (Some c)
    then show ?thesis
      using some [OF Some] segment_contained leaf_is_segment by (auto simp: pass_choose_def)
  next
    case leaf: None
    then have l: "\<not> (\<exists>d \<in> set candidates. pass_leaf_name d = host)" unfolding none .
    show ?thesis
    proof (cases ?seg)
      case (Some c)
      then show ?thesis
        using some [OF Some] segment_contained l by (auto simp: pass_choose_def leaf)
    next
      case seg: None
      then have "\<not> (\<exists>d \<in> set candidates. host \<in> set (split_on CHR ''/'' d))" unfolding none .
      note nseg = this
      show ?thesis
      proof (cases ?any)
        case None
        then have "\<not> (\<exists>c \<in> set candidates. contains c host)" unfolding none .
        then show ?thesis by (simp add: pass_choose_def leaf seg None)
      next
        case (Some c)
        then show ?thesis using some [OF Some] l nseg by (simp add: pass_choose_def leaf seg)
      qed
    qed
  qed
qed

theorem pass_choose_best_witness:
  "pass_choose [''x/notexample.com'', ''example.com/bob''] ''example.com'' = Some ''example.com/bob''
   \<and> contains ''example.com/bob'' ''example.com''"
  using pass_choose_best [of "[''x/notexample.com'', ''example.com/bob'']" "''example.com''"]
  by (simp add: pass_choose_def pass_leaf_name_def contains_code)

text \<open>An entry of another site is chosen when its name merely contains the host.\<close>

lemma pass_choose_substring: "pass_choose [''notexample.com/alice''] ''example.com'' = Some ''notexample.com/alice''"
  by (simp add: pass_choose_def pass_leaf_name_def contains_code)

section \<open>The tree\<close>

datatype pass_tree = Node string "pass_tree list"

text \<open>\<open>render indent ts\<close> draws the trees below an indentation, one row per node.\<close>

definition tree_bar :: string where
  "tree_bar = [CHR 0xE2, CHR 0x94, CHR 0x82]"

definition tree_dash :: string where
  "tree_dash = [CHR 0xE2, CHR 0x94, CHR 0x80]"

fun render_node :: "string list \<Rightarrow> bool \<Rightarrow> pass_tree \<Rightarrow> string list"
  and render_list :: "string list \<Rightarrow> pass_tree list \<Rightarrow> string list"
where
  "render_node indent is_last (Node name children) =
     concat (indent @ [if is_last then tree_corner else tree_branch, tree_dash, tree_dash, '' '', name])
     # render_list (indent @ [if is_last then '' '' else tree_bar, '' '', '' '', '' '']) children"
| "render_list indent [] = []"
| "render_list indent (t # ts) = render_node indent (ts = []) t @ render_list indent ts"

text \<open>The rows of a tree: depth and path of every node, parents first.\<close>

fun rows_node :: "string list \<Rightarrow> pass_tree \<Rightarrow> (nat \<times> string) list"
  and rows_list :: "string list \<Rightarrow> pass_tree list \<Rightarrow> (nat \<times> string) list"
where
  "rows_node ups (Node name children) =
     (length ups, join_slash (ups @ [name])) # rows_list (ups @ [name]) children"
| "rows_list ups [] = []"
| "rows_list ups (t # ts) = rows_node ups t @ rows_list ups ts"

text \<open>A name \<open>pass\<close> can draw: printable ASCII, not beginning or ending with a blank.\<close>

definition drawable :: "string \<Rightarrow> bool" where
  "drawable name \<longleftrightarrow> name \<noteq> [] \<and> list_all (\<lambda>c. 32 \<le> code c \<and> code c < 127) name
     \<and> hd name \<noteq> CHR '' '' \<and> last name \<noteq> CHR '' ''"

fun drawable_node :: "pass_tree \<Rightarrow> bool" and drawable_list :: "pass_tree list \<Rightarrow> bool" where
  "drawable_node (Node name children) \<longleftrightarrow> drawable name \<and> drawable_list children"
| "drawable_list [] \<longleftrightarrow> True"
| "drawable_list (t # ts) \<longleftrightarrow> drawable_node t \<and> drawable_list ts"

text \<open>The leaves, in the order of the listing.\<close>

fun leaves_node :: "string list \<Rightarrow> pass_tree \<Rightarrow> string list"
  and leaves_list :: "string list \<Rightarrow> pass_tree list \<Rightarrow> string list"
where
  "leaves_node ups (Node name children) =
     (if children = [] then [join_slash (ups @ [name])] else leaves_list (ups @ [name]) children)"
| "leaves_list ups [] = []"
| "leaves_list ups (t # ts) = leaves_node ups t @ leaves_list ups ts"

lemma tree_char_chars: "c \<in> set tree_chars \<Longrightarrow> chars (c @ s) = c # chars s"
  by (auto simp: tree_chars_def tree_corner_def tree_branch_def chars_def utf8_next.simps
      utf8_width_def second_ok_def cont_def Let_def code_def)

lemma tree_char_strip: "c \<in> set tree_chars \<Longrightarrow> strip_one tree_chars (c @ s) = Some s"
  by (auto simp: tree_chars_def tree_corner_def tree_branch_def)

lemma chars_segments: "set segs \<subseteq> set tree_chars \<Longrightarrow> chars (concat segs @ s) = segs @ chars s"
  by (induction segs) (auto simp: tree_char_chars)

lemma strip_segments:
  "set segs \<subseteq> set tree_chars \<Longrightarrow> trim_start_of tree_chars (concat segs @ s) = trim_start_of tree_chars s"
proof (induction segs)
  case (Cons c segs)
  then show ?case by (subst trim_start_of.simps) (simp add: tree_char_strip)
qed simp

lemma drawable_bytes: "drawable n \<Longrightarrow> c \<in> set n \<Longrightarrow> 32 \<le> code c \<and> code c < 127"
  by (auto simp: drawable_def list_all_iff)

lemma drawable_head: "drawable n \<Longrightarrow> \<exists>c r. n = c # r \<and> 32 < code c \<and> code c < 127"
proof -
  assume n: "drawable n"
  then obtain c r where cr: "n = c # r" by (cases n) (auto simp: drawable_def)
  then have "32 \<le> code c" "code c < 127" "c \<noteq> CHR '' ''" using n by (auto simp: drawable_def)
  moreover have "code c = 32 \<Longrightarrow> c = CHR '' ''" using code_eq [of c "CHR '' ''"] by (simp add: code_def)
  ultimately show ?thesis using cr by (metis le_neq_implies_less)
qed

lemma drawable_last: "drawable n \<Longrightarrow> 32 < code (last n) \<and> code (last n) < 128"
proof -
  assume n: "drawable n"
  then have "n \<noteq> []" "last n \<noteq> CHR '' ''" by (auto simp: drawable_def)
  moreover from this have "32 \<le> code (last n)" "code (last n) < 127" using n drawable_bytes by auto
  moreover have "code (last n) = 32 \<Longrightarrow> last n = CHR '' ''"
    using code_eq [of "last n" "CHR '' ''"] by (simp add: code_def)
  ultimately show ?thesis by force
qed

lemma chars_ascii: "\<forall>c \<in> set s. code c < 128 \<Longrightarrow> chars s = map (\<lambda>c. [c]) s"
  by (simp add: chars_def utf8_chunks_ascii)

lemma printable_not_tree: "32 < code c \<Longrightarrow> code c < 127 \<Longrightarrow> [c] \<notin> set tree_chars"
  by (auto simp: tree_chars_def tree_corner_def tree_branch_def code_def)

lemma tree_char_head: "a \<in> set tree_chars \<Longrightarrow> code (hd a) \<le> 32 \<or> 128 \<le> code (hd a)"
  by (auto simp: tree_chars_def tree_corner_def tree_branch_def code_def)

lemma printable_no_strip:
  assumes "32 < code c" "code c < 127"
  shows "strip_one tree_chars (c # r) = None"
proof (rule ccontr)
  assume "strip_one tree_chars (c # r) \<noteq> None"
  then obtain t where "strip_one tree_chars (c # r) = Some t" by auto
  from strip_one_suffix [OF this] obtain a where a: "a \<in> set tree_chars" "a \<noteq> []" "c # r = a @ t"
    by auto
  from a(2,3) have "hd a = c" by (metis hd_append2 list.sel(1))
  with tree_char_head [OF a(1)] assms show False by auto
qed

lemma trim_end_id:
  assumes "s \<noteq> []" "32 < code (last s)" "code (last s) < 128"
  shows "trim_end s = s"
proof -
  have "strip_one (map rev ws_chars) (rev s) = None"
  proof (rule ccontr)
    assume "strip_one (map rev ws_chars) (rev s) \<noteq> None"
    then obtain t where "strip_one (map rev ws_chars) (rev s) = Some t" by auto
    from strip_one_suffix [OF this] obtain a where a: "a \<in> set ws_chars" "rev a \<noteq> []" "rev s = rev a @ t"
      by auto
    then have "hd (rev s) = hd (rev a)" by simp
    moreover have "hd (rev a) \<in> set (rev a)" using a(2) by (rule hd_in_set)
    ultimately have "hd (rev s) \<in> set a" by simp
    then have "last s \<in> set a" using assms(1) by (simp add: hd_rev)
    with ws_chars_bytes [OF a(1)] assms show False by fastforce
  qed
  then show ?thesis by (simp add: trim_end_def trim_end_of_def trim_start_of_stops)
qed

text \<open>One row is read back.\<close>

lemma row_read:
  assumes segs: "set segs \<subseteq> set tree_chars" "length segs = 4 * d + 4"
    and mark: "tree_corner \<in> set segs \<or> tree_branch \<in> set segs" and name: "drawable name"
  defines "line \<equiv> concat segs @ name"
  shows "trim_end line = line" "line \<noteq> []" "pass_line_is_tree_entry line" "pass_line_depth line = d"
    "pass_strip_tree_prefix line = name"
proof -
  obtain c r where cr: "name = c # r" "32 < code c" "code c < 127" using drawable_head [OF name] by blast
  have ascii: "\<forall>c \<in> set name. code c < 128" using drawable_bytes [OF name] by fastforce
  have cs: "chars line = segs @ map (\<lambda>c. [c]) name"
    using chars_ascii [OF ascii] by (simp add: line_def chars_segments [OF segs(1)])
  show "line \<noteq> []" using cr by (simp add: line_def)
  show "trim_end line = line"
    using drawable_last [OF name] cr by (intro trim_end_id) (simp_all add: line_def)
  show "pass_line_is_tree_entry line"
    using mark by (auto simp: pass_line_is_tree_entry_def cs list_ex_iff)
  have "takeWhile (\<lambda>c. c \<in> set tree_chars) (chars line) = segs"
    using segs(1) cr printable_not_tree by (subst cs) (auto simp: takeWhile_append)
  then show "pass_line_depth line = d" using segs(2) by (simp add: pass_line_depth_def)
  show "pass_strip_tree_prefix line = name"
    using cr printable_no_strip
    by (simp add: pass_strip_tree_prefix_def line_def strip_segments [OF segs(1)] trim_start_of_stops)
qed

definition indent_ok :: "string list \<Rightarrow> nat \<Rightarrow> bool" where
  "indent_ok indent d \<longleftrightarrow> set indent \<subseteq> set tree_chars \<and> length indent = 4 * d"

lemma tree_marks: "tree_corner \<in> set tree_chars" "tree_branch \<in> set tree_chars"
  "tree_bar \<in> set tree_chars" "tree_dash \<in> set tree_chars" "'' '' \<in> set tree_chars"
  by (simp_all add: tree_chars_def tree_bar_def tree_dash_def)

lemma rows_read:
  "indent_ok indent (length ups) \<Longrightarrow> take (length ups) stack = ups \<Longrightarrow> drawable_node t \<Longrightarrow>
     \<exists>stack'. pass_rows (render_node indent is_last t @ others) stack = rows_node ups t @ pass_rows others stack'
       \<and> take (length ups) stack' = ups"
  "indent_ok indent (length ups) \<Longrightarrow> take (length ups) stack = ups \<Longrightarrow> drawable_list ts \<Longrightarrow>
     \<exists>stack'. pass_rows (render_list indent ts @ others) stack = rows_list ups ts @ pass_rows others stack'
       \<and> take (length ups) stack' = ups"
proof (induction indent is_last t and indent ts arbitrary: ups stack others and ups stack others
    rule: render_node_render_list.induct)
  case (1 indent is_last name children)
  let ?segs = "indent @ [if is_last then tree_corner else tree_branch, tree_dash, tree_dash, '' '']"
  let ?in = "indent @ [if is_last then '' '' else tree_bar, '' '', '' '', '' '']"
  have segs: "set ?segs \<subseteq> set tree_chars" "length ?segs = 4 * length ups + 4"
    using "1.prems"(1) tree_marks by (auto simp: indent_ok_def)
  have "indent_ok ?in (length (ups @ [name]))"
    using "1.prems"(1) tree_marks by (auto simp: indent_ok_def)
  moreover have "take (length (ups @ [name])) (ups @ [name]) = ups @ [name]" by simp
  moreover have "drawable_list children" using "1.prems"(3) by simp
  ultimately obtain stack' where st:
    "pass_rows (render_list ?in children @ others) (ups @ [name])
        = rows_list (ups @ [name]) children @ pass_rows others stack'"
    "take (length (ups @ [name])) stack' = ups @ [name]"
    using "1.IH" [of "ups @ [name]" "ups @ [name]" others] by blast
  have up: "take (length ups) stack' = ups"
    using arg_cong [OF st(2), of "take (length ups)"] by simp
  have name: "drawable name" using "1.prems"(3) by simp
  have mark: "tree_corner \<in> set ?segs \<or> tree_branch \<in> set ?segs" by simp
  note row = row_read [OF segs mark name]
  have ne: "name \<noteq> []" using name by (simp add: drawable_def)
  have "render_node indent is_last (Node name children) @ others
      = (concat ?segs @ name) # (render_list ?in children @ others)"
    by simp
  then have "pass_rows (render_node indent is_last (Node name children) @ others) stack
      = pass_rows ((concat ?segs @ name) # (render_list ?in children @ others)) stack" by (rule arg_cong)
  also have "\<dots> = (length ups, join_slash (ups @ [name]))
      # pass_rows (render_list ?in children @ others) (ups @ [name])"
    unfolding pass_rows.simps Let_def row using row(2,3) ne "1.prems"(2) by simp
  finally show ?case using st(1) up by (intro exI [of _ stack']) simp
next
  case (2 indent)
  then show ?case by auto
next
  case (3 indent t ts)
  then have d: "drawable_node t" "drawable_list ts" by simp_all
  from "3.IH"(1) [OF "3.prems"(1,2) d(1), of "render_list indent ts @ others"] obtain s1
    where s1: "pass_rows (render_node indent (ts = []) t @ render_list indent ts @ others) stack
        = rows_node ups t @ pass_rows (render_list indent ts @ others) s1"
      "take (length ups) s1 = ups" by blast
  from "3.IH"(2) [OF "3.prems"(1) s1(2) d(2), of others] s1(1) show ?case by auto
qed

lemma rows_list_ne: "ts \<noteq> [] \<Longrightarrow> \<exists>p r. rows_list ups ts = (length ups, p) # r"
  by (cases ts; cases "hd ts") auto

text \<open>Rows that follow a subtree are not deeper than its root.\<close>

definition shallow :: "nat \<Rightarrow> (nat \<times> string) list \<Rightarrow> bool" where
  "shallow d rows \<longleftrightarrow> (case rows of [] \<Rightarrow> True | (e, p) # r \<Rightarrow> e \<le> d)"

lemma leaves_read:
  "shallow (length ups) rows \<Longrightarrow> pass_leaves (rows_node ups t @ rows) = leaves_node ups t @ pass_leaves rows"
  "shallow (length ups) rows \<Longrightarrow> pass_leaves (rows_list ups ts @ rows) = leaves_list ups ts @ pass_leaves rows"
proof (induction ups t and ups ts arbitrary: rows and rows rule: leaves_node_leaves_list.induct)
  case (1 ups name children)
  show ?case
  proof (cases "children = []")
    case True
    with 1 show ?thesis by (cases rows) (auto simp: shallow_def)
  next
    case False
    have "shallow (length (ups @ [name])) rows"
      using "1.prems" by (auto simp: shallow_def split: list.splits)
    with "1.IH" [OF False] have IH: "pass_leaves (rows_list (ups @ [name]) children @ rows)
        = leaves_list (ups @ [name]) children @ pass_leaves rows" by blast
    obtain p r where "rows_list (ups @ [name]) children = (length (ups @ [name]), p) # r"
      using rows_list_ne [OF False] by blast
    then show ?thesis using IH False by simp
  qed
next
  case (3 ups t ts)
  have "shallow (length ups) (rows_list ups ts @ rows)"
  proof (cases "ts = []")
    case False
    then obtain p r where "rows_list ups ts = (length ups, p) # r" using rows_list_ne by blast
    then show ?thesis by (simp add: shallow_def)
  qed (use 3 in simp)
  with 3 show ?case by simp
qed simp

text \<open>Text from lines: each is ended by a line feed and holds none.\<close>

definition unlines :: "string list \<Rightarrow> string" where
  "unlines ls = concat (map (\<lambda>l. l @ [CHR 0x0A]) ls)"

definition plain_line :: "string \<Rightarrow> bool" where
  "plain_line l \<longleftrightarrow> CHR 0x0A \<notin> set l \<and> CHR 0x0D \<notin> set l"

lemma split_unlines:
  "list_all plain_line ls \<Longrightarrow> split_on (CHR 0x0A) (unlines ls) = ls @ [[]]"
proof (induction ls)
  case Nil
  show ?case by (simp add: unlines_def)
next
  case (Cons l ls)
  then have "split_on (CHR 0x0A) (l @ CHR 0x0A # unlines ls) = l # split_on (CHR 0x0A) (unlines ls)"
    by (intro split_by_sep) (auto simp: plain_line_def)
  with Cons show ?case by (simp add: unlines_def)
qed

lemma lines_unlines:
  assumes "list_all plain_line ls"
  shows "lines (unlines ls) = ls"
proof -
  have "strip_cr l = l" if "l \<in> set ls" for l
  proof -
    have "plain_line l" using assms that by (simp add: list_all_iff)
    then have "l \<noteq> [] \<Longrightarrow> last l \<noteq> CHR 0x0D" using last_in_set unfolding plain_line_def by metis
    then show ?thesis by (auto simp: strip_cr_def)
  qed
  then have "map strip_cr ls = ls" by (simp add: map_idI)
  then show ?thesis by (simp add: lines_def split_unlines [OF assms] Let_def)
qed

lemma tree_chars_plain: "c \<in> set tree_chars \<Longrightarrow> plain_line c"
  by (auto simp: tree_chars_def tree_corner_def tree_branch_def plain_line_def)

lemma drawable_plain: "drawable n \<Longrightarrow> plain_line n"
  using drawable_bytes [of n "CHR 0x0A"] drawable_bytes [of n "CHR 0x0D"]
  by (auto simp: plain_line_def code_def)

lemma render_plain:
  "set indent \<subseteq> set tree_chars \<Longrightarrow> drawable_node t \<Longrightarrow> list_all plain_line (render_node indent b t)"
  "set indent \<subseteq> set tree_chars \<Longrightarrow> drawable_list ts \<Longrightarrow> list_all plain_line (render_list indent ts)"
proof (induction indent b t and indent ts rule: render_node_render_list.induct)
  case (1 indent b name children)
  have "plain_line (concat indent)"
    using "1.prems"(1) tree_chars_plain by (fastforce simp: plain_line_def)
  moreover have "plain_line tree_corner" "plain_line tree_branch" "plain_line tree_dash"
    using tree_chars_plain tree_marks by blast+
  moreover have "plain_line name" using "1.prems"(2) drawable_plain by simp
  ultimately show ?case
    using 1 tree_marks by (auto simp: plain_line_def)
qed auto

text \<open>C38: the listing of \<open>pass find\<close> is read back: for every forest of drawable names, drawn
  under a header without tree characters, the candidates are exactly the paths of its leaves,
  in order.\<close>

theorem pass_listing_roundtrip:
  assumes "drawable_list ts" and "list_all plain_line header"
    and "list_all (\<lambda>l. \<not> pass_line_is_tree_entry (trim_end l)) header"
  shows "pass_leaves (pass_rows (lines (unlines (header @ render_list [] ts))) []) = leaves_list [] ts"
proof -
  have "lines (unlines (header @ render_list [] ts)) = header @ render_list [] ts"
    using assms(1,2) render_plain(2) [of "[]" ts] by (intro lines_unlines) simp
  moreover have "pass_rows (header @ ls) stack = pass_rows ls stack" for ls stack
    using assms(3) by (induction header) (auto simp: Let_def)
  moreover have "pass_rows (render_list [] ts) [] = rows_list [] ts"
    using rows_read(2) [of "[]" "[]" "[]" ts "[]"] assms(1) by (simp add: indent_ok_def)
  ultimately show ?thesis
    using leaves_read(2) [of "[]" "[]" ts] by (simp add: shallow_def)
qed

theorem pass_listing_roundtrip_witness:
  "pass_leaves (pass_rows (lines (unlines ([''Password Store'']
      @ render_list [] [Node ''web'' [Node ''example.com'' [Node ''alice'' []]], Node ''bank'' []]))) [])
    = [''web/example.com/alice'', ''bank'']"
proof -
  have "pass_leaves (pass_rows (lines (unlines ([''Password Store'']
      @ render_list [] [Node ''web'' [Node ''example.com'' [Node ''alice'' []]], Node ''bank'' []]))) [])
    = leaves_list [] [Node ''web'' [Node ''example.com'' [Node ''alice'' []]], Node ''bank'' []]"
    by (rule pass_listing_roundtrip)
      (simp_all add: drawable_def code_def plain_line_def trim_end_id pass_line_is_tree_entry_def
        chars_ascii tree_corner_def tree_branch_def)
  then show ?thesis by simp
qed

section \<open>KeePassXC's columns\<close>

text \<open>A value the program's output keeps: printable at both ends and no password prompt.\<close>

definition column :: "string \<Rightarrow> bool" where
  "column v \<longleftrightarrow> v \<noteq> [] \<and> plain_line v
     \<and> 32 < code (hd v) \<and> code (hd v) < 128 \<and> 32 < code (last v) \<and> code (last v) < 128
     \<and> \<not> prefix ''Insert password'' v \<and> \<not> prefix ''Enter password'' v"

text \<open>Output with a user name, a password and a URL, none of them blank, yields exactly
  these three.\<close>

theorem keepassxc_columns:
  assumes "column user" "column password" "column url"
    and "utf8_valid (unlines [user, password, url])"
  shows "keepassxc_payload (unlines [user, password, url]) host raw_url
    = Inr (external_cli_payload KeePassXC host url user password)"
proof -
  have "lines (from_utf8_lossy (unlines [user, password, url])) = [user, password, url]"
    using assms lines_unlines [of "[user, password, url]"]
    by (simp add: from_utf8_lossy_valid column_def)
  moreover have "trim v = v" if "column v" for v
    using that by (intro trim_id) (auto simp: column_def)
  ultimately have "keepassxc_lines (unlines [user, password, url]) = [user, password, url]"
    using assms by (simp add: keepassxc_lines_def column_def)
  then show ?thesis using assms by (simp add: keepassxc_payload_def column_def)
qed

theorem keepassxc_columns_witness:
  "keepassxc_payload (unlines [''alice'', ''pw1'', ''https://e.org'']) ''e.org'' ''https://e.org/x''
    = Inr (external_cli_payload KeePassXC ''e.org'' ''https://e.org'' ''alice'' ''pw1'')"
  by (rule keepassxc_columns)
    (simp_all add: column_def plain_line_def code_def utf8_valid_ascii unlines_def)

text \<open>An entry without a user name prints an empty first line, which the filter drops: the
  password is then reported as the user name and the URL as the password.\<close>

lemma keepassxc_shifted_columns:
  "keepassxc_payload (unlines [[], ''pw1'', ''https://e.org'']) ''e.org'' ''https://e.org/x''
    = Inr (external_cli_payload KeePassXC ''e.org'' ''https://e.org/x'' ''pw1'' ''https://e.org'')"
proof -
  have "from_utf8_lossy (unlines [[], ''pw1'', ''https://e.org'']) = unlines [[], ''pw1'', ''https://e.org'']"
    by (intro from_utf8_lossy_valid utf8_valid_ascii) (simp add: unlines_def code_def)
  moreover have "lines (unlines [[], ''pw1'', ''https://e.org'']) = [[], ''pw1'', ''https://e.org'']"
    by (intro lines_unlines) (simp add: plain_line_def)
  ultimately show ?thesis
    by (simp add: keepassxc_payload_def keepassxc_lines_def trim_id code_def)
qed

end
