(* ===== verification/Broker.thy ===== *)
theory Broker
  imports Fallback
begin

text \<open>
  The client of the app service (\<open>rust/src/native_app.rs\<close>): the files below the runtime
  directory, installing the app bundle, the checks of the socket before it is trusted, the
  request and its response envelope, the fall back to running the installed executable once,
  starting the service, and the login with its optional external provider.
\<close>

section \<open>Paths\<close>

definition MAX_BROKER_LOG_BYTES :: nat where
  "MAX_BROKER_LOG_BYTES = 10 * 1024 * 1024"

definition NATIVE_APP_SOCKET_TIMEOUT_MS :: u64 where
  "NATIVE_APP_SOCKET_TIMEOUT_MS = 3000"

definition NATIVE_APP_DIRECT_EXEC_TIMEOUT_MS :: nat where
  "NATIVE_APP_DIRECT_EXEC_TIMEOUT_MS = 5000"

definition CONNECT_RETRIES :: nat where
  "CONNECT_RETRIES = 10"

definition native_app_socket_path :: "world \<Rightarrow> string" where
  "native_app_socket_path w = path_join (native_app_runtime_dir w) ''broker.sock''"

definition native_app_status_path :: "world \<Rightarrow> string" where
  "native_app_status_path w = path_join (native_app_runtime_dir w) ''status.json''"

definition native_app_credentials_path :: "world \<Rightarrow> string" where
  "native_app_credentials_path w = path_join (native_app_runtime_dir w) ''credentials.json''"

definition native_app_broker_log_path :: "world \<Rightarrow> string" where
  "native_app_broker_log_path w = path_join (native_app_runtime_dir w) ''broker.log''"

definition native_app_install_dir :: "world \<Rightarrow> string" where
  "native_app_install_dir w = path_join (native_app_runtime_dir w) ''installed''"

definition native_app_bundle_install_path :: "world \<Rightarrow> string" where
  "native_app_bundle_install_path w = path_join (native_app_install_dir w) ''APW.app''"

definition native_app_executable_in_bundle :: "string \<Rightarrow> string" where
  "native_app_executable_in_bundle bundle_path =
     path_join (path_join (path_join bundle_path ''Contents'') ''MacOS'') ''APW''"

text \<open>The places where the packaged app may be, in the order they are tried.\<close>

definition bundle_candidates :: "ext \<Rightarrow> world \<Rightarrow> string list" where
  "bundle_candidates X w =
     (let cwd = unwrap_or ''.'' (x_cwd X);
          app = (\<lambda>dir. path_join dir ''APW.app'');
          settled = (\<lambda>p. case canonicalize X w p of Inl _ \<Rightarrow> p | Inr q \<Rightarrow> q)
      in [app cwd, app (path_join (path_join cwd ''native-app'') ''dist''),
          app (path_join (path_join cwd ''../native-app'') ''dist''),
          app (path_join (path_join cwd ''../../native-app'') ''dist'')]
         @ (case Option.bind (x_exe X) path_parent of
              None \<Rightarrow> []
            | Some parent \<Rightarrow>
                [app parent, settled (app (path_join parent ''../libexec'')),
                 settled (app (path_join parent ''../../native-app/dist''))]))"

definition resolve_packaged_native_app_bundle :: "ext \<Rightarrow> world \<Rightarrow> string res" where
  "resolve_packaged_native_app_bundle X w =
     ok_or
       (mk_err ProcessNotRunning
         ''Packaged APW app bundle not found. Build it with `./scripts/build-native-app.sh` first.'')
       (find (path_exists X w) (bundle_candidates X w))"

definition read_bundle_version :: "ext \<Rightarrow> world \<Rightarrow> string \<Rightarrow> string option" where
  "read_bundle_version X w bundle_path =
     (let info_plist = path_join (path_join bundle_path ''Contents'') ''Info.plist'';
          marker = ''<key>CFBundleShortVersionString</key>'' in
      Option.bind (res_ok (read_to_string X w info_plist)) (\<lambda>content.
      Option.bind (find_sub marker content) (\<lambda>start.
      let tail = drop (start + length marker) content in
      Option.bind (find_sub ''<string>'' tail) (\<lambda>string_start.
      let tail = drop (string_start + length ''<string>'') tail in
      Option.bind (find_sub ''</string>'' tail) (\<lambda>string_end.
      Some (trim (take string_end tail)))))))"

definition load_status_file :: "ext \<Rightarrow> world \<Rightarrow> json option" where
  "load_status_file X w =
     map_option to_value
       (Option.bind (res_ok (read_to_string X w (native_app_status_path w)))
         (\<lambda>c. res_ok (x_json_parse X c)))"

section \<open>Copying the bundle\<close>

text \<open>
  \<open>copy_dir_recursive\<close> descends a tree whose depth the code does not bound, so the model has
  fuel, one unit per level; \<open>None\<close> means it ran out. The entries of a directory are those it
  had when it was opened. A symbolic link is followed by \<open>fs::copy\<close>.
\<close>

type_synonym 'a io_option = "world \<Rightarrow> ('a res \<times> world) option"

definition bind_fuel :: "'a io_option \<Rightarrow> ('a \<Rightarrow> 'b io_option) \<Rightarrow> 'b io_option" where
  "bind_fuel m f w =
     (case m w of
        None \<Rightarrow> None
      | Some (Inl e, w') \<Rightarrow> Some (Inl e, w')
      | Some (Inr x, w') \<Rightarrow> f x w')"

definition bind_first :: "'a io \<Rightarrow> ('a \<Rightarrow> 'b io_option) \<Rightarrow> 'b io_option" where
  "bind_first m f w = (case m w of (Inl e, w') \<Rightarrow> Some (Inl e, w') | (Inr x, w') \<Rightarrow> f x w')"

lemma bind_first_Inr:
  "bind_first m f w = Some (Inr y, w') \<longleftrightarrow> (\<exists>x v. m w = (Inr x, v) \<and> f x v = Some (Inr y, w'))"
  by (auto simp: bind_first_def split: prod.splits sum.splits)

lemma bind_fuel_Inr:
  "bind_fuel m f w = Some (Inr y, w') \<longleftrightarrow> (\<exists>x v. m w = Some (Inr x, v) \<and> f x v = Some (Inr y, w'))"
  by (auto simp: bind_fuel_def split: option.splits prod.splits sum.splits)

fun for_entries :: "string \<Rightarrow> (string \<Rightarrow> unit io_option) \<Rightarrow> (string + string) list \<Rightarrow> unit io_option" where
  "for_entries source f [] w = Some (Inr (), w)"
| "for_entries source f (Inl e # entries) w =
     Some (Inl (mk_err ProcessNotRunning
       (''Failed to enumerate app bundle '' @ source @ '': '' @ e)), w)"
| "for_entries source f (Inr name # entries) w =
     bind_fuel (f name) (\<lambda>_. for_entries source f entries) w"

definition copy_entry ::
    "ext \<Rightarrow> (string \<Rightarrow> string \<Rightarrow> unit io_option) \<Rightarrow> string \<Rightarrow> string \<Rightarrow> unit io_option" where
  "copy_entry X recurse entry target w =
     (case lstat w entry of
        None \<Rightarrow> Some (Inl (mk_err ProcessNotRunning
          (''Failed to read app bundle entry type '' @ entry @ '': '' @ enoent)), w)
      | Some i \<Rightarrow>
          if i_kind i = KDir then recurse entry target w
          else Some (map_err (\<lambda>e. mk_err ProcessNotRunning
                 (''Failed to copy app bundle entry '' @ entry @ '': '' @ e))
               (fs_copy X entry target) w))"

definition list_bundle :: "ext \<Rightarrow> string \<Rightarrow> world \<Rightarrow> (string + string) list res" where
  "list_bundle X source w =
     (case x_read_dir X w source of
        Inl e \<Rightarrow> Inl (mk_err ProcessNotRunning
          (''Failed to read app bundle '' @ source @ '': '' @ e))
      | Inr entries \<Rightarrow> Inr entries)"

fun copy_dir_recursive :: "ext \<Rightarrow> nat \<Rightarrow> string \<Rightarrow> string \<Rightarrow> unit io_option" where
  "copy_dir_recursive X 0 source destination w = None"
| "copy_dir_recursive X (Suc fuel) source destination w =
     bind_first
       (map_err (\<lambda>e. mk_err ProcessNotRunning
           (''Failed to create destination directory '' @ destination @ '': '' @ e))
         (fs_create_dir_all X destination))
       (\<lambda>_. bind_first (check_io (list_bundle X source))
         (for_entries source (\<lambda>name.
            copy_entry X (copy_dir_recursive X fuel) (path_join source name)
              (path_join destination name)))) w"

section \<open>Files of the runtime directory\<close>

definition with_extension :: "string \<Rightarrow> string \<Rightarrow> string" where
  "with_extension path extension =
     (let name = rev (takeWhile (\<lambda>c. c \<noteq> CHR ''/'') (rev path));
          dir = take (length path - length name) path;
          stem = rev (drop 1 (dropWhile (\<lambda>c. c \<noteq> CHR ''.'') (rev name)))
      in dir @ (if stem = [] then name else stem) @ ''.'' @ extension)"

definition rotate_broker_log_if_needed :: "ext \<Rightarrow> string \<Rightarrow> unit io" where
  "rotate_broker_log_if_needed X path w =
     (case stat X w path of
        None \<Rightarrow> ret () w
      | Some metadata \<Rightarrow>
          if length (i_data metadata) < MAX_BROKER_LOG_BYTES then ret () w
          else
            let rotated = with_extension path ''log.1'' in
            bind_io
              (if path_exists X w rotated then
                 map_err (\<lambda>e. mk_err ProcessNotRunning
                     (''Failed to remove rotated broker log '' @ rotated @ '': '' @ e))
                   (fs_remove_file X rotated)
               else ret ())
              (\<lambda>_. map_err (\<lambda>e. mk_err ProcessNotRunning
                   (''Failed to rotate broker log '' @ path @ '': '' @ e))
                 (fs_rename X path rotated)) w)"

definition default_credentials_payload :: json where
  "default_credentials_payload =
     obj [(''demo'', JBool True),
          (''domains'', JArray [JString ''example.com'']),
          (''credentials'', JArray [obj
             [(''domain'', JString ''example.com''), (''url'', JString ''https://example.com''),
              (''username'', JString ''demo@example.com''),
              (''password'', JString ''apw-demo-password'')]])]"

definition ensure_default_credentials_file :: "ext \<Rightarrow> unit io" where
  "ensure_default_credentials_file X w =
     (let path = native_app_credentials_path w in
      if path_exists X w path then ret () w
      else if env_var ''APW_DEMO'' w \<noteq> Some ''1'' then ret () w
      else
        (case x_json_pretty X default_credentials_payload of
           Inl e \<Rightarrow> fail (mk_err InvalidConfig
             (''Failed to serialize default bootstrap credentials: '' @ e)) w
         | Inr content \<Rightarrow>
             bind_io
               (map_err (\<lambda>e. mk_err InvalidConfig
                   (''Failed to write default bootstrap credentials: '' @ e))
                 (fs_write X path content))
               (\<lambda>_. set_permissions_strict X path NATIVE_APP_FILE_MODE) w))"

section \<open>The socket\<close>

definition socket_metadata_safe_to_connect :: "inode \<Rightarrow> u32 \<Rightarrow> bool" where
  "socket_metadata_safe_to_connect metadata current_euid \<longleftrightarrow>
     i_kind metadata = KSocket \<and> i_uid metadata = current_euid
     \<and> i_mode metadata AND 0x1FF = NATIVE_APP_FILE_MODE"

definition socket_path_safe_to_connect :: "world \<Rightarrow> string \<Rightarrow> bool" where
  "socket_path_safe_to_connect w socket_path =
     (case lstat w socket_path of
        None \<Rightarrow> False
      | Some metadata \<Rightarrow> socket_metadata_safe_to_connect metadata (w_euid w))"

definition socket_running :: "ext \<Rightarrow> world \<Rightarrow> bool" where
  "socket_running X w =
     (let socket_path = native_app_socket_path w in
      if \<not> path_exists X w socket_path then False
      else if \<not> socket_path_safe_to_connect w socket_path then False
      else x_connect X w socket_path 0 \<noteq> None)"

section \<open>The response envelope\<close>

definition malformed_envelope :: apw_error where
  "malformed_envelope =
     mk_err ProtoInvalidResponse ''Native app returned a malformed response envelope.''"

definition parse_response :: "json \<Rightarrow> json res" where
  "parse_response v =
     (if as_object v = None then Inl malformed_envelope
      else
        (case Option.bind (get ''ok'' v) as_bool of
           None \<Rightarrow> Inl malformed_envelope
         | Some True \<Rightarrow>
             ok_or (mk_err ProtoInvalidResponse ''Native app response is missing its payload.'')
               (get ''payload'' v)
         | Some False \<Rightarrow>
             Inl (mk_err (unwrap_or GenericError (Option.bind (get ''code'' v) dec_status))
               (unwrap_or ''Native app request failed.'' (get_str ''error'' v)))))"

text \<open>Decoding of the bytes of a response; \<open>what\<close> begins the message of a parse error.\<close>

definition read_response :: "ext \<Rightarrow> string \<Rightarrow> string \<Rightarrow> json res" where
  "read_response X what bytes =
     (case x_json_parse X bytes of
        Inl e \<Rightarrow> Inl (mk_err ProtoInvalidResponse (what @ e))
      | Inr tree \<Rightarrow> parse_response (to_value tree))"

section \<open>Requests\<close>

definition direct_error :: "bounded_error \<Rightarrow> apw_error" where
  "direct_error error =
     (case error of
        SpawnFailed e \<Rightarrow> mk_err ProcessNotRunning (''Failed to execute the APW app directly: '' @ e)
      | IoFailed e \<Rightarrow> mk_err CommunicationTimeout
          (''Failed to read direct response from the APW app: '' @ e)
      | TimedOut elapsed_ms \<Rightarrow> mk_err CommunicationTimeout
          (''APW app direct execution did not respond within '' @ show_nat elapsed_ms
           @ ''ms and was terminated.'')
      | OutputTooLarge \<Rightarrow> mk_err ProtoInvalidResponse
          ''Native app direct response payload too large.'')"

definition send_request_via_executable :: "ext \<Rightarrow> string \<Rightarrow> json \<Rightarrow> json io" where
  "send_request_via_executable X command payload w =
     (let bundle_path = native_app_bundle_install_path w in
      if \<not> path_exists X w bundle_path then
        fail (mk_err ProcessNotRunning
          ''APW app service is not running. Run `apw app install` first.'') w
      else
        let executable = native_app_executable_in_bundle bundle_path in
        (case x_json_compact X payload of
           Inl e \<Rightarrow> fail (mk_err GenericError
             (''Failed to encode native app fallback request: '' @ e)) w
         | Inr payload_arg \<Rightarrow>
             (case run_bounded_command X (from_utf8_lossy executable)
                 [''request'', command, payload_arg] NATIVE_APP_DIRECT_EXEC_TIMEOUT_MS
                 MAX_BROKER_BYTES w of
                (Inl error, w1) \<Rightarrow> (Inl (direct_error error), w1)
              | (Inr output, w1) \<Rightarrow>
                  (read_response X ''Native app direct response is not valid JSON: ''
                     (bo_stdout output), w1))))"

text \<open>The first of the attempts to connect that succeeds; the pauses between them are not modelled.\<close>

definition connect_broker :: "ext \<Rightarrow> world \<Rightarrow> string \<Rightarrow> conn option" where
  "connect_broker X w socket_path =
     Option.bind (find (\<lambda>n. x_connect X w socket_path n \<noteq> None) [0..<CONNECT_RETRIES])
       (x_connect X w socket_path)"

definition request_envelope :: "ext \<Rightarrow> world \<Rightarrow> string \<Rightarrow> json \<Rightarrow> json" where
  "request_envelope X w command payload =
     obj [(''requestId'', JString (''req-'' @ x_random_hex X w 16)),
          (''command'', JString command), (''payload'', payload)]"

definition log_sent :: "string \<Rightarrow> string \<Rightarrow> world \<Rightarrow> world" where
  "log_sent path data w = w\<lparr>w_sent := w_sent w @ [(path, data)]\<rparr>"

text \<open>Writing the request and reading the response, at most one byte past the limit.\<close>

definition exchange :: "ext \<Rightarrow> string \<Rightarrow> conn \<Rightarrow> string \<Rightarrow> json io" where
  "exchange X socket_path stream data w =
     (let w1 = log_sent socket_path data w in
      case conn_write_error stream data of
        Some e \<Rightarrow> fail (mk_err CommunicationTimeout
          (''Failed to send request to the APW app service: '' @ e)) w1
      | None \<Rightarrow>
          (case read_capped MAX_BROKER_BYTES (conn_read stream data) of
             Inl e \<Rightarrow> fail (mk_err CommunicationTimeout
               (''Failed to read response from the APW app service: '' @ e)) w1
           | Inr response \<Rightarrow>
               if length response > MAX_BROKER_BYTES then
                 fail (mk_err ProtoInvalidResponse ''Native app response payload too large.'') w1
               else (read_response X ''Native app returned invalid JSON: '' response, w1)))"

definition send_request :: "ext \<Rightarrow> string \<Rightarrow> json \<Rightarrow> json io" where
  "send_request X command payload w =
     (let socket_path = native_app_socket_path w in
      if \<not> path_exists X w socket_path then send_request_via_executable X command payload w
      else if \<not> socket_path_safe_to_connect w socket_path then
        send_request_via_executable X command payload w
      else
        (case connect_broker X w socket_path of
           None \<Rightarrow> send_request_via_executable X command payload w
         | Some stream \<Rightarrow>
             (case x_json_compact X (request_envelope X w command payload) of
                Inl e \<Rightarrow> fail (mk_err GenericError (''Failed to encode native app request: '' @ e)) w
              | Inr data \<Rightarrow>
                  if length data > MAX_BROKER_BYTES then
                    fail (mk_err ProtoInvalidResponse ''Native app request payload too large.'') w
                  else exchange X socket_path stream data w)))"

definition native_app_request :: "ext \<Rightarrow> string \<Rightarrow> string \<Rightarrow> json io" where
  "native_app_request X intent url =
     send_request X intent (obj [(''url'', JString url), (''intent'', JString intent)])"

definition native_app_fill :: "ext \<Rightarrow> string \<Rightarrow> json io" where
  "native_app_fill X url = native_app_request X ''fill'' url"

definition native_app_login :: "ext \<Rightarrow> string \<Rightarrow> bool \<Rightarrow> json io" where
  "native_app_login X url allow_external_fallback w =
     (case native_app_request X ''login'' url w of
        (Inr payload, w1) \<Rightarrow> (Inr payload, w1)
      | (Inl error, w1) \<Rightarrow>
          if err_code error \<in> {NoResults, ProcessNotRunning} then
            if allow_external_fallback then
              (case external_provider_login X url w1 of
                 (Inl e, w2) \<Rightarrow> (Inl e, w2)
               | (Inr (Some payload), w2) \<Rightarrow> (Inr payload, w2)
               | (Inr None, w2) \<Rightarrow> (Inl error, w2))
            else (Inl error, w1)
          else (Inl error, w1))"

section \<open>Status and doctor\<close>

definition external_fallback_status :: "ext \<Rightarrow> world \<Rightarrow> json \<times> world" where
  "external_fallback_status X w =
     (case read_config_file_or_empty X w of
        (config, w1) \<Rightarrow>
          let provider_path = unwrap_or [] (cfg_fallback_provider_path config);
              database = unwrap_or [] (cfg_fallback_provider_database config)
          in (obj [(''configured'', JBool (cfg_fallback_provider config \<noteq> None)),
                   (''provider'', null_or (\<lambda>p. JString (provider_str p)) (cfg_fallback_provider config)),
                   (''providerPathConfigured'', JBool (provider_path \<noteq> [])),
                   (''providerPathAbsolute'', JBool (is_absolute provider_path)),
                   (''providerDatabaseConfigured'', JBool (database \<noteq> [])),
                   (''supportedProviders'',
                     JArray (map JString [''1password'', ''bitwarden'', ''keepassxc'', ''pass''])),
                   (''requiresExplicitLoginFlag'', JBool True),
                   (''loginFlag'', JString ''--external-fallback''),
                   (''securityMode'', JString ''reduced_external_cli'')], w1))"

definition native_app_status :: "ext \<Rightarrow> world \<Rightarrow> json \<times> world" where
  "native_app_status X w =
     (let install_path = native_app_bundle_install_path w;
          executable_path = native_app_executable_in_bundle install_path;
          status_file = load_status_file X w;
          (live, w1) = send_request X ''status'' (obj []) w;
          (fallback, w2) = external_fallback_status X w1
      in (obj [(''bundlePath'', JString install_path),
               (''installed'', JBool (path_exists X w1 install_path)),
               (''executablePath'', JString executable_path),
               (''executableExists'', JBool (path_exists X w1 executable_path)),
               (''bundleVersion'', null_or JString (read_bundle_version X w1 install_path)),
               (''socketPath'', JString (native_app_socket_path w)),
               (''credentialsPath'', JString (native_app_credentials_path w)),
               (''brokerLogPath'', JString (native_app_broker_log_path w)),
               (''externalFallback'', fallback),
               (''service'', obj
                  [(''running'', JBool (socket_running X w2)),
                   (''statusFile'', JString (native_app_status_path w)),
                   (''lastKnown'', null_or id status_file),
                   (''live'', null_or id (res_ok live)),
                   (''transport'', JString ''unix_socket''),
                   (''transportContract'', JString ''typed_json_envelope''),
                   (''requestTimeoutMs'', enc_u64 NATIVE_APP_SOCKET_TIMEOUT_MS)])], w2))"

definition VERSION :: string where
  "VERSION = ''2.0.0''"

definition native_app_doctor :: "ext \<Rightarrow> (child \<Rightarrow> string) \<Rightarrow> json io" where
  "native_app_doctor X status_text_of =
     bind_io (ensure_runtime_dir X) (\<lambda>_. bind_io (ensure_default_credentials_file X) (\<lambda>_. \<lambda>w.
       let (doctor, w1) = native_app_status X w;
           (checks, w2) = ci_diagnostic_checks X status_text_of w1
       in (Inr (fold (\<lambda>(key, value). insert_key key value)
            [(''frameworks'', obj
                [(''authenticationServicesLinked'', JBool True),
                 (''associatedDomainsConfigured'', JArray [JString ''example.com''])]),
             (''releaseLine'', obj
                [(''target'', JString ''v2.0.0''), (''version'', JString VERSION),
                 (''legacyRuntimeArchive'', JString ''legacy/'')]),
             (''guidance'', JArray (map JString
                [''Run `./scripts/build-native-app.sh` if the app bundle is missing.'',
                 ''Run `apw app install` to install the APW app bundle into the user runtime directory.'',
                 ''Run `apw app launch` to start the local broker service.'',
                 ''Run `apw login https://example.com` to exercise the bootstrap credential flow.'',
                 ''Inspect broker logs at '' @ native_app_broker_log_path w @ ''.''])),
             (''ciDiagnostics'', JArray checks)] doctor), w2)))"

section \<open>Installing and launching\<close>

definition native_app_install :: "ext \<Rightarrow> (child \<Rightarrow> string) \<Rightarrow> nat \<Rightarrow> json io_option" where
  "native_app_install X status_text_of fuel w0 =
     (let install_dir = native_app_install_dir w0;
          installed_bundle = native_app_bundle_install_path w0 in
      bind_first (ensure_runtime_dir X) (\<lambda>_.
      bind_first (ensure_default_credentials_file X) (\<lambda>_.
      bind_first (check_io (resolve_packaged_native_app_bundle X)) (\<lambda>source_bundle.
      bind_first (map_err (\<lambda>e. mk_err ProcessNotRunning
            (''Failed to create native app install directory: '' @ e))
          (fs_create_dir_all X install_dir)) (\<lambda>_.
      bind_first (set_permissions_strict X install_dir NATIVE_APP_RUNTIME_DIR_MODE) (\<lambda>_.
      bind_first
        (\<lambda>w. if path_exists X w installed_bundle then
                map_err (\<lambda>e. mk_err ProcessNotRunning
                    (''Failed to replace installed APW app bundle: '' @ e))
                  (fs_remove_dir_all X installed_bundle) w
              else ret () w) (\<lambda>_.
      bind_fuel (copy_dir_recursive X fuel source_bundle installed_bundle) (\<lambda>_.
      bind_first (set_permissions_strict X installed_bundle 0x1ED) (\<lambda>_.
      bind_first (ensure_default_credentials_file X) (\<lambda>_.
      bind_first get_world (\<lambda>w.
      bind_first (native_app_doctor X status_text_of) (\<lambda>doctor.
      (\<lambda>w'. Some (ret (obj
         [(''status'', JString ''installed''),
          (''bundlePath'', JString installed_bundle),
          (''version'', null_or JString (read_bundle_version X w installed_bundle)),
          (''doctor'', doctor)]) w'))))))))))))) w0)"

definition clone_handle :: "ext \<Rightarrow> string \<Rightarrow> unit sys" where
  "clone_handle X p = faulty X (OpClone p) (\<lambda>w. (Inr (), w))"

definition native_app_launch :: "ext \<Rightarrow> json io" where
  "native_app_launch X w0 =
     bind_io (ensure_runtime_dir X) (\<lambda>_ w.
       let bundle_path = native_app_bundle_install_path w;
           executable = native_app_executable_in_bundle bundle_path;
           socket = JString (native_app_socket_path w);
           broker_log = native_app_broker_log_path w
       in
       if \<not> path_exists X w bundle_path then
         fail (mk_err ProcessNotRunning
           ''APW app bundle is not installed. Run `apw app install` first.'') w
       else if \<not> path_exists X w executable then
         fail (mk_err ProcessNotRunning
           (''APW app executable is missing from the installed bundle: '' @ executable)) w
       else if socket_running X w then
         ret (obj [(''status'', JString ''running''), (''bundlePath'', JString bundle_path),
                   (''socketPath'', socket)]) w
       else
         bind_io (rotate_broker_log_if_needed X broker_log) (\<lambda>_.
         bind_io (map_err (\<lambda>e. mk_err ProcessNotRunning
               (''Failed to open native app broker log: '' @ e)) (fs_open_append X broker_log)) (\<lambda>_.
         bind_io (set_permissions_strict X broker_log NATIVE_APP_FILE_MODE) (\<lambda>_.
         bind_io (map_err (\<lambda>e. mk_err ProcessNotRunning
               (''Failed to clone native app broker log handle: '' @ e)) (clone_handle X broker_log)) (\<lambda>_.
         bind_io (map_err (\<lambda>e. mk_err ProcessNotRunning
               (''Failed to launch the APW app service: '' @ e))
             (spawn_child X (invoke executable [''serve'']))) (\<lambda>_ w'.
         ret (obj [(''status'', JString (if socket_running X w' then ''launched'' else ''starting'')),
                   (''bundlePath'', JString bundle_path), (''socketPath'', socket),
                   (''brokerLog'', JString broker_log)]) w'))))) w) w0"

end
