(* ===== verification/Broker_Copy.thy ===== *)
theory Broker_Copy
  imports Broker Samples
begin

text \<open>
  Installing copies the app bundle: for a finite tree of directories and files, enough fuel is
  its depth, every file arrives with its bytes and its mode, and nothing outside the
  destination changes.
\<close>

section \<open>Paths below a directory\<close>

definition dir_path :: "string \<Rightarrow> bool" where
  "dir_path p \<longleftrightarrow> p \<noteq> [] \<and> last p \<noteq> CHR ''/''"

definition plain_name :: "string \<Rightarrow> bool" where
  "plain_name n \<longleftrightarrow> n \<noteq> [] \<and> CHR ''/'' \<notin> set n"

lemma join_plain: "dir_path p \<Longrightarrow> plain_name n \<Longrightarrow> path_join p n = p @ ''/'' @ n"
  by (cases n) (auto simp: path_join_def dir_path_def plain_name_def is_absolute_def)

lemma dir_path_join: "dir_path p \<Longrightarrow> plain_name n \<Longrightarrow> dir_path (path_join p n)"
proof -
  assume "dir_path p" and n: "plain_name n"
  moreover have "last n \<noteq> CHR ''/''" using n last_in_set [of n] unfolding plain_name_def by metis
  ultimately show ?thesis by (simp add: join_plain) (simp add: dir_path_def plain_name_def)
qed

lemma below_refl [simp]: "below p p"
  by (simp add: below_def)

lemma below_child: "dir_path p \<Longrightarrow> plain_name n \<Longrightarrow> below (path_join p n) q \<Longrightarrow> below p q"
  by (auto simp: below_def join_plain prefix_def)

lemma child_not_self: "dir_path p \<Longrightarrow> plain_name n \<Longrightarrow> \<not> below (path_join p n) p"
  by (auto simp: below_def join_plain prefix_def)

lemma siblings_apart:
  assumes "dir_path p" "plain_name n" "plain_name m" "below (path_join p n) q" "below (path_join p m) q"
  shows "n = m"
proof -
  have head: "\<exists>r. q = p @ ''/'' @ k @ r \<and> (r = [] \<or> hd r = CHR ''/'')"
    if "plain_name k" "below (path_join p k) q" for k
    using that assms(1) by (auto simp: below_def join_plain prefix_def)
  obtain r where r: "q = p @ ''/'' @ n @ r" "r = [] \<or> hd r = CHR ''/''" using head assms by blast
  obtain s where s: "q = p @ ''/'' @ m @ s" "s = [] \<or> hd s = CHR ''/''" using head assms by blast
  have t: "takeWhile (\<lambda>c. c \<noteq> CHR ''/'') (k @ u) = k"
    if "plain_name k" "u = [] \<or> hd u = CHR ''/''" for k u
  proof -
    have "takeWhile (\<lambda>c. c \<noteq> CHR ''/'') u = []" using that(2) by (cases u) auto
    then show ?thesis using that(1) by (auto simp: plain_name_def takeWhile_append)
  qed
  have "n @ r = m @ s" using r(1) s(1) by simp
  then show ?thesis using t [OF assms(2) r(2)] t [OF assms(3) s(2)] by metis
qed

text \<open>Two trees of the file system without a common path.\<close>

definition apart :: "string \<Rightarrow> string \<Rightarrow> bool" where
  "apart p q \<longleftrightarrow> (\<forall>x. \<not> (below p x \<and> below q x))"

lemma apart_children:
  "apart p q \<Longrightarrow> dir_path p \<Longrightarrow> plain_name n \<Longrightarrow> dir_path q \<Longrightarrow> plain_name m \<Longrightarrow>
    apart (path_join p n) (path_join q m)"
  unfolding apart_def using below_child by blast

section \<open>Trees\<close>

datatype bundle_tree = Leaf inode | Branch "(string \<times> bundle_tree) list"

fun depth :: "bundle_tree \<Rightarrow> nat" and depth_kids :: "(string \<times> bundle_tree) list \<Rightarrow> nat" where
  "depth (Leaf i) = 0"
| "depth (Branch kids) = Suc (depth_kids kids)"
| "depth_kids [] = 0"
| "depth_kids ((n, t) # kids) = max (depth t) (depth_kids kids)"

fun holds :: "ext \<Rightarrow> world \<Rightarrow> string \<Rightarrow> bundle_tree \<Rightarrow> bool"
  and holds_kids :: "ext \<Rightarrow> world \<Rightarrow> string \<Rightarrow> (string \<times> bundle_tree) list \<Rightarrow> bool"
where
  "holds X w p (Leaf i) \<longleftrightarrow> w_fs w p = Some i \<and> i_kind i = KFile"
| "holds X w p (Branch kids) \<longleftrightarrow>
     map_option i_kind (w_fs w p) = Some KDir \<and> x_read_dir X w p = Inr (map (Inr \<circ> fst) kids)
     \<and> distinct (map fst kids) \<and> holds_kids X w p kids"
| "holds_kids X w p [] \<longleftrightarrow> True"
| "holds_kids X w p ((n, t) # kids) \<longleftrightarrow>
     plain_name n \<and> holds X w (path_join p n) t \<and> holds_kids X w p kids"

text \<open>What arrives: the bytes and the mode of every file; directories are created anew.\<close>

fun copied :: "world \<Rightarrow> string \<Rightarrow> bundle_tree \<Rightarrow> bool"
  and copied_kids :: "world \<Rightarrow> string \<Rightarrow> (string \<times> bundle_tree) list \<Rightarrow> bool"
where
  "copied w p (Leaf i) \<longleftrightarrow>
     (\<exists>j. w_fs w p = Some j \<and> i_kind j = KFile \<and> i_data j = i_data i \<and> i_mode j = i_mode i)"
| "copied w p (Branch kids) \<longleftrightarrow> map_option i_kind (w_fs w p) = Some KDir \<and> copied_kids w p kids"
| "copied_kids w p [] \<longleftrightarrow> True"
| "copied_kids w p ((n, t) # kids) \<longleftrightarrow> copied w (path_join p n) t \<and> copied_kids w p kids"

text \<open>What a directory lists depends on nothing but what is below it.\<close>

definition lists_below :: "ext \<Rightarrow> bool" where
  "lists_below X \<longleftrightarrow>
     (\<forall>w v p. (\<forall>q. below p q \<longrightarrow> w_fs w q = w_fs v q) \<longrightarrow> x_read_dir X w p = x_read_dir X v p)"

lemma holds_cong:
  shows "lists_below X \<Longrightarrow> dir_path p \<Longrightarrow> (\<And>q. below p q \<Longrightarrow> w_fs w q = w_fs v q) \<Longrightarrow>
      holds X w p t \<Longrightarrow> holds X v p t"
    and "lists_below X \<Longrightarrow> dir_path p \<Longrightarrow> (\<And>q. below p q \<Longrightarrow> w_fs w q = w_fs v q) \<Longrightarrow>
      holds_kids X w p kids \<Longrightarrow> holds_kids X v p kids"
proof (induction X w p t and X w p kids rule: holds_holds_kids.induct)
  case (1 X w p i)
  then show ?case using below_refl by (metis holds.simps(1))
next
  case (2 X w p kids)
  then have "x_read_dir X w p = x_read_dir X v p" unfolding lists_below_def by blast
  moreover have "w_fs w p = w_fs v p" using 2(4) by simp
  ultimately show ?case using 2 by auto
next
  case (3 X w p)
  show ?case by simp
next
  case (4 X w p n t kids)
  then have n: "plain_name n" and "holds X w (path_join p n) t" "holds_kids X w p kids" by auto
  moreover have "w_fs w q = w_fs v q" if "below (path_join p n) q" for q
    using 4(5) below_child [OF 4(4) n that] by blast
  ultimately show ?case using 4 dir_path_join [OF 4(4) n] by simp
qed

lemma holds_kids_names: "holds_kids X w p kids \<Longrightarrow> \<forall>n \<in> fst ` set kids. plain_name n"
  by (induction kids) force+

lemma copied_cong:
  shows "dir_path p \<Longrightarrow> (\<And>q. below p q \<Longrightarrow> w_fs w q = w_fs v q) \<Longrightarrow> holds X u s t \<Longrightarrow>
      copied w p t \<Longrightarrow> copied v p t"
    and "dir_path p \<Longrightarrow> (\<And>q n. n \<in> fst ` set kids \<Longrightarrow> below (path_join p n) q \<Longrightarrow> w_fs w q = w_fs v q) \<Longrightarrow>
      holds_kids X u s kids \<Longrightarrow> copied_kids w p kids \<Longrightarrow> copied_kids v p kids"
proof (induction X u s t and X u s kids arbitrary: p and p rule: holds_holds_kids.induct)
  case (1 X u s i)
  then show ?case using below_refl by (metis copied.simps(1))
next
  case (2 X u s kids)
  have names: "\<forall>n \<in> fst ` set kids. plain_name n"
    using 2(4) holds_kids_names [of X u s kids] by (simp only: holds.simps) blast
  have "w_fs w q = w_fs v q" if "n \<in> fst ` set kids" "below (path_join p n) q" for q n
    using 2(3) below_child [OF 2(2)] names that by blast
  moreover have "w_fs w p = w_fs v p" using 2(3) by simp
  ultimately show ?case using 2 by auto
next
  case (3 X u s)
  show ?case by simp
next
  case (4 X u s n t kids)
  then have n: "plain_name n" by simp
  have "w_fs w q = w_fs v q" if "below (path_join p n) q" for q
    using 4(4) [of n q] that by simp
  moreover have "w_fs w q = w_fs v q" if "m \<in> fst ` set kids" "below (path_join p m) q" for m q
    using 4(4) [of m q] that by simp
  ultimately show ?case using 4(1,2,3,5,6) dir_path_join [OF 4(3) n] by simp
qed

section \<open>Copying\<close>

text \<open>No symbolic links, and creating and copying do not fail.\<close>

definition copies_freely :: "ext \<Rightarrow> bool" where
  "copies_freely X \<longleftrightarrow>
     (\<forall>w p. x_resolve X w p = Inr p \<and> x_fault X w (OpCreateDir p) = None
        \<and> x_fault X w (OpCopy p) = None)"

definition empty_below :: "world \<Rightarrow> string \<Rightarrow> bool" where
  "empty_below w d \<longleftrightarrow> (\<forall>q. below d q \<longrightarrow> w_fs w q = None)"

definition changes_below :: "(string \<Rightarrow> bool) \<Rightarrow> world \<Rightarrow> world \<Rightarrow> bool" where
  "changes_below P w w' \<longleftrightarrow> rest w' = rest w \<and> (\<forall>q. \<not> P q \<longrightarrow> w_fs w' q = w_fs w q)"

lemma copy_leaf:
  assumes "copies_freely X" "holds X w s (Leaf i)"
  shows "\<exists>w'. copy_entry X f s d w = Some (Inr (), w') \<and> copied w' d (Leaf i)
    \<and> changes_below (below d) w w'"
  using assms by (auto simp: copy_entry_def lstat_def fs_copy_def faulty_def stat_def map_err_def
      copies_freely_def new_inode_def changes_below_def)

lemma create_fresh:
  assumes "copies_freely X" "empty_below w d"
  shows "\<exists>w'. fs_create_dir_all X d w = (Inr (), w') \<and> map_option i_kind (w_fs w' d) = Some KDir
    \<and> changes_below (\<lambda>q. q = d) w w'"
proof -
  have "w_fs w d = None" using assms(2) by (simp add: empty_below_def)
  then show ?thesis using assms(1)
    by (auto simp: fs_create_dir_all_def faulty_def is_dir_def stat_def copies_freely_def new_inode_def
        changes_below_def)
qed

lemma copy_tree:
  shows "lists_below X \<Longrightarrow> copies_freely X \<Longrightarrow> dir_path s \<Longrightarrow> dir_path d \<Longrightarrow> apart s d \<Longrightarrow>
      empty_below w d \<Longrightarrow> holds X w s t \<Longrightarrow> depth t \<le> fuel \<Longrightarrow>
      \<exists>w'. copy_entry X (copy_dir_recursive X fuel) s d w = Some (Inr (), w') \<and> copied w' d t
        \<and> changes_below (below d) w w'"
    and "lists_below X \<Longrightarrow> copies_freely X \<Longrightarrow> dir_path s \<Longrightarrow> dir_path d \<Longrightarrow> apart s d \<Longrightarrow>
      (\<And>n. n \<in> fst ` set kids \<Longrightarrow> empty_below w (path_join d n)) \<Longrightarrow> distinct (map fst kids) \<Longrightarrow>
      holds_kids X w s kids \<Longrightarrow> depth_kids kids \<le> fuel \<Longrightarrow>
      \<exists>w'. for_entries s (\<lambda>name. copy_entry X (copy_dir_recursive X fuel) (path_join s name)
            (path_join d name)) (map (Inr \<circ> fst) kids) w = Some (Inr (), w')
        \<and> copied_kids w' d kids
        \<and> changes_below (\<lambda>q. \<exists>n \<in> fst ` set kids. below (path_join d n) q) w w'"
proof (induction t and kids arbitrary: w s d fuel and w s d fuel rule: depth_depth_kids.induct)
  case (1 i)
  then show ?case using copy_leaf by blast
next
  case (2 kids)
  then obtain k where fuel: "fuel = Suc k" "depth_kids kids \<le> k" by (cases fuel) auto
  obtain w1 where w1: "fs_create_dir_all X d w = (Inr (), w1)"
      "map_option i_kind (w_fs w1 d) = Some KDir" "changes_below (\<lambda>q. q = d) w w1"
    using create_fresh [OF 2(3,7)] by blast
  have same: "w_fs w q = w_fs w1 q" if "below s q" for q
    using w1(3) that 2(6) below_refl unfolding changes_below_def apart_def by metis
  have src: "holds X w1 s (Branch kids)" using holds_cong(1) [OF 2(2,4) same 2(8)] .
  have names: "\<forall>n \<in> fst ` set kids. plain_name n" using holds_kids_names [of X w1 s kids] src by (simp only: holds.simps) blast
  have "empty_below w1 (path_join d n)" if "n \<in> fst ` set kids" for n
  proof -
    have n: "plain_name n" using names that by blast
    have "w_fs w1 q = None" if "below (path_join d n) q" for q
      using w1(3) 2(7) below_child [OF 2(5) n that] child_not_self [OF 2(5) n] that
      unfolding changes_below_def empty_below_def by metis
    then show ?thesis by (simp add: empty_below_def)
  qed
  moreover have "distinct (map fst kids)" "holds_kids X w1 s kids" using src by simp_all
  ultimately obtain w2 where w2:
      "for_entries s (\<lambda>name. copy_entry X (copy_dir_recursive X k) (path_join s name)
            (path_join d name)) (map (Inr \<circ> fst) kids) w1 = Some (Inr (), w2)"
      "copied_kids w2 d kids"
      "changes_below (\<lambda>q. \<exists>n \<in> fst ` set kids. below (path_join d n) q) w1 w2"
    using 2(1) [OF 2(2-6) _ _ _ fuel(2)] by blast
  have "w_fs w2 d = w_fs w1 d"
    using w2(3) names child_not_self [OF 2(5)] unfolding changes_below_def by blast
  then have "copied w2 d (Branch kids)" using w1(2) w2(2) by simp
  moreover have "changes_below (below d) w w2"
    using w1(3) w2(3) names below_child [OF 2(5)] below_refl unfolding changes_below_def by metis
  moreover have "map_option i_kind (lstat w s) = Some KDir" using 2(8) by (simp add: lstat_def)
  ultimately show ?case using w1(1) w2(1) src
    by (auto simp: copy_entry_def fuel bind_first_def map_err_def check_io_def list_bundle_def)
next
  case 3
  then show ?case by (auto simp: changes_below_def)
next
  case (4 n t kids)
  then have n: "plain_name n" and t: "holds X w (path_join s n) t" and ks: "holds_kids X w s kids"
    and dep: "depth t \<le> fuel" "depth_kids kids \<le> fuel" and fresh: "n \<notin> fst ` set kids"
    by auto
  note names = holds_kids_names [OF ks]
  note paths = dir_path_join [OF 4(5) n] dir_path_join [OF 4(6) n]
  from 4(1) [OF 4(3,4) paths apart_children [OF 4(7,5) n 4(6) n] _ t dep(1)] 4(8)
  obtain w1 where w1: "copy_entry X (copy_dir_recursive X fuel) (path_join s n) (path_join d n) w
      = Some (Inr (), w1)" "copied w1 (path_join d n) t" "changes_below (below (path_join d n)) w w1"
    by auto
  have same: "w_fs w q = w_fs w1 q" if "below s q" for q
    using w1(3) that 4(7) below_child [OF 4(6) n] unfolding changes_below_def apart_def by metis
  have src: "holds_kids X w1 s kids" using holds_cong(2) [OF 4(3,5) same ks] .
  have "empty_below w1 (path_join d m)" if m: "m \<in> fst ` set kids" for m
  proof -
    have "w_fs w1 q = None" if q: "below (path_join d m) q" for q
    proof -
      have "\<not> below (path_join d n) q"
        using siblings_apart [OF 4(6) n _ _ q] names m fresh by blast
      then have "w_fs w1 q = w_fs w q" using w1(3) by (simp add: changes_below_def)
      then show ?thesis using 4(8) [of m] m q by (simp add: empty_below_def)
    qed
    then show ?thesis by (simp add: empty_below_def)
  qed
  moreover have "distinct (map fst kids)" using 4(9) by simp
  ultimately obtain w2 where w2:
      "for_entries s (\<lambda>name. copy_entry X (copy_dir_recursive X fuel) (path_join s name)
            (path_join d name)) (map (Inr \<circ> fst) kids) w1 = Some (Inr (), w2)"
      "copied_kids w2 d kids"
      "changes_below (\<lambda>q. \<exists>n \<in> fst ` set kids. below (path_join d n) q) w1 w2"
    using 4(2) [OF 4(3-7) _ _ src dep(2)] by blast
  have "w_fs w1 q = w_fs w2 q" if q: "below (path_join d n) q" for q
    using w2(3) siblings_apart [OF 4(6) n _ q] names fresh unfolding changes_below_def by metis
  from copied_cong(1) [OF paths(2) this t w1(2)] have "copied w2 (path_join d n) t" .
  then show ?case using w1 w2
    by (intro exI [of _ w2]) (simp add: bind_fuel_def changes_below_def comp_def)
qed

text \<open>C35: copying the app bundle with fuel for its depth succeeds, every file arrives with its
  bytes and its mode at the same place below the destination, and nothing outside the
  destination changes.\<close>

theorem copy_bundle_faithful:
  assumes "lists_below X" "copies_freely X" "dir_path s" "dir_path d" "apart s d"
    and "empty_below w d" and src: "holds X w s (Branch kids)" and "depth (Branch kids) \<le> fuel"
  shows "\<exists>w'. copy_dir_recursive X fuel s d w = Some (Inr (), w') \<and> copied w' d (Branch kids)
    \<and> rest w' = rest w \<and> {q. w_fs w' q \<noteq> w_fs w q} \<subseteq> {q. below d q}"
proof -
  obtain w' where "copy_entry X (copy_dir_recursive X fuel) s d w = Some (Inr (), w')"
      "copied w' d (Branch kids)" "changes_below (below d) w w'"
    using copy_tree(1) [OF assms] by blast
  moreover have "copy_entry X (copy_dir_recursive X fuel) s d w = copy_dir_recursive X fuel s d w"
    using src by (auto simp: copy_entry_def lstat_def)
  ultimately show ?thesis by (auto simp: changes_below_def)
qed

definition sample_dir :: inode where
  "sample_dir = \<lparr>i_kind = KDir, i_mode = 0x1ED, i_uid = 501, i_data = []\<rparr>"

definition listing_ext :: ext where
  "listing_ext = (sample_ext [])\<lparr>x_read_dir := (\<lambda>w p. Inr
     (if p = ''/s'' then [Inr ''f'', Inr ''c''] else if p = ''/s/c'' then [Inr ''g''] else []))\<rparr>"

definition listing_world :: world where
  "listing_world = sample_world [(''/s'', sample_dir), (''/s/f'', sample_file ''1''),
     (''/s/c'', sample_dir), (''/s/c/g'', sample_file ''2'')]"

theorem copy_bundle_faithful_witness:
  "\<exists>w'. copy_dir_recursive listing_ext 2 ''/s'' ''/d'' listing_world = Some (Inr (), w')
     \<and> map_option i_data (w_fs w' ''/d/c/g'') = Some ''2''"
proof -
  let ?t = "[(''f'', Leaf (sample_file ''1'')), (''c'', Branch [(''g'', Leaf (sample_file ''2''))])]"
  have "lists_below listing_ext" "copies_freely listing_ext"
    by (simp_all add: lists_below_def copies_freely_def listing_ext_def)
  moreover have "dir_path ''/s''" "dir_path ''/d''" "apart ''/s'' ''/d''"
    by (auto simp: dir_path_def apart_def below_def prefix_def)
  moreover have "empty_below listing_world ''/d''"
    by (auto simp: empty_below_def below_def prefix_def listing_world_def)
  moreover have "holds listing_ext listing_world ''/s'' (Branch ?t)"
    by (simp add: listing_ext_def listing_world_def sample_dir_def path_join_def is_absolute_def
        plain_name_def)
  ultimately obtain w' where "copy_dir_recursive listing_ext 2 ''/s'' ''/d'' listing_world = Some (Inr (), w')"
      "copied w' ''/d'' (Branch ?t)"
    using copy_bundle_faithful [of listing_ext "''/s''" "''/d''" listing_world ?t 2] by auto
  then show ?thesis by (auto simp: path_join_def is_absolute_def)
qed

end
