(* ===== verification/Touches.thy ===== *)
theory Touches
  imports Os
begin

text \<open>
  Which files an operation changes. \<open>touches P m w\<close> bounds them by the set \<open>P\<close>; the rules compose
  along \<open>bind_io\<close>, so the files a handler changes follow from those of its steps.
\<close>

text \<open>\<open>touches P m\<close>: the operation changes no file but those in \<open>P\<close>, and neither the state
  directory nor the environment.\<close>

definition touches :: "string set \<Rightarrow> (world \<Rightarrow> 'r \<times> world) \<Rightarrow> world \<Rightarrow> bool" where
  "touches P m w \<longleftrightarrow>
     (case m w of (_, w') \<Rightarrow> w_root w' = w_root w \<and> w_env w' = w_env w
        \<and> {q. w_fs w' q \<noteq> w_fs w q} \<subseteq> P)"

lemma touchesD:
  "touches P m w \<Longrightarrow> m w = (r, w') \<Longrightarrow>
     w_root w' = w_root w \<and> w_env w' = w_env w \<and> (\<forall>q. q \<notin> P \<longrightarrow> w_fs w' q = w_fs w q)"
  by (auto simp: touches_def)

lemma touches_mono: "touches P m w \<Longrightarrow> P \<subseteq> Q \<Longrightarrow> touches Q m w"
  by (auto simp: touches_def)

lemma touches_pure [simp]:
  "touches P (ret x) w" "touches P (fail e) w" "touches P (lift_res r) w" "touches P get_world w"
  by (simp_all add: touches_def)

lemma touches_bind:
  assumes "touches P m w" "\<And>x w'. m w = (Inr x, w') \<Longrightarrow> touches P (f x) w'"
  shows "touches P (bind_io m f) w"
proof -
  obtain r w1 where m: "m w = (r, w1)" by fastforce
  show ?thesis
  proof (cases r)
    case (Inl e)
    then show ?thesis using assms(1) by (simp add: touches_def bind_io_def m)
  next
    case (Inr x)
    obtain q w2 where f: "f x w1 = (q, w2)" by fastforce
    from touchesD [OF assms(1) m] touchesD [OF assms(2) f] m Inr show ?thesis
      by (auto simp: touches_def bind_io_def f)
  qed
qed

lemma touches_map_err: "touches P m w \<Longrightarrow> touches P (map_err f m) w"
  by (auto simp: touches_def map_err_def split: prod.splits sum.splits)

lemma touches_create: "touches {p} (fs_create_dir_all X p) w"
  by (auto simp: touches_def fs_create_dir_all_def faulty_def split: option.split if_splits)

lemma touches_create_dir: "touches {p} (fs_create_dir X p) w"
  by (auto simp: touches_def fs_create_dir_def faulty_def split: option.split if_splits)

lemma touches_remove: "touches {p} (fs_remove_file X p) w"
  by (auto simp: touches_def fs_remove_file_def faulty_def split: option.split if_splits)

lemma touches_remove_dir: "touches {q. below p q} (fs_remove_dir_all X p) w"
  by (auto simp: touches_def fs_remove_dir_all_def faulty_def split: option.split if_splits)

lemma touches_set_permissions: "x_resolve X w p = Inr p \<Longrightarrow> touches {p} (fs_set_permissions X p m) w"
  by (auto simp: touches_def fs_set_permissions_def faulty_def split: option.split if_splits)

lemma touches_write: "(\<And>v. x_resolve X v p = Inr p) \<Longrightarrow> touches {p} (fs_write X p d) w"
proof -
  assume plain: "\<And>v. x_resolve X v p = Inr p"
  have opn: "touches {p} (fs_open_truncate X p) w"
    using plain by (auto simp: touches_def fs_open_truncate_def faulty_def split: option.split if_splits)
  have out: "touches {p} (fs_write_all X p d) v" for v
    using plain by (auto simp: touches_def fs_write_all_def faulty_def split: option.split if_splits)
  obtain r w1 where o1: "fs_open_truncate X p w = (r, w1)" by fastforce
  obtain q w2 where o2: "fs_write_all X p d w1 = (q, w2)" by fastforce
  from touchesD [OF opn o1] touchesD [OF out o2] show ?thesis
    by (auto simp: touches_def fs_write_def o1 o2 split: sum.split)
qed

end
