(* ===== verification/Broker_Laws.thy ===== *)
theory Broker_Laws
  imports Broker Fallback_Laws Samples Touches
begin

text \<open>
  The client of the app service: what leaves the program and over which channel, where a
  credential comes from, and that starting the service starts it once.
\<close>

lemma run_bounded_world: "snd (run_bounded_command X command args t n w) = log_spawn (invoke command args) w"
  by (auto simp: run_bounded_command_def spawn_child_def split: sum.split poll_result.split)

lemma run_bounded_Inr:
  assumes "run_bounded_command X command args t n w = (Inr out, w')"
  shows "length (bo_stdout out) \<le> n \<and> w' = log_spawn (invoke command args) w"
  using assms run_bounded_world [of X command args t n w]
  by (auto simp: run_bounded_command_def spawn_child_def split: sum.splits poll_result.splits if_splits)

section \<open>The response\<close>

text \<open>The bytes of a response within the limit whose envelope is positive and carries \<open>v\<close>.\<close>

definition delivers :: "ext \<Rightarrow> string \<Rightarrow> json \<Rightarrow> bool" where
  "delivers X bytes v \<longleftrightarrow> length bytes \<le> MAX_BROKER_BYTES
     \<and> (\<exists>tree. x_json_parse X bytes = Inr tree \<and> get ''ok'' (to_value tree) = Some (JBool True)
          \<and> get ''payload'' (to_value tree) = Some v)"

lemma parse_response_Inr:
  "parse_response v = Inr p \<longleftrightarrow> get ''ok'' v = Some (JBool True) \<and> get ''payload'' v = Some p"
  by (cases v) (auto simp: parse_response_def ok_or_def bind_eq_Some_conv split: option.split bool.split)

lemma read_response_Inr:
  "read_response X what bytes = Inr v \<Longrightarrow> length bytes \<le> MAX_BROKER_BYTES \<Longrightarrow> delivers X bytes v"
  by (auto simp: read_response_def delivers_def parse_response_Inr split: sum.splits)

section \<open>The two channels\<close>

text \<open>A socket of the current user that nobody else may read or write.\<close>

definition private_socket :: "world \<Rightarrow> string \<Rightarrow> bool" where
  "private_socket w p \<longleftrightarrow>
     (\<exists>i. lstat w p = Some i \<and> i_kind i = KSocket \<and> i_uid i = w_euid w \<and> i_mode i AND 0x1FF = 0x180)"

lemma private_socket_iff: "socket_path_safe_to_connect w p \<longleftrightarrow> private_socket w p"
  by (auto simp: socket_path_safe_to_connect_def socket_metadata_safe_to_connect_def
      private_socket_def NATIVE_APP_FILE_MODE_def split: option.split)

definition via_socket :: "ext \<Rightarrow> string \<Rightarrow> json \<Rightarrow> world \<Rightarrow> json res \<Rightarrow> world \<Rightarrow> bool" where
  "via_socket X command payload w r w' \<longleftrightarrow>
     (\<exists>data stream. x_json_compact X (request_envelope X w command payload) = Inr data
        \<and> length data \<le> MAX_BROKER_BYTES \<and> private_socket w (native_app_socket_path w)
        \<and> w' = log_sent (native_app_socket_path w) data w
        \<and> connect_broker X w (native_app_socket_path w) = Some stream
        \<and> (case r of Inl e \<Rightarrow> True
           | Inr v \<Rightarrow> (\<exists>bytes. conn_read stream data = Inr bytes \<and> delivers X bytes v)))"

definition via_executable :: "ext \<Rightarrow> string \<Rightarrow> json \<Rightarrow> world \<Rightarrow> json res \<Rightarrow> world \<Rightarrow> bool" where
  "via_executable X command payload w r w' \<longleftrightarrow>
     (\<exists>arg. x_json_compact X payload = Inr arg
        \<and> path_exists X w (native_app_bundle_install_path w)
        \<and> w' = log_spawn (invoke (from_utf8_lossy
              (native_app_executable_in_bundle (native_app_bundle_install_path w)))
            [''request'', command, arg]) w
        \<and> (case r of Inl e \<Rightarrow> True | Inr v \<Rightarrow> (\<exists>bytes. delivers X bytes v)))"

lemma exchange_effect:
  "exchange X p stream data w = (r, w') \<Longrightarrow>
     w' = log_sent p data w
     \<and> (case r of Inl e \<Rightarrow> True
        | Inr v \<Rightarrow> (\<exists>bytes. conn_read stream data = Inr bytes \<and> delivers X bytes v))"
  by (auto simp: exchange_def Let_def read_capped_def not_less split: option.splits sum.splits if_splits
      intro: read_response_Inr)

lemma executable_effect:
  assumes "send_request_via_executable X command payload w = (r, w')"
  shows "(w' = w \<and> (\<exists>e. r = Inl e)) \<or> via_executable X command payload w r w'"
proof (cases "path_exists X w (native_app_bundle_install_path w)")
  case False
  then show ?thesis using assms by (auto simp: send_request_via_executable_def)
next
  case True
  note ex = True
  show ?thesis
  proof (cases "x_json_compact X payload")
    case (Inl e)
    then show ?thesis using assms True by (auto simp: send_request_via_executable_def Let_def)
  next
    case (Inr arg)
    let ?args = "[''request'', command, arg]"
    let ?exe = "from_utf8_lossy (native_app_executable_in_bundle (native_app_bundle_install_path w))"
    obtain o1 w1 where run: "run_bounded_command X ?exe ?args NATIVE_APP_DIRECT_EXEC_TIMEOUT_MS
        MAX_BROKER_BYTES w = (o1, w1)" by fastforce
    have w1: "w1 = log_spawn (invoke ?exe ?args) w"
      using run run_bounded_world by (metis snd_conv)
    have "w' = w1 \<and> (case r of Inl e \<Rightarrow> True | Inr v \<Rightarrow> (\<exists>bytes. delivers X bytes v))"
      using assms run run_bounded_Inr [of X ?exe ?args NATIVE_APP_DIRECT_EXEC_TIMEOUT_MS MAX_BROKER_BYTES w]
      by (auto simp: send_request_via_executable_def Let_def True Inr split: sum.splits
          intro: read_response_Inr)
    then show ?thesis using w1 ex Inr by (auto simp: via_executable_def)
  qed
qed

text \<open>C4: a request leaves the program over one channel at most, and once: over the socket only
  if that is a socket of the current user without any permission for others, with at most
  32 KiB of data; otherwise as the arguments of the installed executable, the only program it
  starts. A result is always the payload of a positive envelope of at most 32 KiB.\<close>

theorem request_channels:
  "(case send_request X command payload w of (r, w') \<Rightarrow>
      (w' = w \<and> (\<exists>e. r = Inl e)) \<or> via_socket X command payload w r w'
      \<or> via_executable X command payload w r w')"
proof -
  obtain r w' where run: "send_request X command payload w = (r, w')" by fastforce
  let ?p = "native_app_socket_path w"
  have ?thesis if direct: "send_request_via_executable X command payload w = (r, w')"
    using executable_effect [OF direct] run by auto
  moreover have "(w' = w \<and> (\<exists>e. r = Inl e)) \<or> via_socket X command payload w r w'"
    if path: "path_exists X w ?p" "socket_path_safe_to_connect w ?p"
      and stream: "connect_broker X w ?p = Some stream" for stream
  proof (cases "x_json_compact X (request_envelope X w command payload)")
    case (Inl e)
    then show ?thesis using run path stream by (auto simp: send_request_def Let_def)
  next
    case (Inr data)
    show ?thesis
    proof (cases "length data > MAX_BROKER_BYTES")
      case True
      then show ?thesis using run path stream Inr by (auto simp: send_request_def Let_def)
    next
      case False
      then have "exchange X ?p stream data w = (r, w')"
        using run path stream Inr by (simp add: send_request_def Let_def)
      from exchange_effect [OF this] have "via_socket X command payload w r w'"
        using False Inr path stream by (auto simp: via_socket_def private_socket_iff)
      then show ?thesis ..
    qed
  qed
  ultimately show ?thesis
    using run by (auto simp: send_request_def Let_def split: option.splits if_splits)
qed

section \<open>The login\<close>

lemma external_login_payload:
  assumes "external_provider_login X url w = (Inr (Some v), w')"
  shows "\<exists>p config. fst (read_config_file X w) = Inr config \<and> cfg_fallback_provider config = Some p
    \<and> get_str ''status'' v = Some ''approved'' \<and> get_str ''source'' v = Some (provider_str p)
    \<and> get_str ''securityMode'' v = Some ''reduced_external_cli''"
proof -
  obtain config p q host w1 w2 where c: "read_config_file X w = (Inr config, w1)"
      "cfg_fallback_provider config = Some p"
    and load: "load_credential X p q config host url w1 = (Inr v, w2)"
    using assms by (auto simp: external_provider_login_def bind_io_def check_io_def ok_or_def
        split: prod.splits sum.splits option.splits if_splits)
  have "get_str ''status'' v = Some ''approved'' \<and> get_str ''source'' v = Some (provider_str p)
      \<and> get_str ''securityMode'' v = Some ''reduced_external_cli''"
    using any_provider.approved [OF load] by blast
  then show ?thesis using c by auto
qed

text \<open>C8: a login goes to an external provider only if the flag allows it and the app service is
  not running or has no result; in every other case it is the answer of the app service and
  nothing else happens. A credential that came from a provider says so: it carries the reduced
  security mode and the name of the configured provider.\<close>

theorem login_external_gate:
  "native_app_login X url allow w = native_app_request X ''login'' url w
   \<or> allow
     \<and> (\<exists>e w1. native_app_request X ''login'' url w = (Inl e, w1)
          \<and> (err_code e = NoResults \<or> err_code e = ProcessNotRunning)
          \<and> snd (native_app_login X url allow w) = snd (external_provider_login X url w1)
          \<and> (case fst (native_app_login X url allow w) of
               Inl e' \<Rightarrow> e' = e \<or> fst (external_provider_login X url w1) = Inl e'
             | Inr v \<Rightarrow> (\<exists>p config. fst (read_config_file X w1) = Inr config
                  \<and> cfg_fallback_provider config = Some p
                  \<and> get_str ''status'' v = Some ''approved'' \<and> get_str ''source'' v = Some (provider_str p)
                  \<and> get_str ''securityMode'' v = Some ''reduced_external_cli'')))"
proof -
  obtain r w1 where req: "native_app_request X ''login'' url w = (r, w1)" by fastforce
  show ?thesis
  proof (cases "\<exists>e. r = Inl e \<and> err_code e \<in> {NoResults, ProcessNotRunning} \<and> allow")
    case False
    then have "native_app_login X url allow w = (r, w1)"
      by (auto simp: native_app_login_def req split: sum.split)
    then show ?thesis using req by simp
  next
    case True
    then obtain e where e: "r = Inl e" "err_code e \<in> {NoResults, ProcessNotRunning}" "allow" by blast
    obtain x w2 where ext: "external_provider_login X url w1 = (x, w2)" by fastforce
    have run: "native_app_login X url allow w =
        (case x of Inl e' \<Rightarrow> Inl e' | Inr None \<Rightarrow> Inl e | Inr (Some v) \<Rightarrow> Inr v, w2)"
      using e by (auto simp: native_app_login_def req ext split: sum.split option.split)
    show ?thesis
    proof (cases "\<exists>v. x = Inr (Some v)")
      case False
      then show ?thesis using e req ext run by (auto split: sum.splits option.splits)
    next
      case True
      then obtain v where "x = Inr (Some v)" by blast
      then show ?thesis using e req ext run external_login_payload [of X url w1 v w2] by auto
    qed
  qed
qed

section \<open>The service's log\<close>

text \<open>Rotating the log loses nothing: a log of 10 MiB or more is moved to \<open>broker.log.1\<close>
  with its content, a smaller one is left alone, and after an error the log is where it was;
  no other file changes.\<close>

theorem broker_log_rotation:
  assumes "w_fs w (native_app_broker_log_path w) = Some i" "i_kind i = KFile"
    and "x_resolve X w (native_app_broker_log_path w) = Inr (native_app_broker_log_path w)"
  shows "case rotate_broker_log_if_needed X (native_app_broker_log_path w) w of
      (Inl e, w') \<Rightarrow> w_fs w' (native_app_broker_log_path w) = Some i
    | (Inr _, w') \<Rightarrow> w_fs w' =
        (if length (i_data i) < 10 * 1024 * 1024 then w_fs w
         else (w_fs w)(native_app_broker_log_path w := None,
                native_app_broker_log_path w @ ''.1'' := Some i))"
proof -
  let ?p = "native_app_broker_log_path w"
  have name: "\<exists>d. ?p = d @ ''broker.log'' \<and> (d = [] \<or> last d = CHR ''/'')"
    by (auto simp: native_app_broker_log_path_def path_join_def is_absolute_def)
  then obtain d where d: "?p = d @ ''broker.log''" "d = [] \<or> last d = CHR ''/''" by blast
  have "takeWhile (\<lambda>c. c \<noteq> CHR ''/'') (rev ?p) = rev ''broker.log''"
    using d by (cases d rule: rev_cases) auto
  then have ext: "with_extension ?p ''log.1'' = ?p @ ''.1''"
    by (simp add: with_extension_def Let_def d(1))
  have stat: "stat X w ?p = Some i" using assms(1,3) by (simp add: stat_def)
  show ?thesis
    using assms(2)
    by (auto simp: rotate_broker_log_if_needed_def stat Let_def ext MAX_BROKER_LOG_BYTES_def
        bind_io_def map_err_def fs_remove_file_def fs_rename_def faulty_def assms(1)
        split: option.splits sum.splits if_splits)
qed

definition big_log :: inode where
  "big_log = sample_file (replicate (10 * 1024 * 1024) CHR ''x'')"

theorem broker_log_rotation_witness:
  "\<exists>w'. rotate_broker_log_if_needed (sample_ext []) ''/h/.apw/native-app/broker.log''
       (sample_world [(''/h/.apw/native-app/broker.log'', big_log)]) = (Inr (), w')
     \<and> w_fs w' ''/h/.apw/native-app/broker.log.1'' = Some big_log"
proof -
  let ?w = "sample_world [(''/h/.apw/native-app/broker.log'', big_log)]"
  have p: "native_app_broker_log_path ?w = ''/h/.apw/native-app/broker.log''"
    by (simp add: native_app_broker_log_path_def native_app_runtime_dir_def path_join_def is_absolute_def)
  have big: "i_kind big_log = KFile" "length (i_data big_log) = 10 * 1024 * 1024"
    by (simp_all add: big_log_def)
  obtain w' where "rotate_broker_log_if_needed (sample_ext []) ''/h/.apw/native-app/broker.log'' ?w
      = (Inr (), w')"
    by (auto simp: rotate_broker_log_if_needed_def stat_def big Let_def MAX_BROKER_LOG_BYTES_def
        path_exists_def with_extension_def map_err_def fs_rename_def faulty_def)
  then show ?thesis
    using broker_log_rotation [of ?w big_log "sample_ext []"] by (simp add: p big)
qed

section \<open>Starting the service\<close>

lemma set_strict_mode:
  "set_permissions_strict X p m w = (Inr (), w') \<Longrightarrow>
     \<exists>q i. x_resolve X w p = Inr q \<and> w_fs w' q = Some i \<and> i_mode i = m"
  by (auto simp: set_permissions_strict_def map_err_Inr fs_set_permissions_def faulty_def
      split: option.splits sum.splits)

lemma rotate_rest: "frame rest (rotate_broker_log_if_needed X p)"
  by (auto simp: frame_def rotate_broker_log_if_needed_def Let_def bind_io_def map_err_def
      fs_remove_file_def fs_rename_def faulty_def split: option.split sum.split)

lemma clone_handle_effect: "snd (clone_handle X p w) = w"
  by (simp add: clone_handle_def faulty_def split: option.split)

text \<open>The state in which launching decides: the runtime directory exists.\<close>

definition prepared :: "ext \<Rightarrow> world \<Rightarrow> world" where
  "prepared X w = snd (ensure_runtime_dir X w)"

definition service :: "world \<Rightarrow> invocation" where
  "service w = invoke (native_app_executable_in_bundle (native_app_bundle_install_path w)) [''serve'']"

text \<open>C34: launching starts at most one program, the installed executable with \<open>serve\<close>, and it
  does so only when that executable exists, no broker answers on a private socket, and what its
  log's path leads to has mode 0600; it never sends anything. It reports \<open>running\<close> exactly when a broker
  answered, and otherwise \<open>launched\<close> or \<open>starting\<close> after having started one.\<close>

theorem launch_one_service:
  "(case native_app_launch X w of (r, w') \<Rightarrow>
      w_sent w' = w_sent w
      \<and> (w_spawned w' = w_spawned w
           \<and> (case r of Inl e \<Rightarrow> True | Inr v \<Rightarrow> get_str ''status'' v = Some ''running''
                \<and> socket_running X (prepared X w))
         \<or> w_spawned w' = w_spawned w @ [service w] \<and> \<not> socket_running X (prepared X w)
           \<and> path_exists X (prepared X w) (inv_program (service w))
           \<and> (\<exists>v q i. x_resolve X v (native_app_broker_log_path w) = Inr q
                \<and> w_fs w' q = Some i \<and> i_mode i = 0x180)
           \<and> (case r of Inl e \<Rightarrow> True
              | Inr v \<Rightarrow> get_str ''status'' v = Some (if socket_running X w' then ''launched'' else ''starting''))))"
proof -
  obtain r w' where run: "native_app_launch X w = (r, w')" by fastforce
  obtain s w1 where dir: "ensure_runtime_dir X w = (s, w1)" by fastforce
  have rest1: "rest w1 = rest w" using frameD [OF ensure_runtime_dir_rest dir] .
  note same = rest_fields [OF rest1]
  have prep: "prepared X w = w1" by (simp add: prepared_def dir)
  let ?log = "native_app_broker_log_path w"
  have paths: "native_app_bundle_install_path w1 = native_app_bundle_install_path w"
      "native_app_broker_log_path w1 = ?log"
    using same(4) by (simp_all add: native_app_bundle_install_path_def native_app_install_dir_def
        native_app_broker_log_path_def native_app_runtime_dir_def)
  show ?thesis
  proof (cases "(\<exists>e. s = Inl e) \<or> \<not> path_exists X w1 (native_app_bundle_install_path w)
      \<or> \<not> path_exists X w1 (inv_program (service w)) \<or> socket_running X w1")
    case True
    then have "w' = w1 \<and> (case r of Inl e \<Rightarrow> True
        | Inr v \<Rightarrow> get_str ''status'' v = Some ''running'' \<and> socket_running X w1)"
      using run dir by (auto simp: native_app_launch_def bind_io_def Let_def paths service_def
          invoke_def get_str_def split: sum.splits if_splits)
    then show ?thesis using run same prep by auto
  next
    case False
    then have s: "s = Inr ()" and ok: "path_exists X w1 (native_app_bundle_install_path w)"
        "path_exists X w1 (inv_program (service w))" "\<not> socket_running X w1"
      by (cases s; auto)+
    have exe: "path_exists X w1 (native_app_executable_in_bundle (native_app_bundle_install_path w))"
      using ok(2) by (simp add: service_def invoke_def)
    obtain r2 w2 where rot: "rotate_broker_log_if_needed X ?log w1 = (r2, w2)" by fastforce
    obtain r3 w3 where opn: "fs_open_append X ?log w2 = (r3, w3)" by fastforce
    obtain r4 w4 where md: "set_permissions_strict X ?log NATIVE_APP_FILE_MODE w3 = (r4, w4)" by fastforce
    obtain r5 where cl: "clone_handle X ?log w4 = (r5, w4)"
      using clone_handle_effect by (metis prod.collapse)
    have rest2: "rest w2 = rest w" using frameD [OF rotate_rest rot] rest1 by simp
    have rest3: "rest w3 = rest w" using frameD [OF fs_rest(5) opn] rest2 by simp
    have rest4: "rest w4 = rest w"
      using frameD [OF frame_map_err [OF fs_rest(3)] md [unfolded set_permissions_strict_def]] rest3 by simp
    note same4 = rest_fields [OF rest2] rest_fields [OF rest3] rest_fields [OF rest4]
    have mode: "\<exists>q i. x_resolve X w3 ?log = Inr q \<and> w_fs w4 q = Some i \<and> i_mode i = 0x180"
      if "r4 = Inr ()"
      using set_strict_mode [OF md [unfolded that]] by (simp add: NATIVE_APP_FILE_MODE_def)
    consider (quiet) "w_spawned w' = w_spawned w" "w_sent w' = w_sent w" "\<exists>e. r = Inl e"
      | (started) "r4 = Inr ()" "w' = log_spawn (service w) w4"
          "case r of Inl e \<Rightarrow> True
           | Inr v \<Rightarrow> get_str ''status'' v = Some (if socket_running X w' then ''launched'' else ''starting'')"
    proof -
      note step = native_app_launch_def bind_io_def dir s Let_def paths ok exe rot opn md cl map_err_def
      consider (1) e where "r2 = Inl e" | (2) e where "r2 = Inr ()" "r3 = Inl e"
        | (3) e where "r2 = Inr ()" "r3 = Inr ()" "r4 = Inl e"
        | (4) e where "r2 = Inr ()" "r3 = Inr ()" "r4 = Inr ()" "r5 = Inl e"
        | (5) "r2 = Inr ()" "r3 = Inr ()" "r4 = Inr ()" "r5 = Inr ()"
        by (cases r2; cases r3; cases r4; cases r5) auto
      then show ?thesis
      proof cases
        case 5
        then have "w' = log_spawn (service w) w4 \<and> (case r of Inl e \<Rightarrow> True
           | Inr v \<Rightarrow> get_str ''status'' v = Some (if socket_running X w' then ''launched'' else ''starting''))"
          using run by (auto simp: step spawn_child_def service_def get_str_def split: sum.splits)
        then show ?thesis using 5 started by blast
      qed (use run same4 in \<open>auto simp: step intro!: quiet\<close>)
    qed
    then show ?thesis
    proof cases
      case quiet
      then show ?thesis using run by auto
    next
      case started
      have "w_spawned w' = w_spawned w @ [service w]" "w_sent w' = w_sent w"
        using started same4 by simp_all
      moreover obtain q i where "x_resolve X w3 ?log = Inr q" "w_fs w' q = Some i" "i_mode i = 0x180"
        using mode started(1,2) by auto
      ultimately show ?thesis using started(3) run prep ok by (cases r) auto
    qed
  qed
qed

section \<open>What the doctor touches\<close>

lemma request_touches: "touches {} (send_request X command payload) w"
proof -
  have direct: "touches {} (send_request_via_executable X command payload) w"
    using run_bounded_world [of X]
    by (auto simp: touches_def send_request_via_executable_def Let_def split: sum.split prod.split)
      (metis log_spawn_simps snd_conv)+
  have "touches {} (exchange X p stream data) w" for p stream data
    by (auto simp: touches_def exchange_def Let_def log_sent_def split: sum.split option.split)
  with direct show ?thesis
    by (auto simp: touches_def send_request_def Let_def split: sum.split option.split)
qed

lemma fallback_status_touches: "touches {config_path w} (external_fallback_status X) w"
proof -
  obtain r w' where run: "read_config_file X w = (r, w')" by fastforce
  note a = only_clearsD [OF only_clears_read_config_file run]
  have "w_root w' = w_root w \<and> w_env w' = w_env w \<and> {q. w_fs w' q \<noteq> w_fs w q} \<subseteq> {config_path w}"
    using a(1,4,5) by (auto split: if_splits)
  then show ?thesis
    by (auto simp: touches_def external_fallback_status_def read_config_file_or_empty_def run Let_def
        split: sum.split)
qed

lemma version_check_touches:
  "w_fs (snd (command_version_check X T i c as h w)) = w_fs w"
  "w_root (snd (command_version_check X T i c as h w)) = w_root w"
  "w_env (snd (command_version_check X T i c as h w)) = w_env w"
  using run_bounded_world [of X c as DOCTOR_PROBE_TIMEOUT_MS MAX_BROKER_BYTES w]
  by (cases "run_bounded_command X c as DOCTOR_PROBE_TIMEOUT_MS MAX_BROKER_BYTES w";
      simp add: command_version_check_def)+

lemma signing_check_touches:
  "w_fs (snd (code_signing_identity_check X T w)) = w_fs w"
  "w_root (snd (code_signing_identity_check X T w)) = w_root w"
  "w_env (snd (code_signing_identity_check X T w)) = w_env w"
  using run_bounded_world [of X "''security''" "[''find-identity'', ''-v'', ''-p'', ''codesigning'']"
      DOCTOR_PROBE_TIMEOUT_MS MAX_BROKER_BYTES w]
  by (cases "run_bounded_command X ''security'' [''find-identity'', ''-v'', ''-p'', ''codesigning'']
        DOCTOR_PROBE_TIMEOUT_MS MAX_BROKER_BYTES w"; simp add: code_signing_identity_check_def Let_def)+

lemma ci_checks_touches: "touches {} (ci_diagnostic_checks X T) w"
  using version_check_touches signing_check_touches
  by (auto simp: touches_def ci_diagnostic_checks_def Let_def split: prod.split) (metis snd_conv)+

lemma status_touches: "touches {config_path w} (native_app_status X) w"
proof -
  obtain live w1 where req: "send_request X ''status'' (obj []) w = (live, w1)" by fastforce
  obtain fb w2 where fb: "external_fallback_status X w1 = (fb, w2)" by fastforce
  note 1 = touchesD [OF request_touches req]
  then have "config_path w1 = config_path w" by (simp add: config_path_def)
  with touchesD [OF fallback_status_touches fb] 1 show ?thesis
    by (auto simp: touches_def native_app_status_def Let_def req fb)
qed

lemma touches_chmod: "x_resolve X w p = Inr p \<Longrightarrow> touches {p} (set_permissions_strict X p m) w"
  unfolding set_permissions_strict_def by (rule touches_map_err [OF touches_set_permissions])

lemma runtime_dir_touches:
  assumes "\<And>v. x_resolve X v (native_app_runtime_dir w) = Inr (native_app_runtime_dir w)"
  shows "touches {native_app_runtime_dir w} (ensure_runtime_dir X) w"
proof -
  have "touches {native_app_runtime_dir w} (bind_io
      (map_err f (fs_create_dir_all X (native_app_runtime_dir w)))
      (\<lambda>_. set_permissions_strict X (native_app_runtime_dir w) m)) w" for f m
    using assms by (intro touches_bind touches_map_err touches_create touches_chmod)
  then show ?thesis by (simp add: touches_def ensure_runtime_dir_def)
qed

lemma credentials_touches:
  assumes "\<And>v. x_resolve X v (native_app_credentials_path w) = Inr (native_app_credentials_path w)"
  shows "touches (if w_fs w (native_app_credentials_path w) = None \<and> env_var ''APW_DEMO'' w = Some ''1''
      then {native_app_credentials_path w} else {}) (ensure_default_credentials_file X) w"
proof (cases "w_fs w (native_app_credentials_path w) = None \<and> env_var ''APW_DEMO'' w = Some ''1''")
  case True
  let ?p = "native_app_credentials_path w"
  have "touches {?p} (bind_io (map_err f (fs_write X ?p d)) (\<lambda>_. set_permissions_strict X ?p m)) w" for f m d
    using assms by (intro touches_bind touches_map_err touches_write touches_chmod)
  then show ?thesis using True assms
    by (auto simp: touches_def ensure_default_credentials_file_def Let_def path_exists_def stat_def
        split: sum.split)
next
  case False
  then have "ensure_default_credentials_file X w = (Inr (), w)"
    using assms by (auto simp: ensure_default_credentials_file_def Let_def path_exists_def stat_def)
  then show ?thesis using False by (simp add: touches_def)
qed

lemma status_then_checks_touches:
  "touches {config_path v} (\<lambda>w. let (doctor, w1) = native_app_status X w;
       (checks, w2) = ci_diagnostic_checks X T w1 in (Inr (G w doctor checks), w2)) v"
proof -
  obtain d w1 where s: "native_app_status X v = (d, w1)" by fastforce
  obtain c w2 where c: "ci_diagnostic_checks X T w1 = (c, w2)" by fastforce
  from touchesD [OF status_touches s] touchesD [OF ci_checks_touches c] show ?thesis
    by (auto simp: touches_def s c)
qed



end
