(* ===== verification/Bundle.thy ===== *)
theory Bundle
  imports Broker Redaction
begin

text \<open>
  The diagnostic bundle (\<open>rust/src/bundle.rs\<close>): the staging directory, the files that go into
  the bundle, each audited before it is written, the listing of the runtime directory by
  metadata alone, and packing with \<open>tar\<close>. The text of an \<open>ExitStatus\<close> is made by the standard
  library; the argument \<open>exit_text\<close> stands for it.
\<close>

definition BUNDLE_VERSION :: u32 where
  "BUNDLE_VERSION = 1"

definition BUNDLE_ROOT_NAME :: string where
  "BUNDLE_ROOT_NAME = ''apw-doctor-bundle''"

record bundle_result =
  br_path :: string
  br_files_included :: "string list"
  br_redaction_checks :: u32

section \<open>Staging\<close>

definition staging_path :: "ext \<Rightarrow> world \<Rightarrow> string" where
  "staging_path X w = path_join (x_temp_dir X w) (''apw-doctor-staging-'' @ x_random_hex X w 16)"

definition staging_create :: "ext \<Rightarrow> string io" where
  "staging_create X w0 =
     (let base = x_temp_dir X w0 in
      bind_io (map_err (\<lambda>e. mk_err ProcessNotRunning (''Failed to ensure temp dir '' @ base @ '': '' @ e))
          (fs_create_dir_all X base)) (\<lambda>_ w.
        let path = path_join base (''apw-doctor-staging-'' @ x_random_hex X w 16) in
        bind_io (map_err (\<lambda>e. mk_err ProcessNotRunning
              (''Failed to create staging dir '' @ path @ '': '' @ e)) (fs_create_dir X path)) (\<lambda>_.
        bind_io (map_err (\<lambda>e. mk_err InvalidConfig
              (''Failed to chmod staging dir '' @ path @ '': '' @ e)) (fs_set_permissions X path 0x1C0)) (\<lambda>_.
        ret path)) w) w0)"

text \<open>The directory is dropped at the end of its scope, whatever the outcome.\<close>

definition with_staging :: "ext \<Rightarrow> (string \<Rightarrow> 'a io_option) \<Rightarrow> 'a io_option" where
  "with_staging X body w =
     (case staging_create X w of
        (Inl e, w1) \<Rightarrow> Some (Inl e, w1)
      | (Inr path, w1) \<Rightarrow>
          map_option (\<lambda>(r, w2). (r, ignore (fs_remove_dir_all X path) w2)) (body path w1))"

section \<open>What goes in\<close>

definition write_json_file ::
    "ext \<Rightarrow> string \<Rightarrow> string \<Rightarrow> json \<Rightarrow> string list \<times> u32 \<Rightarrow> (string list \<times> u32) io" where
  "write_json_file X base_dir relative_path payload counted w =
     (case counted of (files_included, redaction_checks) \<Rightarrow>
        (case audit_redaction payload redaction_checks of
           (Inl e, checks) \<Rightarrow> fail e w
         | (Inr _, checks) \<Rightarrow>
             (case x_json_pretty X payload of
                Inl e \<Rightarrow> fail (mk_err GenericError (''Failed to encode '' @ relative_path @ '': '' @ e)) w
              | Inr bytes \<Rightarrow>
                  let target = path_join base_dir relative_path in
                  bind_io (map_err (\<lambda>e. mk_err ProcessNotRunning
                        (''Failed to write '' @ relative_path @ '': '' @ e)) (fs_write X target bytes)) (\<lambda>_.
                  bind_io (map_err (\<lambda>e. mk_err InvalidConfig
                        (''Failed to chmod '' @ relative_path @ '': '' @ e))
                      (fs_set_permissions X target 0x180)) (\<lambda>_.
                  ret (files_included @ [relative_path], checks))) w)))"

definition probe_first_line :: "ext \<Rightarrow> string \<Rightarrow> string list \<Rightarrow> world \<Rightarrow> json \<times> world" where
  "probe_first_line X command args w =
     (case probe_output X (invoke command args) w of
        (None, w1) \<Rightarrow> (JNull, w1)
      | (Some output, w1) \<Rightarrow>
          if po_code output \<noteq> Some 0 then (JNull, w1)
          else
            let line = trim (unwrap_or []
              (find (\<lambda>line. trim line \<noteq> []) (lines (from_utf8_lossy (po_stdout output)))))
            in (if line = [] then JNull else JString line, w1))"

definition collect_os_info :: "ext \<Rightarrow> world \<Rightarrow> json \<times> world" where
  "collect_os_info X w =
     (let (uname, w1) = probe_first_line X ''uname'' [''-a''] w;
          info = obj [(''uname'', uname), (''arch'', JString (x_arch X)), (''os'', JString (x_os X))]
      in if x_macos X then
           let (product, w2) = probe_first_line X ''sw_vers'' [''-productName''] w1;
               (version, w3) = probe_first_line X ''sw_vers'' [''-productVersion''] w2;
               (build, w4) = probe_first_line X ''sw_vers'' [''-buildVersion''] w3
           in (insert_key ''sw_vers''
                 (obj [(''productName'', product), (''productVersion'', version),
                       (''buildVersion'', build)]) info, w4)
         else (info, w1))"

definition strip_prefix :: "string \<Rightarrow> string \<Rightarrow> string option" where
  "strip_prefix base_dir path =
     (if path = base_dir then Some []
      else if prefix (base_dir @ ''/'') path then Some (drop (Suc (length base_dir)) path) else None)"

definition file_type_name :: "file_kind \<Rightarrow> string" where
  "file_type_name kind =
     (case kind of KDir \<Rightarrow> ''dir'' | KSymlink \<Rightarrow> ''symlink'' | KFile \<Rightarrow> ''file'' | _ \<Rightarrow> ''other'')"

definition entry_metadata :: "string \<Rightarrow> string \<Rightarrow> inode \<Rightarrow> json" where
  "entry_metadata base_dir path metadata =
     obj [(''path'', JString (unwrap_or [] (map_option from_utf8_lossy (strip_prefix base_dir path)))),
          (''type'', JString (file_type_name (i_kind metadata))),
          (''mode'', JString (show_oct (unat (i_mode metadata AND 0x1FF)))),
          (''size'', if i_kind metadata = KFile
                     then enc_u64 (word_of_nat (length (i_data metadata))) else JNull)]"

text \<open>The walk goes down a tree of unknown depth: one unit of fuel per level, \<open>None\<close> when it ran
  out.\<close>

fun concat_options :: "'a list option list \<Rightarrow> 'a list option" where
  "concat_options [] = Some []"
| "concat_options (None # rows) = None"
| "concat_options (Some xs # rows) = map_option ((@) xs) (concat_options rows)"

fun walk_metadata :: "ext \<Rightarrow> nat \<Rightarrow> string \<Rightarrow> world \<Rightarrow> string \<Rightarrow> json list option" where
  "walk_metadata X 0 base_dir w current = None"
| "walk_metadata X (Suc fuel) base_dir w current =
     (case x_read_dir X w current of
        Inl e \<Rightarrow> Some []
      | Inr entries \<Rightarrow> concat_options (map (\<lambda>entry.
          case entry of
            Inl e \<Rightarrow> Some []
          | Inr name \<Rightarrow>
              let path = path_join current name in
              (case lstat w path of
                 None \<Rightarrow> Some []
               | Some metadata \<Rightarrow>
                   map_option (Cons (entry_metadata base_dir path metadata))
                     (if i_kind metadata = KDir then walk_metadata X fuel base_dir w path else Some [])))
          entries))"

definition collect_native_app_listing :: "ext \<Rightarrow> nat \<Rightarrow> world \<Rightarrow> json option" where
  "collect_native_app_listing X fuel w =
     (let base_dir = native_app_runtime_dir w in
      if \<not> path_exists X w base_dir then
        Some (obj [(''root'', JString base_dir), (''entries'', JArray []),
          (''note'', JString ''native-app runtime directory does not exist (likely no `apw app install` yet).'')])
      else
        map_option (\<lambda>entries. obj [(''root'', JString base_dir),
            (''entries'', JArray (sort_key (\<lambda>e. unwrap_or [] (get_str ''path'' e)) entries))])
          (walk_metadata X fuel base_dir w base_dir))"

section \<open>Writing the bundle\<close>

definition bundle_manifest :: "string \<Rightarrow> string list \<Rightarrow> u32 \<Rightarrow> json" where
  "bundle_manifest created files_included redaction_checks =
     obj [(''bundleVersion'', enc_u32 BUNDLE_VERSION), (''createdAt'', JString created),
          (''files'', JArray (map JString files_included)),
          (''redactionGuarantees'', obj
             [(''envVarsExcluded'', JBool True), (''nativeAppFileContentsExcluded'', JBool True),
              (''brokerLogExcluded'', JBool True), (''credentialsJsonExcluded'', JBool True),
              (''configJsonExcluded'', JBool True)]),
          (''redactionChecks'', enc_u32 redaction_checks)]"

definition write_manifest :: "ext \<Rightarrow> string \<Rightarrow> string list \<Rightarrow> u32 \<Rightarrow> unit io" where
  "write_manifest X base_dir files_included redaction_checks w =
     (let path = path_join base_dir ''manifest.json'' in
      case x_json_pretty X (bundle_manifest (x_rfc3339_show X (w_now w)) files_included redaction_checks) of
        Inl e \<Rightarrow> fail (mk_err GenericError (''Failed to encode bundle manifest: '' @ e)) w
      | Inr manifest_bytes \<Rightarrow>
          bind_io (map_err (\<lambda>e. mk_err ProcessNotRunning
                (''Failed to write bundle manifest: '' @ e)) (fs_write X path manifest_bytes)) (\<lambda>_.
            map_err (\<lambda>e. mk_err InvalidConfig (''Failed to chmod bundle manifest: '' @ e))
              (fs_set_permissions X path 0x180)) w)"

text \<open>The place of the archive is made ready: its directory exists and nothing is there.\<close>

definition prepare_output :: "ext \<Rightarrow> string \<Rightarrow> unit io" where
  "prepare_output X output_path =
     bind_io
       (case path_parent output_path of
          None \<Rightarrow> ret ()
        | Some parent \<Rightarrow>
            if parent = [] then ret ()
            else map_err (\<lambda>e. mk_err ProcessNotRunning
                (''Failed to create bundle output parent '' @ parent @ '': '' @ e))
              (fs_create_dir_all X parent))
       (\<lambda>_ w. if path_exists X w output_path then
            map_err (\<lambda>e. mk_err ProcessNotRunning
                (''Failed to remove existing bundle at '' @ output_path @ '': '' @ e))
              (fs_remove_file X output_path) w
          else ret () w)"

definition tar_invocation :: "string \<Rightarrow> string \<Rightarrow> invocation" where
  "tar_invocation output_path staging =
     invoke ''tar'' [''-czf'', output_path, ''-C'', staging, BUNDLE_ROOT_NAME]"

definition pack_bundle :: "ext \<Rightarrow> (proc_output \<Rightarrow> string) \<Rightarrow> string \<Rightarrow> string \<Rightarrow> unit io" where
  "pack_bundle X exit_text output_path staging =
     bind_io (map_err (\<lambda>e. mk_err ProcessNotRunning
           (''Failed to launch tar to package the bundle: '' @ e))
         (run_status X (tar_invocation output_path staging))) (\<lambda>status.
       if po_code status \<noteq> Some 0 then
         fail (mk_err ProcessNotRunning
           (''tar exited with status '' @ exit_text status @ '' while packaging the bundle.''))
       else
         map_err (\<lambda>e. mk_err InvalidConfig
             (''Failed to chmod bundle archive at '' @ output_path @ '': '' @ e))
           (fs_set_permissions X output_path 0x180))"

definition listing_io :: "ext \<Rightarrow> nat \<Rightarrow> json io_option" where
  "listing_io X fuel w = map_option (\<lambda>listing. (Inr listing, w)) (collect_native_app_listing X fuel w)"

definition stage_bundle ::
    "ext \<Rightarrow> nat \<Rightarrow> json \<Rightarrow> json \<Rightarrow> string \<Rightarrow> (string list \<times> u32) io_option" where
  "stage_bundle X fuel doctor_payload environment staging =
     (let base_dir = path_join staging BUNDLE_ROOT_NAME in
      bind_first (map_err (\<lambda>e. mk_err ProcessNotRunning
            (''Failed to prepare bundle staging directory: '' @ e)) (fs_create_dir X base_dir)) (\<lambda>_.
      bind_first (write_json_file X base_dir ''doctor.json'' doctor_payload ([], 0)) (\<lambda>c1.
      bind_first (write_json_file X base_dir ''environment.json'' environment c1) (\<lambda>c2.
      bind_first (\<lambda>w. case collect_os_info X w of (info, w') \<Rightarrow> (Inr info, w')) (\<lambda>os_info.
      bind_first (write_json_file X base_dir ''os.json'' os_info c2) (\<lambda>c3.
      bind_first (map_err (\<lambda>e. mk_err ProcessNotRunning
            (''Failed to create native-app dir in bundle staging: '' @ e))
          (fs_create_dir X (path_join base_dir ''native-app''))) (\<lambda>_.
      bind_fuel (listing_io X fuel) (\<lambda>listing.
      bind_first (write_json_file X base_dir ''native-app/file-listing.json'' listing c3) (\<lambda>c4.
      bind_first (write_manifest X base_dir (fst c4) (snd c4)) (\<lambda>_ w.
      Some (ret (''manifest.json'' # fst c4, snd c4) w)))))))))))"

definition write_diagnostic_bundle ::
    "ext \<Rightarrow> (proc_output \<Rightarrow> string) \<Rightarrow> nat \<Rightarrow> string \<Rightarrow> json \<Rightarrow> json \<Rightarrow> bundle_result io_option" where
  "write_diagnostic_bundle X exit_text fuel output_path doctor_payload environment w =
     (if output_path = [] then
        Some (fail (mk_err InvalidParam ''Bundle output path must not be empty.'') w)
      else if is_dir X w output_path then
        Some (fail (mk_err InvalidParam
          (''Bundle output path '' @ output_path @ '' is a directory; expected a file.'')) w)
      else
        with_staging X (\<lambda>staging.
          bind_fuel (stage_bundle X fuel doctor_payload environment staging) (\<lambda>(files_included, checks).
          bind_first (prepare_output X output_path) (\<lambda>_.
          bind_first (pack_bundle X exit_text output_path staging) (\<lambda>_ w.
          Some (ret \<lparr>br_path = output_path, br_files_included = files_included,
            br_redaction_checks = checks\<rparr> w))))) w)"

end
