(* ===== verification/Bundle_Laws.thy ===== *)
theory Bundle_Laws
  imports Bundle Broker_Copy Touches Redaction_Laws
begin

text \<open>
  What the diagnostic bundle may contain and what making it may change: the listing depends on
  metadata alone, a refused payload stops everything before any program is started, what is
  packed has passed the audit, and the staging directory does not survive.
\<close>

section \<open>The listing\<close>

text \<open>Two machines that differ in nothing but the bytes of their files.\<close>

definition same_metadata :: "world \<Rightarrow> world \<Rightarrow> bool" where
  "same_metadata w v \<longleftrightarrow> w_root w = w_root v
     \<and> (\<forall>p. rel_option (\<lambda>i j. i_kind i = i_kind j \<and> i_mode i = i_mode j \<and> i_uid i = i_uid j
              \<and> length (i_data i) = length (i_data j)) (w_fs w p) (w_fs v p))"

text \<open>Listing a directory and resolving a path do not look into files.\<close>

definition names_only :: "ext \<Rightarrow> bool" where
  "names_only X \<longleftrightarrow>
     (\<forall>w v p. same_metadata w v \<longrightarrow>
        x_read_dir X w p = x_read_dir X v p \<and> x_resolve X w p = x_resolve X v p)"

lemma same_metadata_lookup:
  assumes "same_metadata w v"
  shows "w_fs w p = None \<longleftrightarrow> w_fs v p = None"
    and "w_fs w p = Some i \<Longrightarrow> w_fs v p = Some j \<Longrightarrow>
      i_kind i = i_kind j \<and> entry_metadata base p i = entry_metadata base p j"
proof -
  note rel = assms [unfolded same_metadata_def, THEN conjunct2, rule_format, of p]
  show "w_fs w p = None \<longleftrightarrow> w_fs v p = None" using rel by (auto elim: option.rel_cases)
  show "w_fs w p = Some i \<Longrightarrow> w_fs v p = Some j \<Longrightarrow>
      i_kind i = i_kind j \<and> entry_metadata base p i = entry_metadata base p j"
    using rel by (auto simp: entry_metadata_def)
qed

lemma walk_metadata_same:
  assumes "names_only X" "same_metadata w v"
  shows "walk_metadata X fuel base w current = walk_metadata X fuel base v current"
proof (induction fuel arbitrary: current)
  case 0
  show ?case by simp
next
  case (Suc fuel)
  have dir: "x_read_dir X w current = x_read_dir X v current"
    using assms by (simp add: names_only_def)
  have entry: "(case lstat w p of None \<Rightarrow> Some []
        | Some m \<Rightarrow> map_option (Cons (entry_metadata base p m))
            (if i_kind m = KDir then walk_metadata X fuel base w p else Some []))
      = (case lstat v p of None \<Rightarrow> Some []
        | Some m \<Rightarrow> map_option (Cons (entry_metadata base p m))
            (if i_kind m = KDir then walk_metadata X fuel base v p else Some []))" for p
  proof (cases "w_fs w p")
    case None
    then show ?thesis using same_metadata_lookup(1) [OF assms(2), of p] by (simp add: lstat_def)
  next
    case (Some i)
    then obtain j where j: "w_fs v p = Some j" using same_metadata_lookup(1) [OF assms(2), of p] by auto
    note eq = same_metadata_lookup(2) [OF assms(2) Some j, of base]
    show ?thesis using Some j eq by (simp add: lstat_def Suc.IH)
  qed
  then have "(\<lambda>name. let path = path_join current name in
        (case lstat w path of None \<Rightarrow> Some []
         | Some m \<Rightarrow> map_option (Cons (entry_metadata base path m))
            (if i_kind m = KDir then walk_metadata X fuel base w path else Some [])))
      = (\<lambda>name. let path = path_join current name in
        (case lstat v path of None \<Rightarrow> Some []
         | Some m \<Rightarrow> map_option (Cons (entry_metadata base path m))
            (if i_kind m = KDir then walk_metadata X fuel base v path else Some [])))"
    by (simp add: Let_def)
  then show ?case by (simp only: walk_metadata.simps dir)
qed

text \<open>C27: the listing in the bundle reveals nothing of the content of any file: on two machines
  that differ only in the bytes of their files it is the same.\<close>

theorem listing_metadata_only:
  assumes "names_only X" "same_metadata w v"
  shows "collect_native_app_listing X fuel w = collect_native_app_listing X fuel v"
proof -
  have "native_app_runtime_dir w = native_app_runtime_dir v"
    using assms(2) by (simp add: same_metadata_def native_app_runtime_dir_def)
  moreover have "path_exists X w p = path_exists X v p" for p
  proof -
    have "x_resolve X w p = x_resolve X v p" using assms unfolding names_only_def by blast
    then show ?thesis
      using same_metadata_lookup(1) [OF assms(2)]
      by (cases "x_resolve X v p") (simp_all add: path_exists_def stat_def del: not_None_eq)
  qed
  ultimately show ?thesis
    by (simp add: collect_native_app_listing_def Let_def walk_metadata_same [OF assms])
qed

definition credential_ext :: ext where
  "credential_ext = (sample_ext [])\<lparr>x_read_dir := (\<lambda>w p. Inr
     (if p = ''/h/.apw/native-app'' then [Inr ''credentials.json''] else []))\<rparr>"

definition credential_world :: "string \<Rightarrow> world" where
  "credential_world secret = sample_world
     [(''/h/.apw/native-app'', (sample_file [])\<lparr>i_kind := KDir\<rparr>),
      (''/h/.apw/native-app/credentials.json'', sample_file secret)]"

theorem listing_metadata_only_witness:
  "collect_native_app_listing credential_ext 2 (credential_world ''hunter2'')
     = collect_native_app_listing credential_ext 2 (credential_world ''hunter3'')"
proof (rule listing_metadata_only)
  show "names_only credential_ext" by (simp add: names_only_def credential_ext_def)
  show "same_metadata (credential_world ''hunter2'') (credential_world ''hunter3'')"
    by (simp add: same_metadata_def credential_world_def)
qed

section \<open>Steps of the bundle\<close>

text \<open>The staging directory for a random suffix, and what is assumed of the machine: suffixes are
  plain, the staging area and the archive are reached without symbolic links, the archive does
  not lie in the staging area, and \<open>tar\<close> writes the archive alone.\<close>

definition staging_at :: "ext \<Rightarrow> world \<Rightarrow> string \<Rightarrow> string" where
  "staging_at X w h = path_join (x_temp_dir X w) (''apw-doctor-staging-'' @ h)"

definition plain_bundle :: "ext \<Rightarrow> world \<Rightarrow> string \<Rightarrow> bool" where
  "plain_bundle X w out \<longleftrightarrow>
     (\<forall>v. CHR ''/'' \<notin> set (x_random_hex X v 16))
     \<and> (\<forall>h v p. below (staging_at X w h) p \<or> p = out \<longrightarrow> x_resolve X v p = Inr p)
     \<and> (\<forall>h q. q = out \<or> path_parent out = Some q \<longrightarrow> \<not> below (staging_at X w h) q)
     \<and> (\<forall>v i q. q \<noteq> out \<longrightarrow> x_after X v i q = w_fs v q)"

lemma plain_bundleD:
  assumes "plain_bundle X w out"
  shows "CHR ''/'' \<notin> set (x_random_hex X v 16)"
    "below (staging_at X w h) p \<Longrightarrow> x_resolve X v p = Inr p" "x_resolve X v out = Inr out"
    "\<not> below (staging_at X w h) out" "path_parent out = Some q \<Longrightarrow> \<not> below (staging_at X w h) q"
    "q \<noteq> out \<Longrightarrow> x_after X v i q = w_fs v q"
proof -
  note a = assms [unfolded plain_bundle_def]
  show "CHR ''/'' \<notin> set (x_random_hex X v 16)" using a by (elim conjE) (rule spec)
  show "below (staging_at X w h) p \<Longrightarrow> x_resolve X v p = Inr p" "x_resolve X v out = Inr out"
    using a [THEN conjunct2, THEN conjunct1] by simp_all
  show "\<not> below (staging_at X w h) out" "path_parent out = Some q \<Longrightarrow> \<not> below (staging_at X w h) q"
    using a [THEN conjunct2, THEN conjunct2, THEN conjunct1] by simp_all
  show "q \<noteq> out \<Longrightarrow> x_after X v i q = w_fs v q"
    using a [THEN conjunct2, THEN conjunct2, THEN conjunct2] by simp
qed

text \<open>A step that fails before the rest of an operation with fuel is reached.\<close>

lemma bind_first_fails:
  assumes "bind_io m f w = (Inl e, w')"
    and "\<And>x v. m w = (Inr x, v) \<Longrightarrow> f x v = (Inl e, w') \<Longrightarrow> g x v = Some (Inl e, w')"
  shows "bind_first m g w = Some (Inl e, w')"
  using assms by (auto simp: bind_io_def bind_first_def split: prod.splits sum.splits)

lemma staging_dir_path: "CHR ''/'' \<notin> set h \<Longrightarrow> dir_path (staging_at X w h)"
proof -
  assume h: "CHR ''/'' \<notin> set h"
  have "last (''apw-doctor-staging-'' @ h) \<noteq> CHR ''/''"
  proof (cases "h = []")
    case False
    then show ?thesis using h last_in_set [OF False] by (metis last_appendR)
  qed simp
  moreover have "last (path_join p q) = last q \<and> path_join p q \<noteq> []" if "q \<noteq> []" for p q
    using that by (auto simp: path_join_def)
  ultimately show ?thesis by (simp add: dir_path_def staging_at_def)
qed

definition bundle_dir :: "string \<Rightarrow> string" where
  "bundle_dir staging = path_join staging BUNDLE_ROOT_NAME"

lemma staged_below:
  assumes "dir_path staging"
  shows "below staging (bundle_dir staging)" "bundle_dir staging \<noteq> staging"
    "\<And>n. n \<noteq> [] \<Longrightarrow> \<not> is_absolute n \<Longrightarrow> below staging (path_join (bundle_dir staging) n)"
    "\<And>n. n \<noteq> [] \<Longrightarrow> \<not> is_absolute n \<Longrightarrow> path_join (bundle_dir staging) n = bundle_dir staging @ ''/'' @ n"
proof -
  have name: "bundle_dir staging = staging @ ''/'' @ BUNDLE_ROOT_NAME"
    using assms unfolding bundle_dir_def
    by (intro join_plain) (auto simp: plain_name_def BUNDLE_ROOT_NAME_def)
  then show "below staging (bundle_dir staging)" "bundle_dir staging \<noteq> staging"
    by (auto simp: below_def)
  show join: "path_join (bundle_dir staging) n = bundle_dir staging @ ''/'' @ n"
    if "n \<noteq> []" "\<not> is_absolute n" for n
    using that name by (auto simp: path_join_def BUNDLE_ROOT_NAME_def)
  show "below staging (path_join (bundle_dir staging) n)" if "n \<noteq> []" "\<not> is_absolute n" for n
    using join [OF that] name by (auto simp: below_def)
qed

lemma write_json_touches:
  assumes "\<And>v. x_resolve X v (path_join base n) = Inr (path_join base n)"
  shows "touches {path_join base n} (write_json_file X base n payload counted) w"
    and "frame rest (write_json_file X base n payload counted)"
proof -
  let ?p = "path_join base n"
  let ?save = "\<lambda>d c. bind_io (map_err (\<lambda>e. mk_err ProcessNotRunning (''Failed to write '' @ n @ '': '' @ e))
        (fs_write X ?p d))
      (\<lambda>_. bind_io (map_err (\<lambda>e. mk_err InvalidConfig (''Failed to chmod '' @ n @ '': '' @ e))
        (fs_set_permissions X ?p 0x180)) (\<lambda>_. ret (fst counted @ [n], c)))"
  have eq: "write_json_file X base n payload counted =
      (case audit_redaction payload (snd counted) of
         (Inl e, checks) \<Rightarrow> fail e
       | (Inr _, checks) \<Rightarrow> (case x_json_pretty X payload of
             Inl e \<Rightarrow> fail (mk_err GenericError (''Failed to encode '' @ n @ '': '' @ e))
           | Inr bytes \<Rightarrow> ?save bytes checks))"
    by (rule ext) (simp add: write_json_file_def Let_def split: prod.split sum.split)
  have save: "touches {?p} (?save d c) v" for d c v
    using assms by (intro touches_bind touches_map_err touches_write touches_set_permissions touches_pure)
  show "touches {?p} (write_json_file X base n payload counted) w"
    unfolding eq by (auto simp only: save touches_pure split: prod.split sum.split)
  have save: "frame rest (?save d c)" for d c by (intro frame_rules)
  show "frame rest (write_json_file X base n payload counted)"
    unfolding eq by (auto simp only: save frame_pure split: prod.split sum.split)
qed

lemma audit_result:
  "audit_redaction v n =
     (case find (\<lambda>(s, k). looks_secret_like_for_kind s k) (audited v FreeText) of
        None \<Rightarrow> (Inr (), n + of_nat (length (audited v FreeText)))
      | Some (s, k) \<Rightarrow>
          (Inl (suspicious_error s),
           n + of_nat (Suc (length (takeWhile (\<lambda>(s, k). \<not> looks_secret_like_for_kind s k)
             (audited v FreeText))))))"
  by (simp add: audit_redaction_def walk_check_all check_all_audit)

text \<open>A payload none of whose audited strings looks like a credential.\<close>

definition clean :: "json \<Rightarrow> bool" where
  "clean v \<longleftrightarrow> find (\<lambda>(s, k). looks_secret_like_for_kind s k) (audited v FreeText) = None"

lemma write_json_Inr:
  "write_json_file X base n v (names, checks) w = (Inr c, w') \<Longrightarrow>
     clean v \<and> c = (names @ [n], checks + of_nat (length (audited v FreeText)))"
  by (auto simp: write_json_file_def audit_result clean_def Let_def bind_io_Inr
      split: option.splits sum.splits prod.splits)

lemma write_json_refused: "\<not> clean v \<Longrightarrow> \<exists>e. write_json_file X base n v counted w = (Inl e, w)"
  by (cases counted) (auto simp: write_json_file_def audit_result clean_def split: option.split prod.split)

section \<open>The staging directory\<close>

definition staging_area :: "ext \<Rightarrow> world \<Rightarrow> string set" where
  "staging_area X w = {q. \<exists>h. CHR ''/'' \<notin> set h \<and> below (staging_at X w h) q}"

lemma staging_create_effect:
  assumes plain: "plain_bundle X w out" and run: "staging_create X w = (r, w1)"
  shows "rest w1 = rest w" and "touches ({x_temp_dir X w} \<union> staging_area X w) (staging_create X) w"
    and "r = Inr s \<Longrightarrow> \<exists>h. s = staging_at X w h \<and> CHR ''/'' \<notin> set h
      \<and> map_option i_kind (w_fs w1 s) = Some KDir"
proof -
  let ?base = "x_temp_dir X w"
  obtain s1 v where mk: "fs_create_dir_all X ?base w = (s1, v)" by fastforce
  note fr = frameD [OF fs_rest(1) mk]
  let ?h = "x_random_hex X v 16"
  let ?p = "staging_at X w ?h"
  have h: "CHR ''/'' \<notin> set ?h" using plain by (simp add: plain_bundle_def)
  have res: "x_resolve X u ?p = Inr ?p" for u using plain_bundleD(2) [OF plain below_refl] .
  have in_area: "?p \<in> staging_area X w" using h by (auto simp: staging_area_def)
  let ?tail = "\<lambda>f g. bind_io (map_err f (fs_create_dir X ?p))
      (\<lambda>_. bind_io (map_err g (fs_set_permissions X ?p 0x1C0)) (\<lambda>_. ret ?p))"
  have eq: "\<exists>e f g. staging_create X w = (case s1 of Inl x \<Rightarrow> (Inl (e x), v) | Inr _ \<Rightarrow> ?tail f g v)"
    unfolding staging_create_def Let_def
    by (auto simp: bind_io_def map_err_def mk staging_at_def split: sum.split)
  then obtain e f g where eq: "staging_create X w = (case s1 of Inl x \<Rightarrow> (Inl (e x), v) | Inr _ \<Rightarrow> ?tail f g v)"
    by blast
  have t: "touches {?p} (?tail f g) v"
    using res by (intro touches_bind touches_map_err touches_create_dir touches_set_permissions touches_pure)
  have "frame rest (?tail f g)" by (intro frame_rules)
  then have "rest (snd (?tail f g v)) = rest v" by (simp add: frame_def)
  then show "rest w1 = rest w" using eq run fr by (cases s1) (simp, metis snd_conv old.sum.simps(6))
  show "touches ({?base} \<union> staging_area X w) (staging_create X) w"
  proof -
    obtain y v2 where tail: "?tail f g v = (y, v2)" by fastforce
    note v = touchesD [OF touches_create mk] and v2 = touchesD [OF t tail]
    have "w_fs v2 x = w_fs w x" if "x \<notin> {?base} \<union> staging_area X w" for x
    proof -
      have "x \<noteq> ?p" using that in_area by blast
      then show ?thesis using that v v2 by simp
    qed
    then show ?thesis using v v2 by (cases s1) (auto simp: touches_def eq tail)
  qed
  show "\<exists>h. s = staging_at X w h \<and> CHR ''/'' \<notin> set h \<and> map_option i_kind (w_fs w1 s) = Some KDir"
    if "r = Inr s"
  proof -
    have "?tail f g v = (Inr s, w1)" using that run eq by (cases s1) auto
    then have "s = ?p \<and> map_option i_kind (w_fs w1 ?p) = Some KDir"
      using res by (auto simp: bind_io_Inr map_err_Inr fs_create_dir_def fs_set_permissions_def faulty_def
          new_inode_def split: option.splits if_splits)
    then show ?thesis using h by blast
  qed
qed

section \<open>Failing closed\<close>

text \<open>A payload that is refused stops the staging before the operating system is probed.\<close>

lemma stage_refused:
  assumes refused: "\<not> clean doctor \<or> \<not> clean env" and dir: "dir_path staging"
    and res: "\<And>v p. below staging p \<Longrightarrow> x_resolve X v p = Inr p"
  shows "\<exists>e w'. stage_bundle X fuel doctor env staging w = Some (Inl e, w') \<and> rest w' = rest w
    \<and> {q. w_fs w' q \<noteq> w_fs w q} \<subseteq> {q. below staging q}"
proof -
  let ?base = "path_join staging BUNDLE_ROOT_NAME"
  note b = staged_below [OF dir, unfolded bundle_dir_def]
  let ?mk = "map_err (\<lambda>e. mk_err ProcessNotRunning
            (''Failed to prepare bundle staging directory: '' @ e)) (fs_create_dir X ?base)"
  let ?w1 = "write_json_file X ?base ''doctor.json'' doctor ([], 0)"
  let ?m = "bind_io ?mk (\<lambda>_. bind_io ?w1 (write_json_file X ?base ''environment.json'' env))"
  obtain r w' where m: "?m w = (r, w')" by fastforce
  have "\<exists>e. r = Inl e"
  proof (rule ccontr)
    assume "\<nexists>e. r = Inl e"
    then obtain c where "r = Inr c" by (cases r) auto
    then obtain c1 w2 w3 where "?w1 w2 = (Inr c1, w3)"
        "write_json_file X ?base ''environment.json'' env c1 w3 = (Inr c, w')"
      using m by (auto simp: bind_io_Inr)
    then show False
      using refused write_json_refused [of doctor X ?base "''doctor.json''" "([], 0)" w2]
        write_json_refused [of env X ?base "''environment.json''" c1 w3] by auto
  qed
  then obtain e where e: "r = Inl e" by blast
  have "stage_bundle X fuel doctor env staging w = Some (Inl e, w')"
    unfolding stage_bundle_def Let_def
    by (rule bind_first_fails [OF m [unfolded e]], erule bind_first_fails) (simp add: bind_first_def)
  moreover have plain: "x_resolve X v (path_join ?base n) = Inr (path_join ?base n)"
    if "n \<noteq> []" "\<not> is_absolute n" for n v
    using res b(3) that by blast
  have names: "''doctor.json'' \<noteq> [] \<and> \<not> is_absolute ''doctor.json''"
      "''environment.json'' \<noteq> [] \<and> \<not> is_absolute ''environment.json''"
    by (simp_all add: is_absolute_def)
  note docs = plain [OF names(1) [THEN conjunct1] names(1) [THEN conjunct2]]
    plain [OF names(2) [THEN conjunct1] names(2) [THEN conjunct2]]
  note places = b(3) [OF names(1) [THEN conjunct1] names(1) [THEN conjunct2]]
    b(3) [OF names(2) [THEN conjunct1] names(2) [THEN conjunct2]]
  have w1: "frame rest ?w1" by (rule write_json_touches(2) [OF docs(1)])
  have w2: "frame rest (write_json_file X ?base ''environment.json'' env c)" for c
    by (rule write_json_touches(2) [OF docs(2)])
  have "rest w' = rest w"
    by (rule frameD [OF frame_bind [OF frame_map_err [OF fs_rest(2)] frame_bind [OF w1 w2]] m])
  moreover have "touches {q. below staging q} ?m w"
  proof (intro touches_bind touches_map_err)
    show "touches {q. below staging q} (fs_create_dir X ?base) w"
      by (rule touches_mono [OF touches_create_dir]) (simp add: b)
    show "touches {q. below staging q} ?w1 w2" for w2
      using places(1) by (intro touches_mono [OF write_json_touches(1) [OF docs(1)]]) blast
    show "touches {q. below staging q} (write_json_file X ?base ''environment.json'' env c) w2" for c w2
      using places(2) by (intro touches_mono [OF write_json_touches(1) [OF docs(2)]]) blast
  qed
  then have "{q. w_fs w' q \<noteq> w_fs w q} \<subseteq> {q. below staging q}" using m by (simp add: touches_def)
  ultimately show ?thesis by blast
qed

lemma remove_staging:
  "rest (ignore (fs_remove_dir_all X s) w) = rest w"
  "{q. w_fs (ignore (fs_remove_dir_all X s) w) q \<noteq> w_fs w q} \<subseteq> {q. below s q}"
proof -
  obtain r w' where run: "fs_remove_dir_all X s w = (r, w')" by fastforce
  show "rest (ignore (fs_remove_dir_all X s) w) = rest w"
    using frameD [OF fs_remove_dir_all_rest run] by (simp add: ignore_def run)
  show "{q. w_fs (ignore (fs_remove_dir_all X s) w) q \<noteq> w_fs w q} \<subseteq> {q. below s q}"
    using touchesD [OF touches_remove_dir run] by (auto simp: ignore_def run)
qed

text \<open>C7: the bundle fails closed: if any audited string of the doctor's or the environment's
  payload looks like a credential, the result is an error, no program is started and nothing is
  sent, and no file outside the temporary directory's staging area changes, so that an earlier
  archive at the output path survives.\<close>

theorem bundle_fails_closed:
  assumes plain: "plain_bundle X w out"
    and refused: "(bad, k) \<in> set (audited doctor FreeText @ audited env FreeText)"
      "looks_secret_like_for_kind bad k"
  shows "\<exists>e w'. write_diagnostic_bundle X exit_text fuel out doctor env w = Some (Inl e, w')
    \<and> w_spawned w' = w_spawned w \<and> w_sent w' = w_sent w
    \<and> {q. w_fs w' q \<noteq> w_fs w q} \<subseteq> {x_temp_dir X w} \<union> staging_area X w"
proof (cases "out = [] \<or> is_dir X w out")
  case True
  then show ?thesis by (auto simp: write_diagnostic_bundle_def)
next
  case False
  have unclean: "\<not> clean doctor \<or> \<not> clean env"
    using refused by (auto simp: clean_def find_None_iff)
  obtain r w1 where create: "staging_create X w = (r, w1)" by fastforce
  note c = staging_create_effect [OF plain create]
  note c1 = rest_fields [OF c(1)] and c2 = touchesD [OF c(2) create]
  show ?thesis
  proof (cases r)
    case (Inl e)
    then have "write_diagnostic_bundle X exit_text fuel out doctor env w = Some (Inl e, w1)"
      using False create by (simp add: write_diagnostic_bundle_def with_staging_def)
    then show ?thesis using c1 c2 by blast
  next
    case (Inr s)
    obtain h where h: "s = staging_at X w h" "CHR ''/'' \<notin> set h" using c(3) [OF Inr] by blast
    have dir: "dir_path s" using staging_dir_path h by blast
    have res: "x_resolve X v p = Inr p" if "below s p" for v p
      by (rule plain_bundleD(2) [OF plain, of h]) (use that h(1) in simp)
    obtain e w2 where st: "stage_bundle X fuel doctor env s w1 = Some (Inl e, w2)"
        "rest w2 = rest w1" "{q. w_fs w2 q \<noteq> w_fs w1 q} \<subseteq> {q. below s q}"
      using stage_refused [OF unclean dir res, of fuel w1] by blast
    let ?w3 = "ignore (fs_remove_dir_all X s) w2"
    have "write_diagnostic_bundle X exit_text fuel out doctor env w = Some (Inl e, ?w3)"
      using False create Inr st(1) by (simp add: write_diagnostic_bundle_def with_staging_def bind_fuel_def)
    moreover have "rest ?w3 = rest w" using remove_staging(1) st(2) c(1) by simp
    moreover have "{q. w_fs ?w3 q \<noteq> w_fs w q} \<subseteq> {x_temp_dir X w} \<union> staging_area X w"
    proof -
      have "{q. below s q} \<subseteq> staging_area X w" using h by (auto simp: staging_area_def)
      moreover have "{q. w_fs ?w3 q \<noteq> w_fs w q} \<subseteq> {q. w_fs ?w3 q \<noteq> w_fs w2 q}
          \<union> {q. w_fs w2 q \<noteq> w_fs w1 q} \<union> {q. w_fs w1 q \<noteq> w_fs w q}" by auto
      ultimately show ?thesis using remove_staging(2) [of X s w2] st(3) c2 by blast
    qed
    ultimately show ?thesis using rest_fields(5,6) by blast
  qed
qed

lemma sample_staging:
  "staging_at (sample_ext docs) (sample_world files) h = ''/tmp/apw-doctor-staging-'' @ h"
  by (simp add: staging_at_def path_join_def is_absolute_def)

lemma sample_plain_bundle: "plain_bundle (sample_ext docs) (sample_world files) ''/h/out.tgz''"
  unfolding plain_bundle_def sample_staging
  by (auto simp: below_def prefix_def path_parent_def is_absolute_def)

theorem bundle_fails_closed_witness:
  "\<exists>e w'. write_diagnostic_bundle (sample_ext []) (\<lambda>_. ''exit status: 1'') 1 ''/h/out.tgz''
       (obj [(''message'', JString ''ghp_0123456789'')]) (obj []) (sample_world []) = Some (Inl e, w')
     \<and> w_spawned w' = []"
proof -
  have "looks_secret_like_for_kind ''ghp_0123456789'' FreeText"
    by (rule vendor_token_flagged) (simp add: contains_vendor_token_prefix_def TOKEN_PREFIXES_def contains_def)
  moreover have "(''ghp_0123456789'', FreeText) \<in> set
      (audited (obj [(''message'', JString ''ghp_0123456789'')]) FreeText @ audited (obj []) FreeText)"
    by (simp add: obj_def skipped_members_def diagnostic_string_kind_def structural_fields_def)
  ultimately obtain e w' where "write_diagnostic_bundle (sample_ext []) (\<lambda>_. ''exit status: 1'') 1 ''/h/out.tgz''
       (obj [(''message'', JString ''ghp_0123456789'')]) (obj []) (sample_world []) = Some (Inl e, w')"
      "w_spawned w' = w_spawned (sample_world [])"
    using bundle_fails_closed [OF sample_plain_bundle] by blast
  then show ?thesis by simp
qed

section \<open>What is packed\<close>

lemma lifted_Inr: "(case m of (x, v) \<Rightarrow> (Inr x, v)) = (Inr y, w') \<longleftrightarrow> m = (y, w')"
  by (cases m) simp

text \<open>A file with the text of a value, readable by its owner alone.\<close>

definition stored :: "ext \<Rightarrow> world \<Rightarrow> string \<Rightarrow> json \<Rightarrow> bool" where
  "stored X w p v \<longleftrightarrow>
     (\<exists>i. w_fs w p = Some i \<and> i_kind i = KFile \<and> i_mode i = 0x180 \<and> x_json_pretty X v = Inr (i_data i))"

lemma stored_cong: "stored X w p v \<Longrightarrow> w_fs w' p = w_fs w p \<Longrightarrow> stored X w' p v"
  by (auto simp: stored_def)

lemma write_json_stored:
  assumes run: "write_json_file X base n v counted w = (Inr c, w')"
    and plain: "\<And>u. x_resolve X u (path_join base n) = Inr (path_join base n)"
  shows "stored X w' (path_join base n) v"
proof -
  obtain bytes w1 where t: "x_json_pretty X v = Inr bytes"
      and wr: "fs_write X (path_join base n) bytes w = (Inr (), w1)"
      and ch: "fs_set_permissions X (path_join base n) 0x180 w1 = (Inr (), w')"
    using run by (auto simp: write_json_file_def Let_def bind_io_Inr map_err_Inr
        split: prod.splits sum.splits)
  have "\<exists>i. w_fs w1 (path_join base n) = Some i \<and> i_kind i = KFile \<and> i_data i = bytes"
    using wr plain by (auto simp: fs_write_def fs_open_truncate_def fs_write_all_def faulty_def
        new_inode_def split: option.splits if_splits prod.splits sum.splits)
  then show ?thesis
    using ch plain t by (auto simp: stored_def fs_set_permissions_def faulty_def split: option.splits)
qed

lemma probe_world: "snd (probe_first_line X c as w) = log_spawn (invoke c as) w"
  by (auto simp: probe_first_line_def probe_output_def Let_def split: prod.split option.split)

lemma probe_touches: "touches {} (probe_first_line X c as) w"
  using probe_world [of X c as w] by (cases "probe_first_line X c as w") (simp add: touches_def)

lemma os_info_touches: "touches {} (collect_os_info X) w"
proof -
  obtain a w1 where 1: "probe_first_line X ''uname'' [''-a''] w = (a, w1)" by fastforce
  obtain b w2 where 2: "probe_first_line X ''sw_vers'' [''-productName''] w1 = (b, w2)" by fastforce
  obtain c w3 where 3: "probe_first_line X ''sw_vers'' [''-productVersion''] w2 = (c, w3)" by fastforce
  obtain d w4 where 4: "probe_first_line X ''sw_vers'' [''-buildVersion''] w3 = (d, w4)" by fastforce
  from touchesD [OF probe_touches 1] touchesD [OF probe_touches 2] touchesD [OF probe_touches 3]
    touchesD [OF probe_touches 4]
  show ?thesis by (auto simp: touches_def collect_os_info_def Let_def 1 2 3 4)
qed

lemma manifest_touches:
  assumes "\<And>v. x_resolve X v (path_join base ''manifest.json'') = Inr (path_join base ''manifest.json'')"
  shows "touches {path_join base ''manifest.json''} (write_manifest X base files checks) w"
proof -
  let ?p = "path_join base ''manifest.json''"
  have "touches {?p} (bind_io (map_err f (fs_write X ?p d))
      (\<lambda>_. map_err g (fs_set_permissions X ?p 0x180))) w" for f g d
    using assms by (intro touches_bind touches_map_err touches_write touches_set_permissions)
  then show ?thesis
    by (auto simp: write_manifest_def Let_def touches_def split: sum.split)
qed

text \<open>The files of the bundle in the staging directory.\<close>

definition bundle_files :: "json \<Rightarrow> json \<Rightarrow> json \<Rightarrow> json \<Rightarrow> (string \<times> json) list" where
  "bundle_files doctor env os listing =
     [(''doctor.json'', doctor), (''environment.json'', env), (''os.json'', os),
      (''native-app/file-listing.json'', listing)]"

lemma stage_success:
  assumes run: "stage_bundle X fuel doctor env staging w = Some (Inr (names, checks), w')"
    and dir: "dir_path staging" and res: "\<And>v p. below staging p \<Longrightarrow> x_resolve X v p = Inr p"
  shows "\<exists>os listing wl. collect_native_app_listing X fuel wl = Some listing
    \<and> list_all (\<lambda>(n, v). clean v \<and> stored X w' (path_join (bundle_dir staging) n) v)
        (bundle_files doctor env os listing)
    \<and> names = ''manifest.json'' # map fst (bundle_files doctor env os listing)
    \<and> checks = of_nat (sum_list (map (\<lambda>(n, v). length (audited v FreeText))
        (bundle_files doctor env os listing)))"
proof -
  let ?b = "bundle_dir staging"
  let ?f = "\<lambda>n. path_join ?b n"
  obtain w1 w2 w3 w4 w5 w6 w7 c1 c2 c3 c4 os listing where
      mk: "fs_create_dir X ?b w = (Inr (), w1)"
    and doc: "write_json_file X ?b ''doctor.json'' doctor ([], 0) w1 = (Inr c1, w2)"
    and en: "write_json_file X ?b ''environment.json'' env c1 w2 = (Inr c2, w3)"
    and os: "collect_os_info X w3 = (os, w4)"
    and osf: "write_json_file X ?b ''os.json'' os c2 w4 = (Inr c3, w5)"
    and nat: "fs_create_dir X (?f ''native-app'') w5 = (Inr (), w6)"
    and ls: "collect_native_app_listing X fuel w6 = Some listing"
    and lsf: "write_json_file X ?b ''native-app/file-listing.json'' listing c3 w6 = (Inr c4, w7)"
    and mf: "write_manifest X ?b (fst c4) (snd c4) w7 = (Inr (), w')"
    and out: "names = ''manifest.json'' # fst c4" "checks = snd c4"
    using run unfolding stage_bundle_def Let_def bundle_dir_def [symmetric] bind_first_Inr bind_fuel_Inr
    by (auto simp: map_err_Inr listing_io_def lifted_Inr)
  have plain: "x_resolve X v (?f n) = Inr (?f n)" if "n \<noteq> [] \<and> \<not> is_absolute n" for n v
    using res staged_below(3) [OF dir] that by blast
  have names: "''doctor.json'' \<noteq> [] \<and> \<not> is_absolute ''doctor.json''"
      "''environment.json'' \<noteq> [] \<and> \<not> is_absolute ''environment.json''"
      "''os.json'' \<noteq> [] \<and> \<not> is_absolute ''os.json''"
      "''native-app'' \<noteq> [] \<and> \<not> is_absolute ''native-app''"
      "''native-app/file-listing.json'' \<noteq> [] \<and> \<not> is_absolute ''native-app/file-listing.json''"
      "''manifest.json'' \<noteq> [] \<and> \<not> is_absolute ''manifest.json''"
    by (simp_all add: is_absolute_def)
  note p = names [THEN plain]
  have path: "?f n = ?b @ ''/'' @ n" if "n \<noteq> [] \<and> \<not> is_absolute n" for n
    using staged_below(4) [OF dir] that by blast
  note paths = names [THEN path]
  note t = touchesD [OF write_json_touches(1) [OF p(2)] en] touchesD [OF os_info_touches os]
    touchesD [OF write_json_touches(1) [OF p(3)] osf] touchesD [OF touches_create_dir nat]
    touchesD [OF write_json_touches(1) [OF p(5)] lsf] touchesD [OF manifest_touches [OF p(6)] mf]
  note st = write_json_stored [OF doc p(1)] write_json_stored [OF en p(2)]
    write_json_stored [OF osf p(3)] write_json_stored [OF lsf p(5)]
  have kept: "stored X w' (?f ''doctor.json'') doctor" "stored X w' (?f ''environment.json'') env"
      "stored X w' (?f ''os.json'') os" "stored X w' (?f ''native-app/file-listing.json'') listing"
    by (rule stored_cong, rule st, simp add: t paths)+
  note c1 = write_json_Inr [OF doc]
  note c2 = write_json_Inr [OF en [unfolded c1 [THEN conjunct2]]]
  note c3 = write_json_Inr [OF osf [unfolded c2 [THEN conjunct2]]]
  note c4 = write_json_Inr [OF lsf [unfolded c3 [THEN conjunct2]]]
  have "list_all (\<lambda>(n, v). clean v \<and> stored X w' (?f n) v) (bundle_files doctor env os listing)"
    using kept c1 c2 c3 c4 by (simp add: bundle_files_def)
  moreover have "names = ''manifest.json'' # map fst (bundle_files doctor env os listing)"
      "checks = of_nat (sum_list (map (\<lambda>(n, v). length (audited v FreeText)) (bundle_files doctor env os listing)))"
    using out c4 by (simp_all add: bundle_files_def)
  ultimately show ?thesis using ls by blast
qed

lemma prepare_touches: "touches ({out} \<union> set_option (path_parent out)) (prepare_output X out) w"
  unfolding prepare_output_def
proof (rule touches_bind)
  show "touches ({out} \<union> set_option (path_parent out)) (case path_parent out of None \<Rightarrow> ret ()
        | Some parent \<Rightarrow> if parent = [] then ret ()
          else map_err (\<lambda>e. mk_err ProcessNotRunning
                (''Failed to create bundle output parent '' @ parent @ '': '' @ e))
              (fs_create_dir_all X parent)) w"
    by (cases "path_parent out") (auto intro!: touches_map_err touches_mono [OF touches_create])
  have "touches ({out} \<union> set_option (path_parent out)) (map_err f (fs_remove_file X out)) v" for f v
    by (intro touches_map_err touches_mono [OF touches_remove]) auto
  then show "touches ({out} \<union> set_option (path_parent out)) (\<lambda>w. if path_exists X w out then
            map_err (\<lambda>e. mk_err ProcessNotRunning
                (''Failed to remove existing bundle at '' @ out @ '': '' @ e))
              (fs_remove_file X out) w
          else ret () w) v" for v
    by (cases "path_exists X v out") (simp_all add: touches_def)
qed

lemma pack_Inr:
  assumes "pack_bundle X exit_text out s w = (Inr (), w')"
  shows "w_spawned w' = w_spawned w @ [tar_invocation out s]"
proof -
  obtain v where "run_status X (tar_invocation out s) w = (x_output X w (tar_invocation out s), v)"
      "w_spawned v = w_spawned w @ [tar_invocation out s]"
    by (simp add: run_status_def)
  moreover have "w_spawned (snd (fs_set_permissions X out m u)) = w_spawned u" for m u
    using fs_rest(3) [of X out m] by (simp add: frame_def rest_def)
  ultimately show ?thesis
    using assms by (auto simp: pack_bundle_def bind_io_Inr map_err_Inr split: if_splits) (metis snd_conv)
qed


end
