(* ===== verification/Bundle_Sample.thy ===== *)
theory Bundle_Sample
  imports Bundle_Laws
begin

text \<open>
  A machine on which a diagnostic bundle is made from start to end: the words of the listing and
  of the operating system's data pass the audit, every file is written, and \<open>tar\<close> succeeds.
  It shows that the hypotheses of \<open>bundle_holds_audited\<close> can be met.
\<close>

section \<open>A bundle that is made\<close>

lemma not_hard:
  assumes "list_all (\<lambda>k. \<not> contains (to_ascii_lowercase t) k) KEYWORDS"
    "list_all (\<lambda>k. \<not> contains t k) (''apw-demo-password'' # TOKEN_PREFIXES)" "\<not> list_ex is_symbol t"
    "\<not> eq_ignore_ascii_case (without_ws t) ''hunter2''"
  shows "\<not> matches_secret_keyword t \<and> \<not> contains_vendor_token_prefix t
    \<and> \<not> looks_like_symbol_delimited_secret t \<and> \<not> contains_hard_secret_shape t"
  using assms by (auto simp: matches_secret_keyword_def contains_secret_keyword_def list_ex_iff
      list_all_iff secret_keyword_from.simps contains_def contains_vendor_token_prefix_def
      looks_like_symbol_delimited_secret_def Let_def contains_hard_secret_shape_def)

lemma short_word_clean:
  assumes "length t < 8" "trim t = t" "\<not> eq_ignore_ascii_case (without_ws t) ''hunter2''"
    "list_all (\<lambda>k. \<not> contains (to_ascii_lowercase t) k) KEYWORDS"
    "list_all (\<lambda>k. \<not> contains t k) (''apw-demo-password'' # TOKEN_PREFIXES)" "\<not> list_ex is_symbol t"
  shows "\<not> looks_secret_like_for_kind t kind"
proof -
  note n = not_hard [OF assms(4-6,3)]
  have "length (without_ws t) < 8" "length (filter is_ascii_alnum t) < 28"
    using assms(1) length_filter_le [of is_ascii_alnum t] length_filter_le [of "\<lambda>c. \<not> is_ascii_ws c" t]
    by (simp_all add: without_ws_def le_less_trans [OF length_filter_le])
  then have "\<not> looks_like_short_or_letter_only_secret t" "\<not> looks_like_entropy_secret t"
    using n assms(3) by (simp_all add: looks_like_short_or_letter_only_secret_def looks_like_entropy_secret_def Let_def)
  then show ?thesis using n assms(1,2) by (simp add: looks_secret_like_for_kind_def Let_def)
qed

lemmas word_defs = KEYWORDS_def TOKEN_PREFIXES_def contains_def to_ascii_lowercase_def char_class_defs
  lower_char_def is_symbol_def eq_ignore_ascii_case_def without_ws_def

lemma listing_words_clean:
  "\<not> looks_secret_like_for_kind ''uname'' k" "\<not> looks_secret_like_for_kind ''arch'' k"
  "\<not> looks_secret_like_for_kind ''os'' k" "\<not> looks_secret_like_for_kind ''root'' k"
  "\<not> looks_secret_like_for_kind ''entries'' k"
  by (rule short_word_clean; simp add: word_defs trim_id)+

lemma runtime_dir_clean: "\<not> looks_secret_like_for_kind ''/h/.apw/native-app'' StructuralPath"
proof -
  have "\<not> contains_hard_secret_shape ''/h/.apw/native-app''"
    by (rule not_hard [THEN conjunct2, THEN conjunct2, THEN conjunct2]; simp add: word_defs)
  then show ?thesis by (simp add: looks_secret_like_for_kind_def Let_def trim_id word_defs)
qed
definition bundle_ext :: ext where
  "bundle_ext = (sample_ext [])\<lparr>x_json_pretty := (\<lambda>v. Inr ''{}''),
     x_output := (\<lambda>w i. Inr \<lparr>po_code = Some 0, po_stdout = [], po_stderr = []\<rparr>),
     x_after := (\<lambda>w i. (w_fs w)(''/h/out.tgz'' := Some (sample_file []))),
     x_arch := [], x_os := []\<rparr>"

definition bundle_world :: world where
  "bundle_world = sample_world [(''/h/.apw/native-app'', (sample_file [])\<lparr>i_kind := KDir\<rparr>)]"

lemma bundle_world_simps [simp]:
  "w_fs bundle_world q =
     (if q = ''/h/.apw/native-app'' then Some ((sample_file [])\<lparr>i_kind := KDir\<rparr>) else None)"
  "w_root bundle_world = ''/h/.apw''"
  by (simp_all add: bundle_world_def)

lemma bundle_ext_simps [simp]:
  "x_fault bundle_ext w op = None" "x_resolve bundle_ext w p = Inr p" "\<not> x_macos bundle_ext"
  "x_json_pretty bundle_ext v = Inr ''{}''" "x_late bundle_ext w i = False"
  "x_output bundle_ext w i = Inr \<lparr>po_code = Some 0, po_stdout = [], po_stderr = []\<rparr>"
  "x_after bundle_ext w i = (w_fs w)(''/h/out.tgz'' := Some (sample_file []))"
  "x_arch bundle_ext = []" "x_os bundle_ext = []" "x_temp_dir bundle_ext w = ''/tmp''"
  "x_random_hex bundle_ext w k = replicate k CHR ''0''" "x_read_dir bundle_ext w p = Inr []"
  by (simp_all add: bundle_ext_def sample_ext_def)

text \<open>A payload without strings in it, on a machine where nothing fails, is packed.\<close>

definition made :: "string \<Rightarrow> world \<Rightarrow> world \<Rightarrow> bool" where
  "made p w w' \<longleftrightarrow> w_fs w' p \<noteq> None \<and> (\<forall>q. q \<noteq> p \<longrightarrow> w_fs w' q = w_fs w q) \<and> w_root w' = w_root w"

lemma bundle_ext_mkdir:
  assumes "w_fs w p = None"
  obtains w' where "fs_create_dir bundle_ext p w = (Inr (), w')" "made p w w'"
  using assms by (auto simp: fs_create_dir_def faulty_def made_def put_inode_def)

lemma bundle_ext_write_json:
  assumes "w_fs w (path_join b n) = None" "clean v"
  obtains c' w' where "write_json_file bundle_ext b n v c w = (Inr c', w')" "made (path_join b n) w w'"
proof -
  have "\<exists>k. audit_redaction v (snd c) = (Inr (), k)"
    using assms(2) by (simp add: audit_result clean_def)
  then show ?thesis using that assms(1)
    by (cases c) (auto simp: write_json_file_def Let_def fs_write_def fs_open_truncate_def faulty_def
      fs_write_all_def fs_set_permissions_def bind_io_def map_err_def made_def put_inode_def)
qed


lemma bundle_ext_os_info:
  obtains w' where "collect_os_info bundle_ext w = (obj [(''uname'', JNull), (''arch'', JString []), (''os'', JString [])], w')"
    "w_fs w' = w_fs w" "w_root w' = w_root w"
proof -
  have "probe_first_line bundle_ext ''uname'' [''-a''] w = (JNull, log_spawn (invoke ''uname'' [''-a'']) w)"
    by (simp add: probe_first_line_def probe_output_def Let_def from_utf8_lossy_def lines_def trim_id unwrap_or_def)
  then show ?thesis using that by (simp add: collect_os_info_def Let_def)
qed

lemma word_not_structural: "list_all is_ascii_lower t \<Longrightarrow> \<not> looks_like_structural_json_key t"
proof -
  assume t: "list_all is_ascii_lower t"
  then have "97 \<le> code c \<and> code c \<le> 122" if "c \<in> {hd t, last t}" "t \<noteq> []" for c
    using that hd_in_set [of t] last_in_set [of t] by (auto simp: list_all_iff is_ascii_lower_def)
  then have "trim t = t" by (intro trim_id) fastforce
  with t show ?thesis
    by (auto simp: looks_like_structural_json_key_def Let_def list_ex_iff list_all_iff char_class_defs)
qed

lemma listing_words_kept:
  "\<not> looks_like_structural_json_key ''uname''" "\<not> looks_like_structural_json_key ''arch''"
  "\<not> looks_like_structural_json_key ''os''" "\<not> looks_like_structural_json_key ''root''"
  "\<not> looks_like_structural_json_key ''entries''"
  by (rule word_not_structural; simp add: char_class_defs)+

lemma blank_clean: "\<not> looks_secret_like_for_kind [] k"
  by (simp add: looks_secret_like_for_kind_def trim_id)

lemma clean_os: "clean (obj [(''uname'', JNull), (''arch'', JString []), (''os'', JString [])])"
  by (simp add: clean_def obj_def skipped_members_def listing_words_clean listing_words_kept blank_clean)

lemma clean_listing: "clean (obj [(''root'', JString ''/h/.apw/native-app''), (''entries'', JArray [])])"
  by (simp add: clean_def obj_def skipped_members_def listing_words_clean listing_words_kept runtime_dir_clean
    diagnostic_string_kind_def structural_fields_def)



lemma bundle_ext_staging:
  obtains w1 where "staging_create bundle_ext bundle_world =
      (Inr (''/tmp/apw-doctor-staging-'' @ replicate 16 CHR ''0''), w1)" "w_root w1 = ''/h/.apw''"
    "\<And>q. q \<notin> {''/tmp'', ''/tmp/apw-doctor-staging-'' @ replicate 16 CHR ''0''} \<Longrightarrow>
       w_fs w1 q = w_fs bundle_world q"
proof -
  have d: "fs_create_dir_all bundle_ext ''/tmp'' bundle_world =
      (Inr (), put_inode ''/tmp'' (Some (new_inode KDir 0x1ED bundle_world [])) bundle_world)"
    by (simp add: fs_create_dir_all_def faulty_def is_dir_def stat_def)
  have j: "path_join ''/tmp'' (''apw-doctor-staging-'' @ h) = ''/tmp/apw-doctor-staging-'' @ h" for h
    by (simp add: path_join_def is_absolute_def)
  show ?thesis
    by (rule that, simp add: staging_create_def Let_def d j bind_io_def map_err_def put_inode_def
      fs_create_dir_def faulty_def fs_set_permissions_def del: append.simps)
     (simp_all add: bundle_world_def sample_world_def)
qed


lemma bundle_ext_finish:
  assumes "w_fs w ''/h'' = None" "w_fs w ''/h/out.tgz'' = None"
  shows "\<exists>w'. bind_first (prepare_output bundle_ext ''/h/out.tgz'') (\<lambda>_.
    bind_first (pack_bundle bundle_ext exit_text ''/h/out.tgz'' s) (\<lambda>_ w. Some (ret x w))) w = Some (Inr x, w')"
proof -
  obtain v where v: "prepare_output bundle_ext ''/h/out.tgz'' w = (Inr (), v)"
  proof -
    have "path_parent ''/h/out.tgz'' = Some ''/h''" by (simp add: path_parent_def is_absolute_def)
    then show ?thesis using that assms
      by (simp add: prepare_output_def bind_io_def map_err_def fs_create_dir_all_def faulty_def is_dir_def
        stat_def path_exists_def put_inode_def)
  qed
  have "\<exists>u. pack_bundle bundle_ext exit_text ''/h/out.tgz'' s v = (Inr (), u)"
    by (simp add: pack_bundle_def bind_io_def map_err_def run_status_def fs_set_permissions_def faulty_def put_inode_def)
  then show ?thesis by (auto simp: bind_first_def v)
qed


lemma bundle_ext_manifest:
  assumes "w_fs w (path_join b ''manifest.json'') = None"
  obtains w' where "write_manifest bundle_ext b files checks w = (Inr (), w')"
    "made (path_join b ''manifest.json'') w w'"
  using assms by (auto simp: write_manifest_def Let_def fs_write_def fs_open_truncate_def faulty_def
      fs_write_all_def fs_set_permissions_def bind_io_def map_err_def made_def put_inode_def)

lemma bundle_ext_stage:
  assumes fs: "\<And>q. q \<notin> {''/tmp'', s} \<Longrightarrow> w_fs w q = w_fs bundle_world q" and root: "w_root w = ''/h/.apw''"
    and s: "s = ''/tmp/apw-doctor-staging-'' @ h" "CHR ''/'' \<notin> set h"
  shows "\<exists>r w'. stage_bundle bundle_ext 1 JNull JNull s w = Some (Inr r, w')
    \<and> w_fs w' ''/h'' = None \<and> w_fs w' ''/h/out.tgz'' = None"
proof -
  let ?b = "s @ ''/apw-doctor-bundle''"
  let ?o = "obj [(''uname'', JNull), (''arch'', JString []), (''os'', JString [])]"
  let ?l = "obj [(''root'', JString ''/h/.apw/native-app''), (''entries'', JArray [])]"
  have j: "path_join s BUNDLE_ROOT_NAME = ?b"
    using s by (cases h rule: rev_cases) (auto simp: path_join_def is_absolute_def BUNDLE_ROOT_NAME_def)
  have f: "path_join ?b n = ?b @ ''/'' @ n" if "\<not> is_absolute n" for n
    using that by (simp add: path_join_def)
  have null: "clean JNull" by (simp add: clean_def)
  have away: "s @ x \<noteq> CHR ''/'' # CHR ''h'' # y" "CHR ''/'' # CHR ''h'' # y \<noteq> s @ x" for x y
    by (auto simp: s(1))
  have below: "w_fs w (s @ CHR ''/'' # x) = None" for x
    using fs [of "s @ CHR ''/'' # x"] by (auto simp: s(1))
  have home: "w_fs w (CHR ''/'' # CHR ''h'' # y) = w_fs bundle_world (CHR ''/'' # CHR ''h'' # y)" for y
    by (rule fs) (simp add: s(1))
  note at = f is_absolute_def below home away root made_def
  have "w_fs w ?b = None" by (simp add: at)
  from bundle_ext_mkdir [OF this] obtain w1 where
    1: "fs_create_dir bundle_ext ?b w = (Inr (), w1)" "made ?b w w1" .
  then have "w_fs w1 (path_join ?b ''doctor.json'') = None" by (simp add: at)
  from bundle_ext_write_json [OF this null] obtain w2 c2 where
    2: "write_json_file bundle_ext ?b ''doctor.json'' JNull ([], 0) w1 = (Inr c2, w2)"
      "made (path_join ?b ''doctor.json'') w1 w2" .
  then have "w_fs w2 (path_join ?b ''environment.json'') = None" using 1(2) by (simp add: at)
  from bundle_ext_write_json [OF this null] obtain w3 c3 where
    3: "write_json_file bundle_ext ?b ''environment.json'' JNull c2 w2 = (Inr c3, w3)"
      "made (path_join ?b ''environment.json'') w2 w3" .
  obtain w4 where 4: "collect_os_info bundle_ext w3 = (?o, w4)" "w_fs w4 = w_fs w3" "w_root w4 = w_root w3"
    by (rule bundle_ext_os_info)
  have "w_fs w4 (path_join ?b ''os.json'') = None" using 1(2) 2(2) 3(2) 4(2) by (simp add: at)
  from bundle_ext_write_json [OF this clean_os] obtain w5 c5 where
    5: "write_json_file bundle_ext ?b ''os.json'' ?o c3 w4 = (Inr c5, w5)"
      "made (path_join ?b ''os.json'') w4 w5" .
  then have "w_fs w5 (path_join ?b ''native-app'') = None" using 1(2) 2(2) 3(2) 4(2) by (simp add: at)
  from bundle_ext_mkdir [OF this] obtain w6 where
    6: "fs_create_dir bundle_ext (path_join ?b ''native-app'') w5 = (Inr (), w6)"
      "made (path_join ?b ''native-app'') w5 w6" .
  note m = 1(2) 2(2) 3(2) 4(2,3) 5(2) 6(2)
  have "native_app_runtime_dir w6 = ''/h/.apw/native-app''" "w_fs w6 ''/h/.apw/native-app'' \<noteq> None"
    using m by (simp_all add: at native_app_runtime_dir_def path_join_def)
  then have 7: "listing_io bundle_ext 1 w6 = Some (Inr ?l, w6)"
    by (auto simp: listing_io_def collect_native_app_listing_def path_exists_def stat_def Let_def)
  have "w_fs w6 (path_join ?b ''native-app/file-listing.json'') = None" using m by (simp add: at)
  from bundle_ext_write_json [OF this clean_listing] obtain w7 c7 where
    8: "write_json_file bundle_ext ?b ''native-app/file-listing.json'' ?l c5 w6 = (Inr c7, w7)"
      "made (path_join ?b ''native-app/file-listing.json'') w6 w7" .
  then have "w_fs w7 (path_join ?b ''manifest.json'') = None" using m by (simp add: at)
  from bundle_ext_manifest [OF this] obtain w8 where
    9: "write_manifest bundle_ext ?b (fst c7) (snd c7) w7 = (Inr (), w8)"
      "made (path_join ?b ''manifest.json'') w7 w8" .
  have "w_fs w8 ''/h'' = None" "w_fs w8 ''/h/out.tgz'' = None"
    using m 8(2) 9(2) by (simp_all add: at)
  moreover have "stage_bundle bundle_ext 1 JNull JNull s w = Some (Inr (''manifest.json'' # fst c7, snd c7), w8)"
    by (simp add: stage_bundle_def j bind_first_def bind_fuel_def map_err_def Let_def 1(1) 2(1) 3(1) 4(1) 5(1) 6(1) 7 8(1) 9(1)
      del: One_nat_def)
  ultimately show ?thesis by blast
qed


lemma bundle_run:
  "\<exists>res w'. write_diagnostic_bundle bundle_ext exit_text 1 ''/h/out.tgz'' JNull JNull bundle_world
     = Some (Inr res, w')"
proof -
  let ?s = "''/tmp/apw-doctor-staging-'' @ replicate 16 CHR ''0''"
  have zero: "CHR ''/'' \<notin> set (replicate 16 (CHR ''0''))" by simp
  obtain w1 where 1: "staging_create bundle_ext bundle_world = (Inr ?s, w1)" "w_root w1 = ''/h/.apw''"
    "\<And>q. q \<notin> {''/tmp'', ?s} \<Longrightarrow> w_fs w1 q = w_fs bundle_world q"
    using bundle_ext_staging by blast
  obtain r w2 where 2: "stage_bundle bundle_ext 1 JNull JNull ?s w1 = Some (Inr r, w2)"
      "w_fs w2 ''/h'' = None" "w_fs w2 ''/h/out.tgz'' = None"
    using bundle_ext_stage [OF 1(3,2) refl zero] by blast
  obtain w3 where 3: "bind_first (prepare_output bundle_ext ''/h/out.tgz'') (\<lambda>_.
      bind_first (pack_bundle bundle_ext exit_text ''/h/out.tgz'' ?s) (\<lambda>_ w. Some (ret
        \<lparr>br_path = ''/h/out.tgz'', br_files_included = fst r, br_redaction_checks = snd r\<rparr> w))) w2
      = Some (Inr \<lparr>br_path = ''/h/out.tgz'', br_files_included = fst r, br_redaction_checks = snd r\<rparr>, w3)"
    by (rule exE [OF bundle_ext_finish [OF 2(2,3)]])
  have "\<not> is_dir bundle_ext bundle_world ''/h/out.tgz''" by (simp add: is_dir_def stat_def)
  then show ?thesis using 3
    by (simp add: write_diagnostic_bundle_def with_staging_def 1(1) bind_fuel_def 2(1) case_prod_beta del: One_nat_def append.simps)
qed

lemma bundle_plain: "plain_bundle bundle_ext bundle_world ''/h/out.tgz''"
proof -
  have "staging_at bundle_ext bundle_world h = staging_at (sample_ext []) (sample_world []) h" for h
    by (simp add: staging_at_def)
  then show ?thesis
    using sample_plain_bundle [of "[]" "[]"] unfolding plain_bundle_def by simp
qed


end
