(* ===== verification/Doctor.thy ===== *)
theory Doctor
  imports Broker
begin

text \<open>
  The environment checks of \<open>apw doctor\<close> (\<open>rust/src/doctor.rs\<close>): toolchain probes, the
  runner's labels, the installed app bundle, managed preferences, and whether each associated
  domain serves a valid AASA file, as read from the output of \<open>curl -D -\<close>. Every check threads
  the world, in which a probe leaves a record of the program it started.
\<close>

section \<open>Results\<close>

datatype check_status = CheckOk | CheckWarn | CheckFail | CheckSkip

definition as_label :: "check_status \<Rightarrow> string" where
  "as_label s =
     (case s of CheckOk \<Rightarrow> ''OK'' | CheckWarn \<Rightarrow> ''WARN'' | CheckFail \<Rightarrow> ''FAIL'' | CheckSkip \<Rightarrow> ''SKIP'')"

definition enc_check_status :: "check_status \<Rightarrow> json" where
  "enc_check_status s = JString
     (case s of CheckOk \<Rightarrow> ''ok'' | CheckWarn \<Rightarrow> ''warn'' | CheckFail \<Rightarrow> ''fail'' | CheckSkip \<Rightarrow> ''skip'')"

record doctor_check =
  dc_name :: string
  dc_status :: check_status
  dc_message :: string
  dc_remediation :: "string option"
  dc_detected_version :: "string option"
  dc_details :: "json option"

definition new_check :: "string \<Rightarrow> check_status \<Rightarrow> string \<Rightarrow> doctor_check" where
  "new_check name status message =
     \<lparr>dc_name = name, dc_status = status, dc_message = message, dc_remediation = None,
      dc_detected_version = None, dc_details = None\<rparr>"

definition with_remediation :: "string \<Rightarrow> doctor_check \<Rightarrow> doctor_check" where
  "with_remediation hint c = c\<lparr>dc_remediation := Some hint\<rparr>"

definition with_version :: "string \<Rightarrow> doctor_check \<Rightarrow> doctor_check" where
  "with_version version c = c\<lparr>dc_detected_version := Some version\<rparr>"

definition with_details :: "json \<Rightarrow> doctor_check \<Rightarrow> doctor_check" where
  "with_details details c = c\<lparr>dc_details := Some details\<rparr>"

section \<open>Probes\<close>

definition run_probe :: "ext \<Rightarrow> string \<Rightarrow> string list \<Rightarrow> world \<Rightarrow> string option \<times> world" where
  "run_probe X program args w =
     (case probe_output X (invoke program args) w of
        (None, w1) \<Rightarrow> (None, w1)
      | (Some output, w1) \<Rightarrow>
          if po_code output \<noteq> Some 0 then (None, w1)
          else
            let combined = (if po_stdout output \<noteq> [] then po_stdout output else po_stderr output);
                trimmed = trim (from_utf8_lossy combined)
            in (if trimmed = [] then None else Some trimmed, w1))"

definition check_xcodebuild :: "ext \<Rightarrow> world \<Rightarrow> doctor_check \<times> world" where
  "check_xcodebuild X w =
     (if \<not> x_macos X then
        (new_check ''xcodebuild'' CheckSkip
           ''xcodebuild is only required on macOS for building the native app bundle.'', w)
      else
        (case run_probe X ''xcodebuild'' [''-version''] w of
           (Some version, w1) \<Rightarrow>
             (with_version (case lines version of [] \<Rightarrow> [] | line # _ \<Rightarrow> line)
                (new_check ''xcodebuild'' CheckOk ''xcodebuild is available.''), w1)
         | (None, w1) \<Rightarrow>
             (with_remediation
                ''Install Xcode from the App Store, then run `xcode-select --install`.''
                (new_check ''xcodebuild'' CheckFail ''xcodebuild not found or not callable.''), w1)))"

definition check_rust_toolchain :: "ext \<Rightarrow> world \<Rightarrow> doctor_check \<times> world" where
  "check_rust_toolchain X w =
     (case run_probe X ''rustc'' [''--version''] w of
        (Some version, w1) \<Rightarrow>
          (with_version version
             (new_check ''rust-toolchain'' CheckOk ''Rust toolchain is available.''), w1)
      | (None, w1) \<Rightarrow>
          (with_remediation ''Install via https://rustup.rs/.''
             (new_check ''rust-toolchain'' CheckFail ''rustc not found.''), w1))"

definition check_detect_secrets :: "ext \<Rightarrow> world \<Rightarrow> doctor_check \<times> world" where
  "check_detect_secrets X w =
     (case run_probe X ''detect-secrets'' [''--version''] w of
        (Some version, w1) \<Rightarrow>
          (with_version version
             (new_check ''detect-secrets'' CheckOk ''detect-secrets is available.''), w1)
      | (None, w1) \<Rightarrow>
          (with_remediation ''`brew install detect-secrets` (macOS) or `pipx install detect-secrets`.''
             (new_check ''detect-secrets'' CheckWarn
                ''detect-secrets not installed; pre-commit secrets scan will be skipped.''), w1))"

definition check_signing_identity :: "ext \<Rightarrow> world \<Rightarrow> doctor_check \<times> world" where
  "check_signing_identity X w =
     (if \<not> x_macos X then
        (new_check ''code-signing'' CheckSkip
           ''Apple code-signing identities only apply on macOS.'', w)
      else
        (case run_probe X ''security'' [''find-identity'', ''-v'', ''-p'', ''codesigning''] w of
           (Some output, w1) \<Rightarrow>
             (if contains output ''Developer ID Application'' then
                new_check ''code-signing'' CheckOk
                  ''At least one Developer ID Application certificate is available.''
              else
                with_remediation
                  ''Download an Apple Developer ID Application certificate and import it into your login keychain.''
                  (new_check ''code-signing'' CheckWarn
                    ''No `Developer ID Application` certificate found in the keychain. Release builds will fail to sign.''),
              w1)
         | (None, w1) \<Rightarrow>
             (new_check ''code-signing'' CheckFail ''`security find-identity` is not callable.'', w1)))"

definition check_runner_labels :: "world \<Rightarrow> doctor_check option" where
  "check_runner_labels w =
     (if env_var ''CI'' w \<noteq> Some ''true'' then None
      else
        let check =
          (case env_var ''RUNNER_LABELS'' w of
             Some (c # cs) \<Rightarrow>
               with_version (c # cs)
                 (new_check ''ci-runner-labels'' CheckOk ''Runner labels exposed via RUNNER_LABELS.'')
           | _ \<Rightarrow>
               with_remediation
                 (''Export RUNNER_LABELS in the workflow step env, e.g. `RUNNER_LABELS: ${{ join(runner.labels, ''
                  @ [CHR 0x27, CHR '','', CHR 0x27] @ '') }}`.'')
                 (new_check ''ci-runner-labels'' CheckWarn
                   ''Running in CI but RUNNER_LABELS is not set; cannot verify runner pool selection.''))
        in if dc_status check = CheckOk then
             let value = unwrap_or [] (dc_detected_version check)
             in if contains value ''self-hosted'' \<and> \<not> contains value ''public'' then
                  Some (new_check ''ci-runner-labels'' CheckWarn
                    (''Self-hosted runner labels `'' @ value
                     @ ''` do not include the `public` tag expected for the open-source CI lane.''))
                else Some check
           else Some check)"

definition bundle_source_candidates :: "string list" where
  "bundle_source_candidates = [''native-app/dist/APW.app'', ''../native-app/dist/APW.app'']"

definition check_native_app_bundle :: "ext \<Rightarrow> world \<Rightarrow> doctor_check" where
  "check_native_app_bundle X w =
     (let bundle = native_app_bundle_install_path w in
      if path_exists X w bundle then
        new_check ''native-app-bundle'' CheckOk (''APW.app installed at '' @ bundle @ ''.'')
      else if list_ex (path_exists X w) bundle_source_candidates then
        with_remediation ''Run `apw app install` to copy the bundle into ~/.apw/native-app/installed/.''
          (new_check ''native-app-bundle'' CheckWarn
            ''Source-built APW.app exists but has not been installed.'')
      else
        with_remediation ''Run `./scripts/build-native-app.sh`, then `apw app install`.''
          (new_check ''native-app-bundle'' CheckWarn ''APW.app bundle is not built.''))"

section \<open>Associated domains\<close>

definition parse_domain_list :: "string \<Rightarrow> string list" where
  "parse_domain_list raw = filter (\<lambda>d. d \<noteq> []) (map trim (split_on (CHR '','') raw))"

definition configured_associated_domains :: "ext \<Rightarrow> world \<Rightarrow> string list \<times> world" where
  "configured_associated_domains X w =
     (case env_var ''APW_AASA_DOMAINS'' w of
        Some raw \<Rightarrow> (parse_domain_list raw, w)
      | None \<Rightarrow> configured_supported_domains_non_destructive X w)"

definition parse_http_status :: "string \<Rightarrow> nat option" where
  "parse_http_status line =
     (case split_whitespace line of
        [] \<Rightarrow> None
      | protocol # parts \<Rightarrow>
          if \<not> prefix ''HTTP/'' protocol then None
          else (case parts of [] \<Rightarrow> None | number # _ \<Rightarrow> parse_unsigned (2 ^ 16) number))"

definition has_valid_aasa_content_type :: "string \<Rightarrow> bool" where
  "has_valid_aasa_content_type headers =
     list_ex (\<lambda>line. case split_once line '':'' of
         None \<Rightarrow> False
       | Some (name, value) \<Rightarrow>
           eq_ignore_ascii_case (trim name) ''content-type''
           \<and> eq_ignore_ascii_case (trim (hd (split_on (CHR '';'') (trim value)))) ''application/json'')
       (lines headers)"

definition has_redirect_header :: "string \<Rightarrow> bool" where
  "has_redirect_header headers =
     list_ex (\<lambda>line. case split_once line '':'' of
         None \<Rightarrow> False
       | Some (name, _) \<Rightarrow> eq_ignore_ascii_case (trim name) ''location'') (lines headers)"

definition split_curl_response :: "string \<Rightarrow> (string \<times> string) option" where
  "split_curl_response response =
     or_else (split_once response [CHR 0x0D, CHR 0x0A, CHR 0x0D, CHR 0x0A])
       (split_once response [CHR 0x0A, CHR 0x0A])"

fun find_map :: "('a \<Rightarrow> 'b option) \<Rightarrow> 'a list \<Rightarrow> 'b option" where
  "find_map f [] = None"
| "find_map f (x # xs) = (case f x of Some y \<Rightarrow> Some y | None \<Rightarrow> find_map f xs)"

text \<open>A member of \<open>/webcredentials/apps\<close>: a string that is not blank.\<close>

definition app_named :: "json \<Rightarrow> bool" where
  "app_named app = (case as_str app of None \<Rightarrow> False | Some value \<Rightarrow> trim value \<noteq> [])"

definition lists_apps :: "json \<Rightarrow> bool" where
  "lists_apps json =
     (case Option.bind (Option.bind (get ''webcredentials'' json) (get ''apps'')) as_array of
        None \<Rightarrow> False
      | Some apps \<Rightarrow> apps \<noteq> [] \<and> list_all app_named apps)"

definition aasa_response_is_valid :: "ext \<Rightarrow> string \<Rightarrow> bool" where
  "aasa_response_is_valid X response =
     (case split_curl_response response of
        None \<Rightarrow> False
      | Some (headers, body) \<Rightarrow>
          if \<not> (case find_map parse_http_status (rev (lines headers)) of
                  None \<Rightarrow> False | Some n \<Rightarrow> 200 \<le> n \<and> n \<le> 299)
             \<or> has_redirect_header headers then False
          else if \<not> has_valid_aasa_content_type headers then False
          else (case x_json_parse X (trim body) of
                  Inl _ \<Rightarrow> False
                | Inr tree \<Rightarrow> lists_apps (to_value tree)))"

definition check_managed_config :: "ext \<Rightarrow> world \<Rightarrow> doctor_check \<times> world" where
  "check_managed_config X w =
     (case config_provenance_details X w of
        (details, w1) \<Rightarrow>
          (with_details details
             (if unwrap_or False (Option.bind (get ''managed'' details) as_bool) then
                new_check ''managed-config'' CheckOk
                  ''Managed preferences are applied before user config.''
              else new_check ''managed-config'' CheckSkip ''No managed preferences were found.''),
           w1))"

fun join_with :: "string \<Rightarrow> string list \<Rightarrow> string" where
  "join_with sep [] = []"
| "join_with sep [x] = x"
| "join_with sep (x # y # xs) = x @ sep @ join_with sep (y # xs)"

definition aasa_arguments :: "string \<Rightarrow> string list" where
  "aasa_arguments domain =
     [''-fsS'', ''--max-time'', ''5'', ''-D'', ''-'',
      ''https://'' @ domain @ ''/.well-known/apple-app-site-association'']"

text \<open>The domains without a valid file, in order.\<close>

fun failing_domains :: "ext \<Rightarrow> string list \<Rightarrow> world \<Rightarrow> string list \<times> world" where
  "failing_domains X [] w = ([], w)"
| "failing_domains X (domain # domains) w =
     (case run_probe X ''curl'' (aasa_arguments domain) w of
        (probe, w1) \<Rightarrow>
          (case failing_domains X domains w1 of
             (failures, w2) \<Rightarrow>
               (if (case probe of None \<Rightarrow> False | Some r \<Rightarrow> aasa_response_is_valid X r)
                then failures else domain # failures, w2)))"

definition check_associated_domains :: "ext \<Rightarrow> world \<Rightarrow> doctor_check option \<times> world" where
  "check_associated_domains X w =
     (case configured_associated_domains X w of
        (domains, w1) \<Rightarrow>
          if domains = [] then (None, w1)
          else
            (case failing_domains X domains w1 of
               (failures, w2) \<Rightarrow>
                 (Some
                   (if failures = [] then
                      with_version (join_with '','' domains)
                        (new_check ''associated-domains'' CheckOk
                          (''AASA files valid for '' @ show_nat (length domains)
                           @ '' configured domain(s).''))
                    else
                      with_remediation
                        ''Each domain must serve application/json at /.well-known/apple-app-site-association without redirects and include webcredentials.apps. See docs/DOMAIN_EXPANSION.md.''
                        (new_check ''associated-domains'' CheckFail
                          (''AASA file invalid or unreachable for: '' @ join_with '', '' failures))), w2)))"

section \<open>All checks\<close>

definition run_environment_checks :: "ext \<Rightarrow> world \<Rightarrow> doctor_check list \<times> world" where
  "run_environment_checks X w =
     (let (xcodebuild, w1) = check_xcodebuild X w;
          (rust, w2) = check_rust_toolchain X w1;
          (secrets, w3) = check_detect_secrets X w2;
          (signing, w4) = check_signing_identity X w3;
          bundle = check_native_app_bundle X w4;
          (managed, w5) = check_managed_config X w4;
          runner = check_runner_labels w5;
          (aasa, w6) = check_associated_domains X w5
      in ([xcodebuild, rust, secrets, signing, bundle, managed]
            @ (case runner of None \<Rightarrow> [] | Some c \<Rightarrow> [c])
            @ (case aasa of None \<Rightarrow> [] | Some c \<Rightarrow> [c]), w6))"

definition render_check_line :: "doctor_check \<Rightarrow> string" where
  "render_check_line check =
     ''['' @ as_label (dc_status check) @ ''] '' @ dc_name check @ '': '' @ dc_message check
     @ (case dc_detected_version check of None \<Rightarrow> [] | Some version \<Rightarrow> '' (detected: '' @ version @ '')'')
     @ (case dc_remediation check of
          None \<Rightarrow> []
        | Some hint \<Rightarrow> [CHR 0x0A] @ ''      '' @ [CHR 0xE2, CHR 0x86, CHR 0x92] @ '' '' @ hint)"

definition render_check_lines :: "doctor_check list \<Rightarrow> string list" where
  "render_check_lines checks = map render_check_line checks"

definition enc_check :: "doctor_check \<Rightarrow> json" where
  "enc_check check = obj
     ([(''name'', JString (dc_name check)), (''status'', enc_check_status (dc_status check)),
       (''message'', JString (dc_message check))]
      @ opt_field ''remediation'' (map_option JString (dc_remediation check))
      @ opt_field ''detected_version'' (map_option JString (dc_detected_version check))
      @ opt_field ''details'' (dc_details check))"

definition checks_to_json :: "doctor_check list \<Rightarrow> json" where
  "checks_to_json checks = JArray (map enc_check checks)"

end
