(* ===== verification/Doctor_Laws.thy ===== *)
theory Doctor_Laws
  imports Doctor Fallback_Text
begin

text \<open>
  What the checks of \<open>apw doctor\<close> do and decide: they start a fixed set of programs and change
  nothing else, the domain check fails for exactly the domains without a valid file, and a
  response is accepted exactly when the HTTP message it is the text of is acceptable.
\<close>

section \<open>Effects\<close>

text \<open>Operations that do nothing but start programs from a set.\<close>

definition probes_only :: "invocation set \<Rightarrow> (world \<Rightarrow> 'a \<times> world) \<Rightarrow> bool" where
  "probes_only P m \<longleftrightarrow> (\<forall>w. \<exists>is. set is \<subseteq> P \<and> snd (m w) = fold log_spawn is w)"

lemma log_spawn_fold:
  "w_fs (fold log_spawn is w) = w_fs w" "w_env (fold log_spawn is w) = w_env w"
  "w_root (fold log_spawn is w) = w_root w" "w_sent (fold log_spawn is w) = w_sent w"
  "w_out (fold log_spawn is w) = w_out w" "w_spawned (fold log_spawn is w) = w_spawned w @ is"
  by (induction "is" arbitrary: w) simp_all

lemma probes_pure: "probes_only P (\<lambda>w. (f w, w))"
  unfolding probes_only_def by (auto intro: exI [of _ "[]"])

lemma probes_then:
  assumes "probes_only P m" "\<And>x. probes_only P (f x)"
  shows "probes_only P (\<lambda>w. case m w of (x, v) \<Rightarrow> f x v)"
  unfolding probes_only_def
proof
  fix w
  obtain x v where m: "m w = (x, v)" by fastforce
  obtain a where a: "set a \<subseteq> P" "v = fold log_spawn a w"
    using assms(1) m unfolding probes_only_def by (metis snd_conv)
  obtain b where b: "set b \<subseteq> P" "snd (f x v) = fold log_spawn b v"
    using assms(2) unfolding probes_only_def by blast
  show "\<exists>is. set is \<subseteq> P \<and> snd (case m w of (x, v) \<Rightarrow> f x v) = fold log_spawn is w"
    using a b by (intro exI [of _ "a @ b"]) (simp add: m)
qed

lemma probes_if:
  "probes_only P m \<Longrightarrow> probes_only P k \<Longrightarrow> probes_only P (\<lambda>w. if c w then m w else k w)"
  unfolding probes_only_def by simp

lemma probes_option:
  "probes_only P m \<Longrightarrow> (\<And>x. probes_only P (f x)) \<Longrightarrow>
     probes_only P (\<lambda>w. case g w of None \<Rightarrow> m w | Some x \<Rightarrow> f x w)"
  unfolding probes_only_def by (auto split: option.split)

lemma run_probe_world: "snd (run_probe X p as w) = log_spawn (invoke p as) w"
  by (auto simp: run_probe_def probe_output_def Let_def split: option.split)

lemma probes_run_probe: "invoke p as \<in> P \<Longrightarrow> probes_only P (run_probe X p as)"
  unfolding probes_only_def by (auto simp: run_probe_world intro!: exI [of _ "[invoke p as]"])

text \<open>The programs of the checks.\<close>

definition doctor_probes :: "invocation set" where
  "doctor_probes =
     {invoke ''xcodebuild'' [''-version''], invoke ''rustc'' [''--version''],
      invoke ''detect-secrets'' [''--version''],
      invoke ''security'' [''find-identity'', ''-v'', ''-p'', ''codesigning''],
      invoke ''defaults'' [''export'', MANAGED_PREFS_DOMAIN, ''-'']}
     \<union> {invoke ''curl'' (aasa_arguments domain) | domain. True}"

lemma probes_managed: "probes_only doctor_probes (read_managed_config X)"
proof -
  have "\<exists>is. set is \<subseteq> doctor_probes \<and> snd (managed_prefs_plist X w) = fold log_spawn is w" for w
    by (auto simp: managed_prefs_plist_def run_output_def doctor_probes_def split: option.split sum.split
        intro: exI [of _ "[]"] exI [of _ "[invoke ''defaults'' [''export'', MANAGED_PREFS_DOMAIN, ''-'']]"])
  moreover have "snd (read_managed_config X w) = snd (managed_prefs_plist X w)" for w
    by (auto simp: read_managed_config_def split: prod.split option.split)
  ultimately show ?thesis by (simp add: probes_only_def)
qed

lemma probes_failing: "probes_only doctor_probes (failing_domains X ds)"
proof (induction ds)
  case Nil
  show ?case by (simp add: probes_pure)
next
  case (Cons d ds)
  have "probes_only doctor_probes (\<lambda>w. case run_probe X ''curl'' (aasa_arguments d) w of (p, v) \<Rightarrow>
      (case failing_domains X ds v of (fs, u) \<Rightarrow> (g p fs, u)))" for g :: "string option \<Rightarrow> string list \<Rightarrow> string list"
    by (intro probes_then probes_run_probe Cons.IH probes_pure) (auto simp: doctor_probes_def)
  then show ?case by simp
qed

lemma probes_choice: "probes_only P m \<Longrightarrow> probes_only P (\<lambda>w. case m w of (x, v) \<Rightarrow> (g x, v))"
  by (intro probes_then probes_pure)

lemma probes_checks:
  "probes_only doctor_probes (check_xcodebuild X)" "probes_only doctor_probes (check_rust_toolchain X)"
  "probes_only doctor_probes (check_detect_secrets X)"
  "probes_only doctor_probes (check_signing_identity X)"
proof -
  have 1: "snd (check_rust_toolchain X w) = snd (run_probe X ''rustc'' [''--version''] w)"
    "snd (check_detect_secrets X w) = snd (run_probe X ''detect-secrets'' [''--version''] w)"
    "snd (check_xcodebuild X w) = (if x_macos X then snd (run_probe X ''xcodebuild'' [''-version''] w) else w)"
    "snd (check_signing_identity X w) =
       (if x_macos X then snd (run_probe X ''security'' [''find-identity'', ''-v'', ''-p'', ''codesigning''] w) else w)"
    for w
    by (auto simp: check_rust_toolchain_def check_detect_secrets_def check_xcodebuild_def
        check_signing_identity_def split: prod.split option.split)
  show "probes_only doctor_probes (check_xcodebuild X)" "probes_only doctor_probes (check_rust_toolchain X)"
    "probes_only doctor_probes (check_detect_secrets X)" "probes_only doctor_probes (check_signing_identity X)"
    using probes_run_probe [of "''xcodebuild''" "[''-version'']" doctor_probes X]
      probes_run_probe [of "''rustc''" "[''--version'']" doctor_probes X]
      probes_run_probe [of "''detect-secrets''" "[''--version'']" doctor_probes X]
      probes_run_probe [of "''security''" "[''find-identity'', ''-v'', ''-p'', ''codesigning'']" doctor_probes X]
    by (auto simp: probes_only_def 1 doctor_probes_def intro: exI [of _ "[]"])
qed

lemma probes_managed_check: "probes_only doctor_probes (check_managed_config X)"
proof -
  have "snd (check_managed_config X w) = snd (read_managed_config X w)" for w
    by (auto simp: check_managed_config_def config_provenance_details_def Let_def split: prod.split)
  then show ?thesis using probes_managed by (simp add: probes_only_def)
qed

lemma probes_domains: "probes_only doctor_probes (configured_associated_domains X)"
  unfolding configured_associated_domains_def configured_supported_domains_non_destructive_def
proof (intro probes_option probes_pure)
  have eq: "(\<lambda>w. case read_managed_config X w of (managed, w1) \<Rightarrow>
        (case Option.bind managed mg_supported_domains of
           Some domains \<Rightarrow> (domains, w1)
         | None \<Rightarrow> (read_user_supported_domains_non_destructive X w1, w1))) =
      (\<lambda>w. case read_managed_config X w of (managed, w1) \<Rightarrow>
        (\<lambda>v. ((case Option.bind managed mg_supported_domains of
           Some domains \<Rightarrow> domains | None \<Rightarrow> read_user_supported_domains_non_destructive X v), v)) w1)"
    by (auto simp: fun_eq_iff split: prod.split option.split)
  show "probes_only doctor_probes (\<lambda>w. case read_managed_config X w of (managed, w1) \<Rightarrow>
        (case Option.bind managed mg_supported_domains of
           Some domains \<Rightarrow> (domains, w1)
         | None \<Rightarrow> (read_user_supported_domains_non_destructive X w1, w1)))"
    unfolding eq by (intro probes_then probes_managed probes_pure)
qed

lemma probes_associated: "probes_only doctor_probes (check_associated_domains X)"
proof -
  have "snd (check_associated_domains X w) =
      (case configured_associated_domains X w of (ds, v) \<Rightarrow> snd (failing_domains X ds v))" for w
    by (cases "configured_associated_domains X w")
      (auto simp: check_associated_domains_def split: prod.split)
  moreover have "probes_only doctor_probes (\<lambda>w. case configured_associated_domains X w of
      (ds, v) \<Rightarrow> failing_domains X ds v)"
    by (intro probes_then probes_domains probes_failing)
  ultimately show ?thesis by (simp add: probes_only_def prod.case_distrib [of snd] split_beta)
qed

lemma check_names:
  "dc_name (fst (check_xcodebuild X w)) = ''xcodebuild''"
  "dc_name (fst (check_rust_toolchain X w)) = ''rust-toolchain''"
  "dc_name (fst (check_detect_secrets X w)) = ''detect-secrets''"
  "dc_name (fst (check_signing_identity X w)) = ''code-signing''"
  "dc_name (check_native_app_bundle X w) = ''native-app-bundle''"
  "dc_name (fst (check_managed_config X w)) = ''managed-config''"
  by (simp_all add: check_xcodebuild_def check_rust_toolchain_def check_detect_secrets_def
      check_signing_identity_def check_native_app_bundle_def check_managed_config_def new_check_def
      with_version_def with_remediation_def with_details_def Let_def split: prod.split option.split)

lemma check_names_optional:
  "check_runner_labels w = Some c \<Longrightarrow> dc_name c = ''ci-runner-labels''"
  "fst (check_associated_domains X w) = Some c \<Longrightarrow> dc_name c = ''associated-domains''"
  by (auto simp: check_runner_labels_def check_associated_domains_def new_check_def with_version_def
      with_remediation_def Let_def split: prod.splits option.splits list.splits if_splits)

lemma probes_environment: "probes_only doctor_probes (run_environment_checks X)"
proof -
  have "snd (run_environment_checks X w) =
      (case check_xcodebuild X w of (a, w1) \<Rightarrow>
      (case check_rust_toolchain X w1 of (b, w2) \<Rightarrow> (case check_detect_secrets X w2 of (c, w3) \<Rightarrow>
      (case check_signing_identity X w3 of (d, w4) \<Rightarrow> (case check_managed_config X w4 of (e, w5) \<Rightarrow>
       snd (check_associated_domains X w5))))))" for w
    by (simp add: run_environment_checks_def Let_def split: prod.split)
  moreover have "probes_only doctor_probes (\<lambda>w. case check_xcodebuild X w of (a, w1) \<Rightarrow>
      (case check_rust_toolchain X w1 of (b, w2) \<Rightarrow> (case check_detect_secrets X w2 of (c, w3) \<Rightarrow>
      (case check_signing_identity X w3 of (d, w4) \<Rightarrow> (case check_managed_config X w4 of (e, w5) \<Rightarrow>
       check_associated_domains X w5)))))"
    by (intro probes_then probes_checks probes_managed_check probes_associated)
  ultimately show ?thesis by (simp add: probes_only_def split_beta)
qed

lemma check_order:
  "\<exists>extra. subseq extra [''ci-runner-labels'', ''associated-domains'']
     \<and> map dc_name (fst (run_environment_checks X w)) =
         [''xcodebuild'', ''rust-toolchain'', ''detect-secrets'', ''code-signing'',
          ''native-app-bundle'', ''managed-config''] @ extra"
proof -
  obtain a w1 where a: "check_xcodebuild X w = (a, w1)" by fastforce
  obtain b w2 where b: "check_rust_toolchain X w1 = (b, w2)" by fastforce
  obtain c w3 where c: "check_detect_secrets X w2 = (c, w3)" by fastforce
  obtain d w4 where d: "check_signing_identity X w3 = (d, w4)" by fastforce
  obtain e w5 where e: "check_managed_config X w4 = (e, w5)" by fastforce
  obtain f w6 where f: "check_associated_domains X w5 = (f, w6)" by fastforce
  let ?runner = "case check_runner_labels w5 of None \<Rightarrow> [] | Some c \<Rightarrow> [c]"
  let ?aasa = "case f of None \<Rightarrow> [] | Some c \<Rightarrow> [c]"
  have "map dc_name ?runner \<in> {[], [''ci-runner-labels'']}" "map dc_name ?aasa \<in> {[], [''associated-domains'']}"
    using check_names_optional(1) [of w5] check_names_optional(2) [of X w5] f by (auto split: option.splits)
  then have "subseq (map dc_name ?runner @ map dc_name ?aasa) [''ci-runner-labels'', ''associated-domains'']"
    by auto
  moreover have "map dc_name (fst (run_environment_checks X w)) =
      [''xcodebuild'', ''rust-toolchain'', ''detect-secrets'', ''code-signing'',
       ''native-app-bundle'', ''managed-config''] @ map dc_name ?runner @ map dc_name ?aasa"
    using check_names(1) [of X w] check_names(2) [of X w1] check_names(3) [of X w2]
      check_names(4) [of X w3] check_names(5) [of X w4] check_names(6) [of X w4]
    by (simp add: run_environment_checks_def Let_def a b c d e f)
  ultimately show ?thesis by blast
qed

text \<open>C25: the environment checks change nothing: no file, no variable, nothing sent or printed;
  all they do is start programs from a fixed set (the toolchain probes with their fixed
  arguments, \<open>defaults export\<close>, and \<open>curl\<close> on the \<open>https\<close> address of a domain's AASA file). They
  are reported in a fixed order, the last two only when they apply.\<close>

theorem environment_checks_harmless:
  "\<exists>is. set is \<subseteq> doctor_probes
     \<and> snd (run_environment_checks X w) = fold log_spawn is w
     \<and> w_fs (snd (run_environment_checks X w)) = w_fs w
     \<and> w_env (snd (run_environment_checks X w)) = w_env w
     \<and> w_sent (snd (run_environment_checks X w)) = w_sent w
     \<and> w_out (snd (run_environment_checks X w)) = w_out w
     \<and> (\<exists>extra. subseq extra [''ci-runner-labels'', ''associated-domains'']
          \<and> map dc_name (fst (run_environment_checks X w)) =
              [''xcodebuild'', ''rust-toolchain'', ''detect-secrets'', ''code-signing'',
               ''native-app-bundle'', ''managed-config''] @ extra)"
proof -
  obtain "is" where "set is \<subseteq> doctor_probes" "snd (run_environment_checks X w) = fold log_spawn is w"
    using probes_environment [of X] unfolding probes_only_def by blast
  then show ?thesis using check_order [of X w] log_spawn_fold [of "is" w] by auto
qed

section \<open>The verdict on the domains\<close>

definition aasa_probe :: "string \<Rightarrow> invocation" where
  "aasa_probe domain = invoke ''curl'' (aasa_arguments domain)"

text \<open>The answer for domain \<open>k\<close>, after those before it were asked.\<close>

definition served :: "ext \<Rightarrow> world \<Rightarrow> string list \<Rightarrow> nat \<Rightarrow> bool" where
  "served X w ds k =
     (case fst (run_probe X ''curl'' (aasa_arguments (ds ! k))
            (fold log_spawn (map aasa_probe (take k ds)) w)) of
        None \<Rightarrow> False
      | Some response \<Rightarrow> aasa_response_is_valid X response)"

lemma failing_domains_eq:
  "failing_domains X ds w =
     (nths ds {k. \<not> served X w ds k}, fold log_spawn (map aasa_probe ds) w)"
proof (induction ds arbitrary: w)
  case Nil
  show ?case by simp
next
  case (Cons d ds)
  obtain r where r: "run_probe X ''curl'' (aasa_arguments d) w = (r, log_spawn (aasa_probe d) w)"
    using run_probe_world [of X "''curl''" "aasa_arguments d" w]
    by (metis aasa_probe_def prod.collapse)
  have step: "served X w (d # ds) (Suc k) = served X (log_spawn (aasa_probe d) w) ds k" for k
    by (simp add: served_def)
  have zero: "served X w (d # ds) 0 = (case r of None \<Rightarrow> False | Some r \<Rightarrow> aasa_response_is_valid X r)"
    by (simp add: served_def r)
  show ?case by (simp add: Cons.IH r nths_Cons step zero)
qed

text \<open>C29: the check of the associated domains asks for each configured domain once, in order, and
  passes exactly when every one of them served a valid file; otherwise it fails and names exactly
  the others, in order. Without a configured domain there is no check and no program is started.\<close>

theorem associated_domains_verdict:
  "case configured_associated_domains X w of (ds, v) \<Rightarrow>
     let bad = nths ds {k. \<not> served X v ds k} in
     case check_associated_domains X w of
       (None, w') \<Rightarrow> ds = [] \<and> w' = v
     | (Some c, w') \<Rightarrow> ds \<noteq> [] \<and> w_spawned w' = w_spawned v @ map aasa_probe ds
         \<and> (if bad = [] then dc_status c = CheckOk
             else dc_status c = CheckFail
               \<and> dc_message c = ''AASA file invalid or unreachable for: '' @ join_with '', '' bad)"
proof (cases "configured_associated_domains X w")
  case (Pair ds v)
  then show ?thesis
    by (auto simp: check_associated_domains_def failing_domains_eq Let_def with_version_def
        with_remediation_def new_check_def log_spawn_fold)
qed

section \<open>The responses that are accepted\<close>

text \<open>The text of an HTTP message as \<open>curl -D -\<close> prints it.\<close>

definition CRLF :: string where
  "CRLF = [CHR 0x0D, CHR 0x0A]"

definition status_line :: "string \<Rightarrow> nat \<Rightarrow> string \<Rightarrow> string" where
  "status_line version n reason = ''HTTP/'' @ version @ '' '' @ show_nat n @ '' '' @ reason"

definition header_line :: "string \<times> string \<Rightarrow> string" where
  "header_line h = fst h @ '':'' @ snd h"

definition http_text :: "string list \<Rightarrow> string \<Rightarrow> string" where
  "http_text ls body = join_with CRLF ls @ CRLF @ CRLF @ body"

lemma find_sub_skip_char:
  assumes "\<And>i. i < length p \<Longrightarrow> \<not> prefix pat (drop i (p @ s))"
  shows "find_sub pat (p @ s) = map_option ((+) (length p)) (find_sub pat s)"
  using assms
proof (induction p)
  case Nil
  then show ?case by (simp add: option.map_ident)
next
  case (Cons c p)
  have "\<not> prefix pat (c # p @ s)" using Cons.prems [of 0] by simp
  moreover have "find_sub pat (p @ s) = map_option ((+) (length p)) (find_sub pat s)"
    using Cons.IH Cons.prems [of "Suc _"] by simp
  ultimately show ?case by (simp add: option.map_comp comp_def)
qed

lemma plain_line_no_CR:
  assumes "plain_line x" "i < length x"
  shows "\<not> prefix (CHR 0x0D # q) (drop i (x @ s))"
proof -
  have "drop i (x @ s) = x ! i # drop (Suc i) x @ s"
    using assms(2) by (simp add: Cons_nth_drop_Suc [symmetric])
  moreover have "x ! i \<noteq> CHR 0x0D" using assms nth_mem [of i x] by (metis plain_line_def)
  ultimately show ?thesis by simp
qed

lemma join_with_first:
  "y \<noteq> [] \<Longrightarrow> plain_line y \<Longrightarrow> \<exists>c t. join_with CRLF (y # xs) @ s = c # t \<and> c \<noteq> CHR 0x0D"
  by (cases y; cases xs) (auto simp: plain_line_def)

lemma find_blank_line:
  "ls \<noteq> [] \<Longrightarrow> list_all (\<lambda>l. plain_line l \<and> l \<noteq> []) ls \<Longrightarrow>
     find_sub (CRLF @ CRLF) (http_text ls body) = Some (length (join_with CRLF ls))"
proof (induction CRLF ls rule: join_with.induct)
  case 1
  then show ?case by simp
next
  case (2 x)
  have "find_sub (CRLF @ CRLF) (x @ CRLF @ CRLF @ body)
      = map_option ((+) (length x)) (find_sub (CRLF @ CRLF) (CRLF @ CRLF @ body))"
    using 2 plain_line_no_CR by (intro find_sub_skip_char) (simp add: CRLF_def)
  then show ?case using find_sub_prefix [of "CRLF @ CRLF" body] by (simp add: http_text_def)
next
  case (3 x y xs)
  obtain c t where ct: "join_with CRLF (y # xs) @ CRLF @ CRLF @ body = c # t" "c \<noteq> CHR 0x0D"
    using join_with_first [of y xs "CRLF @ CRLF @ body"] "3.prems"(2) by auto
  have "\<not> prefix (CRLF @ CRLF) (drop i ((x @ CRLF) @ join_with CRLF (y # xs) @ CRLF @ CRLF @ body))"
    if "i < length (x @ CRLF)" for i
  proof -
    consider "i < length x" | "i = length x" | "i = Suc (length x)"
      using \<open>i < length (x @ CRLF)\<close> by (auto simp: CRLF_def) linarith
    then show ?thesis
    proof cases
      case 1
      then show ?thesis using plain_line_no_CR [of x i] "3.prems" by (simp add: CRLF_def)
    qed (use ct in \<open>simp_all add: CRLF_def\<close>)
  qed
  from find_sub_skip_char [OF this]
  have "find_sub (CRLF @ CRLF) ((x @ CRLF) @ http_text (y # xs) body)
      = map_option ((+) (length (x @ CRLF))) (find_sub (CRLF @ CRLF) (http_text (y # xs) body))"
    by (simp add: http_text_def)
  then show ?case using 3 by (simp add: http_text_def)
qed

lemma split_http_text:
  assumes "ls \<noteq> []" "list_all (\<lambda>l. plain_line l \<and> l \<noteq> []) ls"
  shows "split_curl_response (http_text ls body) = Some (join_with CRLF ls, body)"
proof -
  have "[CHR 0x0D, CHR 0x0A, CHR 0x0D, CHR 0x0A] = CRLF @ CRLF" by (simp add: CRLF_def)
  then show ?thesis
    using find_blank_line [OF assms, of body]
    by (simp add: split_curl_response_def split_once_def or_else_def http_text_def CRLF_def)
qed

lemma lines_join:
  assumes "ls \<noteq> []" "list_all (\<lambda>l. plain_line l \<and> l \<noteq> []) ls"
  shows "lines (join_with CRLF ls) = ls"
proof -
  have "split_on (CHR 0x0A) (join_with CRLF ls) = map (\<lambda>l. l @ [CHR 0x0D]) (butlast ls) @ [last ls]"
    using assms
  proof (induction CRLF ls rule: join_with.induct)
    case (2 x)
    then show ?case by (auto intro!: split_by_nosep simp: plain_line_def)
  next
    case (3 x y xs)
    have "split_on (CHR 0x0A) ((x @ [CHR 0x0D]) @ CHR 0x0A # join_with CRLF (y # xs))
        = (x @ [CHR 0x0D]) # split_on (CHR 0x0A) (join_with CRLF (y # xs))"
      using "3.prems" by (intro split_by_sep) (auto simp: plain_line_def)
    then show ?case using 3 by (simp add: CRLF_def)
  qed simp
  moreover have "map (strip_cr \<circ> (\<lambda>l. l @ [CHR 0x0D])) ls = ls" for ls
    by (simp add: map_idI strip_cr_def)
  moreover have "last ls \<noteq> []" using assms(2) last_in_set [OF assms(1)] by (auto simp: list_all_iff)
  ultimately show ?thesis using assms(1) by (simp add: lines_def Let_def)
qed

text \<open>Words of visible ASCII characters.\<close>

definition visible :: "string \<Rightarrow> bool" where
  "visible s \<longleftrightarrow> s \<noteq> [] \<and> (\<forall>c \<in> set s. 32 < code c \<and> code c < 128)"

lemma strip_one_visible:
  assumes "32 < code c" "code c < 128"
  shows "strip_one ws_chars (c # s) = None"
proof (rule ccontr)
  assume "strip_one ws_chars (c # s) \<noteq> None"
  then obtain t where "strip_one ws_chars (c # s) = Some t" by auto
  from strip_one_suffix [OF this] obtain a where "a \<in> set ws_chars" "c \<in> set a"
    by (auto simp: Cons_eq_append_conv)
  from ws_chars_bytes [OF this] assms show False by auto
qed

lemma split_ws_from_visible:
  "\<forall>c \<in> set a. 32 < code c \<and> code c < 128 \<Longrightarrow> split_ws_from acc (a @ s) = split_ws_from (rev a @ acc) s"
  by (induction a arbitrary: acc) (simp_all add: strip_one_visible)

lemma split_ws_from_started:
  "acc \<noteq> [] \<Longrightarrow> \<exists>t ws. split_ws_from acc s = (rev acc @ t) # ws"
proof (induction acc s rule: split_ws_from.induct)
  case (2 acc c s)
  show ?case
  proof (cases "strip_one ws_chars (c # s)")
    case None
    then show ?thesis using "2.IH"(1) [OF None] by auto
  qed (use "2.prems" in \<open>simp add: exI [of _ "[]"]\<close>)
qed simp

lemma split_word_space:
  assumes "visible a"
  shows "split_whitespace (a @ CHR '' '' # s) = a # split_whitespace s"
proof -
  have "char_of (32 :: nat) = CHR '' ''" by code_simp
  then have "strip_one ws_chars (CHR '' '' # s) = Some s"
    by (simp add: ws_chars_def)
  then show ?thesis
    using assms split_ws_from_visible [of a "[]" "CHR '' '' # s"]
    by (simp add: split_whitespace_def visible_def)
qed

lemma split_word_first: "visible a \<Longrightarrow> \<exists>t ws. split_whitespace (a @ s) = (a @ t) # ws"
  using split_ws_from_visible [of a "[]" s] split_ws_from_started [of "rev a" s]
  by (simp add: split_whitespace_def visible_def)

lemma digits_visible: "visible (show_nat n)"
  using show_nat_digits [of n] by (fastforce simp: visible_def list_all_iff is_ascii_digit_def)

lemma parse_status_line:
  assumes "visible version" "n < 2 ^ 16"
  shows "parse_http_status (status_line version n reason) = Some n"
proof -
  have "visible (''HTTP/'' @ version)" using assms(1) by (auto simp: visible_def code_def)
  from split_word_space [OF this] split_word_space [OF digits_visible]
  have "split_whitespace (status_line version n reason) = (''HTTP/'' @ version) # show_nat n # split_whitespace reason"
    by (simp add: status_line_def)
  then show ?thesis using assms(2) by (simp add: parse_http_status_def parse_unsigned_show)
qed

text \<open>A header line: a visible name without a colon that does not look like a status line.\<close>

definition header_ok :: "string \<times> string \<Rightarrow> bool" where
  "header_ok h \<longleftrightarrow> visible (fst h) \<and> CHR '':'' \<notin> set (fst h) \<and> \<not> prefix ''HTTP/'' (fst h)
     \<and> plain_line (snd h)"

lemma parse_header_line:
  assumes "header_ok h"
  shows "parse_http_status (header_line h) = None"
proof -
  have "visible (fst h @ '':'')" using assms by (auto simp: header_ok_def visible_def code_def)
  from split_word_first [OF this, of "snd h"] obtain t ws where "split_whitespace (header_line h) = (fst h @ '':'' @ t) # ws"
    by (auto simp: header_line_def)
  moreover have "\<not> prefix ''HTTP/'' (fst h @ '':'' @ t)"
  proof
    assume p: "prefix ''HTTP/'' (fst h @ '':'' @ t)"
    show False
    proof (cases "length (fst h) < 5")
      case True
      obtain zs where "fst h @ '':'' @ t = ''HTTP/'' @ zs" using p by (auto simp: prefix_def)
      then have "(''HTTP/'' @ zs) ! length (fst h) = CHR '':''"
        by (metis append_Cons nth_append_length)
      then have "CHR '':'' \<in> set ''HTTP/''"
        using True nth_mem [of "length (fst h)" "''HTTP/''"] by (simp add: nth_append del: append.simps)
      then show False by simp
    next
      case False
      then have "prefix ''HTTP/'' (fst h)" using p by (intro prefix_length_prefix [OF p]) auto
      then show False using assms by (simp add: header_ok_def)
    qed
  qed
  ultimately show ?thesis by (simp add: parse_http_status_def)
qed

lemma split_header_line:
  assumes "header_ok h"
  shows "split_once (header_line h) '':'' = Some h"
proof -
  have "\<not> prefix '':'' (drop i (fst h @ '':'' @ snd h))" if "i < length (fst h)" for i
  proof -
    have "drop i (fst h @ '':'' @ snd h) = fst h ! i # drop (Suc i) (fst h) @ '':'' @ snd h"
      using that by (simp add: Cons_nth_drop_Suc [symmetric])
    moreover have "fst h ! i \<noteq> CHR '':''" using assms that nth_mem [of i "fst h"] by (metis header_ok_def)
    ultimately show ?thesis by simp
  qed
  from find_sub_skip_char [OF this] find_sub_prefix [of "'':''" "snd h"]
  show ?thesis by (simp add: split_once_def header_line_def)
qed

lemma split_status_line:
  assumes "CHR '':'' \<notin> set version \<union> set reason"
  shows "split_once (status_line version n reason) '':'' = None"
proof -
  have "CHR '':'' \<notin> set (show_nat n)"
    using show_nat_digits [of n] by (auto simp: list_all_iff is_ascii_digit_def code_def)
  then have "\<not> sublist '':'' (status_line version n reason)"
    using assms set_mono_sublist [of "'':''"] by (fastforce simp: status_line_def)
  then show ?thesis by (simp add: split_once_def contains_iff_sublist [symmetric] contains_def)
qed

lemma find_map_none: "\<forall>x \<in> set xs. f x = None \<Longrightarrow> find_map f (xs @ ys) = find_map f ys"
  by (induction xs) auto

text \<open>The media type: what stands before the first semicolon, without space around it.\<close>

definition media_type :: "string \<Rightarrow> string" where
  "media_type v = trim (hd (split_on (CHR '';'') (trim v)))"

text \<open>C37: for every HTTP message with a well formed status line and headers, the text of it is
  accepted exactly when the status is 200 to 299, no header is \<open>Location\<close>, some
  \<open>Content-Type\<close> has the media type \<open>application/json\<close>, in any case of letters, and the body is
  JSON whose \<open>webcredentials.apps\<close> is a non-empty array of strings that are not blank.\<close>

theorem aasa_acceptance:
  assumes version: "visible version" "plain_line version" "plain_line reason"
      "CHR '':'' \<notin> set version \<union> set reason" "n < 2 ^ 16"
    and headers: "list_all header_ok hs"
  shows "aasa_response_is_valid X (http_text (status_line version n reason # map header_line hs) body) \<longleftrightarrow>
     n \<in> {200..299}
     \<and> list_all (\<lambda>h. \<not> eq_ignore_ascii_case (fst h) ''location'') hs
     \<and> list_ex (\<lambda>h. eq_ignore_ascii_case (fst h) ''content-type''
         \<and> eq_ignore_ascii_case (media_type (snd h)) ''application/json'') hs
     \<and> (case x_json_parse X (trim body) of Inl _ \<Rightarrow> False | Inr tree \<Rightarrow> lists_apps (to_value tree))"
proof -
  let ?s = "status_line version n reason"
  let ?ls = "?s # map header_line hs"
  have "plain_line (show_nat n)"
    using show_nat_digits [of n] by (auto simp: plain_line_def list_all_iff is_ascii_digit_def code_def)
  then have s: "plain_line ?s" "?s \<noteq> []"
    using version by (auto simp: status_line_def plain_line_def)
  have h: "plain_line (header_line h) \<and> header_line h \<noteq> []" if "header_ok h" for h
    using that by (auto simp: header_ok_def header_line_def plain_line_def visible_def code_def)
  have ok: "list_all (\<lambda>l. plain_line l \<and> l \<noteq> []) ?ls" using s h headers by (auto simp: list_all_iff)
  have split: "split_curl_response (http_text ?ls body) = Some (join_with CRLF ?ls, body)"
    and ls: "lines (join_with CRLF ?ls) = ?ls"
    using ok by (intro split_http_text lines_join; simp)+
  have status: "find_map parse_http_status (rev ?ls) = Some n"
    using find_map_none [of "rev (map header_line hs)" parse_http_status "[?s]"] parse_header_line headers
      parse_status_line [OF version(1,5)] by (auto simp: list_all_iff)
  have hs: "split_once (header_line h) '':'' = Some h" "trim (fst h) = fst h" if "h \<in> set hs" for h
  proof -
    have "header_ok h" using headers that by (simp add: list_all_iff)
    then show "split_once (header_line h) '':'' = Some h" "trim (fst h) = fst h"
      by (rule split_header_line) (intro trim_id, use \<open>header_ok h\<close> in \<open>auto simp: header_ok_def visible_def\<close>)
  qed
  have "has_redirect_header (join_with CRLF ?ls) \<longleftrightarrow> list_ex (\<lambda>h. eq_ignore_ascii_case (fst h) ''location'') hs"
    by (simp add: has_redirect_header_def ls split_status_line [OF version(4)] list_ex_iff hs case_prod_beta
        cong: bex_cong)
  moreover have "has_valid_aasa_content_type (join_with CRLF ?ls) \<longleftrightarrow>
      list_ex (\<lambda>h. eq_ignore_ascii_case (fst h) ''content-type''
         \<and> eq_ignore_ascii_case (media_type (snd h)) ''application/json'') hs"
    by (simp add: has_valid_aasa_content_type_def ls split_status_line [OF version(4)] list_ex_iff hs
        case_prod_beta media_type_def cong: bex_cong)
  ultimately show ?thesis
    using status
    by (auto simp: aasa_response_is_valid_def split ls list_ex_iff list_all_iff split: sum.split)
qed

definition aasa_document :: json where
  "aasa_document = JObject [(''webcredentials'', JObject [(''apps'', JArray [JString ''T.apw''])])]"

theorem aasa_acceptance_witness:
  "aasa_response_is_valid (sample_ext [(''doc'', aasa_document)])
     (http_text (status_line ''1.1'' 200 ''OK'' # map header_line
        [(''Content-Type'', ''application/json;q'')]) ''doc'')"
proof -
  have "visible ''1.1''" "plain_line ''1.1''" "plain_line ''OK''" "CHR '':'' \<notin> set ''1.1'' \<union> set ''OK''"
    by (simp_all add: visible_def plain_line_def code_def)
  moreover have "list_all header_ok [(''Content-Type'', ''application/json;q'')]"
    by (simp add: header_ok_def visible_def plain_line_def code_def)
  moreover have "media_type ''application/json;q'' = ''application/json''"
    by (simp add: media_type_def trim_id code_def)
  moreover have "lists_apps (to_value aasa_document)"
    by (simp add: aasa_document_def lists_apps_def app_named_def trim_id code_def)
  moreover have "eq_ignore_ascii_case ''Content-Type'' ''content-type''"
    "eq_ignore_ascii_case ''application/json'' ''application/json''"
    "\<not> eq_ignore_ascii_case ''Content-Type'' ''location''"
    by code_simp+
  ultimately show ?thesis
    by (subst aasa_acceptance) (simp_all add: trim_id code_def)
qed

end
