(* ===== verification/Cli.thy ===== *)
theory Cli
  imports Bundle Doctor State_Root
begin

text \<open>
  The command line (\<open>rust/src/cli.rs\<close>, \<open>main.rs\<close>, \<open>logging.rs\<close>): the commands as \<open>clap\<close>
  delivers them, the sanitising of URLs, what each command prints on standard output and
  standard error, and the exit code. The log level is the one of the command line, as
  \<open>logging::init\<close> is called once before anything else; the messages that \<open>native_app.rs\<close> logs
  are not modelled. \<open>Display\<close> of a JSON value never fails in \<open>serde_json\<close>, so the \<open>Inl\<close> of
  \<open>x_json_compact\<close>, which stands for the errors of \<open>to_string\<close>, prints nothing here.
\<close>

section \<open>Commands\<close>

datatype log_level = LogDebug | LogInfo | LogWarn | LogError

text \<open>\<open>Ord\<close> is derived: by the order of the variants.\<close>

definition level_rank :: "log_level \<Rightarrow> nat" where
  "level_rank l = (case l of LogDebug \<Rightarrow> 0 | LogInfo \<Rightarrow> 1 | LogWarn \<Rightarrow> 2 | LogError \<Rightarrow> 3)"

instantiation log_level :: linorder
begin

definition less_eq_log_level :: "log_level \<Rightarrow> log_level \<Rightarrow> bool" where
  "less_eq_log_level a b \<longleftrightarrow> level_rank a \<le> level_rank b"

definition less_log_level :: "log_level \<Rightarrow> log_level \<Rightarrow> bool" where
  "less_log_level a b \<longleftrightarrow> level_rank a < level_rank b"

instance
  by standard
    (auto simp: less_eq_log_level_def less_log_level_def level_rank_def split: log_level.splits)

end

datatype app_subcommand = AppInstall | AppLaunch

datatype commands =
    CmdApp app_subcommand
  | CmdDoctor bool "string option"
  | CmdFill string
  | CmdLogin string bool
  | CmdStatus bool
  | CmdVersion

record cli =
  cli_command :: commands
  cli_json :: bool
  cli_log_level :: log_level

section \<open>Output\<close>

definition say :: "out_line \<Rightarrow> world \<Rightarrow> world" where
  "say l w = w\<lparr>w_out := w_out w @ [l]\<rparr>"

definition log_enabled :: "log_level \<Rightarrow> log_level \<Rightarrow> bool" where
  "log_enabled setting level \<longleftrightarrow> level \<ge> setting"

definition level_name :: "log_level \<Rightarrow> string" where
  "level_name l =
     (case l of LogDebug \<Rightarrow> ''DEBUG'' | LogInfo \<Rightarrow> ''INFO'' | LogWarn \<Rightarrow> ''WARN'' | LogError \<Rightarrow> ''ERROR'')"

definition emit :: "ext \<Rightarrow> cli \<Rightarrow> log_level \<Rightarrow> string \<Rightarrow> string \<Rightarrow> world \<Rightarrow> world" where
  "emit X args level component message w =
     (if cli_json args \<or> \<not> log_enabled (cli_log_level args) level then w
      else say (Stderr (''['' @ level_name level @ ''] '' @ x_rfc3339_show X (w_now w) @ '' ''
        @ component @ '': '' @ message)) w)"

definition show_json :: "ext \<Rightarrow> json \<Rightarrow> string" where
  "show_json X v = (case x_json_compact X v of Inl _ \<Rightarrow> [] | Inr s \<Rightarrow> s)"

definition answer_text :: "ext \<Rightarrow> json \<Rightarrow> status \<Rightarrow> bool \<Rightarrow> string" where
  "answer_text X payload status as_json =
     (if as_json then
        show_json X (obj [(''ok'', JBool (status = Success)), (''code'', enc_status status),
          (''payload'', payload)])
      else (case payload of JString text \<Rightarrow> text | _ \<Rightarrow> show_json X payload))"

definition print_output :: "ext \<Rightarrow> json \<Rightarrow> status \<Rightarrow> bool \<Rightarrow> world \<Rightarrow> world" where
  "print_output X payload status as_json w =
     say (Stdout (answer_text X payload status as_json)) w"

section \<open>URLs\<close>

definition sanitize_url :: "ext \<Rightarrow> string \<Rightarrow> string res" where
  "sanitize_url X raw =
     (let trimmed = trim raw in
      if trimmed = [] then Inl (mk_err InvalidParam ''Missing or invalid URL.'')
      else
        let candidate = (if contains trimmed ''://'' then trimmed else ''https://'' @ trimmed);
            invalid = mk_err GenericError
              (''Invalid URL: '' @ [CHR 0x27] @ candidate @ [CHR 0x27])
        in (case x_url_parse X candidate of
              None \<Rightarrow> Inl invalid
            | Some parsed \<Rightarrow> if url_host parsed = None then Inl invalid else Inr candidate))"

definition sanitize_native_credential_url :: "ext \<Rightarrow> string \<Rightarrow> string res" where
  "sanitize_native_credential_url X raw =
     bind_res (sanitize_url X raw) (\<lambda>candidate.
       case x_url_parse X candidate of
         None \<Rightarrow> Inl (mk_err InvalidParam
             (''Invalid native credential URL: '' @ [CHR 0x27] @ candidate @ [CHR 0x27]))
       | Some parsed \<Rightarrow>
           if url_scheme parsed \<noteq> ''https'' then
             Inl (mk_err InvalidParam ''Native credential requests require an https URL.'')
           else Inr candidate)"

section \<open>The version\<close>

definition invalid_version :: apw_error where
  "invalid_version = mk_err GenericError ''Invalid semantic version.''"

definition parse_semver_number :: "string option \<Rightarrow> u64 res" where
  "parse_semver_number part =
     (case part of
        None \<Rightarrow> Inl invalid_version
      | Some part \<Rightarrow>
          if part = [] \<or> \<not> list_all is_ascii_digit part
             \<or> (length part > 1 \<and> prefix ''0'' part) then Inl invalid_version
          else ok_or invalid_version (map_option of_nat (parse_unsigned (2 ^ 64) part)))"

fun check_identifiers :: "bool \<Rightarrow> string list \<Rightarrow> unit res" where
  "check_identifiers reject_numeric_leading_zero [] = Inr ()"
| "check_identifiers reject_numeric_leading_zero (part # parts) =
     (if part = [] \<or> \<not> list_all (\<lambda>c. is_ascii_alnum c \<or> c = CHR ''-'') part then Inl invalid_version
      else if reject_numeric_leading_zero \<and> length part > 1 \<and> list_all is_ascii_digit part
        \<and> prefix ''0'' part then Inl invalid_version
      else check_identifiers reject_numeric_leading_zero parts)"

definition validate_semver_identifiers :: "string \<Rightarrow> bool \<Rightarrow> unit res" where
  "validate_semver_identifiers value reject_numeric_leading_zero =
     check_identifiers reject_numeric_leading_zero (split_on (CHR ''.'') value)"

definition split_build :: "string \<Rightarrow> (string \<times> string option) res" where
  "split_build version =
     (case split_once version ''+'' of
        Some (core_and_prerelease, build) \<Rightarrow>
          if build \<noteq> [] \<and> \<not> contains build ''+'' then Inr (core_and_prerelease, Some build)
          else Inl invalid_version
      | None \<Rightarrow> Inr (version, None))"

definition split_prerelease :: "string \<Rightarrow> (string \<times> string option) res" where
  "split_prerelease core_and_prerelease =
     (case split_once core_and_prerelease ''-'' of
        Some (core, prerelease) \<Rightarrow>
          if prerelease \<noteq> [] then Inr (core, Some prerelease) else Inl invalid_version
      | None \<Rightarrow> Inr (core_and_prerelease, None))"

definition nth_part :: "string list \<Rightarrow> nat \<Rightarrow> string option" where
  "nth_part parts i = (if i < length parts then Some (parts ! i) else None)"

definition parse_semver :: "string \<Rightarrow> json res" where
  "parse_semver version =
     bind_res (split_build version) (\<lambda>(core_and_prerelease, build).
     bind_res (split_prerelease core_and_prerelease) (\<lambda>(core, prerelease).
       let parts = split_on (CHR ''.'') core in
       bind_res (parse_semver_number (nth_part parts 0)) (\<lambda>major.
       bind_res (parse_semver_number (nth_part parts 1)) (\<lambda>minor.
       bind_res (parse_semver_number (nth_part parts 2)) (\<lambda>patch.
       if nth_part parts 3 \<noteq> None then Inl invalid_version
       else
         bind_res (case prerelease of None \<Rightarrow> Inr () | Some p \<Rightarrow> validate_semver_identifiers p True) (\<lambda>_.
         bind_res (case build of None \<Rightarrow> Inr () | Some b \<Rightarrow> validate_semver_identifiers b False) (\<lambda>_.
         Inr (obj [(''major'', enc_u64 major), (''minor'', enc_u64 minor),
           (''patch'', enc_u64 patch)]))))))))"

definition version_payload :: "ext \<Rightarrow> json res" where
  "version_payload X =
     bind_res (parse_semver VERSION) (\<lambda>semver.
       Inr (obj [(''version'', JString VERSION), (''semver'', semver),
         (''build_date'', JString (bi_date (x_build X))), (''git_sha'', JString (bi_sha (x_build X))),
         (''rust_version'', JString (bi_rust (x_build X))),
         (''target'', JString (bi_target (x_build X)))]))"

section \<open>Running a command\<close>

text \<open>\<open>print_ok\<close> is \<open>print_output\<close> of a successful command followed by \<open>Ok(())\<close>.\<close>

definition print_ok :: "ext \<Rightarrow> json \<Rightarrow> bool \<Rightarrow> unit io" where
  "print_ok X payload as_json w = (Inr (), print_output X payload Success as_json w)"

definition log_io :: "ext \<Rightarrow> cli \<Rightarrow> log_level \<Rightarrow> string \<Rightarrow> string \<Rightarrow> unit io" where
  "log_io X args level component message w = (Inr (), emit X args level component message w)"

text \<open>An operation with fuel that needs none.\<close>

definition plainly :: "'a io \<Rightarrow> 'a io_option" where
  "plainly m w = Some (m w)"

definition run_app :: "ext \<Rightarrow> (child \<Rightarrow> string) \<Rightarrow> nat \<Rightarrow> cli \<Rightarrow> app_subcommand \<Rightarrow> unit io_option" where
  "run_app X status_text_of fuel args command =
     bind_fuel
       (case command of
          AppInstall \<Rightarrow>
            bind_first (log_io X args LogInfo ''app'' ''installing native app bundle'') (\<lambda>_.
              native_app_install X status_text_of fuel)
        | AppLaunch \<Rightarrow>
            bind_first (log_io X args LogInfo ''app'' ''launching native app broker'') (\<lambda>_.
              plainly (native_app_launch X)))
       (\<lambda>payload. plainly (print_ok X payload (cli_json args)))"

definition bundle_summary :: "bundle_result \<Rightarrow> json" where
  "bundle_summary result =
     obj [(''bundlePath'', JString (br_path result)),
          (''filesIncluded'', JArray (map JString (br_files_included result))),
          (''redactionChecks'', enc_u32 (br_redaction_checks result))]"

definition bundle_message :: "bundle_result \<Rightarrow> string" where
  "bundle_message result =
     ''Wrote diagnostic bundle to '' @ br_path result @ '' ('' @ show_nat (length (br_files_included result))
     @ '' files, '' @ show_nat (unat (br_redaction_checks result)) @ '' redaction checks).''"

definition run_doctor ::
    "ext \<Rightarrow> (child \<Rightarrow> string) \<Rightarrow> (proc_output \<Rightarrow> string) \<Rightarrow> nat \<Rightarrow> cli \<Rightarrow> bool \<Rightarrow> string option \<Rightarrow> unit io_option" where
  "run_doctor X status_text_of exit_text fuel args ci bundle =
     bind_first (log_io X args LogInfo ''doctor'' ''collecting native app diagnostics'') (\<lambda>_.
     bind_first (\<lambda>w. case run_environment_checks X w of (checks, w1) \<Rightarrow> (Inr checks, w1)) (\<lambda>environment.
       let environment_json = checks_to_json environment in
       if ci then plainly (print_ok X environment_json True)
       else
         bind_first (native_app_doctor X status_text_of) (\<lambda>doctor.
           let payload = insert_key ''environment'' environment_json doctor in
           case bundle of
             Some bundle_path \<Rightarrow>
               bind_fuel (write_diagnostic_bundle X exit_text fuel bundle_path payload environment_json)
                 (\<lambda>result. plainly (\<lambda>w.
                    print_ok X (bundle_summary result) (cli_json args)
                      (if cli_json args then w else say (Stderr (bundle_message result)) w)))
           | None \<Rightarrow>
               plainly (\<lambda>w. print_ok X payload (cli_json args)
                 (if cli_json args then w
                  else fold (\<lambda>line. say (Stderr line)) (render_check_lines environment) w)))))"

definition run_fill :: "ext \<Rightarrow> cli \<Rightarrow> string \<Rightarrow> unit io" where
  "run_fill X args url =
     bind_io (log_io X args LogInfo ''fill'' (''requesting fill credential for '' @ url)) (\<lambda>_.
     bind_io (lift_res (sanitize_native_credential_url X url)) (\<lambda>clean_url.
     bind_io (native_app_fill X clean_url) (\<lambda>payload.
     print_ok X payload (cli_json args))))"

definition run_login :: "ext \<Rightarrow> cli \<Rightarrow> string \<Rightarrow> bool \<Rightarrow> unit io" where
  "run_login X args url external_fallback =
     bind_io (log_io X args LogInfo ''login'' (''requesting credential for '' @ url)) (\<lambda>_.
     bind_io (lift_res (sanitize_native_credential_url X url)) (\<lambda>clean_url.
     bind_io (native_app_login X clean_url external_fallback) (\<lambda>payload.
     print_ok X payload (cli_json args))))"

definition run_status_command :: "ext \<Rightarrow> cli \<Rightarrow> bool \<Rightarrow> unit io" where
  "run_status_command X args json =
     bind_io (log_io X args LogDebug ''status'' ''collecting native app status'') (\<lambda>_.
     bind_io (\<lambda>w. case native_app_status X w of (payload, w1) \<Rightarrow> (Inr payload, w1)) (\<lambda>payload.
     print_ok X payload (json \<or> cli_json args)))"

definition run_version :: "ext \<Rightarrow> cli \<Rightarrow> unit io" where
  "run_version X args =
     (if cli_json args then
        bind_io (lift_res (version_payload X)) (\<lambda>payload. print_ok X payload True)
      else print_ok X (JString (''apw '' @ VERSION)) False)"

definition run ::
    "ext \<Rightarrow> (child \<Rightarrow> string) \<Rightarrow> (proc_output \<Rightarrow> string) \<Rightarrow> nat \<Rightarrow> cli \<Rightarrow> unit io_option" where
  "run X status_text_of exit_text fuel args =
     (case cli_command args of
        CmdApp command \<Rightarrow> run_app X status_text_of fuel args command
      | CmdDoctor ci bundle \<Rightarrow> run_doctor X status_text_of exit_text fuel args ci bundle
      | CmdFill url \<Rightarrow> plainly (run_fill X args url)
      | CmdLogin url external_fallback \<Rightarrow> plainly (run_login X args url external_fallback)
      | CmdStatus json \<Rightarrow> plainly (run_status_command X args json)
      | CmdVersion \<Rightarrow> plainly (run_version X args))"

definition command_requires_state :: "commands \<Rightarrow> bool" where
  "command_requires_state command \<longleftrightarrow> command \<noteq> CmdVersion"

text \<open>The error that ends the program, as it is told on standard error.\<close>

definition error_text :: "ext \<Rightarrow> cli \<Rightarrow> apw_error \<Rightarrow> string" where
  "error_text X args e =
     (if cli_json args then
        show_json X (obj [(''ok'', JBool False), (''code'', enc_status (err_code e)),
          (''error'', JString (err_message e))])
      else err_message e)"

text \<open>The exit code and the world at the end; \<open>None\<close> when the fuel for the directory walks ran
  out. The state directory is what the environment says.\<close>

definition main_program ::
    "ext \<Rightarrow> (child \<Rightarrow> string) \<Rightarrow> (proc_output \<Rightarrow> string) \<Rightarrow> nat \<Rightarrow> cli \<Rightarrow> world \<Rightarrow> (int \<times> world) option" where
  "main_program X status_text_of exit_text fuel args w0 =
     map_option
       (\<lambda>(result, w).
          case result of
            Inr _ \<Rightarrow> (0, w)
          | Inl e \<Rightarrow>
              (status_to_i32 (err_code e),
               say (Stderr (error_text X args e))
                 (if \<not> cli_json args then emit X args LogError ''cli'' (err_message e) w else w)))
       (if command_requires_state (cli_command args) then
          (case apw_state_root w0 of
             Inl e \<Rightarrow> Some (Inl e, w0)
           | Inr root_path \<Rightarrow> run X status_text_of exit_text fuel args (w0\<lparr>w_root := root_path\<rparr>))
        else run X status_text_of exit_text fuel args w0)"

end
