(* ===== verification/Still.thy ===== *)
theory Still
  imports Bundle Doctor Config_Write
begin

text \<open>
  Operations that leave an observation as it is: \<open>still obs w p\<close> says that the result \<open>p\<close> of an
  operation started in \<open>w\<close> has changed nothing that \<open>g\<close> sees. The rules follow the structure of
  the operations, and \<open>silent_rules\<close> collects them with the facts of the components. What is
  printed and what is sent are such observations: no file, no started program and no configuration
  changes them.
\<close>

named_theorems silent_rules \<open>operations that leave an observation as it is\<close>

definition still :: "(world \<Rightarrow> 'b) \<Rightarrow> world \<Rightarrow> 'a \<times> world \<Rightarrow> bool" where
  "still obs w p \<longleftrightarrow> obs (snd p) = obs w"

definition still_if_any :: "(world \<Rightarrow> 'b) \<Rightarrow> world \<Rightarrow> ('a \<times> world) option \<Rightarrow> bool" where
  "still_if_any obs w m \<longleftrightarrow> (\<forall>p. m = Some p \<longrightarrow> still obs w p)"

abbreviation silent :: "world \<Rightarrow> 'a \<times> world \<Rightarrow> bool" where
  "silent \<equiv> still w_out"

abbreviation silent_if_any :: "world \<Rightarrow> ('a \<times> world) option \<Rightarrow> bool" where
  "silent_if_any \<equiv> still_if_any w_out"

text \<open>Observations of what has been printed and sent, and of nothing else.\<close>

definition observed :: "(world \<Rightarrow> 'b) \<Rightarrow> bool" where
  "observed g \<longleftrightarrow> (\<forall>w w'. w_out w = w_out w' \<longrightarrow> w_sent w = w_sent w' \<longrightarrow> g w = g w')"

lemma observed_fields [silent_rules]: "observed w_out" "observed w_sent"
  by (simp_all add: observed_def)

lemma observedD: "observed obs \<Longrightarrow> w_out w = w_out w' \<Longrightarrow> w_sent w = w_sent w' \<Longrightarrow> obs w = obs w'"
  unfolding observed_def by blast

lemma stillD: "still obs w p \<Longrightarrow> p = (r, w') \<Longrightarrow> obs w' = obs w"
  by (simp add: still_def)

lemma still_out: "still obs v p \<Longrightarrow> obs v = obs w \<Longrightarrow> still obs w p"
  by (simp add: still_def)

lemma still_pure [silent_rules]:
  "still obs w (x, w)" "still obs w (ret x w)" "still obs w (fail e w)" "still obs w (lift_res r w)"
  "still obs w (get_world w)" "still obs w (check_io f w)"
  by (simp_all add: still_def check_io_def)

lemma still_cases [silent_rules]:
  "still obs w p \<Longrightarrow> still obs w q \<Longrightarrow> still obs w (if b then p else q)"
  "still obs w p \<Longrightarrow> (\<And>y. still obs w (f y)) \<Longrightarrow> still obs w (case x of None \<Rightarrow> p | Some y \<Rightarrow> f y)"
  "(\<And>e. still obs w (g e)) \<Longrightarrow> (\<And>y. still obs w (h y)) \<Longrightarrow>
     still obs w (case z of Inl e \<Rightarrow> g e | Inr y \<Rightarrow> h y)"
  "still obs w p \<Longrightarrow> (\<And>y ys. still obs w (l y ys)) \<Longrightarrow> still obs w (case zs of [] \<Rightarrow> p | y # ys \<Rightarrow> l y ys)"
  by (auto split: option.split sum.split list.split)

lemma still_cases_fun [silent_rules]:
  "still obs w (m w) \<Longrightarrow> still obs w (n w) \<Longrightarrow> still obs w ((if b then m else n) w)"
  "still obs w (m w) \<Longrightarrow> (\<And>y. still obs w (f y w)) \<Longrightarrow>
     still obs w ((case x of None \<Rightarrow> m | Some y \<Rightarrow> f y) w)"
  "(\<And>e. still obs w (g e w)) \<Longrightarrow> (\<And>y. still obs w (h y w)) \<Longrightarrow>
     still obs w ((case z of Inl e \<Rightarrow> g e | Inr y \<Rightarrow> h y) w)"
  "still obs w (m w) \<Longrightarrow> (\<And>y ys. still obs w (l y ys w)) \<Longrightarrow>
     still obs w ((case zs of [] \<Rightarrow> m | y # ys \<Rightarrow> l y ys) w)"
  by (auto split: option.split sum.split list.split)

lemma still_then [silent_rules]:
  assumes "still obs w p" "\<And>x v. still obs v (f x v)"
  shows "still obs w (case p of (x, v) \<Rightarrow> f x v)"
  using assms(1) assms(2) [of "snd p" "fst p"] by (simp add: still_def case_prod_beta)

lemma still_after: "still obs w p \<Longrightarrow> still obs w (case p of (x, v) \<Rightarrow> (g x v, v))"
  by (simp add: still_def case_prod_beta)

lemma still_bind [silent_rules]:
  assumes "still obs w (m w)" "\<And>x v. still obs v (f x v)"
  shows "still obs w (bind_io m f w)"
  using assms(1) still_out [OF assms(2)]
  by (auto simp: bind_io_def still_def split: prod.split sum.split)

lemma still_map_err [silent_rules]: "still obs w (m w) \<Longrightarrow> still obs w (map_err f m w)"
  by (auto simp: map_err_def still_def split: prod.split sum.split)

lemma still_rest: "frame rest m \<Longrightarrow> observed obs \<Longrightarrow> still obs w (m w)"
proof -
  assume "frame rest m" "observed obs"
  then have "rest (snd (m w)) = rest w" by (simp add: frame_def)
  then have "w_out (snd (m w)) = w_out w" "w_sent (snd (m w)) = w_sent w" by (rule rest_fields)+
  from observedD [OF \<open>observed obs\<close> this] show "still obs w (m w)" by (simp only: still_def)
qed

lemmas still_fs [silent_rules] =
  fs_rest [THEN still_rest] fs_remove_dir_all_rest [THEN still_rest] fs_write_rest [THEN still_rest]

lemma still_ignore: "still obs w (m w) \<Longrightarrow> obs (ignore m w) = obs w"
  by (simp add: still_def ignore_def)

lemma still_quietly [silent_rules]:
  "still obs w (m w) \<Longrightarrow> still obs w (quietly m w)" "still obs w (k w) \<Longrightarrow> still obs w (attempt k w)"
  by (simp_all add: still_def quietly_def attempt_def ignore_def)

lemma still_commands [silent_rules]:
  assumes "observed obs"
  shows "still obs w (run_output X i w)" "still obs w (spawn_child X i w)" "still obs w (run_status X i w)"
    "still obs w (probe_output X i w)"
  by (auto simp: still_def run_output_def spawn_child_def run_status_def probe_output_def
      intro!: observedD [OF assms])

text \<open>The same for operations with fuel.\<close>

lemma still_fuel [silent_rules]:
  "still obs w p \<Longrightarrow> still_if_any obs w (Some p)" "still_if_any obs w None"
  by (simp_all add: still_if_any_def)

lemma still_fuel_cases [silent_rules]:
  "still_if_any obs w p \<Longrightarrow> still_if_any obs w q \<Longrightarrow> still_if_any obs w (if b then p else q)"
  "still_if_any obs w p \<Longrightarrow> (\<And>y. still_if_any obs w (f y)) \<Longrightarrow>
     still_if_any obs w (case x of None \<Rightarrow> p | Some y \<Rightarrow> f y)"
  "(\<And>e. still_if_any obs w (g e)) \<Longrightarrow> (\<And>y. still_if_any obs w (h y)) \<Longrightarrow>
     still_if_any obs w (case z of Inl e \<Rightarrow> g e | Inr y \<Rightarrow> h y)"
  "(\<And>a b. still_if_any obs w (k a b w)) \<Longrightarrow> still_if_any obs w ((case ab of (a, b) \<Rightarrow> k a b) w)"
  by (auto split: option.split sum.split prod.split)

lemma still_if_any_out: "still_if_any obs v m \<Longrightarrow> obs v = obs w \<Longrightarrow> still_if_any obs w m"
  by (simp add: still_if_any_def still_def)

lemma still_bind_first [silent_rules]:
  assumes "still obs w (m w)" "\<And>x v. still_if_any obs v (f x v)"
  shows "still_if_any obs w (bind_first m f w)"
proof (cases "m w")
  case (Pair r v)
  then have v: "obs v = obs w" using assms(1) by (simp add: still_def)
  show ?thesis
    using v still_if_any_out [OF assms(2) v]
    by (cases r) (simp_all add: bind_first_def Pair still_if_any_def still_def)
qed

lemma still_bind_fuel [silent_rules]:
  assumes "still_if_any obs w (m w)" "\<And>x v. still_if_any obs v (f x v)"
  shows "still_if_any obs w (bind_fuel m f w)"
proof (cases "m w")
  case None
  then show ?thesis by (simp add: bind_fuel_def still_if_any_def)
next
  case (Some p)
  obtain r v where p: "p = (r, v)" by fastforce
  then have v: "obs v = obs w" using assms(1) Some by (simp add: still_if_any_def still_def)
  show ?thesis
    using v still_if_any_out [OF assms(2) v]
    by (cases r) (simp_all add: bind_fuel_def Some p still_if_any_def still_def)
qed

section \<open>Reading the configuration\<close>

lemma still_keychain [silent_rules]:
  assumes "observed obs"
  shows "still obs w (default_security_runner X as w)" "still obs w (read_shared_key X u w)"
    "still obs w (delete_shared_key X u w)" "still obs w (write_shared_key X u k w)"
proof -
  note rules = silent_rules still_commands [OF assms]
  show 1: "still obs w (default_security_runner X as w)" for as w
    unfolding default_security_runner_def by (intro rules)
  show "still obs w (read_shared_key X u w)" "still obs w (delete_shared_key X u w)"
    "still obs w (write_shared_key X u k w)"
    unfolding read_shared_key_def delete_shared_key_def write_shared_key_def by (intro rules 1)+
qed

lemma clear_config_still: "observed obs \<Longrightarrow> obs (clear_config X w) = obs w"
proof -
  assume obs: "observed obs"
  then have "obs (forget_secret X w) = obs w"
    by (auto simp: forget_secret_def still_ignore still_keychain split: sum.split option.split)
  with obs show ?thesis by (simp add: clear_config_def Let_def still_ignore still_fs)
qed

lemma still_clear_and_fail [silent_rules]: "observed obs \<Longrightarrow> still obs w (clear_and_fail X e w)"
  by (simp add: still_def clear_and_fail_def clear_config_still)

lemma still_managed [silent_rules]:
  assumes "observed obs"
  shows "still obs w (managed_prefs_plist X w)" "still obs w (read_managed_config X w)"
proof -
  show 1: "still obs w (managed_prefs_plist X w)"
    unfolding managed_prefs_plist_def by (intro silent_rules assms)
  show "still obs w (read_managed_config X w)"
    unfolding read_managed_config_def by (intro silent_rules assms 1)
qed

lemma still_read_user [silent_rules]: "observed obs \<Longrightarrow> still obs w (read_user_config_file_or_null X w)"
  unfolding read_user_config_file_or_null_def Let_def by (intro silent_rules)

lemma still_read_file [silent_rules]:
  assumes "observed obs"
  shows "still obs w (read_config_file X w)" "still obs w (read_config_file_or_empty X w)"
proof -
  show 1: "still obs w (read_config_file X w)"
    unfolding read_config_file_def Let_def by (intro silent_rules assms)
  show "still obs w (read_config_file_or_empty X w)"
    unfolding read_config_file_or_empty_def by (intro silent_rules assms 1)
qed

lemma still_domains [silent_rules]:
  assumes "observed obs"
  shows "still obs w (configured_supported_domains_non_destructive X w)"
    "still obs w (config_provenance_details X w)"
  unfolding configured_supported_domains_non_destructive_def config_provenance_details_def Let_def
  by (intro silent_rules assms)+

lemma still_cleared [silent_rules]: "observed obs \<Longrightarrow> still obs w (x, clear_config X w)"
  by (simp add: still_def clear_config_still)

lemma still_secret [silent_rules]:
  assumes "observed obs"
  shows "still obs w (shared_secret X raw w)" "still obs w (decode_secret X t w)"
  subgoal unfolding shared_secret_def Let_def
    by (cases "resolve_secret_source raw"; simp only: secret_source.case; intro silent_rules assms)
  subgoal unfolding decode_secret_def by (intro silent_rules assms)
  done

lemma still_read_config [silent_rules]: "observed obs \<Longrightarrow> still obs w (read_config X opts w)"
  unfolding read_config_def Let_def by (intro silent_rules)

section \<open>Writing the configuration\<close>

lemma still_permissions [silent_rules]: "observed obs \<Longrightarrow> still obs w (set_permissions X p m w)"
  unfolding set_permissions_def by (intro silent_rules)

lemma still_directory [silent_rules]: "observed obs \<Longrightarrow> still obs w (ensure_config_directory X w)"
  unfolding ensure_config_directory_def Let_def by (intro silent_rules)

lemma still_write_config [silent_rules]: "observed obs \<Longrightarrow> still obs w (write_config X input w)"
  unfolding write_config_def write_config_over_def write_secret_def persist_config_def
    read_config_file_or_null_def Let_def
  by (intro silent_rules still_rest [OF save_text_rest])

end
