(* ===== verification/Silence.thy ===== *)
theory Silence
  imports Still
begin

text \<open>
  Which operations print: none below the command line. \<open>silent\<close> is \<open>still\<close> for what is printed.
\<close>

section \<open>Providers\<close>

lemma silent_permissions [silent_rules]: "silent w (set_permissions_strict X p m w)"
  unfolding set_permissions_strict_def by (intro silent_rules)

lemma silent_runtime_dir [silent_rules]:
  "silent w (ensure_runtime_dir X w)" "silent w (ensure_default_credentials_file X w)"
  unfolding ensure_runtime_dir_def ensure_default_credentials_file_def Let_def by (intro silent_rules)+

lemma silent_reserve [silent_rules]: "silent w (reserve_external_provider_invocation X p l w)"
  unfolding reserve_external_provider_invocation_def Let_def by (intro silent_rules)

lemma silent_provider_command [silent_rules]:
  "silent w (run_external_provider_command_with_stdin X p path c as i w)"
  "silent w (run_external_provider_command X p path c as w)"
  unfolding run_external_provider_command_def run_external_provider_command_with_stdin_def Let_def
  by (intro silent_rules)+

lemma silent_take_password [silent_rules]: "silent w (take_master_password w)"
  by (auto simp: take_master_password_def still_def env_remove_def fail_def split: option.split)

lemma silent_loaders [silent_rules]:
  "silent w (load_1password_credential X path c host url w)"
  "silent w (load_bitwarden_credential X path c host url w)"
  "silent w (load_keepassxc_credential X path c host url w)"
  "silent w (load_pass_credential X path c host url w)"
  unfolding load_1password_credential_def load_bitwarden_credential_def load_keepassxc_credential_def
    load_pass_credential_def Let_def
  by (intro silent_rules)+

lemma silent_load [silent_rules]: "silent w (load_credential X p path c host url w)"
  unfolding load_credential_def by (cases p) (simp_all add: silent_loaders)

lemma silent_external_login [silent_rules]: "silent w (external_provider_login X url w)"
  unfolding external_provider_login_def Let_def by (intro silent_rules)

section \<open>The broker\<close>

lemma silent_bounded [silent_rules]: "silent w (run_bounded_command X c as t m w)"
  unfolding run_bounded_command_def by (intro silent_rules)

lemma silent_exchange [silent_rules]: "silent w (exchange X path s d w)"
proof -
  have "silent (log_sent path d w) (exchange X path s d w)"
    unfolding exchange_def Let_def by (intro silent_rules)
  then show ?thesis by (rule still_out) (simp add: log_sent_def)
qed

lemma silent_request [silent_rules]:
  "silent w (send_request_via_executable X c v w)" "silent w (send_request X c v w)"
  "silent w (native_app_request X c url w)" "silent w (native_app_fill X url w)"
proof -
  show 1: "silent w (send_request_via_executable X c v w)" for c v w
    unfolding send_request_via_executable_def Let_def by (intro silent_rules)
  show "silent w (send_request X c v w)" for c v w
    unfolding send_request_def Let_def by (intro silent_rules 1)
  then show "silent w (native_app_request X c url w)" "silent w (native_app_fill X url w)"
    by (simp_all add: native_app_request_def native_app_fill_def)
qed

lemma silent_login [silent_rules]: "silent w (native_app_login X url allow w)"
  unfolding native_app_login_def by (intro silent_rules)

lemma silent_status [silent_rules]:
  "silent w (external_fallback_status X w)" "silent w (native_app_status X w)"
proof -
  show 1: "silent w (external_fallback_status X w)" for w
    unfolding external_fallback_status_def Let_def by (intro silent_rules)
  show "silent w (native_app_status X w)"
    unfolding native_app_status_def Let_def by (intro silent_rules 1)
qed

lemma silent_ci_checks [silent_rules]: "silent w (ci_diagnostic_checks X T w)"
proof -
  have "silent w (command_version_check X T a b c d w)" "silent w (code_signing_identity_check X T w)" for a b c d w
    unfolding command_version_check_def code_signing_identity_check_def Let_def by (intro silent_rules)+
  then show ?thesis
    unfolding ci_diagnostic_checks_def Let_def by (intro silent_rules)
qed

lemma silent_doctor [silent_rules]: "silent w (native_app_doctor X T w)"
  unfolding native_app_doctor_def Let_def by (intro silent_rules)

lemma silent_rotate [silent_rules]: "silent w (rotate_broker_log_if_needed X p w)"
  unfolding rotate_broker_log_if_needed_def Let_def by (intro silent_rules)

lemma silent_launch [silent_rules]: "silent w (native_app_launch X w)"
proof -
  have "silent w (clone_handle X p w)" for p w
    unfolding clone_handle_def faulty_def by (intro silent_rules)
  then show ?thesis unfolding native_app_launch_def Let_def by (intro silent_rules)
qed

lemma silent_copy [silent_rules]: "silent_if_any w (copy_dir_recursive X fuel s d w)"
proof (induction fuel arbitrary: s d w)
  case 0
  show ?case by (simp add: still_if_any_def)
next
  case (Suc fuel)
  have entry: "silent_if_any w (copy_entry X (copy_dir_recursive X fuel) a b w)" for a b w
    unfolding copy_entry_def by (intro silent_rules Suc.IH)
  have "silent_if_any w (for_entries s (\<lambda>name. copy_entry X (copy_dir_recursive X fuel) (g name) (h name)) es w)"
    for g h es w
  proof (induction es arbitrary: w)
    case Nil
    show ?case by (simp add: still_if_any_def still_def)
  next
    case (Cons e es)
    show ?case
      by (cases e; simp) (intro silent_rules entry Cons.IH)+
  qed
  then show ?case by (simp, intro silent_rules)
qed

lemma silent_install [silent_rules]: "silent_if_any w (native_app_install X T fuel w)"
  unfolding native_app_install_def Let_def by (intro silent_rules)

section \<open>The doctor and its bundle\<close>

lemma silent_probe [silent_rules]:
  "silent w (run_probe X c as w)" "silent w (probe_first_line X c as w)" "silent w (collect_os_info X w)"
proof -
  show "silent w (run_probe X c as w)" unfolding run_probe_def Let_def by (intro silent_rules)
  show 1: "silent w (probe_first_line X c as w)" for c as w
    unfolding probe_first_line_def Let_def by (intro silent_rules)
  show "silent w (collect_os_info X w)"
    unfolding collect_os_info_def Let_def by (intro silent_rules 1)
qed

lemma silent_failing [silent_rules]: "silent w (failing_domains X ds w)"
proof (induction ds arbitrary: w)
  case (Cons d ds)
  show ?case by (simp, intro silent_rules Cons.IH)
qed (simp add: still_def)

lemma silent_checks [silent_rules]: "silent w (run_environment_checks X w)"
proof -
  have "silent w (check_xcodebuild X w)" "silent w (check_rust_toolchain X w)" "silent w (check_detect_secrets X w)"
    "silent w (check_signing_identity X w)" "silent w (check_managed_config X w)"
    "silent w (configured_associated_domains X w)" for w
    unfolding check_xcodebuild_def check_rust_toolchain_def check_detect_secrets_def
      check_signing_identity_def check_managed_config_def configured_associated_domains_def
    by (intro silent_rules)+
  moreover from this have "silent w (check_associated_domains X w)" for w
    unfolding check_associated_domains_def by (intro silent_rules)
  ultimately show ?thesis
    unfolding run_environment_checks_def Let_def by (intro silent_rules)
qed

lemma silent_files [silent_rules]:
  "silent w (write_json_file X b n v c w)" "silent w (write_manifest X b fs k w)"
  "silent w (prepare_output X out w)" "silent w (pack_bundle X E out s w)" "silent w (staging_create X w)"
proof -
  show "silent w (write_json_file X b n v c w)"
    unfolding write_json_file_def Let_def
    by (auto split: prod.split sum.split intro!: silent_rules)
  show "silent w (write_manifest X b fs k w)" "silent w (prepare_output X out w)"
    "silent w (pack_bundle X E out s w)" "silent w (staging_create X w)"
    unfolding write_manifest_def prepare_output_def pack_bundle_def staging_create_def Let_def
    by (intro silent_rules)+
qed

lemma silent_stage [silent_rules]: "silent_if_any w (stage_bundle X fuel d e s w)"
proof -
  have "silent_if_any w (listing_io X fuel w)" for w
    by (auto simp: listing_io_def still_if_any_def still_def)
  then show ?thesis unfolding stage_bundle_def Let_def by (intro silent_rules)
qed

lemma silent_bundle [silent_rules]: "silent_if_any w (write_diagnostic_bundle X E fuel out d e w)"
proof -
  have with_staging: "silent_if_any w (with_staging X body w)" if "\<And>s v. silent_if_any v (body s v)"
    for body :: "string \<Rightarrow> 'b io_option" and w
  proof (cases "staging_create X w")
    case (Pair r v)
    then have v: "w_out v = w_out w" using silent_files(5) by (rule stillD [rotated])
    have "w_out (ignore (fs_remove_dir_all X s) u) = w_out u" for s u
      by (simp add: still_ignore still_fs observed_fields)
    then show ?thesis
      using that [of v] v by (cases r) (auto simp: with_staging_def Pair still_if_any_def still_def)
  qed
  show ?thesis
    unfolding write_diagnostic_bundle_def by (intro silent_rules with_staging)
qed

end
