(* ===== verification/Cli_Laws.thy ===== *)
theory Cli_Laws
  imports Cli Silence
begin

text \<open>
  What the command line decides: the versions it accepts are those of the grammar, only
  \<open>https\<close> addresses reach the broker, and the exit code and the output of the whole program.
\<close>

section \<open>Splitting at a character\<close>

lemma find_sub_char: "find_sub [c] s = None \<longleftrightarrow> c \<notin> set s"
  by (induction s) auto

lemma split_once_char:
  "split_once s [c] = Some (a, b) \<longleftrightarrow> s = a @ c # b \<and> c \<notin> set a"
proof (induction s arbitrary: a)
  case Nil
  show ?case by (simp add: split_once_def)
next
  case (Cons d s)
  show ?case
  proof (cases "c = d")
    case True
    then show ?thesis by (cases a) (auto simp: split_once_def)
  next
    case False
    have "split_once (d # s) [c] = map_option (\<lambda>(x, y). (d # x, y)) (split_once s [c])"
      using False by (cases "find_sub [c] s") (simp_all add: split_once_def)
    then show ?thesis using False Cons.IH by (cases a) auto
  qed
qed

lemma split_once_char_None: "split_once s [c] = None \<longleftrightarrow> c \<notin> set s"
  by (simp add: split_once_def find_sub_char)

lemma join_split: "join_with [c] (split_on c s) = s"
proof (induction s)
  case (Cons d s)
  show ?case
  proof (cases "split_on c s")
    case (Cons x xs)
    then show ?thesis using Cons.IH by (cases xs) auto
  qed simp
qed simp

lemma split_parts_free: "x \<in> set (split_on c s) \<Longrightarrow> c \<notin> set x"
  using split_by_parts [of x "\<lambda>d. d = c" s c] by blast

lemma split_join:
  "xs \<noteq> [] \<Longrightarrow> list_all (\<lambda>x. c \<notin> set x) xs \<Longrightarrow> split_on c (join_with [c] xs) = xs"
proof (induction "[c]" xs rule: join_with.induct)
  case (2 x)
  then show ?case by (auto intro!: split_by_nosep)
next
  case (3 x y xs)
  then have "split_on c (x @ c # join_with [c] (y # xs)) = x # split_on c (join_with [c] (y # xs))"
    by (intro split_by_sep) auto
  with 3 show ?case by simp
qed simp

lemma set_join: "set (join_with sep xs) \<subseteq> set sep \<union> (\<Union>x \<in> set xs. set x)"
  by (induction sep xs rule: join_with.induct) auto

section \<open>Semantic versions\<close>

text \<open>The grammar: three numbers without leading zeros, then an optional pre-release and optional
  build data, each a list of identifiers separated by dots.\<close>

definition ident_char :: "char \<Rightarrow> bool" where
  "ident_char c \<longleftrightarrow> is_ascii_alnum c \<or> c = CHR ''-''"

definition build_ident :: "string \<Rightarrow> bool" where
  "build_ident s \<longleftrightarrow> s \<noteq> [] \<and> list_all ident_char s"

definition prerelease_ident :: "string \<Rightarrow> bool" where
  "prerelease_ident s \<longleftrightarrow> build_ident s
     \<and> \<not> (length s > 1 \<and> list_all is_ascii_digit s \<and> prefix ''0'' s)"

definition semver_text :: "nat \<Rightarrow> nat \<Rightarrow> nat \<Rightarrow> string list \<Rightarrow> string list \<Rightarrow> string" where
  "semver_text major minor patch pre build =
     join_with ''.'' [show_nat major, show_nat minor, show_nat patch]
     @ (if pre = [] then [] else ''-'' @ join_with ''.'' pre)
     @ (if build = [] then [] else ''+'' @ join_with ''.'' build)"

lemma code_digit: "is_ascii_digit c \<Longrightarrow> digit_char (code c - 48) = c \<and> code c - 48 < 10"
proof -
  assume "is_ascii_digit c"
  then have b: "48 \<le> code c" "code c \<le> 57" by (simp_all add: is_ascii_digit_def)
  then have "code (digit_char (code c - 48)) = code c" by (simp add: code_def digit_char_def)
  then show ?thesis using b by (simp add: code_def)
qed

lemma show_digits:
  "list_all is_ascii_digit s \<Longrightarrow> s \<noteq> [] \<Longrightarrow> (length s > 1 \<longrightarrow> hd s \<noteq> CHR ''0'') \<Longrightarrow>
     show_nat (digits_value 0 s) = s"
proof (induction s rule: rev_induct)
  case (snoc c t)
  then have c: "digit_char (code c - 48) = c" "code c - 48 < 10" using code_digit by auto
  show ?case
  proof (cases "t = []")
    case True
    then show ?thesis using c by (simp add: show_nat_small)
  next
    case False
    then have hd: "hd t \<noteq> CHR ''0''" using snoc.prems(3) by simp
    then have t: "show_nat (digits_value 0 t) = t" using snoc False by simp
    have "digits_value 0 t \<noteq> 0"
    proof
      assume "digits_value 0 t = 0"
      then have "t = show_nat 0" using t by simp
      then have "t = [digit_char 0]" by (simp add: show_nat_small)
      moreover have "digit_char 0 = CHR ''0''" by code_simp
      ultimately show False using hd by simp
    qed
    then have "10 \<le> digits_value 0 (t @ [c])" by (simp add: digits_value_append)
    from show_nat_step [OF this] show ?thesis using t c by (simp add: digits_value_append)
  qed
qed simp

lemma parse_semver_number_iff:
  "parse_semver_number (Some s) = Inr n \<longleftrightarrow> (\<exists>k < 2 ^ 64. s = show_nat k \<and> n = of_nat k)"
proof
  assume run: "parse_semver_number (Some s) = Inr n"
  then have s: "s \<noteq> []" "list_all is_ascii_digit s" "length s > 1 \<longrightarrow> \<not> prefix ''0'' s"
    by (auto simp: parse_semver_number_def split: if_splits)
  then have "length s > 1 \<longrightarrow> hd s \<noteq> CHR ''0''" by (cases s) auto
  from show_digits [OF s(2,1) this] have eq: "s = show_nat (digits_value 0 s)" by simp
  obtain k where k: "parse_unsigned (2 ^ 64) s = Some k" "n = of_nat k"
    using run s by (auto simp: parse_semver_number_def ok_or_def split: if_splits option.splits)
  have "hd s \<noteq> CHR ''+''" using s by (cases s) (auto simp: is_ascii_digit_def code_def)
  then have "parse_unsigned (2 ^ 64) s = filter_opt (\<lambda>n. n < 2 ^ 64) (Some (digits_value 0 s))"
    using s by (cases s) (simp_all add: parse_unsigned_def parse_digits_def)
  then show "\<exists>k < 2 ^ 64. s = show_nat k \<and> n = of_nat k"
    using k eq by (auto simp: filter_opt_def split: if_splits)
next
  assume "\<exists>k < 2 ^ 64. s = show_nat k \<and> n = of_nat k"
  then obtain k where k: "k < 2 ^ 64" "s = show_nat k" "n = of_nat k" by blast
  have "\<not> (length s > 1 \<and> prefix ''0'' s)"
    using show_nat_no_leading_zero [of k] unfolding k(2) by (cases "show_nat k") auto
  then show "parse_semver_number (Some s) = Inr n"
    using k show_nat_digits [of k] parse_unsigned_show [OF k(1)]
    by (auto simp: parse_semver_number_def ok_or_def)
qed

lemma check_identifiers_step:
  "check_identifiers r (p # ps) =
     (if (if r then prerelease_ident else build_ident) p then check_identifiers r ps
      else Inl invalid_version)"
proof -
  have "(\<lambda>c. is_ascii_alnum c \<or> c = CHR ''-'') = ident_char" by (simp add: fun_eq_iff ident_char_def)
  then show ?thesis by (auto simp: prerelease_ident_def build_ident_def)
qed

lemma check_identifiers_iff:
  "check_identifiers r ps = Inr u \<longleftrightarrow>
     list_all (if r then prerelease_ident else build_ident) ps"
  by (induction ps; cases r) (simp_all add: check_identifiers_step del: check_identifiers.simps(2))

lemma validate_iff:
  "validate_semver_identifiers v r = Inr u \<longleftrightarrow>
     (\<exists>xs. xs \<noteq> [] \<and> v = join_with ''.'' xs \<and> list_all (if r then prerelease_ident else build_ident) xs)"
proof -
  have free: "CHR ''.'' \<notin> set x" if "(if r then prerelease_ident else build_ident) x" for x
    using that by (auto simp: prerelease_ident_def build_ident_def ident_char_def char_class_defs
        list_all_iff split: if_splits)
  have "split_on (CHR ''.'') v = xs \<longleftrightarrow> v = join_with ''.'' xs"
    if "xs \<noteq> []" "list_all (if r then prerelease_ident else build_ident) xs" for xs
    using split_join [OF that(1), of "CHR ''.''"] free that(2) join_split [of "CHR ''.''" v]
    by (auto simp: list_all_iff)
  then show ?thesis
    unfolding validate_semver_identifiers_def check_identifiers_iff
    by (metis split_by_ne)
qed

lemma split_build_iff:
  "split_build v = Inr (core, build) \<longleftrightarrow>
     (case build of
        None \<Rightarrow> v = core \<and> CHR ''+'' \<notin> set v
      | Some b \<Rightarrow> v = core @ ''+'' @ b \<and> CHR ''+'' \<notin> set core \<union> set b \<and> b \<noteq> [])"
proof (cases "split_once v ''+''")
  case None
  moreover from this have "CHR ''+'' \<notin> set v" by (simp add: split_once_char_None)
  ultimately show ?thesis by (auto simp: split_build_def split: option.split)
next
  case (Some ab)
  obtain a b where ab: "ab = (a, b)" by fastforce
  have v: "v = a @ CHR ''+'' # b" "CHR ''+'' \<notin> set a" using Some ab by (simp_all add: split_once_char)
  have c: "contains b ''+'' \<longleftrightarrow> CHR ''+'' \<in> set b"
    using find_sub_char [of "CHR ''+''" b] by (simp add: contains_def)
  have "split_once v ''+'' = Some (core, d) \<longleftrightarrow> core = a \<and> d = b" for d using Some ab by auto
  then have u: "v = core @ CHR ''+'' # d \<and> CHR ''+'' \<notin> set core \<longleftrightarrow> core = a \<and> d = b" for d
    by (simp add: split_once_char)
  show ?thesis
  proof (cases build)
    case None
    then show ?thesis using v Some ab by (auto simp: split_build_def)
  next
    case (Some d)
    have "split_build v = Inr (core, Some d) \<longleftrightarrow> (core = a \<and> d = b) \<and> d \<noteq> [] \<and> CHR ''+'' \<notin> set d"
      using \<open>split_once v ''+'' = Some ab\<close> ab c by (auto simp: split_build_def)
    then show ?thesis unfolding u [symmetric] Some by auto
  qed
qed

lemma split_prerelease_iff:
  "split_prerelease v = Inr (core, pre) \<longleftrightarrow>
     (case pre of
        None \<Rightarrow> v = core \<and> CHR ''-'' \<notin> set v
      | Some p \<Rightarrow> v = core @ ''-'' @ p \<and> CHR ''-'' \<notin> set core \<and> p \<noteq> [])"
proof (cases "split_once v ''-''")
  case None
  moreover from this have "CHR ''-'' \<notin> set v" by (simp add: split_once_char_None)
  ultimately show ?thesis by (auto simp: split_prerelease_def split: option.split)
next
  case (Some ab)
  obtain a b where ab: "ab = (a, b)" by fastforce
  have "split_once v ''-'' = Some (core, d) \<longleftrightarrow> core = a \<and> d = b" for d using Some ab by auto
  then have u: "v = core @ CHR ''-'' # d \<and> CHR ''-'' \<notin> set core \<longleftrightarrow> core = a \<and> d = b" for d
    by (simp add: split_once_char)
  have v: "v = a @ CHR ''-'' # b" using Some ab by (simp_all add: split_once_char)
  show ?thesis
  proof (cases pre)
    case None
    then show ?thesis using v Some ab by (auto simp: split_prerelease_def)
  next
    case (Some d)
    have "split_prerelease v = Inr (core, Some d) \<longleftrightarrow> (core = a \<and> d = b) \<and> d \<noteq> []"
      using \<open>split_once v ''-'' = Some ab\<close> ab by (auto simp: split_prerelease_def)
    then show ?thesis unfolding u [symmetric] Some by auto
  qed
qed

definition version_json :: "nat \<Rightarrow> nat \<Rightarrow> nat \<Rightarrow> json" where
  "version_json major minor patch =
     obj [(''major'', enc_u64 (of_nat major)), (''minor'', enc_u64 (of_nat minor)),
          (''patch'', enc_u64 (of_nat patch))]"

lemma then_Inr_iff: "bind_res m f = Inr y \<longleftrightarrow> (\<exists>x. m = Inr x \<and> f x = Inr y)"
  by (cases m) (simp_all add: bind_res_def)

lemma parse_core_iff:
  "(\<exists>a b c. parse_semver_number (nth_part parts 0) = Inr a \<and> parse_semver_number (nth_part parts 1) = Inr b
     \<and> parse_semver_number (nth_part parts 2) = Inr c \<and> nth_part parts 3 = None \<and> P a b c) \<longleftrightarrow>
   (\<exists>k l m. k < 2 ^ 64 \<and> l < 2 ^ 64 \<and> m < 2 ^ 64 \<and> parts = [show_nat k, show_nat l, show_nat m]
     \<and> P (of_nat k) (of_nat l) (of_nat m))"
proof -
  have none: "parse_semver_number None \<noteq> Inr x" for x by (simp add: parse_semver_number_def)
  consider "length parts < 3" | a b c where "parts = [a, b, c]" | "length parts > 3"
    by (metis length_Suc_conv length_0_conv linorder_neqE_nat numeral_3_eq_3)
  then show ?thesis
  proof cases
    case 1
    then have "nth_part parts 2 = None" by (simp add: nth_part_def)
    then show ?thesis using none 1 by auto
  next
    case 2
    then have "nth_part parts 0 = Some a" "nth_part parts 1 = Some b" "nth_part parts 2 = Some c"
      "nth_part parts 3 = None" by (simp_all add: nth_part_def)
    then show ?thesis using 2 by (auto simp: parse_semver_number_iff)
  next
    case 3
    then have "nth_part parts 3 \<noteq> None" by (simp add: nth_part_def)
    then show ?thesis using 3 by auto
  qed
qed

lemma parse_semver_Inr:
  "parse_semver v = Inr j \<longleftrightarrow>
    (\<exists>cp build core pre. split_build v = Inr (cp, build) \<and> split_prerelease cp = Inr (core, pre)
      \<and> (case pre of None \<Rightarrow> True | Some p \<Rightarrow> validate_semver_identifiers p True = Inr ())
      \<and> (case build of None \<Rightarrow> True | Some b \<Rightarrow> validate_semver_identifiers b False = Inr ())
      \<and> (\<exists>k l m. k < 2 ^ 64 \<and> l < 2 ^ 64 \<and> m < 2 ^ 64
          \<and> split_on (CHR ''.'') core = [show_nat k, show_nat l, show_nat m] \<and> j = version_json k l m))"
proof -
  have "parse_semver v = Inr j \<longleftrightarrow>
    (\<exists>cp build core pre. split_build v = Inr (cp, build) \<and> split_prerelease cp = Inr (core, pre)
      \<and> (case pre of None \<Rightarrow> True | Some p \<Rightarrow> validate_semver_identifiers p True = Inr ())
      \<and> (case build of None \<Rightarrow> True | Some b \<Rightarrow> validate_semver_identifiers b False = Inr ())
      \<and> (\<exists>a b c. parse_semver_number (nth_part (split_on (CHR ''.'') core) 0) = Inr a
          \<and> parse_semver_number (nth_part (split_on (CHR ''.'') core) 1) = Inr b
          \<and> parse_semver_number (nth_part (split_on (CHR ''.'') core) 2) = Inr c
          \<and> nth_part (split_on (CHR ''.'') core) 3 = None
          \<and> j = obj [(''major'', enc_u64 a), (''minor'', enc_u64 b), (''patch'', enc_u64 c)]))"
  proof (cases "split_build v")
    case (Inr cb)
    then obtain cp build where 1: "split_build v = Inr (cp, build)" by (cases cb) auto
    show ?thesis
    proof (cases "split_prerelease cp")
      case (Inr cq)
      then obtain core pre where 2: "split_prerelease cp = Inr (core, pre)" by (cases cq) auto
      show ?thesis
        by (cases build; cases pre) (auto simp: parse_semver_def 1 2 Let_def then_Inr_iff split: if_splits)
    qed (simp add: parse_semver_def 1 bind_res_def)
  qed (simp add: parse_semver_def bind_res_def)
  then show ?thesis unfolding parse_core_iff version_json_def .
qed

lemma join_nonempty:
  "xs \<noteq> [] \<Longrightarrow> list_all (\<lambda>x. x \<noteq> []) xs \<Longrightarrow> join_with sep xs \<noteq> []"
  by (induction sep xs rule: join_with.induct) auto

lemma ident_join_chars:
  assumes "list_all (if r then prerelease_ident else build_ident) xs" "c \<in> set (join_with ''.'' xs)"
  shows "ident_char c \<or> c = CHR ''.''"
  using assms set_join [of "''.''" xs]
  by (cases r) (fastforce simp: prerelease_ident_def build_ident_def list_all_iff)+

lemma core_chars: "c \<in> set (join_with ''.'' [show_nat k, show_nat l, show_nat m]) \<Longrightarrow> is_ascii_digit c \<or> c = CHR ''.''"
  using show_nat_digits [of k] show_nat_digits [of l] show_nat_digits [of m] by (auto simp: list_all_iff)

text \<open>The version parser accepts exactly the semantic versions whose numbers fit in 64 bits, of
  the form major.minor.patch with an optional pre-release after a hyphen and optional build data
  after a plus sign, and reports their three numbers.\<close>

theorem parse_semver_grammar:
  "parse_semver v = Inr j \<longleftrightarrow>
     (\<exists>k l m pre build. k < 2 ^ 64 \<and> l < 2 ^ 64 \<and> m < 2 ^ 64
        \<and> list_all prerelease_ident pre \<and> list_all build_ident build
        \<and> v = semver_text k l m pre build \<and> j = version_json k l m)"
proof
  assume "parse_semver v = Inr j"
  then obtain cp build core pre k l m where b: "split_build v = Inr (cp, build)"
      and p: "split_prerelease cp = Inr (core, pre)"
      and vp: "case pre of None \<Rightarrow> True | Some p \<Rightarrow> validate_semver_identifiers p True = Inr ()"
      and vb: "case build of None \<Rightarrow> True | Some b \<Rightarrow> validate_semver_identifiers b False = Inr ()"
      and n: "k < 2 ^ 64" "l < 2 ^ 64" "m < 2 ^ 64"
      and c: "split_on (CHR ''.'') core = [show_nat k, show_nat l, show_nat m]" and j: "j = version_json k l m"
    unfolding parse_semver_Inr by blast
  have core: "core = join_with ''.'' [show_nat k, show_nat l, show_nat m]"
    using join_split [of "CHR ''.''" core] c by simp
  obtain ps where ps: "list_all prerelease_ident ps"
      "cp = core @ (if ps = [] then [] else ''-'' @ join_with ''.'' ps)"
  proof (cases pre)
    case None
    then show ?thesis using that [of "[]"] p by (simp add: split_prerelease_iff)
  next
    case (Some q)
    then obtain xs where "xs \<noteq> []" "q = join_with ''.'' xs" "list_all prerelease_ident xs"
      using vp by (auto simp: validate_iff)
    then show ?thesis using that [of xs] p Some by (simp add: split_prerelease_iff)
  qed
  obtain bs where bs: "list_all build_ident bs"
      "v = cp @ (if bs = [] then [] else ''+'' @ join_with ''.'' bs)"
  proof (cases build)
    case None
    then show ?thesis using that [of "[]"] b by (simp add: split_build_iff)
  next
    case (Some q)
    then obtain xs where "xs \<noteq> []" "q = join_with ''.'' xs" "list_all build_ident xs"
      using vb by (auto simp: validate_iff)
    then show ?thesis using that [of xs] b Some by (simp add: split_build_iff)
  qed
  have "v = semver_text k l m ps bs" using ps(2) bs(2) core by (simp add: semver_text_def)
  then show "\<exists>k l m pre build. k < 2 ^ 64 \<and> l < 2 ^ 64 \<and> m < 2 ^ 64
        \<and> list_all prerelease_ident pre \<and> list_all build_ident build
        \<and> v = semver_text k l m pre build \<and> j = version_json k l m"
    using n ps(1) bs(1) j by blast
next
  assume "\<exists>k l m pre build. k < 2 ^ 64 \<and> l < 2 ^ 64 \<and> m < 2 ^ 64
        \<and> list_all prerelease_ident pre \<and> list_all build_ident build
        \<and> v = semver_text k l m pre build \<and> j = version_json k l m"
  then obtain k l m ps bs where n: "k < 2 ^ 64" "l < 2 ^ 64" "m < 2 ^ 64"
    and ok: "list_all prerelease_ident ps" "list_all build_ident bs"
    and v: "v = semver_text k l m ps bs" and j: "j = version_json k l m" by blast
  let ?core = "join_with ''.'' [show_nat k, show_nat l, show_nat m]"
  let ?cp = "?core @ (if ps = [] then [] else ''-'' @ join_with ''.'' ps)"
  have core: "CHR ''-'' \<notin> set ?core" "CHR ''+'' \<notin> set ?core"
    using core_chars [of "CHR ''-''" k l m] core_chars [of "CHR ''+''" k l m]
    by (auto simp: is_ascii_digit_def code_def)
  have plus: "CHR ''+'' \<notin> set (join_with ''.'' ps)" "CHR ''+'' \<notin> set (join_with ''.'' bs)"
    using ident_join_chars [of True ps "CHR ''+''"] ident_join_chars [of False bs "CHR ''+''"] ok
    by (auto simp: ident_char_def char_class_defs)
  have ne: "ps \<noteq> [] \<Longrightarrow> join_with ''.'' ps \<noteq> []" "bs \<noteq> [] \<Longrightarrow> join_with ''.'' bs \<noteq> []"
    using ok join_nonempty [of ps "''.''"] join_nonempty [of bs "''.''"]
    by (auto simp: list_all_iff prerelease_ident_def build_ident_def)
  have "split_build v = Inr (?cp, if bs = [] then None else Some (join_with ''.'' bs))"
    using core plus ne by (auto simp: split_build_iff v semver_text_def)
  moreover have "split_prerelease ?cp = Inr (?core, if ps = [] then None else Some (join_with ''.'' ps))"
    using core ne by (auto simp: split_prerelease_iff)
  moreover have "split_on (CHR ''.'') ?core = [show_nat k, show_nat l, show_nat m]"
  proof (rule split_join)
    have "CHR ''.'' \<notin> set (show_nat i)" for i
      using show_nat_digits [of i] by (auto simp: list_all_iff is_ascii_digit_def code_def)
    then show "list_all (\<lambda>x. CHR ''.'' \<notin> set x) [show_nat k, show_nat l, show_nat m]" by simp
  qed simp
  moreover have "case if ps = [] then None else Some (join_with ''.'' ps) of
        None \<Rightarrow> True | Some p \<Rightarrow> validate_semver_identifiers p True = Inr ()"
    using ok by (auto simp: validate_iff)
  moreover have "case if bs = [] then None else Some (join_with ''.'' bs) of
        None \<Rightarrow> True | Some b \<Rightarrow> validate_semver_identifiers b False = Inr ()"
    using ok by (auto simp: validate_iff)
  ultimately show "parse_semver v = Inr j" unfolding parse_semver_Inr using n j by blast
qed

section \<open>Addresses\<close>

lemma sanitize_https:
  "sanitize_native_credential_url X raw = Inr c \<longleftrightarrow>
     trim raw \<noteq> [] \<and> c = (if contains (trim raw) ''://'' then trim raw else ''https://'' @ trim raw)
     \<and> (\<exists>p h. x_url_parse X c = Some p \<and> url_host p = Some h \<and> url_scheme p = ''https'')"
  by (auto simp: sanitize_native_credential_url_def sanitize_url_def bind_res_def Let_def split: option.split)

text \<open>What a command about a credential does to the world, its messages aside.\<close>

definition same_but_output :: "world \<Rightarrow> world \<Rightarrow> bool" where
  "same_but_output w v \<longleftrightarrow> w_fs v = w_fs w \<and> w_env v = w_env w \<and> w_spawned v = w_spawned w
     \<and> w_sent v = w_sent w"

lemma emit_world: "same_but_output w (emit X args level c m w)"
  by (simp add: emit_def same_but_output_def say_def)

text \<open>C29: only an \<open>https\<close> address reaches the broker or a provider: \<open>fill\<close> and \<open>login\<close> either end
  in an error before any file, program or socket is touched, or they pass on the trimmed
  argument, with \<open>https://\<close> before it if it names no scheme, and the URL library finds a host and
  the scheme \<open>https\<close> in it.\<close>

theorem credential_requests_https:
  "let candidate = (if contains (trim url) ''://'' then trim url else ''https://'' @ trim url);
       https = (\<exists>p h. x_url_parse X candidate = Some p \<and> url_host p = Some h \<and> url_scheme p = ''https'')
   in
   (case run_fill X args url w of (r, w') \<Rightarrow>
      (\<exists>e. r = Inl e \<and> same_but_output w w')
      \<or> https \<and> (\<exists>v. same_but_output w v
          \<and> (r, w') = bind_io (native_app_fill X candidate) (\<lambda>payload. print_ok X payload (cli_json args)) v))
   \<and> (case run_login X args url allow w of (r, w') \<Rightarrow>
      (\<exists>e. r = Inl e \<and> same_but_output w w')
      \<or> https \<and> (\<exists>v. same_but_output w v
          \<and> (r, w') = bind_io (native_app_login X candidate allow)
               (\<lambda>payload. print_ok X payload (cli_json args)) v))"
proof -
  let ?c = "if contains (trim url) ''://'' then trim url else ''https://'' @ trim url"
  have run: "run_fill X args url w = bind_io (lift_res (sanitize_native_credential_url X url))
      (\<lambda>c. bind_io (native_app_fill X c) (\<lambda>payload. print_ok X payload (cli_json args)))
      (emit X args LogInfo ''fill'' (''requesting fill credential for '' @ url) w)"
    "run_login X args url allow w = bind_io (lift_res (sanitize_native_credential_url X url))
      (\<lambda>c. bind_io (native_app_login X c allow) (\<lambda>payload. print_ok X payload (cli_json args)))
      (emit X args LogInfo ''login'' (''requesting credential for '' @ url) w)"
    by (simp_all add: run_fill_def run_login_def bind_io_def log_io_def)
  show ?thesis
  proof (cases "sanitize_native_credential_url X url")
    case (Inl e)
    then show ?thesis by (simp add: run Let_def bind_io_def lift_res_def emit_world)
  next
    case (Inr c)
    then have c: "c = ?c" "\<exists>p h. x_url_parse X c = Some p \<and> url_host p = Some h \<and> url_scheme p = ''https''"
      unfolding sanitize_https by blast+
    have step: "bind_io (lift_res (Inr c)) f v = f c v" for f :: "string \<Rightarrow> unit io" and v
      by (simp add: bind_io_def lift_res_def)
    have via: "case m v of (r, w') \<Rightarrow> (\<exists>e. r = Inl e \<and> same_but_output w w')
        \<or> https \<and> (\<exists>u. same_but_output w u \<and> (r, w') = m u)"
      if https "same_but_output w v" for https v and m :: "unit io"
      by (cases "m v") (use that in \<open>auto intro: exI [of _ v]\<close>)
    show ?thesis
      unfolding run Inr step Let_def c(1) [symmetric] by (intro conjI via c(2) emit_world)
  qed
qed

section \<open>What is printed\<close>

definition stdout_of :: "out_line list \<Rightarrow> string list" where
  "stdout_of ls = concat (map (\<lambda>l. case l of Stdout s \<Rightarrow> [s] | Stderr s \<Rightarrow> []) ls)"

lemma stdout_of_append [simp]: "stdout_of (a @ b) = stdout_of a @ stdout_of b"
  by (simp add: stdout_of_def)

text \<open>\<open>prints w v ls\<close>: between \<open>w\<close> and \<open>v\<close>, the lines \<open>ls\<close> went to standard output.\<close>

definition prints :: "world \<Rightarrow> world \<Rightarrow> string list \<Rightarrow> bool" where
  "prints w v ls \<longleftrightarrow> (\<exists>out. w_out v = w_out w @ out \<and> stdout_of out = ls)"

lemma prints_trans: "prints u v ls \<Longrightarrow> prints w u [] \<Longrightarrow> prints w v ls"
  by (auto simp: prints_def)

lemma prints_nothing: "w_out v = w_out w \<Longrightarrow> prints w v []"
  by (auto simp: prints_def stdout_of_def)

lemma prints_stderr: "prints w v [] \<Longrightarrow> prints w (say (Stderr s) v) []"
  by (auto simp: prints_def say_def stdout_of_def)

lemma emit_prints: "prints w v [] \<Longrightarrow> prints w (emit X args level c m v) []"
  by (simp add: emit_def prints_stderr)

text \<open>A command answers with one line exactly when it succeeds.\<close>

definition answers :: "world \<Rightarrow> unit res \<times> world \<Rightarrow> bool" where
  "answers w p \<longleftrightarrow> (case p of
      (Inl e, v) \<Rightarrow> prints w v []
    | (Inr u, v) \<Rightarrow> \<exists>line. prints w v [line])"

definition answers_if_any :: "world \<Rightarrow> (unit res \<times> world) option \<Rightarrow> bool" where
  "answers_if_any w m \<longleftrightarrow> (case m of None \<Rightarrow> True | Some p \<Rightarrow> answers w p)"

lemma answers_mono: "answers v p \<Longrightarrow> prints w v [] \<Longrightarrow> answers w p"
  by (auto simp: answers_def split: prod.splits sum.splits intro: prints_trans)

lemma answers_if_any_mono: "answers_if_any v p \<Longrightarrow> prints w v [] \<Longrightarrow> answers_if_any w p"
  by (auto simp: answers_if_any_def split: option.splits intro: answers_mono)

lemma answers_print: "prints w v [] \<Longrightarrow> answers w (print_ok X payload j v)"
  by (auto simp: answers_def print_ok_def print_output_def say_def prints_def stdout_of_def)

lemma answers_fail: "answers w (fail e w)"
  by (simp add: answers_def fail_def prints_nothing)

lemma answers_bind:
  assumes "prints w (snd (m w)) []" "\<And>x v. answers v (f x v)"
  shows "answers w (bind_io m f w)"
proof (cases "m w")
  case (Pair r v)
  then have v: "prints w v []" using assms(1) by simp
  show ?thesis
    using v answers_mono [OF assms(2) v] by (cases r) (simp_all add: bind_io_def Pair answers_def)
qed

lemma answers_first:
  assumes "prints w (snd (m w)) []" "\<And>x v. answers_if_any v (f x v)"
  shows "answers_if_any w (bind_first m f w)"
proof (cases "m w")
  case (Pair r v)
  then have v: "prints w v []" using assms(1) by simp
  show ?thesis
    using v answers_if_any_mono [OF assms(2) v]
    by (cases r) (simp_all add: bind_first_def Pair answers_if_any_def answers_def)
qed

lemma answers_fuel:
  assumes "silent_if_any w (m w)" "\<And>x v. answers_if_any v (f x v)"
  shows "answers_if_any w (bind_fuel m f w)"
proof (cases "m w")
  case None
  then show ?thesis by (simp add: bind_fuel_def answers_if_any_def)
next
  case (Some p)
  obtain r v where p: "p = (r, v)" by fastforce
  then have v: "prints w v []"
    using assms(1) Some by (simp add: still_if_any_def still_def prints_nothing)
  show ?thesis
    using v answers_if_any_mono [OF assms(2) v]
    by (cases r) (simp_all add: bind_fuel_def Some p answers_if_any_def answers_def)
qed

lemma silent_prints: "silent w p \<Longrightarrow> prints w (snd p) []"
  by (simp add: still_def prints_nothing)

lemma log_prints: "prints w (snd (log_io X args level c m w)) []"
  by (simp add: log_io_def emit_prints prints_nothing)

lemma log_then_fuel:
  assumes "\<And>v. answers_if_any v (bind_fuel m f v)"
  shows "answers_if_any w (bind_fuel (bind_first (log_io X args level c t) (\<lambda>_. m)) f w)"
proof -
  have "bind_fuel (bind_first (log_io X args level c t) (\<lambda>_. m)) f w =
      bind_fuel m f (emit X args level c t w)"
    by (simp add: bind_fuel_def bind_first_def log_io_def)
  then show ?thesis
    using answers_if_any_mono [OF assms emit_prints [OF prints_nothing [OF refl]]] by simp
qed

lemma plainly_answers: "answers w (m w) \<Longrightarrow> answers_if_any w (plainly m w)"
  by (simp add: answers_if_any_def plainly_def)

lemma run_app_answers: "answers_if_any w (run_app X T fuel args command w)"
proof -
  have "answers_if_any v (bind_fuel m (\<lambda>payload. plainly (print_ok X payload (cli_json args))) v)"
    if "\<And>v. silent_if_any v (m v)" for m :: "json io_option" and v
    by (intro answers_fuel that plainly_answers answers_print prints_nothing refl)
  moreover have "silent_if_any v (native_app_install X T fuel v)"
    "silent_if_any v (plainly (native_app_launch X) v)" for v
    by (rule silent_install) (simp add: plainly_def still_if_any_def silent_launch)
  ultimately show ?thesis
    unfolding run_app_def by (cases command) (simp_all add: log_then_fuel)
qed

lemma run_credential_answers:
  "answers w (run_fill X args url w)" "answers w (run_login X args url allow w)"
  "answers w (run_status_command X args j w)" "answers w (run_version X args w)"
proof -
  have lift: "prints v (snd (lift_res r v)) []" for v and r :: "'x res"
    by (simp add: lift_res_def prints_nothing)
  have status: "silent v (case native_app_status X v of (payload, w1) \<Rightarrow> (Inr payload, w1))" for v
    by (intro silent_rules)
  show "answers w (run_fill X args url w)" "answers w (run_login X args url allow w)"
    "answers w (run_status_command X args j w)"
    unfolding run_fill_def run_login_def run_status_command_def
    by (intro answers_bind log_prints lift silent_prints silent_request silent_login status
        answers_print prints_nothing refl)+
  show "answers w (run_version X args w)"
    unfolding run_version_def
    by (auto intro!: answers_bind lift answers_print prints_nothing)
qed

lemma say_lines_print: "prints w (fold (\<lambda>line. say (Stderr line)) ls w) []"
proof (induction ls arbitrary: w)
  case Nil
  show ?case by (simp add: prints_nothing)
next
  case (Cons l ls)
  show ?case
    using prints_trans [OF Cons.IH [of "say (Stderr l) w"]] prints_stderr [OF prints_nothing [OF refl]]
    by simp
qed

lemma run_doctor_answers: "answers_if_any w (run_doctor X T E fuel args ci bundle w)"
proof -
  have checks: "prints v (snd (case run_environment_checks X v of (checks, w1) \<Rightarrow> (Inr checks, w1))) []" for v
    by (intro silent_prints silent_rules)
  have human: "prints v (if b then v else fold (\<lambda>line. say (Stderr line)) ls v) []" for b ls v
    by (simp add: prints_nothing say_lines_print)
  have told: "prints v (if b then v else say (Stderr m) v) []" for b m v
    by (simp add: prints_nothing prints_stderr)
  have answer: "answers_if_any v (if ci then plainly (print_ok X j True) v
      else bind_first (native_app_doctor X T) (\<lambda>doctor.
        case bundle of
          Some path \<Rightarrow> bind_fuel (write_diagnostic_bundle X E fuel path (insert_key ''environment'' j doctor) j)
            (\<lambda>result. plainly (\<lambda>w. print_ok X (bundle_summary result) (cli_json args)
                (if cli_json args then w else say (Stderr (bundle_message result)) w)))
        | None \<Rightarrow> plainly (\<lambda>w. print_ok X (insert_key ''environment'' j doctor) (cli_json args)
            (if cli_json args then w else fold (\<lambda>line. say (Stderr line)) ls w))) v)" for j ls v
  proof (cases ci)
    case True
    then show ?thesis by (simp add: plainly_answers answers_print prints_nothing)
  next
    case False
    show ?thesis
    proof (cases "bundle")
      case None
      have "answers_if_any v (bind_first (native_app_doctor X T) (\<lambda>doctor.
          plainly (\<lambda>w. print_ok X (insert_key ''environment'' j doctor) (cli_json args)
            (if cli_json args then w else fold (\<lambda>line. say (Stderr line)) ls w))) v)"
        by (intro answers_first silent_prints silent_doctor plainly_answers answers_print human)
      then show ?thesis using False None by simp
    next
      case (Some path)
      have "answers_if_any v (bind_first (native_app_doctor X T) (\<lambda>doctor.
          bind_fuel (write_diagnostic_bundle X E fuel path (insert_key ''environment'' j doctor) j)
            (\<lambda>result. plainly (\<lambda>w. print_ok X (bundle_summary result) (cli_json args)
                (if cli_json args then w else say (Stderr (bundle_message result)) w)))) v)"
        by (intro answers_first answers_fuel silent_prints silent_doctor silent_bundle plainly_answers
            answers_print told)
      then show ?thesis using False Some by simp
    qed
  qed
  show ?thesis
    unfolding run_doctor_def Let_def
  proof (intro answers_first log_prints checks, goal_cases)
    case (1 _ _ x v)
    show ?case
      using answer [of v "checks_to_json x" "render_check_lines x"] by (cases ci) simp_all
  qed
qed

lemma run_answers: "answers_if_any w (run X T E fuel args w)"
  unfolding run_def
  by (cases "cli_command args")
    (simp_all add: run_app_answers run_doctor_answers plainly_answers run_credential_answers)


end
