(* ===== verification/Srp.thy ===== *)
theory Srp
  imports Bignum
begin

text \<open>
  The password-authenticated key exchange of \<open>legacy/rust-src/srp.rs\<close> (SRP with the group and
  the padding of RFC 5054) and the encryption of the messages after it. Hashing, the cipher and
  the text encodings come from other crates: the record \<open>crypto\<close>. Random bytes are arguments.
  A function that can panic returns \<open>None\<close> then.
\<close>

type_synonym bytes = "nat list"

record crypto =
  c_sha256 :: "bytes \<Rightarrow> bytes"
  c_hex_encode :: "bytes \<Rightarrow> string"
  c_hex_decode :: "string \<Rightarrow> bytes option"
  c_b64_encode :: "bytes \<Rightarrow> string"
  c_b64_decode :: "string \<Rightarrow> bytes option"
  c_gcm_accepts :: "bytes \<Rightarrow> bytes \<Rightarrow> bool"
  c_gcm_seal :: "bytes \<Rightarrow> bytes \<Rightarrow> bytes \<Rightarrow> (bytes \<times> bytes) option"
  c_gcm_tag_accepts :: "bytes \<Rightarrow> bool"
  c_gcm_open :: "bytes \<Rightarrow> bytes \<Rightarrow> bytes \<Rightarrow> bytes \<Rightarrow> bytes option"

definition utf8 :: "string \<Rightarrow> bytes" where
  "utf8 s = map code s"

section \<open>The group\<close>

definition GROUP_PRIME_BYTES :: nat where
  "GROUP_PRIME_BYTES = 384"

definition GROUP_GENERATOR :: nat where
  "GROUP_GENERATOR = 5"

definition DEFAULT_VERSION :: string where
  "DEFAULT_VERSION = ''1.0.1''"

definition NONCE_BYTES :: nat where
  "NONCE_BYTES = 16"

definition GCM_TAG_BYTES :: nat where
  "GCM_TAG_BYTES = 16"

text \<open>The number that the digits in the source spell, in base 16.\<close>

definition group_prime :: nat where
  "group_prime = 0xFFFFFFFFFFFFFFFFC90FDAA22168C234C4C6628B80DC1CD129024E088A67CC74020BBEA63B139B22514087098E3404DDEF9519B3CD3A431B302B0A6DF25F14374FE1356D6D51C245E485B576625E7EC6F44C42E9A637ED6B0BFF5CB6F406B7EDEE386BFB5A899FA5AE9F24117C4B1FE649286651ECE45B3DC2007CB8A163BF0598DA48361C55D39A69163FA8FD24CF5F83655D23DCA3AD96E1C62F356208552BB9ED529077096966D670C354E4ABC9804F1746C08CA18217C32905E462E36CE3BE39E772C180E86039B2783A2EC07A28FB5C55DF06F4C52C9DE2BCB695817183995497CEA956AE515D2261898FA0510F15728E5A8AAC42DAD33170D04507A33A85521ABD1CBA64ECFB850458DBEF0A8AEA71575D060C7DB3970F85A6E1E4C7ABF5AE8CDB0933D71C94C4A25619DCEE3E2261AD2EE6BF12FFA06D98A0864D87602733EC86A64521F2B18177B200CBBE117577615D6C770988CBD946E208E24FA074E5AB3143DB5BFE0FD108E4B82D120A93AD2CAFFFFFFFFFFFFFFFF"

definition multiplier :: "crypto \<Rightarrow> nat" where
  "multiplier C =
     from_bytes_be (c_sha256 C
       (pad (to_bytes_be group_prime) GROUP_PRIME_BYTES @ pad [GROUP_GENERATOR] GROUP_PRIME_BYTES))"

section \<open>The messages of the exchange\<close>

fun parse_numeric_token :: "json \<Rightarrow> int option" where
  "parse_numeric_token (JNumber n) = as_i64 (JNumber n)"
| "parse_numeric_token (JString s) = parse_i64 s"
| "parse_numeric_token (JArray []) = None"
| "parse_numeric_token (JArray (v # _)) = parse_numeric_token v"
| "parse_numeric_token _ = None"

definition parse_pake_message_code :: "json \<Rightarrow> int option" where
  "parse_pake_message_code = parse_numeric_token"

definition parse_pake_message_type :: "json \<Rightarrow> int option" where
  "parse_pake_message_type = parse_numeric_token"

record pake_message =
  pm_TID :: string
  pm_MSG :: json
  pm_A :: string
  pm_s :: string
  pm_B :: string
  pm_VER :: "json option"
  pm_PROTO :: json
  pm_HAMK :: "string option"
  pm_ErrCode :: "json option"

definition pake_fields :: "string list list" where
  "pake_fields = [[''TID''], [''MSG''], [''A''], [''s''], [''B''], [''VER''], [''PROTO''],
     [''HAMK''], [''ErrCode'']]"

definition dec_pake_message :: "json \<Rightarrow> pake_message option" where
  "dec_pake_message v =
     (if \<not> well_shaped pake_fields v then None else
      let f = field_of pake_fields v in do {
        tid \<leftarrow> req as_str (f [''TID'']);
        msg \<leftarrow> req Some (f [''MSG'']);
        a \<leftarrow> req as_str (f [''A'']);
        s \<leftarrow> req as_str (f [''s'']);
        b \<leftarrow> req as_str (f [''B'']);
        ver \<leftarrow> optf Some (f [''VER'']);
        proto \<leftarrow> req Some (f [''PROTO'']);
        hamk \<leftarrow> optf as_str (f [''HAMK'']);
        err \<leftarrow> optf Some (f [''ErrCode'']);
        Some \<lparr>pm_TID = tid, pm_MSG = msg, pm_A = a, pm_s = s, pm_B = b, pm_VER = ver,
          pm_PROTO = proto, pm_HAMK = hamk, pm_ErrCode = err\<rparr>
      })"

definition parse_pake_message_to_struct :: "json \<Rightarrow> pake_message res" where
  "parse_pake_message_to_struct value =
     ok_or (mk_err ProtoInvalidResponse ''Invalid PAKE message payload.'') (dec_pake_message value)"

fun version_ok :: "json option \<Rightarrow> bool" where
  "version_ok (Some (JString v)) = (v \<noteq> [])"
| "version_ok (Some (JNumber n)) = (as_i64 (JNumber n) \<noteq> None)"
| "version_ok _ = True"

definition is_valid_pake_message :: "json \<Rightarrow> bool" where
  "is_valid_pake_message candidate =
     (case parse_pake_message_to_struct candidate of
        Inl _ \<Rightarrow> False
      | Inr m \<Rightarrow>
          if trim (pm_TID m) = [] then False
          else if parse_numeric_token (pm_MSG m) = None then False
          else if trim (pm_A m) = [] \<or> trim (pm_s m) = [] \<or> trim (pm_B m) = [] then False
          else if parse_numeric_token (pm_PROTO m) = None then False
          else if (case pm_HAMK m of Some h \<Rightarrow> trim h = [] | None \<Rightarrow> False) then False
          else if (case pm_ErrCode m of Some e \<Rightarrow> parse_numeric_token e = None | None \<Rightarrow> False) then False
          else version_ok (pm_VER m))"

section \<open>The session\<close>

record session_values =
  sv_username :: "string option"
  sv_shared_key :: "nat option"
  sv_client_private_key :: "nat option"
  sv_salt :: "nat option"
  sv_server_public_key :: "nat option"

record srp_session =
  ss_username :: string
  ss_client_private_key :: nat
  ss_server_public_key :: "nat option"
  ss_salt :: "nat option"
  ss_shared_key :: "nat option"
  ss_should_use_base64 :: bool

text \<open>\<open>new\<close> draws 32 bytes for the private key and 16 for the name; a third draw overwrites
  the buffer of the first.\<close>

definition srp_new :: "crypto \<Rightarrow> bytes \<Rightarrow> bytes \<Rightarrow> bool \<Rightarrow> srp_session" where
  "srp_new C seed username should_use_base64 =
     \<lparr>ss_username =
        (if should_use_base64 then c_b64_encode C username else ''0x'' @ c_hex_encode C username),
      ss_client_private_key = from_bytes_be seed,
      ss_server_public_key = None, ss_salt = None, ss_shared_key = None,
      ss_should_use_base64 = should_use_base64\<rparr>"

definition return_values :: "srp_session \<Rightarrow> session_values" where
  "return_values s =
     \<lparr>sv_username = Some (ss_username s), sv_shared_key = ss_shared_key s,
      sv_client_private_key = Some (ss_client_private_key s), sv_salt = ss_salt s,
      sv_server_public_key = ss_server_public_key s\<rparr>"

definition update_with_values :: "srp_session \<Rightarrow> session_values \<Rightarrow> srp_session" where
  "update_with_values s0 v =
     (let s1 = (case sv_username v of Some u \<Rightarrow> s0\<lparr>ss_username := u\<rparr> | None \<Rightarrow> s0);
          s2 = (case sv_shared_key v of Some k \<Rightarrow> s1\<lparr>ss_shared_key := Some k\<rparr> | None \<Rightarrow> s1);
          s3 = (case sv_client_private_key v of
                  Some k \<Rightarrow> s2\<lparr>ss_client_private_key := k\<rparr> | None \<Rightarrow> s2);
          s4 = (case sv_salt v of Some x \<Rightarrow> s3\<lparr>ss_salt := Some x\<rparr> | None \<Rightarrow> s3)
      in case sv_server_public_key v of
           Some k \<Rightarrow> s4\<lparr>ss_server_public_key := Some k\<rparr> | None \<Rightarrow> s4)"

definition client_public_key :: "srp_session \<Rightarrow> nat option" where
  "client_public_key s =
     res_ok (powermod GROUP_GENERATOR (ss_client_private_key s) group_prime)"

definition derive_scramble :: "crypto \<Rightarrow> srp_session \<Rightarrow> bytes option" where
  "derive_scramble C s = do {
     b \<leftarrow> ss_server_public_key s;
     a \<leftarrow> client_public_key s;
     Some (c_sha256 C (pad (to_bytes_be a) GROUP_PRIME_BYTES @ pad (to_bytes_be b) GROUP_PRIME_BYTES))
   }"

text \<open>\<open>x\<close>, the number derived from the name, the password and the salt.\<close>

definition password_exponent :: "crypto \<Rightarrow> srp_session \<Rightarrow> nat \<Rightarrow> string \<Rightarrow> nat" where
  "password_exponent C s salt password =
     from_bytes_be (c_sha256 C (pad (to_bytes_be salt) GROUP_PRIME_BYTES
       @ c_sha256 C (utf8 (ss_username s @ '':'' @ password))))"

definition derive_base :: "nat \<Rightarrow> nat \<Rightarrow> nat \<Rightarrow> nat" where
  "derive_base b k gx =
     (let modulus = group_prime;
          rhs = mod_big (k * gx) modulus
      in if b \<ge> rhs then mod_big (b - rhs) modulus
         else mod_big (b + modulus - rhs) modulus)"

definition derive_session_key :: "crypto \<Rightarrow> srp_session \<Rightarrow> string \<Rightarrow> nat res option" where
  "derive_session_key C s password =
     (case ss_server_public_key s of
        None \<Rightarrow> Some (Inl (mk_err InvalidSession ''Invalid session state: missing server values''))
      | Some b \<Rightarrow>
     (case ss_salt s of
        None \<Rightarrow> Some (Inl (mk_err InvalidSession ''Invalid session state: missing session values''))
      | Some salt \<Rightarrow>
     (case derive_scramble C s of
        None \<Rightarrow> None
      | Some scramble \<Rightarrow> Some (
          let x = password_exponent C s salt password;
              u = from_bytes_be scramble;
              k = multiplier C
          in bind_res (powermod GROUP_GENERATOR x group_prime) (\<lambda>gx.
             let base = derive_base b k gx
             in if base = 0 then
                  Inl (mk_err ServerError ''Invalid server hello: invalid public key'')
                else
                  bind_res (powermod base (ss_client_private_key s + u * x) group_prime)
                    (\<lambda>secret. Inr (from_bytes_be (c_sha256 C (to_bytes_be secret)))))))))"

definition set_server_public_key :: "nat \<Rightarrow> nat \<Rightarrow> srp_session \<Rightarrow> unit res \<times> srp_session" where
  "set_server_public_key b salt s =
     (if mod_big b group_prime = 0 then
        (Inl (mk_err InvalidSession ''Invalid server hello: invalid public key''), s)
      else (Inr (), s\<lparr>ss_server_public_key := Some b, ss_salt := Some salt\<rparr>))"

definition set_shared_key :: "crypto \<Rightarrow> string \<Rightarrow> srp_session \<Rightarrow> (nat res \<times> srp_session) option" where
  "set_shared_key C password s =
     (if ss_server_public_key s = None \<or> ss_salt s = None then
        Some (Inl (mk_err InvalidSession ''Invalid session state: missing handshake values''), s)
      else case derive_session_key C s password of
        None \<Rightarrow> None
      | Some (Inl e) \<Rightarrow> Some (Inl e, s)
      | Some (Inr key) \<Rightarrow> Some (Inr key, s\<lparr>ss_shared_key := Some key\<rparr>))"

definition missing_key :: apw_error where
  "missing_key = mk_err InvalidSession
     ''Missing encryption key. Use `apw app launch` and `apw login <url>` through the native app broker.''"

definition compute_m :: "crypto \<Rightarrow> srp_session \<Rightarrow> bytes res option" where
  "compute_m C s =
     (case ss_salt s of
        None \<Rightarrow> Some (Inl (mk_err InvalidSession ''Invalid session state: missing salt''))
      | Some salt \<Rightarrow>
     (case ss_server_public_key s of
        None \<Rightarrow> Some (Inl (mk_err InvalidSession ''Invalid session state: missing server key''))
      | Some b \<Rightarrow>
     (case ss_shared_key s of
        None \<Rightarrow> Some (Inl missing_key)
      | Some shared_key \<Rightarrow> do {
          let n_hash = c_sha256 C (pad (to_bytes_be group_prime) GROUP_PRIME_BYTES);
          let g_hash = c_sha256 C (pad [GROUP_GENERATOR] GROUP_PRIME_BYTES);
          let xored = map2 xor n_hash g_hash;
          scramble \<leftarrow> derive_scramble C s;
          a \<leftarrow> client_public_key s;
          Some (Inr (c_sha256 C
            (xored @ c_sha256 C (utf8 (ss_username s))
             @ pad (to_bytes_be salt) GROUP_PRIME_BYTES
             @ pad (to_bytes_be a) GROUP_PRIME_BYTES
             @ pad (to_bytes_be b) GROUP_PRIME_BYTES
             @ pad (to_bytes_be shared_key) GROUP_PRIME_BYTES
             @ scramble)))
        })))"

definition compute_hmac :: "crypto \<Rightarrow> srp_session \<Rightarrow> bytes \<Rightarrow> bytes res option" where
  "compute_hmac C s proof_bytes =
     (case ss_shared_key s of
        None \<Rightarrow> Some (Inl missing_key)
      | Some shared_key \<Rightarrow> do {
          a \<leftarrow> client_public_key s;
          Some (Inr (c_sha256 C (to_bytes_be a @ proof_bytes @ to_bytes_be shared_key)))
        })"

section \<open>Text encodings\<close>

definition serialize :: "crypto \<Rightarrow> srp_session \<Rightarrow> bytes \<Rightarrow> bool \<Rightarrow> string" where
  "serialize C s input with_prefix =
     (if ss_should_use_base64 s then c_b64_encode C input
      else let encoded = c_hex_encode C input
           in if with_prefix then ''0x'' @ encoded else encoded)"

definition strip_0x :: "string \<Rightarrow> string" where
  "strip_0x input = (if prefix ''0x'' input then drop 2 input else input)"

definition decode_with_fallback :: "crypto \<Rightarrow> string \<Rightarrow> bool \<Rightarrow> string \<Rightarrow> bytes res" where
  "decode_with_fallback C input as_base64 message =
     (if as_base64 then
        (case c_b64_decode C input of
           Some bs \<Rightarrow> Inr bs
         | None \<Rightarrow> ok_or (mk_err ProtoInvalidResponse message) (c_hex_decode C (strip_0x input)))
      else
        (case c_hex_decode C (strip_0x input) of
           Some bs \<Rightarrow> Inr bs
         | None \<Rightarrow> ok_or (mk_err ProtoInvalidResponse message) (c_b64_decode C input)))"

definition deserialize :: "crypto \<Rightarrow> srp_session \<Rightarrow> string \<Rightarrow> bytes res" where
  "deserialize C s input =
     (if ss_should_use_base64 s then decode_with_fallback C input True ''Invalid base64 value.''
      else decode_with_fallback C input False ''Invalid hex value.'')"

definition decode_base64_or_hex :: "crypto \<Rightarrow> string \<Rightarrow> bool \<Rightarrow> nat res" where
  "decode_base64_or_hex C input as_base64 =
     bind_res (decode_with_fallback C input as_base64 ''Invalid bigint encoding.'')
       (\<lambda>bs. Inr (from_bytes_be bs))"

section \<open>Messages under the shared key\<close>

definition encrypt :: "ext \<Rightarrow> crypto \<Rightarrow> srp_session \<Rightarrow> bytes \<Rightarrow> json \<Rightarrow> bytes res" where
  "encrypt X C s nonce value =
     (case ss_shared_key s of
        None \<Rightarrow> Inl missing_key
      | Some shared_key \<Rightarrow>
        let key = to_bytes_be shared_key in
        if length key < 16 then Inl (mk_err ServerError ''Shared key too short.'')
        else case x_json_compact X value of
          Inl e \<Rightarrow> Inl (mk_err ServerError (''Payload serialization failed: '' @ e))
        | Inr text \<Rightarrow>
            if \<not> c_gcm_accepts C (take 16 key) nonce then
              Inl (mk_err ServerError ''Invalid encryption key.'')
            else case c_gcm_seal C (take 16 key) nonce (utf8 text) of
              None \<Rightarrow> Inl (mk_err ServerError ''Encryption failed.'')
            | Some (ciphertext, tag) \<Rightarrow> Inr (nonce @ ciphertext @ tag))"

definition invalid_payload :: apw_error where
  "invalid_payload = mk_err ProtoInvalidResponse ''Invalid server response payload.''"

definition decrypt :: "crypto \<Rightarrow> srp_session \<Rightarrow> bytes \<Rightarrow> bytes res" where
  "decrypt C s payload =
     (case ss_shared_key s of
        None \<Rightarrow> Inl missing_key
      | Some shared_key \<Rightarrow>
        if length payload \<le> NONCE_BYTES then Inl invalid_payload
        else let key = to_bytes_be shared_key in
        if length key < 16 then Inl (mk_err ServerError ''Shared key too short.'')
        else if length payload \<le> NONCE_BYTES + GCM_TAG_BYTES then Inl invalid_payload
        else
          let nonce = take NONCE_BYTES payload;
              body = drop NONCE_BYTES payload;
              ciphertext = take (length body - GCM_TAG_BYTES) body;
              tag = drop (length body - GCM_TAG_BYTES) body
          in if \<not> c_gcm_accepts C (take 16 key) nonce \<or> \<not> c_gcm_tag_accepts C tag then
               Inl (mk_err ServerError ''Invalid encryption key.'')
             else ok_or (mk_err ProtoInvalidResponse ''Failed to decrypt payload.'')
                    (c_gcm_open C (take 16 key) nonce ciphertext tag))"

text \<open>\<open>ct_eq\<close> compares in constant time; its answer is equality.\<close>

definition verify_hamk :: "bytes \<Rightarrow> bytes \<Rightarrow> bool" where
  "verify_hamk expected actual =
     (if expected = [] \<or> actual = [] \<or> length expected \<noteq> length actual then False
      else expected = actual)"

section \<open>What the client sends\<close>

datatype msg_type = ClientKeyExchange | ServerKeyExchange | ClientVerification | ServerVerification

fun msg_type_number :: "msg_type \<Rightarrow> i32" where
  "msg_type_number ClientKeyExchange = 0"
| "msg_type_number ServerKeyExchange = 1"
| "msg_type_number ClientVerification = 2"
| "msg_type_number ServerVerification = 3"

datatype secret_session_version = SrpWithOldVerification | SrpWithRfcVerification

fun session_version_number :: "secret_session_version \<Rightarrow> i32" where
  "session_version_number SrpWithOldVerification = 0"
| "session_version_number SrpWithRfcVerification = 1"

definition build_client_key_exchange :: "crypto \<Rightarrow> srp_session \<Rightarrow> json option" where
  "build_client_key_exchange C s =
     map_option (\<lambda>a. obj [
       (''TID'', JString (ss_username s)),
       (''MSG'', enc_i32 (msg_type_number ClientKeyExchange)),
       (''A'', JString (serialize C s (to_bytes_be a) True)),
       (''VER'', JString DEFAULT_VERSION),
       (''PROTO'', JArray [enc_i32 (session_version_number SrpWithRfcVerification)])])
     (client_public_key s)"

definition build_client_verification_message :: "crypto \<Rightarrow> srp_session \<Rightarrow> bytes \<Rightarrow> json" where
  "build_client_verification_message C s proof_bytes = obj [
     (''TID'', JString (ss_username s)),
     (''MSG'', enc_i32 (msg_type_number ClientVerification)),
     (''M'', JString (serialize C s proof_bytes False))]"

end
