(* ===== verification/Srp_Laws.thy ===== *)
theory Srp_Laws
  imports Srp Samples
begin

text \<open>
  The key exchange of \<open>srp.rs\<close>: client and server agree on the key, the states a session can
  reach, the round trips of its encodings and of its encryption, and what is wrong with the
  group.
\<close>

section \<open>The group\<close>

text \<open>The modulus has 759 digits, not the 768 of the group of RFC 5054, and a small factor.\<close>

definition cofactor :: nat where
  "cofactor = 0x1745D1745D1745D16F5E883D48DAFA61E357DA69C5E576FBBDE8EFD23B20B57EE8E9CB8379BBF6D49305DDBB0CED74CE5B9930E1CCD6C0484A32754FD03730621E88D64FC41EB491FD8084DC377CF440A1D8632C837972ACA3FFF127E7A38515A14AF28B36C6B16C2725BD75F406D45AC0D5209315891F91402E96F98309115D9988351C311F133C9530916C741A9E7D0BF1F131CE3D6CDF2BCC32D64EBAF07856B87BDE967538209F21861EFD83FB0BAA196385DE3D3A5F40498C2C08FD66FD6E625ADBE30BB808BF6D50BF789D2260D10864E5BAD06F040E5A6E3F24DD38DD6B07B0B5B24DB2C1941A65F53B9A35EA1938F5AB23E11D59B61BC47006468333DD9319B419E2664416DD8C0813FE75527267650874E9DCE1C7EA236C4314CC55736CF58846A79F3124CC0EC20259E71CEBDA558FE66E76173D213C6BAF1E522003905B520F1D8EB8F8DD396D45E3FA019650ABC2ACC500DDE3FC7ACEBAFD4D0E96436CA763427CBA01701814CAECD3183BF8786D1745D1745D1745D"

lemma group_prime_factor: "group_prime = 11 * cofactor"
  by (simp only: group_prime_def cofactor_def)

lemma group_prime_mod_5: "\<exists>q. group_prime = 5 * q + 1"
proof
  show "group_prime = 5 * 0x333333333333333328365EED39E1C070F427AD4F19C59F5D0833A934E87B28E40068BFBAD89D856D43734E351C70CDC5FCB76B8A5C3EDA38A33BCEE2CA13040B0FF9D77C49105A0DFA81244AE0794C8E30DC0D61EE0B2F7BCF33128AFD9AF195FC71AF32454EB98789530736B2756CC7A83B47A9FC2DABD926CCE5BE86AD8C9AB82BA80AD27790B87B6AD98832A0F6464D7AAC3A5F53EF84938E0971139B443BF1FC43B67E3515149149C0AA94225B800FD1748CE8ED1A04C0A1CDFA7A2D7C2D8C71FB16F3802E79A523B1A53C8CE53B6578DDF967CA8DD5B92D58F15119E380B8441E5C884489437906E04EB65343696AB082DEE888DA2BC3D6B029A767ED721AAA055905BEE0FC324DCDAB5F2FCEE89549DE45CE027F8A516981216060F4BBFDEFB5C5683D916C1DC0ED446B92960C6D46BC3C948C9D6653491E868142B4ACD4A3FC1AEE0DD396F04D17F0668F26037DE4AD12AF4B01E828C50E2D34FA0FECE42DEF09DA5F12660329CE9424D5D06883EF6F56666666666666666 + 1"
    by (simp only: group_prime_def)
qed

lemma group_prime_size: "2 ^ 3035 \<le> group_prime" "group_prime < 2 ^ 3036"
  by (simp_all add: group_prime_def)

lemma group_prime_gt1: "1 < group_prime"
  by (simp only: group_prime_def)

lemma powermod_eq:
  "powermod base exponent group_prime = Inr (base ^ exponent mod group_prime)"
proof (cases "exponent = 0")
  case True
  with group_prime_gt1 show ?thesis by (simp add: powermod_def)
next
  case False
  with group_prime_gt1 show ?thesis
    using powermod_loop_less [of group_prime exponent 1 "mod_big base group_prime"]
      powermod_loop_mod [of group_prime 1 "mod_big base group_prime" exponent]
    by (simp add: powermod_def mod_big_eq power_mod)
qed

lemma client_public_key_eq:
  "client_public_key s = Some (GROUP_GENERATOR ^ ss_client_private_key s mod group_prime)"
  by (simp add: client_public_key_def powermod_eq)

lemma group_mod_11: "n mod group_prime mod 11 = n mod 11"
  by (rule mod_mod_cancel) (simp add: group_prime_factor)

text \<open>C11: the modulus is not prime: 11 divides it, and it has 3036 bits instead of 3072. A public
  key therefore gives away its private key modulo 5, the order of the generator modulo 11.\<close>

theorem group_prime_composite:
  "11 dvd group_prime \<and> 2 ^ 3035 \<le> group_prime \<and> group_prime < 2 ^ 3036
   \<and> map_option (\<lambda>a. a mod 11) (client_public_key s)
     = Some (GROUP_GENERATOR ^ (ss_client_private_key s mod 5) mod 11)"
proof -
  let ?e = "ss_client_private_key s"
  have "GROUP_GENERATOR ^ ?e = (GROUP_GENERATOR ^ 5) ^ (?e div 5) * GROUP_GENERATOR ^ (?e mod 5)"
    by (simp flip: power_mult power_add)
  also have "\<dots> mod 11 = ((GROUP_GENERATOR ^ 5 mod 11) ^ (?e div 5) * GROUP_GENERATOR ^ (?e mod 5)) mod 11"
    by (metis mod_mult_left_eq power_mod)
  also have "GROUP_GENERATOR ^ 5 mod 11 = 1"
    by (simp add: GROUP_GENERATOR_def)
  finally have "GROUP_GENERATOR ^ ?e mod 11 = GROUP_GENERATOR ^ (?e mod 5) mod 11"
    by simp
  then have "map_option (\<lambda>a. a mod 11) (client_public_key s)
      = Some (GROUP_GENERATOR ^ (?e mod 5) mod 11)"
    by (simp add: client_public_key_eq group_mod_11)
  then show ?thesis
    by (intro conjI group_prime_size dvdI [OF group_prime_factor])
qed

section \<open>Agreement\<close>

lemma derive_base_int: "int (derive_base b k gx) = (int b - int (k * gx)) mod int group_prime"
proof -
  define rhs where "rhs = (k * gx) mod group_prime"
  have less: "rhs < group_prime" using group_prime_gt1 by (simp add: rhs_def)
  have eq: "(int b - int rhs) mod int group_prime = (int b - int (k * gx)) mod int group_prime"
    by (simp add: rhs_def zmod_int mod_diff_right_eq)
  show ?thesis
  proof (cases "b \<ge> rhs")
    case True
    then have "derive_base b k gx = (b - rhs) mod group_prime"
      using group_prime_gt1 by (simp add: derive_base_def mod_big_eq rhs_def)
    with True eq show ?thesis by (simp add: zmod_int of_nat_diff)
  next
    case False
    then have "derive_base b k gx = (b + group_prime - rhs) mod group_prime"
      using group_prime_gt1 by (simp add: derive_base_def mod_big_eq rhs_def)
    moreover have "int (b + group_prime - rhs) = (int b - int rhs) + int group_prime"
      using less by (simp add: of_nat_diff)
    ultimately have "int (derive_base b k gx) = ((int b - int rhs) + int group_prime) mod int group_prime"
      by (simp only: zmod_int)
    with eq show ?thesis by simp
  qed
qed

lemma derive_base_server:
  assumes "b mod group_prime = (k * gx + y) mod group_prime"
  shows "derive_base b k gx = y mod group_prime"
proof -
  have "int (derive_base b k gx) = (int b mod int group_prime - int (k * gx)) mod int group_prime"
    by (simp add: derive_base_int mod_diff_left_eq)
  also have "int b mod int group_prime = int (k * gx + y) mod int group_prime"
    using assms by (metis zmod_int)
  also have "(int (k * gx + y) mod int group_prime - int (k * gx)) mod int group_prime
      = int y mod int group_prime"
    by (simp add: mod_diff_left_eq)
  finally show ?thesis by (simp only: zmod_int [symmetric] of_nat_eq_iff)
qed

lemma generator_power_nonzero: "GROUP_GENERATOR ^ e mod group_prime \<noteq> 0"
proof
  assume "GROUP_GENERATOR ^ e mod group_prime = 0"
  then have "group_prime dvd 5 ^ e" by (simp add: GROUP_GENERATOR_def mod_eq_0_iff_dvd)
  moreover obtain q where "group_prime = 5 * q + 1" using group_prime_mod_5 by blast
  then have "coprime group_prime 5"
    by (intro coprimeI) (metis dvd_add_right_iff dvd_mult2)
  then have "coprime group_prime (5 ^ e)" by simp
  ultimately have "group_prime dvd 1" by (metis coprime_absorb_left)
  with group_prime_gt1 show False by simp
qed

lemma reduced_factors:
  fixes p q :: nat
  shows "((p mod n) * (q mod n) ^ u) ^ b mod n = (p * q ^ u) ^ b mod n"
proof -
  have "((p mod n) * (q mod n) ^ u) mod n = p * q ^ u mod n"
    by (rule mod_mult_cong) (simp_all add: power_mod)
  then show ?thesis by (metis power_mod)
qed

text \<open>C10: client and server agree. When the server's public key is made as RFC 5054 says from the
  verifier \<open>v\<close> of the same name, password and salt and from its private key \<open>b\<close>, the client derives
  the hash of \<open>(A * v ^ u) ^ b\<close>, the number the server computes; no server key of that form is
  refused. This needs no property of the modulus beyond being prime to the generator.\<close>

theorem srp_key_agreement:
  assumes "ss_server_public_key s = Some B" "ss_salt s = Some salt" "client_public_key s = Some A"
    and v: "v = GROUP_GENERATOR ^ password_exponent C s salt password mod group_prime"
    and B: "B mod group_prime = (multiplier C * v + GROUP_GENERATOR ^ b) mod group_prime"
    and u: "u = from_bytes_be (c_sha256 C
      (pad (to_bytes_be A) GROUP_PRIME_BYTES @ pad (to_bytes_be B) GROUP_PRIME_BYTES))"
  shows "derive_session_key C s password =
    Some (Inr (from_bytes_be (c_sha256 C (to_bytes_be ((A * v ^ u) ^ b mod group_prime)))))"
proof -
  let ?g = GROUP_GENERATOR and ?N = group_prime and ?a = "ss_client_private_key s"
  define x where "x = password_exponent C s salt password"
  have A: "A = ?g ^ ?a mod ?N" using assms(3) by (simp add: client_public_key_eq)
  have base: "derive_base B (multiplier C) v = ?g ^ b mod ?N"
    by (rule derive_base_server) (rule B)
  have "(?g ^ b) ^ (?a + u * x) = ?g ^ ((?a + x * u) * b)"
    by (simp add: mult.commute flip: power_mult)
  also have "\<dots> = (?g ^ ?a * (?g ^ x) ^ u) ^ b"
    by (simp only: power_mult power_add)
  finally have powers: "(?g ^ b) ^ (?a + u * x) = (?g ^ ?a * (?g ^ x) ^ u) ^ b" .
  have "(?g ^ b mod ?N) ^ (?a + u * x) mod ?N = (?g ^ ?a * (?g ^ x) ^ u) ^ b mod ?N"
    by (simp add: power_mod powers)
  also have "\<dots> = (A * v ^ u) ^ b mod ?N"
    unfolding A v x_def by (simp only: reduced_factors)
  finally have secret: "(?g ^ b mod ?N) ^ (?a + u * x) mod ?N = (A * v ^ u) ^ b mod ?N" .
  have "derive_scramble C s = Some (c_sha256 C
      (pad (to_bytes_be A) GROUP_PRIME_BYTES @ pad (to_bytes_be B) GROUP_PRIME_BYTES))"
    using assms(1,3) by (simp add: derive_scramble_def)
  with assms(1,2) base secret generator_power_nonzero [of b] show ?thesis
    by (simp add: derive_session_key_def powermod_eq u v x_def)
qed

text \<open>A hash, encodings and a cipher for the witnesses.\<close>

definition sample_crypto :: crypto where
  "sample_crypto =
     \<lparr>c_sha256 = (\<lambda>bs. [2]),
      c_hex_encode = (\<lambda>bs. concat (map (\<lambda>b. [char_of (97 + b div 16), char_of (97 + b mod 16)]) bs)),
      c_hex_decode = (\<lambda>s. if s = ''abkl'' then Some [1, 171] else None),
      c_b64_encode = (\<lambda>bs. ''Aas=''), c_b64_decode = (\<lambda>s. None),
      c_gcm_accepts = (\<lambda>key nonce. length key = 16 \<and> length nonce = 16),
      c_gcm_seal = (\<lambda>key nonce plain. Some (rev plain, replicate 16 7)),
      c_gcm_tag_accepts = (\<lambda>tag. length tag = 16),
      c_gcm_open = (\<lambda>key nonce ciphertext tag. Some (rev ciphertext))\<rparr>"

definition sample_session :: srp_session where
  "sample_session =
     \<lparr>ss_username = ''name'', ss_client_private_key = 1, ss_server_public_key = Some 175,
      ss_salt = Some 9, ss_shared_key = Some (from_bytes_be (replicate 16 1)), ss_should_use_base64 = False\<rparr>"

lemma sample_session_simps [simp]:
  "ss_client_private_key sample_session = 1" "ss_server_public_key sample_session = Some 175"
  "ss_salt sample_session = Some 9" "ss_shared_key sample_session = Some (from_bytes_be (replicate 16 1))"
  "\<not> ss_should_use_base64 sample_session" "c_sha256 sample_crypto bs = [2]"
  by (simp_all add: sample_session_def sample_crypto_def)

lemma sample_group [simp]: "25 mod group_prime = 25" "5 mod group_prime = 5"
  by (simp_all add: group_prime_def)

theorem srp_key_agreement_witness:
  "client_public_key sample_session = Some 5
   \<and> derive_session_key sample_crypto sample_session ''secret''
     = Some (Inr (from_bytes_be (c_sha256 sample_crypto (to_bytes_be ((5 * 25 ^ 2) ^ 3 mod group_prime)))))"
proof -
  have A: "client_public_key sample_session = Some 5"
    by (simp add: client_public_key_eq GROUP_GENERATOR_def)
  have two: "from_bytes_be [2] = 2" by (simp add: from_bytes_be_def)
  have B: "175 mod group_prime = (multiplier sample_crypto * 25 + GROUP_GENERATOR ^ 3) mod group_prime"
    by (simp add: multiplier_def two GROUP_GENERATOR_def)
  have "derive_session_key sample_crypto sample_session ''secret''
      = Some (Inr (from_bytes_be (c_sha256 sample_crypto (to_bytes_be ((5 * 25 ^ 2) ^ 3 mod group_prime)))))"
    by (rule srp_key_agreement [OF _ _ A _ B]) (simp_all add: password_exponent_def two GROUP_GENERATOR_def)
  with A show ?thesis by simp
qed

section \<open>The states of a session\<close>

text \<open>What the program does with a session, in any order.\<close>

inductive session_reachable :: "crypto \<Rightarrow> srp_session \<Rightarrow> bool" for C where
  fresh: "session_reachable C (srp_new C seed name b64)"
| server: "session_reachable C s \<Longrightarrow> session_reachable C (snd (set_server_public_key b salt s))"
| shared: "session_reachable C s \<Longrightarrow> set_shared_key C password s = Some (r, s')
    \<Longrightarrow> session_reachable C s'"

lemma derive_scramble_None: "derive_scramble C s = None \<longleftrightarrow> ss_server_public_key s = None"
  by (auto simp: derive_scramble_def client_public_key_eq bind_eq_None_conv)

lemma no_panic:
  "derive_session_key C s password \<noteq> None" "set_shared_key C password s \<noteq> None"
  "compute_m C s \<noteq> None" "compute_hmac C s p \<noteq> None" "build_client_key_exchange C s \<noteq> None"
proof -
  show key: "derive_session_key C s password \<noteq> None"
    by (simp add: derive_session_key_def derive_scramble_None split: option.split)
  then show "set_shared_key C password s \<noteq> None"
    by (auto simp: set_shared_key_def split: option.split sum.split)
  show "compute_m C s \<noteq> None"
    by (cases "derive_scramble C s")
      (auto simp: compute_m_def client_public_key_eq derive_scramble_None Let_def split: option.split)
  show "compute_hmac C s p \<noteq> None" "build_client_key_exchange C s \<noteq> None"
    by (auto simp: compute_hmac_def build_client_key_exchange_def client_public_key_eq
        split: option.split)
qed

lemma derived_key_hash:
  "derive_session_key C s password = Some (Inr key) \<Longrightarrow>
     \<exists>secret < group_prime. key = from_bytes_be (c_sha256 C (to_bytes_be secret))"
  using group_prime_gt1
  by (auto simp: derive_session_key_def powermod_eq Let_def split: option.splits if_splits
      intro!: exI [of _ "_ mod _"])



section \<open>Round trips\<close>

text \<open>C14: what a session writes as text it reads back, in both encodings, with or without the
  prefix. The hypotheses say that the encoders of the libraries are inverted by their decoders
  and that hexadecimal text has no \<open>x\<close>.\<close>

theorem serialize_roundtrip:
  assumes "ss_should_use_base64 s \<Longrightarrow> c_b64_decode C (c_b64_encode C bs) = Some bs"
    and "\<not> ss_should_use_base64 s \<Longrightarrow> c_hex_decode C (c_hex_encode C bs) = Some bs"
    and "CHR ''x'' \<notin> set (c_hex_encode C bs)"
  shows "deserialize C s (serialize C s bs with_prefix) = Inr bs"
proof (cases "ss_should_use_base64 s")
  case True
  with assms(1) show ?thesis
    by (simp add: deserialize_def serialize_def decode_with_fallback_def)
next
  case False
  have "\<not> prefix ''0x'' (c_hex_encode C bs)"
    using assms(3) set_mono_prefix by fastforce
  then have "strip_0x (serialize C s bs with_prefix) = c_hex_encode C bs"
    using False by (simp add: serialize_def strip_0x_def Let_def)
  with False assms(2) show ?thesis
    by (simp add: deserialize_def decode_with_fallback_def)
qed

theorem serialize_roundtrip_witness:
  "deserialize sample_crypto sample_session (serialize sample_crypto sample_session [1, 171] True)
   = Inr [1, 171]"
proof -
  have encoded: "c_hex_encode sample_crypto [1, 171] = ''abkl''"
    by (simp add: sample_crypto_def) code_simp
  then show ?thesis
    by (intro serialize_roundtrip) (simp_all only: encoded, simp_all add: sample_crypto_def)
qed

text \<open>What the cipher promises: a sealed message is opened with the same key and nonce, has the
  length of the plain one and a tag of 16 bytes.\<close>

definition opens_sealed :: "crypto \<Rightarrow> bool" where
  "opens_sealed C \<longleftrightarrow> (\<forall>key nonce plain ciphertext tag.
     c_gcm_seal C key nonce plain = Some (ciphertext, tag) \<longrightarrow>
       c_gcm_open C key nonce ciphertext tag = Some plain \<and> length ciphertext = length plain
       \<and> length tag = GCM_TAG_BYTES \<and> c_gcm_tag_accepts C tag)"

lemma encrypt_Inr:
  assumes "encrypt X C s nonce value = Inr payload"
  obtains key doc ciphertext tag where
    "ss_shared_key s = Some key" "16 \<le> length (to_bytes_be key)"
    "x_json_compact X value = Inr doc" "c_gcm_accepts C (take 16 (to_bytes_be key)) nonce"
    "c_gcm_seal C (take 16 (to_bytes_be key)) nonce (utf8 doc) = Some (ciphertext, tag)"
    "payload = nonce @ ciphertext @ tag"
  using assms that
  by (auto simp: encrypt_def Let_def split: option.splits if_splits sum.splits)

lemma decrypt_sealed:
  assumes "opens_sealed C" "length nonce = NONCE_BYTES" "x_json_compact X value = Inr text" "text \<noteq> []"
    and "encrypt X C s nonce value = Inr payload" "ss_shared_key s' = ss_shared_key s"
  shows "decrypt C s' payload = Inr (utf8 text)"
proof -
  from assms(3,5) obtain key ciphertext tag where key: "ss_shared_key s = Some key"
      "16 \<le> length (to_bytes_be key)"
    and accepts: "c_gcm_accepts C (take 16 (to_bytes_be key)) nonce"
    and seal: "c_gcm_seal C (take 16 (to_bytes_be key)) nonce (utf8 text) = Some (ciphertext, tag)"
    and payload: "payload = nonce @ ciphertext @ tag"
    by (auto elim: encrypt_Inr)
  from assms(1) seal have opened: "c_gcm_open C (take 16 (to_bytes_be key)) nonce ciphertext tag = Some (utf8 text)"
    and len: "length ciphertext = length text" "length tag = GCM_TAG_BYTES" "c_gcm_tag_accepts C tag"
    unfolding opens_sealed_def utf8_def by fastforce+
  have "0 < length text" using assms(4) by simp
  with key len assms(2,6) accepts opened show ?thesis
    by (simp add: decrypt_def payload Let_def)
qed

text \<open>C23: a message encrypted in a session is decrypted by every session with the same shared key
  to the bytes of its JSON text; a message that arrives shorter than a nonce, a tag and one byte
  is refused, as is everything before a key is shared.\<close>

theorem encrypt_decrypt:
  assumes "opens_sealed C" "length nonce = NONCE_BYTES" "x_json_compact X value = Inr text" "text \<noteq> []"
    and "encrypt X C s nonce value = Inr payload" "ss_shared_key s' = ss_shared_key s"
  shows "decrypt C s' payload = Inr (utf8 text)
    \<and> (\<forall>short. length short \<le> NONCE_BYTES + GCM_TAG_BYTES \<longrightarrow> decrypt C s' short = Inl invalid_payload)
    \<and> decrypt C (s'\<lparr>ss_shared_key := None\<rparr>) payload = Inl missing_key"
proof -
  from assms(5,6) obtain key where "ss_shared_key s' = Some key" "16 \<le> length (to_bytes_be key)"
    by (auto elim: encrypt_Inr)
  then have "decrypt C s' short = Inl invalid_payload"
    if "length short \<le> NONCE_BYTES + GCM_TAG_BYTES" for short
    using that by (auto simp: decrypt_def Let_def)
  then show ?thesis using decrypt_sealed [OF assms] by (simp add: decrypt_def)
qed

lemma sample_opens_sealed: "opens_sealed sample_crypto"
  by (simp add: opens_sealed_def sample_crypto_def GCM_TAG_BYTES_def)

text \<open>The key's bytes are the hash's, less its leading zeros.\<close>

lemma bytes_from_snoc: "0 < n \<Longrightarrow> b < 256 \<Longrightarrow> bytes_from (n * 256 + b) = bytes_from n @ [b]"
  by (subst bytes_from.simps) simp

lemma from_bytes_be_pos: "0 < b \<Longrightarrow> 0 < from_bytes_be (b # bs)"
  using from_bytes_be_append [of "[b]" bs] by (simp add: from_bytes_be_def)

lemma to_from_bytes:
  assumes "0 < b" "\<forall>c \<in> set (b # bs). c < 256"
  shows "to_bytes_be (from_bytes_be (b # bs)) = b # bs"
  using assms
proof (induction bs rule: rev_induct)
  case Nil
  then show ?case by (subst to_bytes_be_def, subst bytes_from.simps) (simp add: from_bytes_be_def)
next
  case (snoc c bs)
  then show ?case
    using from_bytes_be_snoc [of "b # bs" c] from_bytes_be_pos [of b bs]
    by (simp add: to_bytes_be_def bytes_from_snoc)
qed

lemma sample_key [simp]: "to_bytes_be (from_bytes_be (replicate 16 1)) = replicate 16 1"
  using to_from_bytes [of 1 "replicate 15 1"] by (simp flip: replicate_Suc)

lemma sample_bytes: "utf8 ''{}'' = [123, 125]"
  by code_simp

lemma sample_encrypt:
  "encrypt (sample_ext [(''{}'', JObject [])]) sample_crypto sample_session (replicate 16 1) (JObject [])
   = Inr (replicate 16 1 @ [125, 123] @ replicate 16 7)"
  by (simp only: encrypt_def sample_session_simps option.case Let_def sample_key)
    (simp add: sample_crypto_def sample_ext_def sample_bytes)

theorem encrypt_decrypt_witness:
  "opens_sealed sample_crypto
   \<and> decrypt sample_crypto sample_session (replicate 16 1 @ [125, 123] @ replicate 16 7) = Inr (utf8 ''{}'')"
  using encrypt_decrypt [OF sample_opens_sealed _ _ _ sample_encrypt refl, of "''{}''"] sample_opens_sealed
  by (simp add: NONCE_BYTES_def sample_ext_def)

end
