(* ===== verification/Host.thy ===== *)
theory Host
  imports Broker
begin

text \<open>
  \<open>legacy/rust-src/host.rs\<close>: the native host of the archived daemon, an app bundle that a
  LaunchAgent runs. Its paths, the checks before it is used, its installation and removal.
\<close>

section \<open>Modes\<close>

text \<open>
  The archived sources name the runtime modes below; the \<open>RuntimeMode\<close> of today's \<open>types.rs\<close> has
  only two of them. How the older type reads a configuration, how it is serialized
  and how it is stored is therefore a parameter.
\<close>

datatype legacy_mode = ModeAuto | ModeDirect | ModeLaunchd | ModeNative | ModeBrowser | ModeDisabled

record legacy =
  l_mode_of :: "runtime_config \<Rightarrow> legacy_mode"
  l_mode_json :: "legacy_mode \<Rightarrow> json"
  l_mode_written :: "legacy_mode \<Rightarrow> runtime_mode"

section \<open>Paths\<close>

definition NATIVE_HOST_LABEL :: string where
  "NATIVE_HOST_LABEL = ''dev.omt.apw.nativehost''"

definition NATIVE_HOST_BUNDLE_NAME :: string where
  "NATIVE_HOST_BUNDLE_NAME = ''APWNativeHost.app''"

definition NATIVE_HOST_EXECUTABLE_NAME :: string where
  "NATIVE_HOST_EXECUTABLE_NAME = ''APWNativeHost''"

definition HELPER_BINARY_PATH :: string where
  "HELPER_BINARY_PATH = ''/System/Cryptexes/App/System/Library/CoreServices/PasswordManagerBrowserExtensionHelper.app/Contents/MacOS/PasswordManagerBrowserExtensionHelper''"

definition host_home_dir :: "world \<Rightarrow> string" where
  "host_home_dir w =
     unwrap_or (unwrap_or ''.'' (env_var ''USERPROFILE'' w)) (env_var ''HOME'' w)"

definition native_host_run_dir :: "world \<Rightarrow> string" where
  "native_host_run_dir w = path_join (path_join (host_home_dir w) ''.apw'') ''run''"

definition native_host_socket_path :: "world \<Rightarrow> string" where
  "native_host_socket_path w = path_join (native_host_run_dir w) ''native-host.sock''"

definition native_host_install_dir :: "world \<Rightarrow> string" where
  "native_host_install_dir w =
     path_join (path_join (path_join (path_join (host_home_dir w) ''Library'')
       ''Application Support'') ''APW'') ''NativeHost''"

definition native_host_bundle_install_path :: "world \<Rightarrow> string" where
  "native_host_bundle_install_path w = path_join (native_host_install_dir w) NATIVE_HOST_BUNDLE_NAME"

definition native_host_launch_agents_dir :: "world \<Rightarrow> string" where
  "native_host_launch_agents_dir w = path_join (path_join (host_home_dir w) ''Library'') ''LaunchAgents''"

definition native_host_launch_agent_path :: "world \<Rightarrow> string" where
  "native_host_launch_agent_path w =
     path_join (native_host_launch_agents_dir w) (NATIVE_HOST_LABEL @ ''.plist'')"

definition native_host_executable_in_bundle :: "string \<Rightarrow> string" where
  "native_host_executable_in_bundle bundle_path =
     path_join (path_join (path_join bundle_path ''Contents'') ''MacOS'') NATIVE_HOST_EXECUTABLE_NAME"

definition ensure_native_host_runtime_dir :: "ext \<Rightarrow> unit io" where
  "ensure_native_host_runtime_dir X w =
     (let run_dir = native_host_run_dir w in
      bind_io
        (map_err (\<lambda>e. mk_err InvalidConfig (''Failed to create native host runtime directory: '' @ e))
          (fs_create_dir_all X run_dir))
        (\<lambda>_. set_permissions X run_dir 0x1C0) w)"

section \<open>launchctl\<close>

definition launchctl_domain :: "world \<Rightarrow> string" where
  "launchctl_domain w = ''gui/'' @ show_nat (unat (w_euid w))"

definition launchctl_service_target :: "world \<Rightarrow> string" where
  "launchctl_service_target w = launchctl_domain w @ ''/'' @ NATIVE_HOST_LABEL"

definition run_launchctl :: "ext \<Rightarrow> string list \<Rightarrow> bool \<Rightarrow> string io" where
  "run_launchctl X args allow_failure w =
     bind_io
       (map_err (\<lambda>e. mk_err ProcessNotRunning (''Failed to execute launchctl: '' @ e))
         (run_output X (invoke ''/bin/launchctl'' args)))
       (\<lambda>output.
          let stdout = trim (from_utf8_lossy (po_stdout output));
              stderr = trim (from_utf8_lossy (po_stderr output))
          in if po_code output = Some 0 \<or> allow_failure then
               ret (if stdout = [] then stderr else stdout)
             else fail (mk_err ProcessNotRunning
                    (if stderr = [] then ''launchctl command failed.'' else stderr))) w"

definition launch_agent_loaded :: "ext \<Rightarrow> world \<Rightarrow> bool \<times> world" where
  "launch_agent_loaded X w =
     (case run_output X (invoke ''/bin/launchctl'' [''print'', launchctl_service_target w]) w of
        (Inl e, w') \<Rightarrow> (False, w')
      | (Inr output, w') \<Rightarrow> (po_code output = Some 0, w'))"

section \<open>What is installed\<close>

definition read_host_bundle_version :: "ext \<Rightarrow> world \<Rightarrow> string \<Rightarrow> string option" where
  "read_host_bundle_version X w bundle_path =
     (let info_plist = path_join (path_join bundle_path ''Contents'') ''Info.plist'';
          marker = ''<key>CFBundleShortVersionString</key>'' in do {
        content \<leftarrow> res_ok (read_to_string X w info_plist);
        start \<leftarrow> find_sub marker content;
        let tail = drop (start + length marker) content;
        string_start \<leftarrow> find_sub ''<string>'' tail;
        let tail = drop (string_start + length ''<string>'') tail;
        string_end \<leftarrow> find_sub ''</string>'' tail;
        Some (trim (take string_end tail))
      })"

definition executable_file :: "ext \<Rightarrow> world \<Rightarrow> string \<Rightarrow> bool" where
  "executable_file X w path =
     (case stat X w path of
        None \<Rightarrow> False
      | Some metadata \<Rightarrow> i_kind metadata = KFile \<and> i_mode metadata AND 0x49 \<noteq> 0)"

definition helper_executable :: "ext \<Rightarrow> world \<Rightarrow> bool" where
  "helper_executable X w = executable_file X w HELPER_BINARY_PATH"

text \<open>The first number of what \<open>sw_vers\<close> prints.\<close>

definition sw_vers_major :: "ext \<Rightarrow> world \<Rightarrow> nat option \<times> world" where
  "sw_vers_major X w =
     (case run_output X (invoke ''sw_vers'' [''-productVersion'']) w of
        (Inl e, w') \<Rightarrow> (None, w')
      | (Inr output, w') \<Rightarrow>
          (if po_code output \<noteq> Some 0 \<or> \<not> utf8_valid (po_stdout output) then None
           else parse_unsigned (2 ^ 32) (hd (split_on CHR ''.'' (trim (po_stdout output)))), w'))"

definition native_host_macos_major_version :: "ext \<Rightarrow> world \<Rightarrow> nat option \<times> world" where
  "native_host_macos_major_version X w = (if \<not> x_macos X then (None, w) else sw_vers_major X w)"

definition native_host_preflight_state ::
    "ext \<Rightarrow> world \<Rightarrow> (string \<times> string option \<times> string option) \<times> world" where
  "native_host_preflight_state X w =
     (if \<not> x_macos X then
        ((''unsupported_platform'', Some ''APW native host is supported only on macOS.'', None), w)
      else
        let bundle_path = native_host_bundle_install_path w;
            bundle_version = read_host_bundle_version X w bundle_path in
        if \<not> path_exists X w bundle_path then
          ((''app_missing'', Some ''Native host app bundle is not installed. Run `apw host install`.'',
            bundle_version), w)
        else if \<not> path_exists X w (native_host_launch_agent_path w) then
          ((''launch_agent_missing'',
            Some ''Native host LaunchAgent is not installed. Run `apw host install`.'', bundle_version), w)
        else
          let (loaded, w1) = launch_agent_loaded X w in
          if \<not> loaded then
            ((''launch_agent_unloaded'',
              Some ''Native host LaunchAgent is not loaded. Run `apw host install` or `apw host doctor`.'',
              bundle_version), w1)
          else if \<not> helper_executable X w1 then
            ((''helper_missing'',
              Some ''Apple PasswordManagerBrowserExtensionHelper is not executable on this host.'',
              bundle_version), w1)
          else ((''ready'', None, bundle_version), w1))"

definition opt_nat_json :: "nat option \<Rightarrow> json" where
  "opt_nat_json = null_or (\<lambda>n. enc_u64 (of_nat n))"

definition native_host_preflight_status :: "ext \<Rightarrow> legacy \<Rightarrow> legacy_mode \<Rightarrow> world \<Rightarrow> json \<times> world" where
  "native_host_preflight_status X L configured_mode w =
     (let bundle_path = native_host_bundle_install_path w;
          launch_agent_path = native_host_launch_agent_path w;
          socket_path = native_host_socket_path w;
          ((status, error, bundle_version), w1) = native_host_preflight_state X w;
          (major, w2) = native_host_macos_major_version X w1;
          (loaded, w3) = launch_agent_loaded X w2
      in (obj [
        (''supported'', JBool (x_macos X)),
        (''platform'', obj [(''os'', JString (x_os X)), (''arch'', JString (x_arch X)),
           (''macosMajorVersion'', opt_nat_json major)]),
        (''configuredRuntimeMode'', l_mode_json L configured_mode),
        (''resolvedRuntimeMode'', l_mode_json L ModeNative),
        (''launchStrategies'', JArray [JString ''native_host'']),
        (''status'', JString status),
        (''socketPath'', JString socket_path),
        (''socketExists'', JBool (path_exists X w2 socket_path)),
        (''launchAgent'', obj [(''loaded'', JBool loaded), (''path'', JString launch_agent_path)]),
        (''appBundle'', obj [(''path'', JString bundle_path), (''version'', null_or JString bundle_version)]),
        (''helper'', obj [(''path'', JString HELPER_BINARY_PATH),
           (''executable'', JBool (helper_executable X w3))]),
        (''error'', null_or JString error)], w3))"

definition status_of :: "json \<Rightarrow> string" where
  "status_of preflight = unwrap_or ''unknown'' (get_str ''status'' preflight)"

definition native_host_status_note :: "ext \<Rightarrow> legacy \<Rightarrow> world \<Rightarrow> string \<times> world" where
  "native_host_status_note X L w =
     (let (preflight, w1) = native_host_preflight_status X L ModeNative w
      in (''Run `apw host doctor` or `apw status --json` and inspect `daemon.preflight`; current `daemon.preflight.status=''
            @ status_of preflight @ ''`.'', w1))"

definition host_guidance :: "string \<Rightarrow> string" where
  "host_guidance status =
     (if status \<in> {''app_missing'', ''launch_agent_missing'', ''launch_agent_unloaded''} then
        ''Run `apw host install`, then `apw host doctor`; use `apw app launch` for the supported v2 broker.''
      else if status = ''helper_missing'' then
        ''The Apple helper is unavailable on this host; run `apw host doctor` for details.''
      else if status = ''ready'' then
        ''Run `apw host doctor`; use `apw app launch` for the supported v2 broker.''
      else ''Run `apw host doctor` for native host diagnostics.'')"

definition native_host_failure_message :: "ext \<Rightarrow> legacy \<Rightarrow> string \<Rightarrow> world \<Rightarrow> string \<times> world" where
  "native_host_failure_message X L base_message w =
     (let (preflight, w1) = native_host_preflight_status X L ModeNative w;
          status = status_of preflight
      in (base_message @ '' '' @ host_guidance status
            @ '' Current `daemon.preflight.status='' @ status @ ''`.'', w1))"

definition native_host_doctor :: "ext \<Rightarrow> legacy \<Rightarrow> json io" where
  "native_host_doctor X L w = (case native_host_preflight_status X L ModeNative w of (v, w') \<Rightarrow> (Inr v, w'))"

section \<open>Installing\<close>

text \<open>Like the copy in \<open>Broker\<close>, but an existing destination is removed first and a directory is
  recognised through symbolic links; one unit of fuel per level.\<close>

fun for_host_entries :: "(string \<Rightarrow> unit io_option) \<Rightarrow> (string + string) list \<Rightarrow> unit io_option" where
  "for_host_entries f [] w = Some (Inr (), w)"
| "for_host_entries f (Inl e # entries) w =
     Some (Inl (mk_err InvalidConfig
       (''Failed to enumerate native host bundle entry: '' @ e)), w)"
| "for_host_entries f (Inr name # entries) w =
     bind_fuel (f name) (\<lambda>_. for_host_entries f entries) w"

definition replace_destination :: "ext \<Rightarrow> string \<Rightarrow> unit io" where
  "replace_destination X destination w =
     (if path_exists X w destination then
        map_err (\<lambda>e. mk_err InvalidConfig (''Failed to replace native host bundle: '' @ e))
          (fs_remove_dir_all X destination) w
      else ret () w)"

definition list_host_bundle :: "ext \<Rightarrow> string \<Rightarrow> world \<Rightarrow> (string + string) list res" where
  "list_host_bundle X source w =
     (case x_read_dir X w source of
        Inl e \<Rightarrow> Inl (mk_err InvalidConfig (''Failed to enumerate native host bundle: '' @ e))
      | Inr entries \<Rightarrow> Inr entries)"

definition copy_host_entry ::
    "ext \<Rightarrow> (string \<Rightarrow> string \<Rightarrow> unit io_option) \<Rightarrow> string \<Rightarrow> string \<Rightarrow> unit io_option" where
  "copy_host_entry X recurse entry target w =
     (if is_dir X w entry then recurse entry target w
      else Some (map_err (\<lambda>e. mk_err InvalidConfig (''Failed to copy native host bundle file: '' @ e))
             (fs_copy X entry target) w))"

fun host_copy_dir_recursive :: "ext \<Rightarrow> nat \<Rightarrow> string \<Rightarrow> string \<Rightarrow> unit io_option" where
  "host_copy_dir_recursive X 0 source destination w = None"
| "host_copy_dir_recursive X (Suc fuel) source destination w =
     bind_first (replace_destination X destination) (\<lambda>_.
     bind_first
       (map_err (\<lambda>e. mk_err InvalidConfig
           (''Failed to create native host destination directory: '' @ e))
         (fs_create_dir_all X destination)) (\<lambda>_.
     bind_first (check_io (list_host_bundle X source))
       (for_host_entries (\<lambda>name.
          copy_host_entry X (host_copy_dir_recursive X fuel) (path_join source name)
            (path_join destination name))))) w"

definition host_bundle_candidates :: "ext \<Rightarrow> string \<Rightarrow> string list" where
  "host_bundle_candidates X executable_dir =
     [path_join (path_join executable_dir ''../libexec'') NATIVE_HOST_BUNDLE_NAME,
      path_join (path_join executable_dir ''../../libexec'') NATIVE_HOST_BUNDLE_NAME,
      path_join (path_join executable_dir ''../../../native-host/dist'') NATIVE_HOST_BUNDLE_NAME]
     @ (case x_cwd X of
          None \<Rightarrow> []
        | Some cwd \<Rightarrow> [path_join (path_join cwd ''native-host/dist'') NATIVE_HOST_BUNDLE_NAME])"

text \<open>\<open>x_exe\<close> does not say why the path of the executable is unknown; the message takes it from
  \<open>exe_error\<close>.\<close>

definition resolve_packaged_native_host_bundle :: "ext \<Rightarrow> string \<Rightarrow> world \<Rightarrow> string res" where
  "resolve_packaged_native_host_bundle X exe_error w =
     (case x_exe X of
        None \<Rightarrow> Inl (mk_err InvalidConfig (''Unable to resolve current executable: '' @ exe_error))
      | Some current_exe \<Rightarrow>
     (case path_parent current_exe of
        None \<Rightarrow> Inl (mk_err InvalidConfig ''Unable to resolve executable directory.'')
      | Some executable_dir \<Rightarrow>
          ok_or (mk_err InvalidConfig
              ''Packaged native host bundle not found. Build it with `./scripts/build-native-host.sh` or install APW via Homebrew first.'')
            (find (path_exists X w) (host_bundle_candidates X executable_dir))))"

definition unlines_nl :: "string list \<Rightarrow> string" where
  "unlines_nl ls = concat (map (\<lambda>l. l @ [CHR 0x0A]) ls)"

definition plist_string :: "string \<Rightarrow> string" where
  "plist_string s = ''<string>'' @ s @ ''</string>''"

definition build_launch_agent_plist :: "world \<Rightarrow> string \<Rightarrow> string \<Rightarrow> string" where
  \<open>build_launch_agent_plist w bundle_path socket_path =
     (let show = from_utf8_lossy in
      unlines_nl [
        ''<?xml version="1.0" encoding="UTF-8"?>'',
        ''<!DOCTYPE plist PUBLIC "-//Apple//DTD PLIST 1.0//EN" "http://www.apple.com/DTDs/PropertyList-1.0.dtd">'',
        ''<plist version="1.0">'',
        ''<dict>'',
        ''  <key>Label</key>'',
        ''  '' @ plist_string NATIVE_HOST_LABEL,
        ''  <key>ProgramArguments</key>'',
        ''  <array>'',
        ''    '' @ plist_string (show (native_host_executable_in_bundle bundle_path)),
        ''    '' @ plist_string ''--socket-path'',
        ''    '' @ plist_string (show socket_path),
        ''    '' @ plist_string ''--helper-path'',
        ''    '' @ plist_string HELPER_BINARY_PATH,
        ''  </array>'',
        ''  <key>KeepAlive</key>'',
        ''  <true/>'',
        ''  <key>RunAtLoad</key>'',
        ''  <true/>'',
        ''  <key>ProcessType</key>'',
        ''  '' @ plist_string ''Background'',
        ''  <key>StandardOutPath</key>'',
        ''  '' @ plist_string (show (path_join (native_host_install_dir w) ''native-host.stdout.log'')),
        ''  <key>StandardErrorPath</key>'',
        ''  '' @ plist_string (show (path_join (native_host_install_dir w) ''native-host.stderr.log'')),
        ''</dict>'',
        ''</plist>''])\<close>

definition host_unsupported :: apw_error where
  "host_unsupported = mk_err ProcessNotRunning ''APW native host is supported only on macOS.''"

definition load_launch_agent :: "ext \<Rightarrow> unit io" where
  "load_launch_agent X w0 =
     (let path_text = from_utf8_lossy (native_host_launch_agent_path w0);
          domain = launchctl_domain w0
      in bind_io (quietly (run_launchctl X [''bootout'', domain, path_text] True)) (\<lambda>_.
         bind_io (run_launchctl X [''bootstrap'', domain, path_text] False) (\<lambda>_.
         quietly (run_launchctl X [''kickstart'', ''-k'', launchctl_service_target w0] True))) w0)"

definition write_launch_agent :: "ext \<Rightarrow> string \<Rightarrow> unit io" where
  "write_launch_agent X installed_bundle w0 =
     (let plist = build_launch_agent_plist w0 installed_bundle (native_host_socket_path w0);
          path = native_host_launch_agent_path w0
      in bind_io (map_err (\<lambda>e. mk_err InvalidConfig (''Failed to write LaunchAgent plist: '' @ e))
           (fs_write X path plist))
         (\<lambda>_. set_permissions X path 0x1A4) w0)"

definition native_host_install :: "ext \<Rightarrow> legacy \<Rightarrow> string \<Rightarrow> nat \<Rightarrow> json io_option" where
  "native_host_install X L exe_error fuel w0 =
     (if \<not> x_macos X then Some (Inl host_unsupported, w0)
      else
        let install_dir = native_host_install_dir w0;
            installed_bundle = native_host_bundle_install_path w0 in
        bind_first (ensure_native_host_runtime_dir X) (\<lambda>_.
        bind_first (check_io (resolve_packaged_native_host_bundle X exe_error)) (\<lambda>source_bundle.
        bind_first (map_err (\<lambda>e. mk_err InvalidConfig
            (''Failed to create native host install directory: '' @ e))
          (fs_create_dir_all X install_dir)) (\<lambda>_.
        bind_first (set_permissions X install_dir 0x1C0) (\<lambda>_.
        bind_first (map_err (\<lambda>e. mk_err InvalidConfig
            (''Failed to create LaunchAgents directory: '' @ e))
          (fs_create_dir_all X (native_host_launch_agents_dir w0))) (\<lambda>_.
        bind_fuel (host_copy_dir_recursive X fuel source_bundle installed_bundle) (\<lambda>_.
        bind_first (write_launch_agent X installed_bundle) (\<lambda>_.
        bind_first (load_launch_agent X) (\<lambda>_ w.
          let (preflight, w1) = native_host_preflight_status X L ModeNative w
          in Some (Inr (obj [
               (''status'', JString ''installed''),
               (''paths'', obj [
                  (''bundle'', JString installed_bundle),
                  (''launchAgent'', JString (native_host_launch_agent_path w)),
                  (''socket'', JString (native_host_socket_path w))]),
               (''preflight'', preflight)]), w1))))))))) w0)"

definition remove_if_there :: "ext \<Rightarrow> (string \<Rightarrow> unit sys) \<Rightarrow> string \<Rightarrow> unit io" where
  "remove_if_there X remove path w =
     (if path_exists X w path then quietly (remove path) w else ret () w)"

definition native_host_uninstall :: "ext \<Rightarrow> json io" where
  "native_host_uninstall X w0 =
     (if \<not> x_macos X then (Inl host_unsupported, w0)
      else
        let launch_agent_path = native_host_launch_agent_path w0;
            bundle_path = native_host_bundle_install_path w0;
            socket_path = native_host_socket_path w0 in
        bind_io (quietly (run_launchctl X
          [''bootout'', launchctl_domain w0, from_utf8_lossy launch_agent_path] True)) (\<lambda>_.
        bind_io (remove_if_there X (fs_remove_file X) launch_agent_path) (\<lambda>_.
        bind_io (remove_if_there X (fs_remove_dir_all X) bundle_path) (\<lambda>_.
        bind_io (remove_if_there X (fs_remove_file X) socket_path) (\<lambda>_.
        ret (obj [
          (''status'', JString ''uninstalled''),
          (''paths'', obj [
             (''bundle'', JString bundle_path),
             (''launchAgent'', JString launch_agent_path),
             (''socket'', JString socket_path)])]))))) w0)"

end
