(* ===== verification/Host_Laws.thy ===== *)
theory Host_Laws
  imports Host Touches Samples Config_Write
begin

text \<open>
  The native host: what its checks report, what installing leaves behind and in which order the
  LaunchAgent is loaded, and what removing it touches.
\<close>

section \<open>What launchctl and the checks do to the world\<close>

lemma run_launchctl_world:
  "snd (run_launchctl X args b w) = log_spawn (invoke ''/bin/launchctl'' args) w"
  by (auto simp: run_launchctl_def bind_io_def map_err_def run_output_def Let_def split: sum.split)

lemma launch_agent_loaded_world:
  "snd (launch_agent_loaded X w) = log_spawn (invoke ''/bin/launchctl'' [''print'', launchctl_service_target w]) w"
  by (simp add: launch_agent_loaded_def run_output_def split: sum.split)

lemma sw_vers_major_world:
  "snd (sw_vers_major X w) = log_spawn (invoke ''sw_vers'' [''-productVersion'']) w"
  by (simp add: sw_vers_major_def run_output_def split: sum.split)

text \<open>\<open>asks w w'\<close>: between the two states only programs that inform were started.\<close>

definition asking :: "invocation \<Rightarrow> bool" where
  "asking i \<longleftrightarrow> i = invoke ''sw_vers'' [''-productVersion'']
     \<or> (\<exists>target. i = invoke ''/bin/launchctl'' [''print'', target])"

definition asks :: "world \<Rightarrow> world \<Rightarrow> bool" where
  "asks w w' \<longleftrightarrow> (\<exists>started. list_all asking started \<and> w' = w\<lparr>w_spawned := w_spawned w @ started\<rparr>)"

lemma asks_refl: "asks w w"
  unfolding asks_def by (rule exI [of _ "[]"]) simp

lemma asks_one: "asking i \<Longrightarrow> asks w (log_spawn i w)"
  unfolding asks_def by (rule exI [of _ "[i]"]) (simp add: log_spawn_def)

lemma asks_trans: "asks w w1 \<Longrightarrow> asks w1 w2 \<Longrightarrow> asks w w2"
proof -
  assume "asks w w1" "asks w1 w2"
  then obtain before after where "list_all asking before" "w1 = w\<lparr>w_spawned := w_spawned w @ before\<rparr>"
      "list_all asking after" "w2 = w1\<lparr>w_spawned := w_spawned w1 @ after\<rparr>"
    by (auto simp: asks_def)
  then show "asks w w2"
    unfolding asks_def by (intro exI [of _ "before @ after"]) simp
qed

lemma asks_loaded: "asks w (snd (launch_agent_loaded X w))"
  unfolding launch_agent_loaded_world by (rule asks_one) (auto simp: asking_def)

lemma asks_version: "asks w (snd (native_host_macos_major_version X w))"
  by (auto simp: native_host_macos_major_version_def sw_vers_major_world asking_def
      intro: asks_refl asks_one)

lemma asks_state: "asks w (snd (native_host_preflight_state X w))"
  using asks_loaded [of w X]
  by (auto simp: native_host_preflight_state_def asks_refl Let_def split: prod.split)

lemma asks_preflight: "asks w (snd (native_host_preflight_status X L m w))"
proof -
  obtain s w1 where s: "native_host_preflight_state X w = (s, w1)" by fastforce
  obtain v w2 where v: "native_host_macos_major_version X w1 = (v, w2)" by fastforce
  obtain l w3 where l: "launch_agent_loaded X w2 = (l, w3)" by fastforce
  have "asks w w1" "asks w1 w2" "asks w2 w3"
    using asks_state [of w X] asks_version [of w1 X] asks_loaded [of w2 X] by (simp_all add: s v l)
  then show ?thesis
    by (cases s) (auto simp: native_host_preflight_status_def s v l Let_def intro: asks_trans)
qed

lemma asks_fs: "asks w w' \<Longrightarrow> w_fs w' = w_fs w" "asks w w' \<Longrightarrow> w_env w' = w_env w"
  by (auto simp: asks_def)

text \<open>The report of the checks says \<open>ready\<close>, with no error, exactly when the system is macOS, the
  bundle and its LaunchAgent are installed, launchd has it loaded and the helper is an executable
  file; otherwise its status names the first of these that fails. The checks change nothing.\<close>

theorem preflight_verdict:
  "status_of (fst (native_host_preflight_status X L m w)) =
     (if \<not> x_macos X then ''unsupported_platform''
      else if \<not> path_exists X w (native_host_bundle_install_path w) then ''app_missing''
      else if \<not> path_exists X w (native_host_launch_agent_path w) then ''launch_agent_missing''
      else if \<not> fst (launch_agent_loaded X w) then ''launch_agent_unloaded''
      else if \<not> helper_executable X (snd (launch_agent_loaded X w)) then ''helper_missing''
      else ''ready'')
   \<and> (get ''error'' (fst (native_host_preflight_status X L m w)) = Some JNull)
     = (status_of (fst (native_host_preflight_status X L m w)) = ''ready'')
   \<and> asks w (snd (native_host_preflight_status X L m w))"
proof -
  obtain st err bv w1 where s: "native_host_preflight_state X w = ((st, err, bv), w1)"
    by (metis prod_cases3 surj_pair)
  have status: "status_of (fst (native_host_preflight_status X L m w)) = st"
    and error: "get ''error'' (fst (native_host_preflight_status X L m w)) = Some (null_or JString err)"
    by (simp_all add: native_host_preflight_status_def s Let_def status_of_def get_str_def split: prod.split)
  have "st = (if \<not> x_macos X then ''unsupported_platform''
      else if \<not> path_exists X w (native_host_bundle_install_path w) then ''app_missing''
      else if \<not> path_exists X w (native_host_launch_agent_path w) then ''launch_agent_missing''
      else if \<not> fst (launch_agent_loaded X w) then ''launch_agent_unloaded''
      else if \<not> helper_executable X (snd (launch_agent_loaded X w)) then ''helper_missing''
      else ''ready'') \<and> (err = None) = (st = ''ready'')"
    using s by (auto simp: native_host_preflight_state_def Let_def split: if_splits prod.splits)
  moreover have "(null_or JString err = JNull) = (err = None)"
    by (simp add: null_or_def split: option.split)
  ultimately show ?thesis
    using asks_preflight by (simp add: status error)
qed

section \<open>Removing\<close>

definition host_files :: "world \<Rightarrow> string set" where
  "host_files w = {native_host_launch_agent_path w, native_host_socket_path w}
     \<union> {q. below (native_host_bundle_install_path w) q}"

definition installed_plainly :: "ext \<Rightarrow> world \<Rightarrow> bool" where
  "installed_plainly X w \<longleftrightarrow> (\<forall>v. \<forall>p \<in> {native_host_launch_agent_path w, native_host_socket_path w,
     native_host_bundle_install_path w}. x_resolve X v p = Inr p)"

lemma remove_if_there_effect:
  assumes "\<And>v. x_resolve X v p = Inr p"
  shows "remove_if_there X (fs_remove_file X) p w =
      (Inr (), if w_fs w p = None \<or> x_fault X w (OpRemove p) \<noteq> None \<or> i_kind (the (w_fs w p)) = KDir then w
               else put_inode p None w)"
    and "remove_if_there X (fs_remove_dir_all X) p w =
      (Inr (), if w_fs w p = None \<or> x_fault X w (OpRemove p) \<noteq> None then w
               else w\<lparr>w_fs := (\<lambda>q. if below p q then None else w_fs w q)\<rparr>)"
  using assms
  by (auto simp: remove_if_there_def path_exists_def stat_def quietly_def ignore_def fs_remove_file_def
      fs_remove_dir_all_def faulty_def split: option.split)

text \<open>C16: on macOS removing the native host never fails, starts \<open>launchctl bootout\<close> and nothing else,
  and changes only the LaunchAgent, the socket and what is below the bundle; where nothing stands
  in the way of the system calls all three are gone.\<close>

theorem native_host_uninstall_effect:
  assumes "x_macos X" "installed_plainly X w" "native_host_uninstall X w = (r, w')"
  shows "(\<exists>v. r = Inr v) \<and> {q. w_fs w' q \<noteq> w_fs w q} \<subseteq> host_files w
    \<and> w_spawned w' = w_spawned w @ [invoke ''/bin/launchctl''
        [''bootout'', launchctl_domain w, from_utf8_lossy (native_host_launch_agent_path w)]]
    \<and> ((\<forall>v op. x_fault X v op = None)
        \<and> (\<forall>p \<in> {native_host_launch_agent_path w, native_host_socket_path w}.
             \<forall>i. w_fs w p = Some i \<longrightarrow> i_kind i \<noteq> KDir) \<longrightarrow>
        (\<forall>p \<in> {native_host_launch_agent_path w, native_host_socket_path w, native_host_bundle_install_path w}.
           w_fs w' p = None))"
proof -
  let ?agent = "native_host_launch_agent_path w" and ?socket = "native_host_socket_path w"
    and ?app = "native_host_bundle_install_path w"
  let ?bootout = "invoke ''/bin/launchctl'' [''bootout'', launchctl_domain w, from_utf8_lossy ?agent]"
  define w1 where "w1 = log_spawn ?bootout w"
  define w2 where "w2 = snd (remove_if_there X (fs_remove_file X) ?agent w1)"
  define w3 where "w3 = snd (remove_if_there X (fs_remove_dir_all X) ?app w2)"
  define w4 where "w4 = snd (remove_if_there X (fs_remove_file X) ?socket w3)"
  have plain: "x_resolve X v ?agent = Inr ?agent" "x_resolve X v ?socket = Inr ?socket"
      "x_resolve X v ?app = Inr ?app" for v
    using assms(2) by (simp_all add: installed_plainly_def)
  have not_not_macos: "\<not> \<not> x_macos X" using assms(1) by simp
  have r2: "remove_if_there X (fs_remove_file X) ?agent w1 = (Inr (), w2)"
    and r3: "remove_if_there X (fs_remove_dir_all X) ?app w2 = (Inr (), w3)"
    and r4: "remove_if_there X (fs_remove_file X) ?socket w3 = (Inr (), w4)"
    by (simp_all add: w2_def w3_def w4_def remove_if_there_effect plain)
  have r1: "quietly (run_launchctl X [''bootout'', launchctl_domain w, from_utf8_lossy ?agent] True) w
      = (Inr (), w1)"
    by (simp add: quietly_def ignore_def run_launchctl_world w1_def)
  have "native_host_uninstall X w = (r, w')" by (rule assms)
  then have run: "w' = w4 \<and> (\<exists>v. r = Inr v)"
    unfolding native_host_uninstall_def Let_def bind_io_def r1 prod.case sum.case r2 r3 r4 ret_def
      if_not_P [OF not_not_macos]
    by (elim Pair_inject) (simp only: simp_thms, blast)
  have f1: "w_fs w1 = w_fs w" "w_spawned w1 = w_spawned w @ [?bootout]"
    by (simp_all add: w1_def log_spawn_def)
  have f2: "w_fs w2 q = w_fs w q \<or> q = ?agent \<and> w_fs w2 q = None" for q
    by (simp add: w2_def remove_if_there_effect plain put_inode_def f1)
  have f3: "w_fs w3 q = w_fs w2 q \<or> below ?app q \<and> w_fs w3 q = None" for q
    by (simp add: w3_def remove_if_there_effect plain)
  have f4: "w_fs w4 q = w_fs w3 q \<or> q = ?socket \<and> w_fs w4 q = None" for q
    by (simp add: w4_def remove_if_there_effect plain put_inode_def)
  have "{q. w_fs w4 q \<noteq> w_fs w q} \<subseteq> host_files w"
  proof
    fix q
    assume "q \<in> {q. w_fs w4 q \<noteq> w_fs w q}"
    with f2 [of q] f3 [of q] f4 [of q] show "q \<in> host_files w"
      by (auto simp: host_files_def)
  qed
  moreover have "w_spawned w2 = w_spawned w1" "w_spawned w3 = w_spawned w2" "w_spawned w4 = w_spawned w3"
    unfolding w2_def w3_def w4_def by (simp_all add: remove_if_there_effect plain put_inode_def)
  moreover have "w_fs w4 ?agent = None \<and> w_fs w4 ?socket = None \<and> w_fs w4 ?app = None"
    if "\<forall>v op. x_fault X v op = None" and "\<forall>p \<in> {?agent, ?socket}. \<forall>i. w_fs w p = Some i \<longrightarrow> i_kind i \<noteq> KDir"
  proof -
    have "w_fs w2 ?agent = None"
      using that by (cases "w_fs w ?agent") (auto simp: w2_def f1 remove_if_there_effect plain put_inode_def)
    moreover have "w_fs w3 ?app = None"
      using that by (simp add: w3_def remove_if_there_effect plain below_def)
    moreover have "w_fs w4 ?socket = None"
      using that f2 [of ?socket] f3 [of ?socket]
      by (cases "w_fs w ?socket") (auto simp: w4_def remove_if_there_effect plain put_inode_def)
    ultimately show ?thesis
      using f3 [of ?agent] f4 [of ?agent] f4 [of ?app] by auto
  qed
  ultimately show ?thesis using run by (simp add: f1)
qed

theorem native_host_uninstall_effect_witness:
  "x_macos ((sample_ext [])\<lparr>x_macos := True\<rparr>)
   \<and> (\<exists>v. fst (native_host_uninstall ((sample_ext [])\<lparr>x_macos := True\<rparr>) (sample_world [])) = Inr v)"
  using native_host_uninstall_effect [of "(sample_ext [])\<lparr>x_macos := True\<rparr>" "sample_world []"]
  by (cases "native_host_uninstall ((sample_ext [])\<lparr>x_macos := True\<rparr>) (sample_world [])")
    (auto simp: installed_plainly_def sample_ext_def)

section \<open>Installing\<close>

lemma host_paths_rest:
  assumes "rest w' = rest w"
  shows "native_host_launch_agent_path w' = native_host_launch_agent_path w"
    "native_host_socket_path w' = native_host_socket_path w"
    "native_host_install_dir w' = native_host_install_dir w"
    "launchctl_domain w' = launchctl_domain w"
    "launchctl_service_target w' = launchctl_service_target w"
    "build_launch_agent_plist w' b s = build_launch_agent_plist w b s"
  using rest_fields [OF assms]
  by (simp_all add: native_host_launch_agent_path_def native_host_launch_agents_dir_def
      native_host_socket_path_def native_host_run_dir_def native_host_install_dir_def
      launchctl_domain_def launchctl_service_target_def build_launch_agent_plist_def
      host_home_dir_def env_var_def)

text \<open>The steps before the LaunchAgent is loaded keep the rest of the world.\<close>

lemma check_io_rest: "frame rest (check_io f)"
  by (simp add: frame_def check_io_def)

lemma set_permissions_rest: "frame rest (set_permissions X p m)"
  unfolding set_permissions_def by (intro frame_quietly frame_rules)

lemma runtime_dir_rest: "frame rest (ensure_native_host_runtime_dir X)"
proof -
  have "frame rest (bind_io (map_err f (fs_create_dir_all X p)) (\<lambda>_. set_permissions X p m))" for f p m
    by (intro frame_rules set_permissions_rest)
  then show ?thesis by (simp add: frame_def ensure_native_host_runtime_dir_def Let_def)
qed

lemma replace_destination_rest: "frame rest (replace_destination X p)"
proof -
  have "frame rest (map_err f (fs_remove_dir_all X p))" for f by (intro frame_rules)
  then show ?thesis by (simp add: frame_def replace_destination_def)
qed

definition keeps_rest :: "'a io_option \<Rightarrow> bool" where
  "keeps_rest m \<longleftrightarrow> (\<forall>w r w'. m w = Some (r, w') \<longrightarrow> rest w' = rest w)"

lemma keeps_restD: "keeps_rest m \<Longrightarrow> m w = Some (r, w') \<Longrightarrow> rest w' = rest w"
  by (simp add: keeps_rest_def)

lemma keeps_first: "frame rest m \<Longrightarrow> (\<And>x. keeps_rest (f x)) \<Longrightarrow> keeps_rest (bind_first m f)"
  unfolding keeps_rest_def bind_first_def frame_def
  by (auto split: prod.splits sum.splits; metis snd_conv)

lemma keeps_fuel: "keeps_rest m \<Longrightarrow> (\<And>x. keeps_rest (f x)) \<Longrightarrow> keeps_rest (bind_fuel m f)"
  unfolding keeps_rest_def bind_fuel_def
  by (auto split: option.splits prod.splits sum.splits; metis)

lemma keeps_entries: "(\<And>name. keeps_rest (f name)) \<Longrightarrow> keeps_rest (for_host_entries f es)"
proof (induction es)
  case Nil
  then show ?case by (simp add: keeps_rest_def)
next
  case (Cons e es)
  show ?case
  proof (cases e)
    case (Inl a)
    then show ?thesis by (simp add: keeps_rest_def)
  next
    case (Inr name)
    have "keeps_rest (bind_fuel (f name) (\<lambda>_. for_host_entries f es))"
      by (intro keeps_fuel Cons.prems Cons.IH)
    with Inr show ?thesis by (simp add: keeps_rest_def)
  qed
qed

lemma keeps_copy_entry:
  assumes "keeps_rest (recurse a b)"
  shows "keeps_rest (copy_host_entry X recurse a b)"
proof -
  have "frame rest (map_err g (fs_copy X a b))" for g by (intro frame_rules)
  then show ?thesis
    using assms by (auto simp: keeps_rest_def copy_host_entry_def dest: frameD split: if_splits)
qed

lemma keeps_host_copy: "keeps_rest (host_copy_dir_recursive X fuel source destination)"
proof (induction fuel arbitrary: source destination)
  case 0
  show ?case by (simp add: keeps_rest_def)
next
  case (Suc fuel)
  have "keeps_rest (bind_first (replace_destination X destination) (\<lambda>_.
      bind_first (map_err g (fs_create_dir_all X destination)) (\<lambda>_.
      bind_first (check_io (list_host_bundle X source))
        (for_host_entries (\<lambda>name. copy_host_entry X (host_copy_dir_recursive X fuel)
          (path_join source name) (path_join destination name))))))" for g
    by (intro keeps_first keeps_entries keeps_copy_entry replace_destination_rest check_io_rest
        Suc.IH frame_rules)
  then show ?case by (simp add: keeps_rest_def)
qed

lemma wrote_file:
  assumes "\<And>v. x_resolve X v p = Inr p" "fs_write X p d w = (Inr (), w')"
  shows "\<exists>i. w_fs w' p = Some i \<and> i_data i = d"
proof -
  obtain w1 where o: "fs_open_truncate X p w = (Inr (), w1)" and wr: "fs_write_all X p d w1 = (Inr (), w')"
    using assms(2) by (auto simp: fs_write_def split: prod.splits sum.splits)
  have "\<exists>i. w_fs w1 p = Some i \<and> i_data i = []"
    using o assms(1) by (auto simp: fs_open_truncate_def faulty_def new_inode_def split: option.splits if_splits)
  with wr assms(1) show ?thesis
    by (auto simp: fs_write_all_def faulty_def split: option.splits)
qed

lemma set_permissions_data:
  assumes "\<And>v. x_resolve X v p = Inr p" "set_permissions X p m w = (r, w')"
  shows "map_option i_data (w_fs w' p) = map_option i_data (w_fs w p)"
  using assms by (auto simp: set_permissions_def quietly_def ignore_def fs_set_permissions_def faulty_def
      split: option.splits)

lemma write_launch_agent_effect:
  assumes "\<And>v. x_resolve X v (native_host_launch_agent_path w) = Inr (native_host_launch_agent_path w)"
    and "write_launch_agent X app w = (Inr u, w')"
  shows "map_option i_data (w_fs w' (native_host_launch_agent_path w))
      = Some (build_launch_agent_plist w app (native_host_socket_path w))
    \<and> rest w' = rest w"
proof -
  let ?p = "native_host_launch_agent_path w"
    and ?d = "build_launch_agent_plist w app (native_host_socket_path w)"
  from assms(2) obtain w1 where wr: "fs_write X ?p ?d w = (Inr (), w1)"
    and chmod: "set_permissions X ?p 0x1A4 w1 = (Inr u, w')"
    by (auto simp: write_launch_agent_def Let_def bind_io_Inr map_err_Inr)
  then show ?thesis
    using wrote_file [OF assms(1) wr] set_permissions_data [OF assms(1) chmod]
      frameD [OF fs_write_rest wr] frameD [OF set_permissions_rest chmod] by auto
qed

abbreviation launchctl :: "string list \<Rightarrow> invocation" where
  "launchctl args \<equiv> invoke ''/bin/launchctl'' args"

lemma load_launch_agent_effect:
  assumes "load_launch_agent X w = (Inr u, w')"
  shows "\<exists>output. x_output X (log_spawn (launchctl [''bootout'', launchctl_domain w,
            from_utf8_lossy (native_host_launch_agent_path w)]) w)
          (launchctl [''bootstrap'', launchctl_domain w,
            from_utf8_lossy (native_host_launch_agent_path w)]) = Inr output \<and> po_code output = Some 0
    \<and> w' = w\<lparr>w_spawned := w_spawned w @
          [launchctl [''bootout'', launchctl_domain w, from_utf8_lossy (native_host_launch_agent_path w)],
           launchctl [''bootstrap'', launchctl_domain w, from_utf8_lossy (native_host_launch_agent_path w)],
           launchctl [''kickstart'', ''-k'', launchctl_service_target w]]\<rparr>"
proof -
  let ?boot = "\<lambda>verb. [verb, launchctl_domain w, from_utf8_lossy (native_host_launch_agent_path w)]"
  define w1 where "w1 = log_spawn (launchctl (?boot ''bootout'')) w"
  from assms obtain t w2 where up: "run_launchctl X (?boot ''bootstrap'') False w1 = (Inr t, w2)"
    and w': "w' = snd (run_launchctl X [''kickstart'', ''-k'', launchctl_service_target w] True w2)"
    unfolding load_launch_agent_def Let_def
    by (auto simp: bind_io_Inr quietly_def ignore_def run_launchctl_world w1_def)
  have "w2 = log_spawn (launchctl (?boot ''bootstrap'')) w1"
    using run_launchctl_world [of X "?boot ''bootstrap''" False w1] up by simp
  moreover have "\<exists>output. x_output X w1 (launchctl (?boot ''bootstrap'')) = Inr output \<and> po_code output = Some 0"
    using up by (auto simp: run_launchctl_def bind_io_Inr map_err_Inr run_output_def Let_def split: if_splits)
  ultimately show ?thesis
    by (auto simp: w' run_launchctl_world w1_def log_spawn_def)
qed

text \<open>C24: a successful installation wrote the LaunchAgent for the installed bundle and the socket,
  then unloaded what was there, loaded it from that file, which launchd confirmed, and started it,
  in this order; after that it only asked for the state.\<close>

theorem native_host_install_loads:
  assumes "native_host_install X L exe_error fuel w = Some (Inr v, w')"
    and "\<And>v. x_resolve X v (native_host_launch_agent_path w) = Inr (native_host_launch_agent_path w)"
  shows "\<exists>w1 output started.
     map_option i_data (w_fs w1 (native_host_launch_agent_path w))
       = Some (build_launch_agent_plist w (native_host_bundle_install_path w) (native_host_socket_path w))
   \<and> rest w1 = rest w
   \<and> x_output X (log_spawn (launchctl [''bootout'', launchctl_domain w,
            from_utf8_lossy (native_host_launch_agent_path w)]) w1)
        (launchctl [''bootstrap'', launchctl_domain w,
            from_utf8_lossy (native_host_launch_agent_path w)]) = Inr output \<and> po_code output = Some 0
   \<and> list_all asking started
   \<and> w' = w1\<lparr>w_spawned := w_spawned w @
          [launchctl [''bootout'', launchctl_domain w, from_utf8_lossy (native_host_launch_agent_path w)],
           launchctl [''bootstrap'', launchctl_domain w, from_utf8_lossy (native_host_launch_agent_path w)],
           launchctl [''kickstart'', ''-k'', launchctl_service_target w]] @ started\<rparr>"
proof -
  let ?app = "native_host_bundle_install_path w"
  from assms(1) obtain a1 w1 src w2 u3 w3 u4 w4 u5 w5 u6 w6 u7 w7 u8 w8 where
    s1: "ensure_native_host_runtime_dir X w = (Inr a1, w1)"
    and s2: "check_io (resolve_packaged_native_host_bundle X exe_error) w1 = (Inr src, w2)"
    and s3: "fs_create_dir_all X (native_host_install_dir w) w2 = (Inr u3, w3)"
    and s4: "set_permissions X (native_host_install_dir w) 0x1C0 w3 = (Inr u4, w4)"
    and s5: "fs_create_dir_all X (native_host_launch_agents_dir w) w4 = (Inr u5, w5)"
    and s6: "host_copy_dir_recursive X fuel src ?app w5 = Some (Inr u6, w6)"
    and s7: "write_launch_agent X ?app w6 = (Inr u7, w7)"
    and s8: "load_launch_agent X w7 = (Inr u8, w8)"
    and w': "w' = snd (native_host_preflight_status X L ModeNative w8)"
    unfolding native_host_install_def Let_def
    by (auto simp: bind_first_Inr bind_fuel_Inr map_err_Inr case_prod_beta split: if_splits)
  have r6: "rest w6 = rest w"
    using frameD [OF runtime_dir_rest s1] frameD [OF check_io_rest s2] frameD [OF fs_rest(1) s3]
      frameD [OF set_permissions_rest s4] frameD [OF fs_rest(1) s5] keeps_restD [OF keeps_host_copy s6]
    by simp
  note p6 = host_paths_rest [OF r6]
  have agent: "map_option i_data (w_fs w7 (native_host_launch_agent_path w))
      = Some (build_launch_agent_plist w ?app (native_host_socket_path w))" and r7: "rest w7 = rest w6"
    using write_launch_agent_effect [of X w6 ?app u7 w7] assms(2) s7 by (simp_all add: p6)
  note p7 = host_paths_rest [OF r7 [unfolded r6]]
  have spawned: "w_spawned w7 = w_spawned w" using r6 r7 by (simp add: rest_def)
  obtain started where "list_all asking started" "w' = w8\<lparr>w_spawned := w_spawned w8 @ started\<rparr>"
    using asks_preflight [of w8 X L ModeNative] w' by (auto simp: asks_def)
  with load_launch_agent_effect [OF s8] show ?thesis
    by (intro exI [of _ w7]) (auto simp: agent r6 r7 p7 spawned)
qed

text \<open>A machine on which the installation succeeds: every program answers with success and the
  packaged bundle is an empty directory.\<close>

definition install_ext :: ext where
  "install_ext = (sample_ext [])\<lparr>x_macos := True, x_exe := Some ''/b/apw'',
     x_output := (\<lambda>w i. Inr \<lparr>po_code = Some 0, po_stdout = [], po_stderr = []\<rparr>)\<rparr>"

definition install_world :: world where
  "install_world = sample_world [(''/b/../libexec/APWNativeHost.app'',
     \<lparr>i_kind = KDir, i_mode = 0x1ED, i_uid = 501, i_data = []\<rparr>)]"

definition sample_legacy :: legacy where
  "sample_legacy = \<lparr>l_mode_of = (\<lambda>c. ModeNative), l_mode_json = (\<lambda>m. JNull), l_mode_written = (\<lambda>m. Auto)\<rparr>"

lemma install_simps [simp]:
  "x_macos install_ext" "x_exe install_ext = Some ''/b/apw''" "x_cwd install_ext = None"
  "x_output install_ext w i = Inr \<lparr>po_code = Some 0, po_stdout = [], po_stderr = []\<rparr>"
  "x_fault install_ext w op = None" "x_resolve install_ext w p = Inr p" "x_read_dir install_ext w p = Inr []"
  by (simp_all add: install_ext_def sample_ext_def)

lemma install_paths:
  assumes "w_env w = (\<lambda>k. None)"
  shows "native_host_run_dir w = ''./.apw/run''"
    "native_host_install_dir w = ''./Library/Application Support/APW/NativeHost''"
    "native_host_launch_agents_dir w = ''./Library/LaunchAgents''"
    "native_host_launch_agent_path w = ''./Library/LaunchAgents/dev.omt.apw.nativehost.plist''"
    "native_host_bundle_install_path w = ''./Library/Application Support/APW/NativeHost/APWNativeHost.app''"
  using assms
  by (simp_all add: native_host_run_dir_def native_host_install_dir_def native_host_launch_agents_dir_def
      native_host_launch_agent_path_def native_host_bundle_install_path_def host_home_dir_def env_var_def
      filter_opt_def unwrap_or_def path_join_def is_absolute_def NATIVE_HOST_LABEL_def NATIVE_HOST_BUNDLE_NAME_def)

lemma install_world_simps [simp]:
  "w_env install_world = (\<lambda>k. None)"
  "w_fs install_world = [''/b/../libexec/APWNativeHost.app'' \<mapsto>
     \<lparr>i_kind = KDir, i_mode = 0x1ED, i_uid = 501, i_data = []\<rparr>]"
  by (auto simp: install_world_def sample_world_def)

lemma install_source:
  "w_fs w ''/b/../libexec/APWNativeHost.app'' \<noteq> None \<Longrightarrow>
   resolve_packaged_native_host_bundle install_ext e w = Inr ''/b/../libexec/APWNativeHost.app''"
proof -
  have "path_parent ''/b/apw'' = Some ''/b''" by code_simp
  then show "w_fs w ''/b/../libexec/APWNativeHost.app'' \<noteq> None \<Longrightarrow> ?thesis"
    by (simp add: resolve_packaged_native_host_bundle_def host_bundle_candidates_def
      path_join_def is_absolute_def NATIVE_HOST_BUNDLE_NAME_def path_exists_def stat_def ok_or_def)
qed

text \<open>Making a directory where there is nothing, and setting the mode of what is there.\<close>

lemma mkdir_new:
  assumes "w_fs w p = None"
  obtains w' i where "fs_create_dir_all install_ext p w = (Inr (), w')" "w_fs w' = (w_fs w)(p \<mapsto> i)"
    "w_env w' = w_env w"
  using assms by (auto simp: fs_create_dir_all_def faulty_def is_dir_def stat_def)

lemma chmod_there:
  assumes "w_fs w p = Some i"
  obtains w' j where "set_permissions install_ext p m w = (Inr (), w')" "w_fs w' = (w_fs w)(p \<mapsto> j)"
    "w_env w' = w_env w"
  using assms by (auto simp: set_permissions_def quietly_def ignore_def fs_set_permissions_def faulty_def)

lemma launch_agent_written:
  assumes "w_fs w (native_host_launch_agent_path w) = None"
  obtains w' where "write_launch_agent install_ext b w = (Inr (), w')"
proof -
  let ?p = "native_host_launch_agent_path w"
  define d where "d = build_launch_agent_plist w b (native_host_socket_path w)"
  obtain w1 i where 1: "fs_write install_ext ?p d w = (Inr (), w1)" "w_fs w1 ?p = Some i"
    using assms by (auto simp: fs_write_def fs_open_truncate_def fs_write_all_def faulty_def)
  obtain w2 where "set_permissions install_ext ?p 0x1A4 w1 = (Inr (), w2)"
    using chmod_there [OF 1(2)] by metis
  with 1 show ?thesis
    using that by (auto simp: write_launch_agent_def Let_def bind_io_def map_err_def d_def)
qed

lemma launch_agent_loads:
  obtains w' where "load_launch_agent install_ext w = (Inr (), w')"
  by (auto simp: load_launch_agent_def Let_def bind_io_def quietly_def ignore_def run_launchctl_def
      run_output_def map_err_def)

lemma install_runs:
  obtains v w' where "native_host_install install_ext sample_legacy e 1 install_world = Some (Inr v, w')"
proof -
  let ?w = install_world and ?src = "''/b/../libexec/APWNativeHost.app''"
  note paths = install_paths [of ?w, simplified]
  obtain w1 i1 where 1: "fs_create_dir_all install_ext ''./.apw/run'' ?w = (Inr (), w1)"
      "w_fs w1 = (w_fs ?w)(''./.apw/run'' \<mapsto> i1)" "w_env w1 = (\<lambda>k. None)"
    by (rule mkdir_new [of ?w "''./.apw/run''"]) auto
  obtain w2 i2 where 2: "set_permissions install_ext ''./.apw/run'' 0x1C0 w1 = (Inr (), w2)"
      "w_fs w2 = (w_fs w1)(''./.apw/run'' \<mapsto> i2)" "w_env w2 = (\<lambda>k. None)"
    using chmod_there [of w1 "''./.apw/run''"] 1 by (metis fun_upd_same)
  let ?dir = "''./Library/Application Support/APW/NativeHost''"
  obtain w3 i3 where 3: "fs_create_dir_all install_ext ?dir w2 = (Inr (), w3)"
      "w_fs w3 = (w_fs w2)(?dir \<mapsto> i3)" "w_env w3 = (\<lambda>k. None)"
    by (rule mkdir_new [of w2 ?dir]) (auto simp: 1 2)
  obtain w4 i4 where 4: "set_permissions install_ext ?dir 0x1C0 w3 = (Inr (), w4)"
      "w_fs w4 = (w_fs w3)(?dir \<mapsto> i4)" "w_env w4 = (\<lambda>k. None)"
    using chmod_there [of w3 ?dir] 3 by (metis fun_upd_same)
  let ?agents = "''./Library/LaunchAgents''"
  obtain w5 i5 where 5: "fs_create_dir_all install_ext ?agents w4 = (Inr (), w5)"
      "w_fs w5 = (w_fs w4)(?agents \<mapsto> i5)" "w_env w5 = (\<lambda>k. None)"
    by (rule mkdir_new [of w4 ?agents]) (auto simp: 1 2 3 4)
  let ?app = "''./Library/Application Support/APW/NativeHost/APWNativeHost.app''"
  obtain w6 i6 where 6: "fs_create_dir_all install_ext ?app w5 = (Inr (), w6)"
      "w_fs w6 = (w_fs w5)(?app \<mapsto> i6)" "w_env w6 = (\<lambda>k. None)"
    by (rule mkdir_new [of w5 ?app]) (auto simp: 1 2 3 4 5)
  have none: "w_fs w5 ?app = None" by (simp add: 1 2 3 4 5)
  have copy: "host_copy_dir_recursive install_ext 1 ?src ?app w5 = Some (Inr (), w6)"
    by (simp add: bind_first_def replace_destination_def path_exists_def stat_def none map_err_def 6
        check_io_def list_host_bundle_def)
  have "w_fs w6 (native_host_launch_agent_path w6) = None"
    by (simp add: install_paths(4) 1 2 3 4 5 6)
  then obtain w7 where 7: "write_launch_agent install_ext ?app w6 = (Inr (), w7)"
    using launch_agent_written by metis
  obtain w8 where 8: "load_launch_agent install_ext w7 = (Inr (), w8)"
    using launch_agent_loads by metis
  have run_dir: "ensure_native_host_runtime_dir install_ext ?w = (Inr (), w2)"
    by (simp add: ensure_native_host_runtime_dir_def Let_def paths bind_io_def map_err_def 1 2)
  have src: "resolve_packaged_native_host_bundle install_ext e w2 = Inr ?src"
    by (rule install_source) (simp add: 1 2)
  have "\<exists>v w'. native_host_install install_ext sample_legacy e 1 ?w = Some (Inr v, w')"
    by (simp add: native_host_install_def Let_def paths bind_first_def bind_fuel_def run_dir src
        check_io_def map_err_def 3 4 5 copy 7 8 case_prod_beta del: host_copy_dir_recursive.simps One_nat_def)
  with that show ?thesis by blast
qed

theorem native_host_install_loads_witness:
  "\<exists>v (w1 :: world) w'. native_host_install install_ext sample_legacy [] 1 install_world = Some (Inr v, w')
   \<and> map_option i_data (w_fs w1 (native_host_launch_agent_path install_world))
       = Some (build_launch_agent_plist install_world (native_host_bundle_install_path install_world)
           (native_host_socket_path install_world))"
proof -
  obtain v w' where run: "native_host_install install_ext sample_legacy [] 1 install_world = Some (Inr v, w')"
    by (rule install_runs)
  have "\<exists>w1 :: world. map_option i_data (w_fs w1 (native_host_launch_agent_path install_world))
       = Some (build_launch_agent_plist install_world (native_host_bundle_install_path install_world)
           (native_host_socket_path install_world))"
    using native_host_install_loads [OF run install_simps(6)] by (elim exE conjE) (rule exI)
  with run show ?thesis by blast
qed

end
