(* ===== verification/Helper.thy ===== *)
theory Helper
  imports Host
begin

text \<open>
  The helper of the archived daemon, part one (\<open>legacy/rust-src/daemon.rs\<close>): which runtime mode
  applies, where the manifest of Apple's helper is and whether it is usable, and the report on
  both that \<open>apw status\<close> shows.
\<close>

section \<open>Modes and back ends\<close>

definition configured_macos_major_version :: "world \<Rightarrow> nat option" where
  "configured_macos_major_version w =
     Option.bind (env_var ''APW_MACOS_MAJOR_OVERRIDE'' w) (\<lambda>v. parse_unsigned (2 ^ 32) (trim v))"

definition current_macos_major_version :: "ext \<Rightarrow> world \<Rightarrow> nat option \<times> world" where
  "current_macos_major_version X w =
     (case configured_macos_major_version w of
        Some v \<Rightarrow> (Some v, w)
      | None \<Rightarrow> if x_macos X then sw_vers_major X w else (None, w))"

definition resolve_runtime_mode :: "ext \<Rightarrow> legacy_mode \<Rightarrow> world \<Rightarrow> legacy_mode \<times> world" where
  "resolve_runtime_mode X mode w =
     (if mode = ModeAuto then
        let (major, w1) = current_macos_major_version X w
        in (if (case major of Some v \<Rightarrow> v \<ge> 26 | None \<Rightarrow> False) then ModeNative else mode, w1)
      else (mode, w))"

datatype helper_backend = DirectHelperBackend | LaunchdCompatibleBackend

fun strategy :: "helper_backend \<Rightarrow> string" where
  "strategy DirectHelperBackend = ''direct''"
| "strategy LaunchdCompatibleBackend = ''launchd_compatible''"

fun backend_selection :: "legacy_mode \<Rightarrow> helper_backend list" where
  "backend_selection ModeNative = []"
| "backend_selection ModeBrowser = []"
| "backend_selection ModeDirect = [DirectHelperBackend]"
| "backend_selection ModeLaunchd = [LaunchdCompatibleBackend]"
| "backend_selection ModeAuto = [DirectHelperBackend, LaunchdCompatibleBackend]"
| "backend_selection ModeDisabled = []"

fun launch_strategy_labels :: "legacy_mode \<Rightarrow> string list" where
  "launch_strategy_labels ModeNative = [''native_host'']"
| "launch_strategy_labels ModeBrowser = [''browser_bridge'']"
| "launch_strategy_labels ModeDisabled = []"
| "launch_strategy_labels other = map strategy (backend_selection other)"

section \<open>The manifest\<close>

definition MANIFEST_PATHS :: "string list" where
  "MANIFEST_PATHS =
     [''/Library/Application Support/Mozilla/NativeMessagingHosts/com.apple.passwordmanager.json'',
      ''/Library/Google/Chrome/NativeMessagingHosts/com.apple.passwordmanager.json'']"

definition manifest_search_paths :: "ext \<Rightarrow> string list" where
  "manifest_search_paths X = (if x_macos X then MANIFEST_PATHS else [])"

definition is_safe_manifest_path :: "string \<Rightarrow> bool" where
  "is_safe_manifest_path path \<longleftrightarrow> path \<in> set MANIFEST_PATHS"

definition is_absolute_unix_path :: "string \<Rightarrow> bool" where
  "is_absolute_unix_path path \<longleftrightarrow> prefix ''/'' path \<and> CHR 0x00 \<notin> set path"

definition is_executable :: "ext \<Rightarrow> world \<Rightarrow> string \<Rightarrow> bool" where
  "is_executable X w path = executable_file X w path"

definition allowed_origins_of :: "json \<Rightarrow> json list option" where
  "allowed_origins_of v =
     Option.bind (or_else (get ''allowedOrigins'' v) (get ''allowed_extensions'' v)) as_array"

definition is_manifest :: "json \<Rightarrow> bool" where
  "is_manifest v =
     (if as_object v = None then False
      else case (get_str ''name'' v, get_str ''description'' v, get_str ''path'' v, get_str ''type'' v,
          allowed_origins_of v) of
        (Some name, Some description, Some path, Some kind, Some allowed_origins) \<Rightarrow>
          if name = [] \<or> description = [] \<or> path = [] \<or> kind = [] then False
          else list_all (\<lambda>o'. as_str o' \<noteq> None) allowed_origins
      | _ \<Rightarrow> False)"

record manifest_config =
  mf_name :: string
  mf_description :: string
  mf_path :: string
  mf_type :: string
  mf_allowed_origins :: "string list"

definition manifest_fields :: "string list list" where
  "manifest_fields = [[''name''], [''description''], [''path''], [''type''],
     [''allowedOrigins'', ''allowed_extensions'']]"

definition dec_manifest :: "json \<Rightarrow> manifest_config option" where
  "dec_manifest v =
     (if \<not> well_shaped manifest_fields v then None else
      let f = field_of manifest_fields v in do {
        name \<leftarrow> req as_str (f [''name'']);
        description \<leftarrow> req as_str (f [''description'']);
        path \<leftarrow> req as_str (f [''path'']);
        kind \<leftarrow> req as_str (f [''type'']);
        origins \<leftarrow> dflt [] (dec_vec as_str) (f [''allowedOrigins'', ''allowed_extensions'']);
        Some \<lparr>mf_name = name, mf_description = description, mf_path = path, mf_type = kind,
          mf_allowed_origins = origins\<rparr>
      })"

definition unexpected_binary :: "string \<Rightarrow> bool" where
  "unexpected_binary path \<longleftrightarrow> \<not> is_absolute_unix_path path \<or> contains path ''..''"

definition malformed_manifest :: apw_error where
  "malformed_manifest = mk_err InvalidConfig ''Malformed helper manifest.''"

definition read_manifest :: "ext \<Rightarrow> world \<Rightarrow> manifest_config res" where
  "read_manifest X w =
     (if \<not> x_macos X then
        Inl (mk_err GenericError ''APW Helper manifest unsupported outside of macOS.'')
      else case find (path_exists X w) MANIFEST_PATHS of
        None \<Rightarrow> Inl (mk_err GenericError
          ''APW Helper manifest not found. You must be running macOS 14+.'')
      | Some path \<Rightarrow>
          if \<not> is_safe_manifest_path path then
            Inl (mk_err InvalidConfig ''Unexpected helper binary path.'')
          else
            bind_res (case read_to_string X w path of
                Inl _ \<Rightarrow> Inl (mk_err InvalidConfig ''Malformed helper manifest JSON.'')
              | Inr content \<Rightarrow> Inr content) (\<lambda>manifest_content.
            bind_res (case x_json_parse X manifest_content of
                Inl _ \<Rightarrow> Inl malformed_manifest
              | Inr v \<Rightarrow> Inr (to_value v)) (\<lambda>candidate.
            if \<not> is_manifest candidate then Inl malformed_manifest
            else bind_res (ok_or malformed_manifest (get_str ''path'' candidate)) (\<lambda>binary_path.
              if unexpected_binary binary_path then
                Inl (mk_err InvalidConfig ''Unexpected helper binary path.'')
              else if \<not> is_executable X w binary_path then
                Inl (mk_err ProcessNotRunning ''Cannot execute helper binary.'')
              else ok_or malformed_manifest (dec_manifest candidate)))))"

section \<open>The report\<close>

definition manifest_json ::
    "ext \<Rightarrow> string option \<Rightarrow> bool \<Rightarrow> bool \<Rightarrow> string option \<Rightarrow> bool option \<Rightarrow> bool option \<Rightarrow> nat option \<Rightarrow> json" where
  "manifest_json X path found valid binary_path binary_absolute binary_executable allowed_origins = obj [
     (''searchedPaths'', JArray (map JString (manifest_search_paths X))),
     (''path'', null_or JString path),
     (''found'', JBool found),
     (''valid'', JBool valid),
     (''binaryPath'', null_or JString binary_path),
     (''binaryAbsolute'', null_or JBool binary_absolute),
     (''binaryExecutable'', null_or JBool binary_executable),
     (''allowedOrigins'', opt_nat_json allowed_origins)]"

definition empty_manifest_preflight :: "ext \<Rightarrow> json" where
  "empty_manifest_preflight X = manifest_json X None False False None None None None"

definition inspect_manifest_preflight :: "ext \<Rightarrow> world \<Rightarrow> json \<times> string \<times> string option" where
  "inspect_manifest_preflight X w =
     (case find (path_exists X w) MANIFEST_PATHS of
        None \<Rightarrow> (manifest_json X None False False None None None None, ''manifest_missing'',
          Some ''APW Helper manifest not found. You must be running macOS 14+.'')
      | Some path \<Rightarrow>
     (case read_to_string X w path of
        Inl _ \<Rightarrow> (manifest_json X (Some path) True False None None None None, ''manifest_invalid'',
          Some ''Malformed helper manifest JSON.'')
      | Inr manifest_content \<Rightarrow>
     (case x_json_parse X manifest_content of
        Inl _ \<Rightarrow> (manifest_json X (Some path) True False None None None None, ''manifest_invalid'',
          Some ''Malformed helper manifest.'')
      | Inr v \<Rightarrow>
        let candidate = to_value v in
        if \<not> is_manifest candidate then
          (manifest_json X (Some path) True False None None None None, ''manifest_invalid'',
            Some ''Malformed helper manifest.'')
        else
          let binary_path = get_str ''path'' candidate;
              allowed_origins = map_option length (allowed_origins_of candidate);
              binary_absolute = map_option (\<lambda>p. \<not> unexpected_binary p) binary_path in
          if binary_absolute \<noteq> Some True then
            (manifest_json X (Some path) True False binary_path binary_absolute None allowed_origins,
              ''manifest_invalid'', Some ''Unexpected helper binary path.'')
          else
            let binary_executable = map_option (is_executable X w) binary_path;
                report = manifest_json X (Some path) True True binary_path binary_absolute
                  binary_executable allowed_origins in
            if binary_executable \<noteq> Some True then
              (report, ''binary_not_executable'', Some ''Cannot execute helper binary.'')
            else (report, ''ready'', None))))"

definition preflight_report ::
    "ext \<Rightarrow> legacy \<Rightarrow> bool \<Rightarrow> nat option \<Rightarrow> legacy_mode \<Rightarrow> legacy_mode \<Rightarrow> string \<Rightarrow> string option \<Rightarrow> json \<Rightarrow> json" where
  "preflight_report X L supported major configured_mode resolved_mode status error manifest = obj [
     (''supported'', JBool supported),
     (''platform'', obj [(''os'', JString (x_os X)), (''arch'', JString (x_arch X)),
        (''macosMajorVersion'', opt_nat_json major)]),
     (''configuredRuntimeMode'', l_mode_json L configured_mode),
     (''resolvedRuntimeMode'', l_mode_json L resolved_mode),
     (''launchStrategies'', JArray (map JString (launch_strategy_labels resolved_mode))),
     (''status'', JString status),
     (''error'', null_or JString error),
     (''manifest'', manifest)]"

definition helper_preflight_status :: "ext \<Rightarrow> legacy \<Rightarrow> legacy_mode \<Rightarrow> world \<Rightarrow> json \<times> world" where
  "helper_preflight_status X L configured_mode w =
     (let (resolved_mode, w1) = resolve_runtime_mode X configured_mode w in
      if resolved_mode = ModeNative then native_host_preflight_status X L configured_mode w1
      else if resolved_mode = ModeDisabled then
        let (major, w2) = current_macos_major_version X w1 in
        (preflight_report X L (x_macos X) major configured_mode resolved_mode ''disabled'' None
           (empty_manifest_preflight X), w2)
      else if \<not> x_macos X then
        let (major, w2) = current_macos_major_version X w1 in
        (preflight_report X L False major configured_mode resolved_mode ''unsupported_platform''
           (Some ''APW Helper manifest unsupported outside of macOS.'') (empty_manifest_preflight X), w2)
      else if resolved_mode = ModeBrowser then
        let (major, w2) = current_macos_major_version X w1 in
        (preflight_report X L True major configured_mode resolved_mode ''browser_bridge'' None
           (empty_manifest_preflight X), w2)
      else
        let (manifest, status, error) = inspect_manifest_preflight X w1;
            (major, w2) = current_macos_major_version X w1 in
        (preflight_report X L True major configured_mode resolved_mode status error manifest, w2))"

definition helper_preflight_state_name :: "json \<Rightarrow> string" where
  "helper_preflight_state_name preflight = unwrap_or ''unknown'' (get_str ''status'' preflight)"

definition helper_preflight_guidance_from :: "ext \<Rightarrow> json \<Rightarrow> string" where
  "helper_preflight_guidance_from X preflight =
     (let status = helper_preflight_state_name preflight;
          platform = get ''platform'' preflight;
          platform_os = unwrap_or (x_os X) (Option.bind platform (get_str ''os''));
          platform_arch = unwrap_or (x_arch X) (Option.bind platform (get_str ''arch''))
      in if status = ''browser_bridge'' then
           ''Install the browser bridge with `./scripts/install-browser-bridge.sh`, load `browser-bridge/` in Chrome, start the daemon with `apw start`, and wait for `apw status --json` to report `bridge.status=attached`.''
         else if status = ''manifest_missing'' then
           ''Run `apw status --json` and review `daemon.preflight.manifest.searchedPaths`; the Apple helper manifest is missing on this host.''
         else if status = ''manifest_invalid'' then
           ''Run `apw status --json` and review `daemon.preflight.manifest.path` plus `daemon.preflight.manifest.binaryPath`; the helper manifest is present but invalid.''
         else if status = ''binary_not_executable'' then
           ''Run `apw status --json` and review `daemon.preflight.manifest.binaryPath` plus `daemon.preflight.manifest.binaryExecutable`; the helper binary is not executable.''
         else if status = ''unsupported_platform'' then
           ''APW is supported only on macOS. Current platform: '' @ platform_os @ ''/'' @ platform_arch @ ''.''
         else if status = ''disabled'' then
           ''Re-run `apw start` with `--runtime-mode native`, `--runtime-mode direct`, or `--runtime-mode launchd`.''
         else
           ''Run `apw status --json` and inspect `daemon.preflight` for the resolved runtime path and helper launch diagnostics.'')"

definition helper_preflight_status_note :: "ext \<Rightarrow> legacy \<Rightarrow> legacy_mode \<Rightarrow> world \<Rightarrow> string \<times> world" where
  "helper_preflight_status_note X L configured_mode w =
     (let (resolved_mode, w1) = resolve_runtime_mode X configured_mode w in
      if resolved_mode = ModeNative then native_host_status_note X L w1
      else
        let (preflight, w2) = helper_preflight_status X L configured_mode w1 in
        (''Run `apw status --json` and inspect `daemon.preflight`; current `daemon.preflight.status=''
           @ helper_preflight_state_name preflight @ ''`.'', w2))"

definition helper_preflight_failure_message ::
    "ext \<Rightarrow> legacy \<Rightarrow> legacy_mode \<Rightarrow> string \<Rightarrow> world \<Rightarrow> string \<times> world" where
  "helper_preflight_failure_message X L configured_mode base_message w =
     (let (resolved_mode, w1) = resolve_runtime_mode X configured_mode w in
      if resolved_mode = ModeNative then native_host_failure_message X L base_message w1
      else
        let (preflight, w2) = helper_preflight_status X L configured_mode w1 in
        (base_message @ '' '' @ helper_preflight_guidance_from X preflight
           @ '' Current `daemon.preflight.status='' @ helper_preflight_state_name preflight @ ''`.'', w2))"

end
