(* ===== verification/Helper_Process.thy ===== *)
theory Helper_Process
  imports Helper
begin

text \<open>
  The helper of the archived daemon, part two (\<open>legacy/rust-src/daemon.rs\<close>): the messages, the
  frames they travel in, starting and probing the helper process, and what is stored about it.

  A process is given by what its environment makes of it: what the n-th \<open>try_wait\<close> answers, and,
  after the frames written so far, whether the last write failed, which bytes arrived in time,
  which arrived only after the reader gave up, and what a reader that wants more meets.
\<close>

definition COMMAND_TIMEOUT_MS :: nat where
  "COMMAND_TIMEOUT_MS = 30000"

definition LAUNCH_PROBE_RESPONSE_TIMEOUT_MS :: nat where
  "LAUNCH_PROBE_RESPONSE_TIMEOUT_MS = 5000"

definition PROCESS_STATUS_RETRY_LIMIT :: nat where
  "PROCESS_STATUS_RETRY_LIMIT = 40"

definition MAX_HELPER_PAYLOAD :: nat where
  "MAX_HELPER_PAYLOAD = MAX_MESSAGE_BYTES"

definition HELPER_LAUNCH_OK :: string where
  "HELPER_LAUNCH_OK = ''ok''"

definition HELPER_LAUNCH_FAILED :: string where
  "HELPER_LAUNCH_FAILED = ''failed''"

definition HELPER_LAUNCH_DISABLED :: string where
  "HELPER_LAUNCH_DISABLED = ''disabled''"

definition LAUNCHCTL_PATH :: string where
  "LAUNCHCTL_PATH = ''/bin/launchctl''"

section \<open>Processes\<close>

datatype io_kind = BrokenPipe | UnexpectedEof | OtherKind

record io_error =
  ie_kind :: io_kind
  ie_text :: string

datatype exit_status = ExitCode int | ExitSignal nat | ExitUnknown

datatype wait_result = StillRunning | ExitedWith exit_status | WaitFailed string

datatype dry = Stalls | Breaks io_error

record helper_process =
  hp_wait :: "nat \<Rightarrow> wait_result"
  hp_write_error :: "string list \<Rightarrow> io_error option"
  hp_output :: "string list \<Rightarrow> string"
  hp_late :: "string list \<Rightarrow> string"
  hp_dry :: "string list \<Rightarrow> dry"

record helper =
  fh_process :: helper_process
  fh_written :: "string list"
  fh_unread :: string
  fh_polls :: nat

definition new_helper :: "helper_process \<Rightarrow> helper" where
  "new_helper p = \<lparr>fh_process = p, fh_written = [], fh_unread = hp_output p [], fh_polls = 0\<rparr>"

definition try_wait :: "helper \<Rightarrow> wait_result \<times> helper" where
  "try_wait h = (hp_wait (fh_process h) (fh_polls h), h\<lparr>fh_polls := Suc (fh_polls h)\<rparr>)"

definition helper_not_running_message :: string where
  "helper_not_running_message = ''Helper process is not running.''"

fun helper_termination_message :: "exit_status \<Rightarrow> string" where
  "helper_termination_message (ExitCode c) =
     ''Helper process exited with code '' @ (if c < 0 then ''-'' else []) @ show_nat (nat \<bar>c\<bar>) @ ''.''"
| "helper_termination_message (ExitSignal signal) =
     (if signal = 9 then
        ''Helper process was terminated by SIGKILL (Code Signature Constraint Violation). Helper launch requires an approved browser/native host context on this OS and cannot be launched directly from this CLI today.''
      else ''Helper process terminated by signal '' @ show_nat signal @ ''.'')"
| "helper_termination_message ExitUnknown = ''Helper process is not running.''"

definition report_termination_if_any :: "exit_status \<Rightarrow> apw_error" where
  "report_termination_if_any status = mk_err ProcessNotRunning (helper_termination_message status)"

definition process_check_failed :: "string \<Rightarrow> apw_error" where
  "process_check_failed e = mk_err ProcessNotRunning (''Helper process check failed: '' @ e)"

definition check_helper_status :: "helper \<Rightarrow> exit_status option res \<times> helper" where
  "check_helper_status h =
     (case try_wait h of
        (StillRunning, h') \<Rightarrow> (Inr None, h')
      | (ExitedWith s, h') \<Rightarrow> (Inr (Some s), h')
      | (WaitFailed e, h') \<Rightarrow> (Inl (process_check_failed e), h'))"

text \<open>The two loops that poll the process, every 25 ms.\<close>

fun resolve_from :: "nat \<Rightarrow> string \<Rightarrow> helper \<Rightarrow> string \<times> helper" where
  "resolve_from 0 fallback h = (fallback, h)"
| "resolve_from (Suc n) fallback h =
     (case check_helper_status h of
        (Inr (Some s), h') \<Rightarrow> (helper_termination_message s, h')
      | (Inr None, h') \<Rightarrow> resolve_from n fallback h'
      | (Inl e, h') \<Rightarrow> (err_message e, h'))"

definition resolve_probe_failure_message :: "string \<Rightarrow> helper \<Rightarrow> string \<times> helper" where
  "resolve_probe_failure_message fallback = resolve_from PROCESS_STATUS_RETRY_LIMIT fallback"

fun alive_for :: "nat \<Rightarrow> helper \<Rightarrow> unit res \<times> helper" where
  "alive_for 0 h = (Inr (), h)"
| "alive_for (Suc n) h =
     (case try_wait h of
        (WaitFailed e, h') \<Rightarrow> (Inl (process_check_failed e), h')
      | (ExitedWith s, h') \<Rightarrow> (Inl (report_termination_if_any s), h')
      | (StillRunning, h') \<Rightarrow> alive_for n h')"

definition ensure_helper_stays_alive :: "helper \<Rightarrow> unit res \<times> helper" where
  "ensure_helper_stays_alive = alive_for PROCESS_STATUS_RETRY_LIMIT"

section \<open>Frames\<close>

definition le_bytes :: "nat \<Rightarrow> string" where
  "le_bytes n = map (\<lambda>i. char_of (n div 256 ^ i mod 256)) [0..<4]"

fun le_value :: "string \<Rightarrow> nat" where
  "le_value [] = 0"
| "le_value (c # s) = code c + 256 * le_value s"

definition frame_bytes :: "string \<Rightarrow> string" where
  "frame_bytes payload = le_bytes (length payload) @ payload"

fun map_helper_io_error :: "io_kind \<Rightarrow> status option" where
  "map_helper_io_error BrokenPipe = Some ProcessNotRunning"
| "map_helper_io_error UnexpectedEof = Some ProcessNotRunning"
| "map_helper_io_error OtherKind = None"

definition helper_io_failure :: "status \<Rightarrow> string \<Rightarrow> io_error \<Rightarrow> apw_error" where
  "helper_io_failure other what e =
     (case map_helper_io_error (ie_kind e) of
        Some s \<Rightarrow> mk_err s helper_not_running_message
      | None \<Rightarrow> mk_err other (what @ ie_text e))"

definition write_frame :: "string \<Rightarrow> helper \<Rightarrow> unit res \<times> helper" where
  "write_frame payload h =
     (if length payload > MAX_HELPER_PAYLOAD then
        (Inl (mk_err InvalidParam ''Outgoing payload exceeds max size.''), h)
      else
        let written = fh_written h @ [frame_bytes payload] in
        case hp_write_error (fh_process h) written of
          Some e \<Rightarrow> (Inl (helper_io_failure GenericError ''Failed writing to helper process: '' e), h)
        | None \<Rightarrow> (Inr (), h\<lparr>fh_written := written,
            fh_unread := fh_unread h @ hp_output (fh_process h) written\<rparr>))"

text \<open>
  Reading under a timeout. A read that runs dry has taken the bytes there were; when the timeout
  cancels it they are lost, and what arrives later is there for the next read.
\<close>

datatype 'a reading = Got 'a | ReadFailed apw_error | TimedOut

definition read_exact_n :: "nat \<Rightarrow> helper \<Rightarrow> string reading \<times> helper" where
  "read_exact_n len h =
     (if len \<le> length (fh_unread h) then
        (Got (take len (fh_unread h)), h\<lparr>fh_unread := drop len (fh_unread h)\<rparr>)
      else case hp_dry (fh_process h) (fh_written h) of
        Stalls \<Rightarrow> (TimedOut, h\<lparr>fh_unread := hp_late (fh_process h) (fh_written h)\<rparr>)
      | Breaks e \<Rightarrow>
          (ReadFailed (helper_io_failure ProtoInvalidResponse ''Failed reading helper response: '' e),
           h\<lparr>fh_unread := []\<rparr>))"

definition read_frame :: "helper \<Rightarrow> string reading \<times> helper" where
  "read_frame h =
     (case read_exact_n 4 h of
        (Got header, h1) \<Rightarrow>
          let len = le_value header in
          if len = 0 \<or> len > MAX_HELPER_PAYLOAD then
            (ReadFailed (mk_err ProtoInvalidResponse ''Invalid helper frame size.''), h1)
          else read_exact_n len h1
      | (ReadFailed e, h1) \<Rightarrow> (ReadFailed e, h1)
      | (TimedOut, h1) \<Rightarrow> (TimedOut, h1))"

section \<open>Messages\<close>

datatype command =
    End | Unused | Handshake | SetIconAndTitle | GetLoginNamesForUrl | GetPasswordForLoginName
  | SetPasswordForLoginNameAndURL | NewAccountForURL | TabEvent | PasswordsDisabled | ReLoginNeeded
  | LaunchICloudPasswords | ICloudPasswordsStateChange | LaunchPasswordsApp | GetCapabilities
  | OneTimeCodeAvailable | GetOneTimeCodes | DidFillOneTimeCode | OpenUrlInSafari

fun command_number :: "command \<Rightarrow> i32" where
  "command_number End = 0"
| "command_number Unused = 1"
| "command_number Handshake = 2"
| "command_number SetIconAndTitle = 3"
| "command_number GetLoginNamesForUrl = 4"
| "command_number GetPasswordForLoginName = 5"
| "command_number SetPasswordForLoginNameAndURL = 6"
| "command_number NewAccountForURL = 7"
| "command_number TabEvent = 8"
| "command_number PasswordsDisabled = 9"
| "command_number ReLoginNeeded = 10"
| "command_number LaunchICloudPasswords = 11"
| "command_number ICloudPasswordsStateChange = 12"
| "command_number LaunchPasswordsApp = 13"
| "command_number GetCapabilities = 14"
| "command_number OneTimeCodeAvailable = 15"
| "command_number GetOneTimeCodes = 16"
| "command_number DidFillOneTimeCode = 17"
| "command_number OpenUrlInSafari = 1984"

record message =
  m_cmd :: i32
  m_payload :: "json option"
  m_msg :: "json option"
  m_capabilities :: "json option"
  m_set_up_totp_page_url :: "string option"
  m_set_up_totp_uri :: "string option"
  m_url :: "string option"
  m_tab_id :: "i32 option"
  m_frame_id :: "i32 option"

definition enc_message :: "message \<Rightarrow> json" where
  "enc_message m = JObject ([(''cmd'', enc_i32 (m_cmd m))]
     @ opt_field ''payload'' (m_payload m) @ opt_field ''msg'' (m_msg m)
     @ opt_field ''capabilities'' (m_capabilities m)
     @ opt_field ''setUpTOTPPageURL'' (map_option JString (m_set_up_totp_page_url m))
     @ opt_field ''setUpTOTPURI'' (map_option JString (m_set_up_totp_uri m))
     @ opt_field ''url'' (map_option JString (m_url m))
     @ opt_field ''tabId'' (map_option enc_i32 (m_tab_id m))
     @ opt_field ''frameId'' (map_option enc_i32 (m_frame_id m)))"

definition bare_message :: "command \<Rightarrow> message" where
  "bare_message c = \<lparr>m_cmd = command_number c, m_payload = None, m_msg = None, m_capabilities = None,
     m_set_up_totp_page_url = None, m_set_up_totp_uri = None, m_url = None, m_tab_id = None,
     m_frame_id = None\<rparr>"

definition can_fill_codes :: json where
  "can_fill_codes = obj [(''canFillOneTimeCodes'', JBool True)]"

definition capabilities_probe_message :: message where
  "capabilities_probe_message = (bare_message GetCapabilities)\<lparr>m_capabilities := Some can_fill_codes\<rparr>"

definition invalid_helper_payload :: apw_error where
  "invalid_helper_payload = mk_err ProtoInvalidResponse ''Invalid helper response payload.''"

definition parse_helper_payload :: "ext \<Rightarrow> string \<Rightarrow> json res" where
  "parse_helper_payload X raw =
     (if length raw > MAX_HELPER_PAYLOAD then
        Inl (mk_err ProtoInvalidResponse ''Response too large.'')
      else case x_json_parse X raw of
        Inl _ \<Rightarrow> Inl (mk_err ProtoInvalidResponse ''Helper returned invalid JSON.'')
      | Inr v \<Rightarrow>
          let value = to_value v in
          if as_object value \<noteq> None then Inr value else Inl invalid_helper_payload)"

definition named_status :: "string \<Rightarrow> status option" where
  "named_status text = map_of [
     (''Success'', Success), (''GenericError'', GenericError), (''InvalidParam'', InvalidParam),
     (''NoResults'', NoResults), (''FailedToDelete'', FailedToDelete),
     (''FailedToUpdate'', FailedToUpdate), (''InvalidMessageFormat'', InvalidMessageFormat),
     (''DuplicateItem'', DuplicateItem), (''UnknownAction'', UnknownAction),
     (''InvalidSession'', InvalidSession), (''ServerError'', ServerError),
     (''CommunicationTimeout'', CommunicationTimeout), (''InvalidConfig'', InvalidConfig),
     (''ProcessNotRunning'', ProcessNotRunning), (''ProtoInvalidResponse'', ProtoInvalidResponse)] text"

text \<open>A number, an unsigned one above the signed range reinterpreted.\<close>

definition as_i64_cast :: "json \<Rightarrow> int option" where
  "as_i64_cast v = or_else (as_i64 v) (map_option (\<lambda>n. sint n) (as_u64 v))"

definition helper_status_code :: "json \<Rightarrow> status option" where
  "helper_status_code candidate =
     or_else (Option.bind (as_i64_cast candidate) status_try_from)
       (or_else (Option.bind (Option.bind (as_str candidate) parse_i64) status_try_from)
         (Option.bind (as_str candidate) named_status))"

definition parse_helper_response_shape :: "json \<Rightarrow> json res" where
  "parse_helper_response_shape payload =
     (if as_object payload = None then Inl invalid_helper_payload
      else case Option.bind (get ''ok'' payload) as_bool of
        None \<Rightarrow> Inr payload
      | Some ok \<Rightarrow>
          if ok then ok_or (mk_err ProtoInvalidResponse ''Invalid helper payload.'') (get ''payload'' payload)
          else
            let status = unwrap_or GenericError (Option.bind (get ''code'' payload) helper_status_code);
                error = unwrap_or (status_text status) (get_str ''error'' payload)
            in Inl (mk_err status error))"

section \<open>Starting the helper\<close>

record helpers =
  hx_spawn :: "world \<Rightarrow> invocation \<Rightarrow> string + helper_process"

definition resolve_uid_via_id_command :: "ext \<Rightarrow> world \<Rightarrow> nat option \<times> world" where
  "resolve_uid_via_id_command X w =
     (case run_output X (invoke ''id'' [''-u'']) w of
        (Inl e, w') \<Rightarrow> (None, w')
      | (Inr output, w') \<Rightarrow>
          (if po_code output \<noteq> Some 0 \<or> \<not> utf8_valid (po_stdout output) then None
           else parse_unsigned (2 ^ 32) (trim (po_stdout output)), w'))"

definition launchd_aware_command :: "ext \<Rightarrow> string \<Rightarrow> world \<Rightarrow> (string \<times> string list) \<times> world" where
  "launchd_aware_command X target_path w =
     (let (uid, w1) =
        (case Option.bind (env_var ''UID'' w) (\<lambda>v. parse_unsigned (2 ^ 32) (trim v)) of
           Some uid \<Rightarrow> (Some uid, w)
         | None \<Rightarrow> resolve_uid_via_id_command X w)
      in case uid of
           Some value \<Rightarrow> ((LAUNCHCTL_PATH, [''asuser'', show_nat value, target_path]), w1)
         | None \<Rightarrow> ((target_path, []), w1))"

text \<open>Nothing in a launch awaits, so the timeout around it never fires.\<close>

definition spawn_helper :: "helpers \<Rightarrow> string \<Rightarrow> string list \<Rightarrow> world \<Rightarrow> helper res \<times> world" where
  "spawn_helper H program args w =
     (let i = invoke program (args @ [''.'']) in
      (case hx_spawn H w i of
         Inl e \<Rightarrow> Inl (mk_err ProcessNotRunning (''Unable to start helper: '' @ e))
       | Inr p \<Rightarrow> Inr (new_helper p), log_spawn i w))"

fun launch :: "ext \<Rightarrow> helpers \<Rightarrow> helper_backend \<Rightarrow> string \<Rightarrow> world \<Rightarrow> helper res \<times> world" where
  "launch X H DirectHelperBackend path w = spawn_helper H path [] w"
| "launch X H LaunchdCompatibleBackend path w =
     (let ((program, args), w1) = launchd_aware_command X path w in spawn_helper H program args w1)"

definition probe_helper_readiness :: "ext \<Rightarrow> helper \<Rightarrow> unit res \<times> helper" where
  "probe_helper_readiness X h =
     (case x_json_compact X (enc_message capabilities_probe_message) of
        Inl e \<Rightarrow> (Inl (mk_err ServerError (''Failed to serialize helper launch probe: '' @ e)), h)
      | Inr body \<Rightarrow>
     (case write_frame body h of
        (Inl e, h1) \<Rightarrow> (Inl e, h1)
      | (Inr _, h1) \<Rightarrow>
     (case read_frame h1 of
        (TimedOut, h2) \<Rightarrow>
          (Inl (mk_err CommunicationTimeout ''Helper capabilities probe timed out.''), h2)
      | (ReadFailed e, h2) \<Rightarrow> (Inl e, h2)
      | (Got response, h2) \<Rightarrow>
          (bind_res (bind_res (parse_helper_payload X response) parse_helper_response_shape)
             (\<lambda>payload. if as_object payload = None then
                Inl (mk_err ProtoInvalidResponse ''Invalid helper capabilities payload.'') else Inr ()),
           h2))))"

record helper_launch_context =
  lc_strategy :: string
  lc_status :: string
  lc_error :: "string option"

text \<open>How many helper processes were started and how many were killed.\<close>

record tally =
  t_started :: nat
  t_killed :: nat

definition readiness :: "ext \<Rightarrow> helper \<Rightarrow> unit res \<times> helper" where
  "readiness X h =
     (case try_wait h of
        (ExitedWith s, h1) \<Rightarrow> (Inl (report_termination_if_any s), h1)
      | (StillRunning, h1) \<Rightarrow> probe_helper_readiness X h1
      | (WaitFailed e, h1) \<Rightarrow> (Inl (process_check_failed e), h1))"

fun probe_backends ::
    "ext \<Rightarrow> helpers \<Rightarrow> string \<Rightarrow> bool \<Rightarrow> helper_backend list \<Rightarrow> string \<Rightarrow> string option \<Rightarrow> tally \<Rightarrow> world
       \<Rightarrow> (helper option \<times> helper_launch_context) \<times> tally \<times> world" where
  "probe_backends X H path dry_run [] launch_strategy last_error t w =
     ((None, \<lparr>lc_strategy = (if launch_strategy = [] then ''none'' else launch_strategy),
        lc_status = HELPER_LAUNCH_FAILED,
        lc_error = Some (unwrap_or ''No launch backend available.'' last_error)\<rparr>), t, w)"
| "probe_backends X H path dry_run (backend # backends) launch_strategy last_error t w =
     (case launch X H backend path w of
        (Inl e, w1) \<Rightarrow>
          probe_backends X H path dry_run backends (strategy backend) (Some (err_message e)) t w1
      | (Inr h, w1) \<Rightarrow>
          let t1 = t\<lparr>t_started := Suc (t_started t)\<rparr>;
              context_ok = \<lparr>lc_strategy = strategy backend, lc_status = HELPER_LAUNCH_OK, lc_error = None\<rparr> in
          case readiness X h of
            (Inr _, h1) \<Rightarrow>
              if dry_run then ((None, context_ok), t1\<lparr>t_killed := Suc (t_killed t1)\<rparr>, w1)
              else ((Some h1, context_ok), t1, w1)
          | (Inl e, h1) \<Rightarrow>
              let (msg, h2) = resolve_probe_failure_message (err_message e) h1 in
              probe_backends X H path dry_run backends (strategy backend) (Some msg)
                (t1\<lparr>t_killed := Suc (t_killed t1)\<rparr>) w1)"

definition probe_helper_launch ::
    "ext \<Rightarrow> helpers \<Rightarrow> manifest_config \<Rightarrow> legacy_mode \<Rightarrow> bool \<Rightarrow> tally \<Rightarrow> world
       \<Rightarrow> (helper option \<times> helper_launch_context) \<times> tally \<times> world" where
  "probe_helper_launch X H manifest mode dry_run t w =
     (if mode = ModeDisabled then
        ((None, \<lparr>lc_strategy = HELPER_LAUNCH_DISABLED, lc_status = HELPER_LAUNCH_DISABLED,
           lc_error = Some ''Runtime mode disabled launch checks.''\<rparr>), t, w)
      else probe_backends X H (mf_path manifest) dry_run (backend_selection mode)
             HELPER_LAUNCH_FAILED None t w)"

section \<open>What is stored\<close>

definition default_write_input :: write_config_input where
  "default_write_input =
     \<lparr>wi_username = None, wi_shared_key = None, wi_port = None, wi_host = None,
      wi_allow_empty = False, wi_clear_auth = False, wi_runtime_mode = None,
      wi_last_launch_status = None, wi_last_launch_error = None, wi_last_launch_strategy = None,
      wi_bridge_status = None, wi_bridge_browser = None, wi_bridge_connected_at = None,
      wi_bridge_last_error = None, wi_reset_launch_metadata = False,
      wi_reset_bridge_metadata = False, wi_refresh_created_at = False\<rparr>"

definition persistence_for_launch ::
    "legacy \<Rightarrow> string \<Rightarrow> u16 \<Rightarrow> helper_launch_context \<Rightarrow> legacy_mode \<Rightarrow> write_config_input" where
  "persistence_for_launch L host port context_of runtime_mode = default_write_input
     \<lparr>wi_port := Some port, wi_host := Some host, wi_allow_empty := True,
      wi_runtime_mode := Some (l_mode_written L runtime_mode),
      wi_last_launch_status := Some (lc_status context_of),
      wi_last_launch_error := lc_error context_of,
      wi_last_launch_strategy := Some (lc_strategy context_of),
      wi_reset_bridge_metadata := True\<rparr>"

definition persistence_for_launch_error ::
    "legacy \<Rightarrow> string \<Rightarrow> u16 \<Rightarrow> legacy_mode \<Rightarrow> string \<Rightarrow> string \<Rightarrow> write_config_input" where
  "persistence_for_launch_error L host port runtime_mode launch_strategy launch_error = default_write_input
     \<lparr>wi_port := Some port, wi_host := Some host, wi_allow_empty := True,
      wi_runtime_mode := Some (l_mode_written L runtime_mode),
      wi_last_launch_status := Some HELPER_LAUNCH_FAILED,
      wi_last_launch_error := Some launch_error,
      wi_last_launch_strategy := Some launch_strategy,
      wi_reset_bridge_metadata := True\<rparr>"

definition persistence_for_browser ::
    "legacy \<Rightarrow> string \<Rightarrow> u16 \<Rightarrow> legacy_mode \<Rightarrow> string \<Rightarrow> string option \<Rightarrow> string option \<Rightarrow> string option
       \<Rightarrow> write_config_input" where
  "persistence_for_browser L host port runtime_mode bridge_status bridge_browser bridge_connected_at
     bridge_last_error = default_write_input
     \<lparr>wi_port := Some port, wi_host := Some host, wi_allow_empty := True,
      wi_runtime_mode := Some (l_mode_written L runtime_mode),
      wi_bridge_status := Some bridge_status,
      wi_bridge_browser := bridge_browser,
      wi_bridge_connected_at := bridge_connected_at,
      wi_bridge_last_error := bridge_last_error,
      wi_reset_launch_metadata := True,
      wi_reset_bridge_metadata := True\<rparr>"

section \<open>Answers to clients\<close>

record net =
  n_send :: "world \<Rightarrow> string \<Rightarrow> string \<Rightarrow> string option"
  n_bind_udp :: "world \<Rightarrow> string \<Rightarrow> u16 \<Rightarrow> string + u16"
  n_bind_tcp :: "world \<Rightarrow> string \<Rightarrow> u16 \<Rightarrow> string + u16"
  n_bind_unix :: "world \<Rightarrow> string \<Rightarrow> string option"
  n_local_addr :: "world \<Rightarrow> u16 \<Rightarrow> string + u16"

definition response_envelope :: "status \<Rightarrow> json option \<Rightarrow> string option \<Rightarrow> json" where
  "response_envelope status payload error =
     (if status = Success then
        JObject ([(''ok'', JBool True), (''code'', enc_status status)] @ opt_field ''payload'' payload)
      else
        JObject [(''ok'', JBool False), (''code'', enc_status status),
          (''error'', JString (unwrap_or (status_text status) error))])"

definition send_envelope_to_client ::
    "ext \<Rightarrow> net \<Rightarrow> string \<Rightarrow> status \<Rightarrow> json option \<Rightarrow> string option \<Rightarrow> unit io" where
  "send_envelope_to_client X N peer status payload error w =
     (case x_json_compact X (response_envelope status payload error) of
        Inl _ \<Rightarrow> (Inl (mk_err ServerError ''Failed to serialize daemon response.''), w)
      | Inr encoded \<Rightarrow>
     (case n_send N w peer encoded of
        Some e \<Rightarrow> (Inl (mk_err GenericError (''Failed sending daemon response: '' @ e)), w)
      | None \<Rightarrow> (Inr (), w\<lparr>w_sent := w_sent w @ [(peer, encoded)]\<rparr>)))"

end
