(* ===== verification/Bridge.thy ===== *)
theory Bridge
  imports Helper_Process Cli "HOL-Library.AList"
begin

text \<open>
  The bridge of the archived daemon (\<open>BrowserBridge\<close> of \<open>legacy/rust-src/daemon.rs\<close>): the state that
  the request loop and the connections to the browser extension or the native host share, and its
  operations. The hash map of pending requests is an association list, a \<open>oneshot\<close> channel a
  numbered ticket, the outbound \<open>mpsc\<close> channel of a connection a queue. Every operation below is
  a sequence of critical sections under the one mutex; \<open>Bridge_Laws\<close> interleaves them.
\<close>

definition BRIDGE_STATUS_WAITING :: string where
  "BRIDGE_STATUS_WAITING = ''waiting''"

definition BRIDGE_STATUS_ATTACHED :: string where
  "BRIDGE_STATUS_ATTACHED = ''attached''"

definition BRIDGE_STATUS_DISCONNECTED :: string where
  "BRIDGE_STATUS_DISCONNECTED = ''disconnected''"

definition BRIDGE_STATUS_ERROR :: string where
  "BRIDGE_STATUS_ERROR = ''error''"

lemmas bridge_statuses = BRIDGE_STATUS_WAITING_def BRIDGE_STATUS_ATTACHED_def
  BRIDGE_STATUS_DISCONNECTED_def BRIDGE_STATUS_ERROR_def

section \<open>Messages\<close>

datatype to_browser = BridgeRequest string json

fun enc_to_browser :: "to_browser \<Rightarrow> json" where
  "enc_to_browser (BridgeRequest request_id payload) =
     JObject [(''type'', JString ''request''), (''request_id'', JString request_id), (''payload'', payload)]"

datatype from_browser =
    FromHello string "string option"
  | FromResponse string bool "json option" "status option" "string option"
  | FromStatus string "string option"

text \<open>
  An internally tagged enum: the member \<open>type\<close> names the variant, the others are its fields. A
  sequence gives the tag first and then every field. \<open>rename_all\<close> on the enum renames the variants
  and leaves the fields as they are.
\<close>

definition hello_fields :: "string list list" where
  "hello_fields = [[''browser''], [''version'']]"

definition response_fields :: "string list list" where
  "response_fields = [[''request_id''], [''ok''], [''payload''], [''code''], [''error'']]"

definition status_fields :: "string list list" where
  "status_fields = [[''status''], [''error'']]"

fun tagged :: "json \<Rightarrow> (string \<times> json) option" where
  "tagged (JObject kvs) =
     (case hits kvs [''type''] of
        [JString t] \<Rightarrow> Some (t, JObject (filter (\<lambda>(k, _). k \<noteq> ''type'') kvs))
      | _ \<Rightarrow> None)"
| "tagged (JArray (JString t # vs)) = Some (t, JArray vs)"
| "tagged _ = None"

definition dec_hello :: "json \<Rightarrow> from_browser option" where
  "dec_hello v = do {
     let f = field_of hello_fields v;
     browser \<leftarrow> req as_str (f [''browser'']);
     version \<leftarrow> optf as_str (f [''version'']);
     Some (FromHello browser version) }"

definition dec_response :: "json \<Rightarrow> from_browser option" where
  "dec_response v = do {
     let f = field_of response_fields v;
     request_id \<leftarrow> req as_str (f [''request_id'']);
     ok \<leftarrow> req as_bool (f [''ok'']);
     payload \<leftarrow> optf (\<lambda>j. Some (to_value j)) (f [''payload'']);
     code \<leftarrow> optf dec_status (f [''code'']);
     error \<leftarrow> optf as_str (f [''error'']);
     Some (FromResponse request_id ok payload code error) }"

definition dec_status_message :: "json \<Rightarrow> from_browser option" where
  "dec_status_message v = do {
     let f = field_of status_fields v;
     status \<leftarrow> req as_str (f [''status'']);
     error \<leftarrow> optf as_str (f [''error'']);
     Some (FromStatus status error) }"

definition dec_from_browser :: "json \<Rightarrow> from_browser option" where
  "dec_from_browser v =
     (case tagged v of
        None \<Rightarrow> None
      | Some (t, content) \<Rightarrow>
          if t = ''hello'' then (if well_shaped hello_fields content then dec_hello content else None)
          else if t = ''response'' then
            (if well_shaped response_fields content then dec_response content else None)
          else if t = ''status'' then
            (if well_shaped status_fields content then dec_status_message content else None)
          else None)"

definition decode_message :: "ext \<Rightarrow> string \<Rightarrow> from_browser option" where
  "decode_message X raw =
     (case x_json_parse X raw of Inl _ \<Rightarrow> None | Inr v \<Rightarrow> dec_from_browser v)"

section \<open>The shared state\<close>

record bridge_snapshot =
  sn_status :: string
  sn_browser :: "string option"
  sn_connected_at :: "string option"
  sn_last_error :: "string option"

definition default_snapshot :: bridge_snapshot where
  "default_snapshot = \<lparr>sn_status = BRIDGE_STATUS_WAITING, sn_browser = None, sn_connected_at = None,
     sn_last_error = None\<rparr>"

text \<open>
  A ticket is the far end of a \<open>oneshot\<close>: its receiver waits, has its answer, is gone because the
  request timed out, or learns that the sender was dropped without an answer.
\<close>

datatype ticket = Unissued | Waiting | Answered "json res" | Abandoned | Dropped

record bridge =
  b_snapshot :: bridge_snapshot
  b_transport :: "nat option"
  b_active :: "nat option"
  b_pending :: "(string \<times> nat) list"
  b_tickets :: "nat \<Rightarrow> ticket"
  b_queue :: "nat \<Rightarrow> to_browser list"
  b_closed :: "nat list"
  b_requests :: nat
  b_connections :: nat

record bridge_conf =
  bc_host :: string
  bc_port :: u16
  bc_mode :: legacy_mode

definition new_bridge :: bridge where
  "new_bridge = \<lparr>b_snapshot = default_snapshot, b_transport = None, b_active = None, b_pending = [],
     b_tickets = (\<lambda>_. Unissued), b_queue = (\<lambda>_. []), b_closed = [], b_requests = 1, b_connections = 1\<rparr>"

definition send_answer :: "nat \<Rightarrow> json res \<Rightarrow> bridge \<Rightarrow> bridge" where
  "send_answer n r B =
     (if b_tickets B n = Waiting then B\<lparr>b_tickets := (b_tickets B)(n := Answered r)\<rparr> else B)"

definition fail_pending :: "(string \<times> nat) list \<Rightarrow> apw_error \<Rightarrow> bridge \<Rightarrow> bridge" where
  "fail_pending pending error = fold (\<lambda>(_, n). send_answer n (Inl error)) pending"

definition close_connection :: "nat \<Rightarrow> bridge \<Rightarrow> bridge" where
  "close_connection c B = B\<lparr>b_closed := c # b_closed B, b_queue := (b_queue B)(c := [])\<rparr>"

section \<open>Storing the snapshot\<close>

definition persist_snapshot :: "ext \<Rightarrow> legacy \<Rightarrow> bridge_conf \<Rightarrow> bridge \<Rightarrow> world \<Rightarrow> world" where
  "persist_snapshot X L C B w =
     (case write_config X (default_write_input
         \<lparr>wi_port := Some (bc_port C), wi_host := Some (bc_host C), wi_allow_empty := True,
          wi_runtime_mode := Some (l_mode_written L (bc_mode C)),
          wi_bridge_status := Some (sn_status (b_snapshot B)),
          wi_bridge_browser := sn_browser (b_snapshot B),
          wi_bridge_connected_at := sn_connected_at (b_snapshot B),
          wi_bridge_last_error := sn_last_error (b_snapshot B),
          wi_reset_launch_metadata := True, wi_reset_bridge_metadata := True\<rparr>) w of
        (Inr _, w') \<Rightarrow> w'
      | (Inl e, w') \<Rightarrow>
          say (Stderr (''Failed to persist browser bridge status: '' @ err_message e)) w')"

definition browser_bridge_not_attached_message ::
    "ext \<Rightarrow> legacy \<Rightarrow> legacy_mode \<Rightarrow> string option \<Rightarrow> string \<Rightarrow> string option \<Rightarrow> world \<Rightarrow> string \<times> world" where
  "browser_bridge_not_attached_message X L mode browser status last_error w =
     (if mode = ModeNative then
        let (note, w1) = native_host_status_note X L w in
        (case last_error of
           Some error \<Rightarrow>
             if status = BRIDGE_STATUS_ERROR then
               ''Daemon is running in native mode, but the APW native host reported an error: ''
                 @ error @ ''. '' @ note
             else if status = BRIDGE_STATUS_DISCONNECTED then
               ''Daemon is running in native mode, but the APW native host disconnected. '' @ note
             else ''Daemon is running in native mode, but the APW native host is not attached. '' @ note
         | None \<Rightarrow>
             if status = BRIDGE_STATUS_DISCONNECTED then
               ''Daemon is running in native mode, but the APW native host disconnected. '' @ note
             else ''Daemon is running in native mode, but the APW native host is not attached. '' @ note,
         w1)
      else
        let name = unwrap_or ''Chrome'' browser;
            reload = ''Reload the APW Chrome bridge extension and wait for `apw status --json` to report `bridge.status=attached`.'';
            none_attached = ''Daemon is running in browser mode, but no '' @ name
              @ '' bridge is attached. Load the APW Chrome bridge extension and wait for `apw status --json` to report `bridge.status=attached`.''
        in (if status = BRIDGE_STATUS_DISCONNECTED then
              ''Daemon is running in browser mode, but the '' @ name @ '' bridge disconnected. '' @ reload
            else if status = BRIDGE_STATUS_ERROR then
              (case last_error of
                 Some error \<Rightarrow> ''Daemon is running in browser mode, but the '' @ name
                   @ '' bridge reported an error: '' @ error @ ''. '' @ reload
               | None \<Rightarrow> none_attached)
            else none_attached,
            w))"

section \<open>Operations\<close>

text \<open>The critical sections; what they take out of the map is answered after the lock is released.\<close>

definition attach_locked :: "nat \<Rightarrow> string \<Rightarrow> string \<Rightarrow> bridge \<Rightarrow> (string \<times> nat) list \<times> bridge" where
  "attach_locked c browser now B =
     (b_pending B,
      B\<lparr>b_pending := [], b_transport := Some c, b_active := Some c,
        b_snapshot := \<lparr>sn_status = BRIDGE_STATUS_ATTACHED, sn_browser = Some browser,
          sn_connected_at = Some now, sn_last_error = None\<rparr>\<rparr>)"

definition replaced_error :: "legacy_mode \<Rightarrow> apw_error" where
  "replaced_error mode = mk_err ProcessNotRunning
     (if mode = ModeNative then ''Native host was replaced before pending requests completed.''
      else ''Browser bridge was replaced before pending requests completed.'')"

definition attach ::
    "ext \<Rightarrow> legacy \<Rightarrow> bridge_conf \<Rightarrow> nat \<Rightarrow> string \<Rightarrow> bridge \<times> world \<Rightarrow> bridge \<times> world" where
  "attach X L C c browser = (\<lambda>(B, w).
     let (stale, B1) = attach_locked c browser (x_rfc3339_show X (w_now w)) B;
         B2 = fail_pending stale (replaced_error (bc_mode C)) B1
     in (B2, persist_snapshot X L C B2 w))"

definition complete_locked :: "string \<Rightarrow> bridge \<Rightarrow> nat option \<times> bridge" where
  "complete_locked request_id B =
     (map_of (b_pending B) request_id, B\<lparr>b_pending := AList.delete request_id (b_pending B)\<rparr>)"

definition complete_response :: "string \<Rightarrow> json res \<Rightarrow> bridge \<Rightarrow> bridge" where
  "complete_response request_id response B =
     (case complete_locked request_id B of
        (None, B1) \<Rightarrow> B1
      | (Some n, B1) \<Rightarrow> send_answer n response B1)"

definition mark_status_locked ::
    "nat \<Rightarrow> string \<Rightarrow> string option \<Rightarrow> bridge \<Rightarrow> ((string \<times> nat) list \<times> bridge) option" where
  "mark_status_locked c status error B =
     (if b_active B \<noteq> Some c then None
      else
        let ends = (status = BRIDGE_STATUS_DISCONNECTED \<or> status = BRIDGE_STATUS_ERROR);
            B1 = (if ends then B\<lparr>b_transport := None, b_active := None, b_pending := []\<rparr> else B);
            pending = (if ends then b_pending B else [])
        in Some (pending,
             B1\<lparr>b_snapshot := (b_snapshot B)
               \<lparr>sn_status := status,
                sn_connected_at :=
                  (if status = BRIDGE_STATUS_ATTACHED then sn_connected_at (b_snapshot B) else None),
                sn_last_error := error\<rparr>\<rparr>))"

definition mark_status ::
    "ext \<Rightarrow> legacy \<Rightarrow> bridge_conf \<Rightarrow> nat \<Rightarrow> string \<Rightarrow> string option \<Rightarrow> bridge \<times> world
       \<Rightarrow> (string \<times> nat) list option \<times> bridge \<times> world" where
  "mark_status X L C c status error = (\<lambda>(B, w).
     case mark_status_locked c status error B of
       None \<Rightarrow> (None, B, w)
     | Some (pending, B1) \<Rightarrow> (Some pending, B1, persist_snapshot X L C B1 w))"

definition mark_error ::
    "ext \<Rightarrow> legacy \<Rightarrow> bridge_conf \<Rightarrow> nat \<Rightarrow> string \<Rightarrow> bridge \<times> world \<Rightarrow> bridge \<times> world" where
  "mark_error X L C c error s =
     (case mark_status X L C c BRIDGE_STATUS_ERROR (Some error) s of
        (None, s') \<Rightarrow> s'
      | (Some pending, B, w) \<Rightarrow> (fail_pending pending (mk_err ProcessNotRunning error) B, w))"

definition mark_disconnected ::
    "ext \<Rightarrow> legacy \<Rightarrow> bridge_conf \<Rightarrow> nat \<Rightarrow> string option \<Rightarrow> bridge \<times> world \<Rightarrow> bridge \<times> world" where
  "mark_disconnected X L C c error s =
     (case mark_status X L C c BRIDGE_STATUS_DISCONNECTED error s of
        (None, s') \<Rightarrow> s'
      | (Some pending, B, w) \<Rightarrow>
          let (message, w1) = browser_bridge_not_attached_message X L (bc_mode C)
                (sn_browser (b_snapshot B)) BRIDGE_STATUS_DISCONNECTED error w
          in (fail_pending pending (mk_err ProcessNotRunning message) B, w1))"

section \<open>Requests\<close>

definition request_name :: "nat \<Rightarrow> string" where
  "request_name n = ''bridge-'' @ show_nat n"

datatype enqueued = Refused string | Sent nat

text \<open>An entry that is overwritten drops its sender.\<close>

definition insert_pending :: "string \<Rightarrow> nat \<Rightarrow> bridge \<Rightarrow> bridge" where
  "insert_pending request_id n B = B
     \<lparr>b_pending := AList.update request_id n (b_pending B),
      b_tickets := (case map_of (b_pending B) request_id of
          Some m \<Rightarrow> if b_tickets B m = Waiting then (b_tickets B)(m := Dropped) else b_tickets B
        | None \<Rightarrow> b_tickets B)\<rparr>"

definition enqueue_locked :: "string \<Rightarrow> nat \<Rightarrow> json \<Rightarrow> bridge \<Rightarrow> enqueued \<times> bridge" where
  "enqueue_locked request_id n payload B =
     (case b_transport B of
        None \<Rightarrow> (Refused (sn_status (b_snapshot B)), B)
      | Some c \<Rightarrow>
          if sn_status (b_snapshot B) \<noteq> BRIDGE_STATUS_ATTACHED then
            (Refused (sn_status (b_snapshot B)), B)
          else
            let B1 = insert_pending request_id n B in
            if c \<in> set (b_closed B) then
              (Refused BRIDGE_STATUS_DISCONNECTED,
               B1\<lparr>b_pending := AList.delete request_id (b_pending B1)\<rparr>)
            else
              (Sent n, B1\<lparr>b_tickets := (b_tickets B1)(n := Waiting),
                 b_queue := (b_queue B1)(c := b_queue B1 c @ [BridgeRequest request_id payload])\<rparr>))"

definition enqueue_start ::
    "ext \<Rightarrow> legacy \<Rightarrow> bridge_conf \<Rightarrow> string \<Rightarrow> bridge \<times> world \<Rightarrow> nat res \<times> bridge \<times> world" where
  "enqueue_start X L C request = (\<lambda>(B, w).
     case x_json_parse X request of
       Inl _ \<Rightarrow> (Inl (mk_err InvalidMessageFormat ''Daemon received malformed client payload.''), B, w)
     | Inr payload \<Rightarrow>
         let n = b_requests B in
         case enqueue_locked (request_name n) n (to_value payload) (B\<lparr>b_requests := Suc n\<rparr>) of
           (Sent n, B1) \<Rightarrow> (Inr n, B1, w)
         | (Refused status, B1) \<Rightarrow>
             let (message, w1) = browser_bridge_not_attached_message X L (bc_mode C)
                   (sn_browser (b_snapshot B1)) status (sn_last_error (b_snapshot B1)) w
             in (Inl (mk_err ProcessNotRunning message), B1, w1))"

text \<open>After 30 s the receiver is dropped if no answer has come.\<close>

definition await_answer :: "legacy_mode \<Rightarrow> nat \<Rightarrow> bridge \<Rightarrow> json res \<times> bridge" where
  "await_answer mode n B =
     (let late = mk_err CommunicationTimeout
            (if mode = ModeNative then ''Native host response timed out.''
             else ''Browser bridge response timed out.'') in
      case b_tickets B n of
        Answered r \<Rightarrow> (r, B)
      | Dropped \<Rightarrow> (Inl (mk_err ProcessNotRunning
            (if mode = ModeNative then ''Native host disconnected before returning a response.''
             else ''Browser bridge disconnected before returning a response.'')), B)
      | Waiting \<Rightarrow> (Inl late, B\<lparr>b_tickets := (b_tickets B)(n := Abandoned)\<rparr>)
      | _ \<Rightarrow> (Inl late, B))"

end
