(* ===== verification/Bridge_Tasks.thy ===== *)
theory Bridge_Tasks
  imports Bridge
begin

text \<open>
  The connections to the bridge (\<open>legacy/rust-src/daemon.rs\<close>): the web socket of the browser
  extension and the Unix socket of the native host. A task is given by the events it meets, one
  for each round of its \<open>select!\<close>; a frame to a connection is recorded in \<open>w_sent\<close> under the
  connection's name. \<open>D\<close> is the text of a decoding error.
\<close>

datatype flow = Goes | Breaks "unit res" | Returns "unit res"

definition connection_name :: "nat \<Rightarrow> string" where
  "connection_name c = ''connection-'' @ show_nat c"

definition sent_to :: "nat \<Rightarrow> string \<Rightarrow> world \<Rightarrow> world" where
  "sent_to c encoded w = w\<lparr>w_sent := w_sent w @ [(connection_name c, encoded)]\<rparr>"

section \<open>The browser extension\<close>

datatype ws_message = WsText string | WsBinary string | WsClose | WsPing | WsPong | WsFrame

definition parse_bridge_message :: "ext \<Rightarrow> ws_message \<Rightarrow> from_browser res" where
  "parse_bridge_message X raw =
     bind_res
       (case raw of
          WsText s \<Rightarrow> Inr s
        | WsBinary bytes \<Rightarrow>
            if utf8_valid bytes then Inr bytes
            else Inl (mk_err ProtoInvalidResponse ''Browser bridge sent invalid UTF-8 payload.'')
        | WsClose \<Rightarrow> Inl (mk_err ProcessNotRunning ''Browser bridge closed the connection.'')
        | WsFrame \<Rightarrow>
            Inl (mk_err ProtoInvalidResponse ''Browser bridge frame cannot be decoded as JSON.'')
        | _ \<Rightarrow> Inl (mk_err ProtoInvalidResponse
            ''Browser bridge control frame cannot be decoded as JSON.''))
       (\<lambda>payload. ok_or (mk_err ProtoInvalidResponse ''Browser bridge sent malformed JSON.'')
          (decode_message X payload))"

datatype hello_wait = HelloTimedOut | HelloGone | HelloFailed string | HelloCame ws_message

definition await_hello :: "ext \<Rightarrow> hello_wait \<Rightarrow> from_browser res" where
  "await_hello X hello =
     (case hello of
        HelloTimedOut \<Rightarrow> Inl (mk_err ProcessNotRunning
          ''Browser bridge did not send an identity message in time.'')
      | HelloGone \<Rightarrow> Inl (mk_err ProcessNotRunning
          ''Browser bridge disconnected before sending an identity message.'')
      | HelloFailed e \<Rightarrow> Inl (mk_err ProcessNotRunning (''Browser bridge receive failed: '' @ e))
      | HelloCame raw \<Rightarrow> parse_bridge_message X raw)"

text \<open>Up to the loop: the number of the connection, or the error the task ends with.\<close>

definition browser_open ::
    "ext \<Rightarrow> legacy \<Rightarrow> bridge_conf \<Rightarrow> string option \<Rightarrow> hello_wait \<Rightarrow> bridge \<times> world
       \<Rightarrow> nat res \<times> bridge \<times> world" where
  "browser_open X L C handshake_error hello = (\<lambda>(B, w).
     case handshake_error of
       Some e \<Rightarrow>
         (Inl (mk_err ProcessNotRunning (''Browser bridge WebSocket handshake failed: '' @ e)), B, w)
     | None \<Rightarrow>
         let c = b_connections B; B1 = B\<lparr>b_connections := Suc c\<rparr> in
         case await_hello X hello of
           Inl e \<Rightarrow> (Inl e, close_connection c B1, w)
         | Inr (FromHello browser _) \<Rightarrow> (Inr c, attach X L C c browser (B1, w))
         | Inr _ \<Rightarrow>
             let (B2, w2) = mark_error X L C c
               ''Browser bridge must send a hello message before request forwarding.'' (B1, w)
             in (Inl (mk_err ProtoInvalidResponse ''Browser bridge must send a hello message first.''),
                 close_connection c B2, w2))"

fun browser_answer :: "bool \<Rightarrow> json option \<Rightarrow> status option \<Rightarrow> string option \<Rightarrow> json res" where
  "browser_answer True (Some payload) number error = Inr payload"
| "browser_answer True None number error =
     Inl (mk_err ProtoInvalidResponse ''Browser bridge response was missing helper payload.'')"
| "browser_answer False payload number error =
     Inl (mk_err (unwrap_or GenericError number)
       (unwrap_or ''Browser bridge returned an unknown error.'' error))"

definition refresh_attachment :: "ext \<Rightarrow> legacy \<Rightarrow> bridge_conf \<Rightarrow> bridge \<Rightarrow> world \<Rightarrow> world" where
  "refresh_attachment X L C B w =
     (case write_config X (persistence_for_browser L (bc_host C) (bc_port C) (bc_mode C)
         BRIDGE_STATUS_ATTACHED (sn_browser (b_snapshot B)) (sn_connected_at (b_snapshot B)) None) w of
        (Inr _, w') \<Rightarrow> w'
      | (Inl e, w') \<Rightarrow>
          say (Stderr (''Failed to refresh browser bridge attachment state: '' @ err_message e)) w')"

fun browser_message ::
    "ext \<Rightarrow> legacy \<Rightarrow> bridge_conf \<Rightarrow> nat \<Rightarrow> from_browser \<Rightarrow> bridge \<times> world \<Rightarrow> bridge \<times> world" where
  "browser_message X L C c (FromHello browser version) s = s"
| "browser_message X L C c (FromStatus status error) s =
     (if status = BRIDGE_STATUS_ERROR then
        mark_error X L C c (unwrap_or ''Browser bridge reported an unknown error.'' error) s
      else if status = BRIDGE_STATUS_DISCONNECTED then mark_disconnected X L C c error s
      else if status = BRIDGE_STATUS_ATTACHED then
        (case s of (B, w) \<Rightarrow> (B, refresh_attachment X L C B w))
      else s)"
| "browser_message X L C c (FromResponse request_id ok payload number error) s =
     (case s of (B, w) \<Rightarrow> (complete_response request_id (browser_answer ok payload number error) B, w))"

datatype browser_event =
    Outbound "string option"
  | SourceEnds
  | SourceFails string
  | SourceYields ws_message

definition browser_select ::
    "ext \<Rightarrow> legacy \<Rightarrow> bridge_conf \<Rightarrow> nat \<Rightarrow> browser_event \<Rightarrow> bridge \<times> world \<Rightarrow> flow \<times> bridge \<times> world" where
  "browser_select X L C c ev s =
     (case ev of
        Outbound send_error \<Rightarrow>
          (case s of (B, w) \<Rightarrow>
          (case b_queue B c of
             [] \<Rightarrow> (if b_transport B = Some c then Goes else Breaks (Inr ()), B, w)
           | m # ms \<Rightarrow>
               let B1 = B\<lparr>b_queue := (b_queue B)(c := ms)\<rparr> in
               case x_json_compact X (enc_to_browser m) of
                 Inl e \<Rightarrow> (Returns (Inl (mk_err ServerError
                   (''Failed to serialize browser bridge request: '' @ e))), B1, w)
               | Inr encoded \<Rightarrow>
                   case send_error of
                     Some e \<Rightarrow> (Returns (Inl (mk_err ProcessNotRunning
                       (''Browser bridge send failed: '' @ e))), B1, w)
                   | None \<Rightarrow> (Goes, B1, sent_to c encoded w)))
      | SourceEnds \<Rightarrow> (Breaks (Inr ()), mark_disconnected X L C c None s)
      | SourceFails e \<Rightarrow>
          (Returns (Inl (mk_err ProcessNotRunning (''Browser bridge receive failed: '' @ e))), s)
      | SourceYields raw \<Rightarrow>
          if raw = WsClose then (Breaks (Inr ()), mark_disconnected X L C c None s)
          else case parse_bridge_message X raw of
            Inl e \<Rightarrow> (Returns (Inl e), s)
          | Inr message \<Rightarrow> (Goes, browser_message X L C c message s))"

text \<open>
  The end of a task drops its receiver. The question mark inside the loop returns from the
  function, past the \<open>mark_error\<close> that follows the loop.
\<close>

definition browser_round ::
    "ext \<Rightarrow> legacy \<Rightarrow> bridge_conf \<Rightarrow> nat \<Rightarrow> browser_event \<Rightarrow> bridge \<times> world
       \<Rightarrow> unit res option \<times> bridge \<times> world" where
  "browser_round X L C c ev s =
     (case browser_select X L C c ev s of
        (Goes, s') \<Rightarrow> (None, s')
      | (Returns r, B, w) \<Rightarrow> (Some r, close_connection c B, w)
      | (Breaks (Inr u), B, w) \<Rightarrow> (Some (Inr u), close_connection c B, w)
      | (Breaks (Inl e), s') \<Rightarrow>
          (case mark_error X L C c (err_message e) s' of (B, w) \<Rightarrow>
             (Some (Inl e), close_connection c B, w)))"

fun browser_loop ::
    "ext \<Rightarrow> legacy \<Rightarrow> bridge_conf \<Rightarrow> nat \<Rightarrow> browser_event list \<Rightarrow> bridge \<times> world
       \<Rightarrow> unit res option \<times> bridge \<times> world" where
  "browser_loop X L C c [] s = (None, s)"
| "browser_loop X L C c (ev # evs) s =
     (case browser_round X L C c ev s of
        (None, s') \<Rightarrow> browser_loop X L C c evs s'
      | (Some r, s') \<Rightarrow> (Some r, s'))"

definition handle_browser_bridge_connection ::
    "ext \<Rightarrow> legacy \<Rightarrow> bridge_conf \<Rightarrow> string option \<Rightarrow> hello_wait \<Rightarrow> browser_event list \<Rightarrow> bridge \<times> world
       \<Rightarrow> unit res option \<times> bridge \<times> world" where
  "handle_browser_bridge_connection X L C handshake_error hello evs s =
     (case browser_open X L C handshake_error hello s of
        (Inl e, s') \<Rightarrow> (Some (Inl e), s')
      | (Inr c, s') \<Rightarrow> browser_loop X L C c evs s')"

definition connection_failed :: "unit res option \<Rightarrow> world \<Rightarrow> world" where
  "connection_failed r w =
     (case r of
        Some (Inl e) \<Rightarrow> say (Stderr (''Browser bridge connection failed: '' @ err_message e)) w
      | _ \<Rightarrow> w)"

section \<open>The native host\<close>

datatype ending = Open | Closed | Broken string

definition read_native_host_exact :: "nat \<Rightarrow> string \<Rightarrow> ending \<Rightarrow> (string + string \<times> string) option" where
  "read_native_host_exact len s e =
     (if len \<le> length s then Some (Inr (take len s, drop len s))
      else case e of
        Open \<Rightarrow> None
      | Closed \<Rightarrow> Some (Inl ''native host stream closed'')
      | Broken t \<Rightarrow> Some (Inl t))"

text \<open>What the bytes so far make of a frame; \<open>None\<close> while more are needed.\<close>

definition read_native_host_frame :: "string \<Rightarrow> ending \<Rightarrow> (string \<times> string) res option" where
  "read_native_host_frame s e =
     (case read_native_host_exact 4 s e of
        None \<Rightarrow> None
      | Some (Inl t) \<Rightarrow> Some (Inl (mk_err ProcessNotRunning
          (''Failed reading native host frame header: '' @ t)))
      | Some (Inr (header, s1)) \<Rightarrow>
          let payload_length = le_value header in
          if payload_length = 0 \<or> payload_length > MAX_HELPER_PAYLOAD then
            Some (Inl (mk_err ProtoInvalidResponse ''Invalid native host frame size.''))
          else case read_native_host_exact payload_length s1 e of
            None \<Rightarrow> None
          | Some (Inl t) \<Rightarrow> Some (Inl (mk_err ProcessNotRunning
              (''Failed reading native host frame: '' @ t)))
          | Some (Inr (payload, s2)) \<Rightarrow> Some (Inr (payload, s2)))"

datatype write_outcome = WriteDone | HeaderFails string | PayloadFails string | FlushFails string

definition write_native_host_frame :: "write_outcome \<Rightarrow> string \<Rightarrow> string res" where
  "write_native_host_frame outcome payload =
     (if length payload > MAX_HELPER_PAYLOAD then
        Inl (mk_err InvalidParam ''Outgoing native host payload exceeds max size.'')
      else case outcome of
        HeaderFails e \<Rightarrow>
          Inl (mk_err ProcessNotRunning (''Failed writing native host frame header: '' @ e))
      | PayloadFails e \<Rightarrow> Inl (mk_err ProcessNotRunning (''Failed writing native host frame: '' @ e))
      | FlushFails e \<Rightarrow> Inl (mk_err ProcessNotRunning (''Failed flushing native host frame: '' @ e))
      | WriteDone \<Rightarrow> Inr (frame_bytes payload))"

definition verify_native_host_peer :: "ext \<Rightarrow> world \<Rightarrow> string + u32 \<Rightarrow> unit res" where
  "verify_native_host_peer X w peer =
     (if \<not> x_macos X then Inr ()
      else case peer of
        Inl e \<Rightarrow> Inl (mk_err ProcessNotRunning
          (''Failed to verify native host peer credentials: '' @ e))
      | Inr peer_uid \<Rightarrow>
          if peer_uid \<noteq> w_euid w then
            Inl (mk_err ProcessNotRunning ''Native host peer UID mismatch.'')
          else Inr ())"

text \<open>
  A connection: the bytes that the read in progress has taken, those still in the socket, and how
  the stream ends. When the other branch of \<open>select!\<close> completes, the read in progress is dropped
  with what it has taken.
\<close>

record native_conn =
  nc_id :: nat
  nc_taken :: string
  nc_socket :: string
  nc_end :: ending

datatype native_arrival =
    AcceptFails string
  | Accepted "string + u32" string ending

definition native_accept ::
    "ext \<Rightarrow> legacy \<Rightarrow> bridge_conf \<Rightarrow> (string \<Rightarrow> string) \<Rightarrow> native_arrival \<Rightarrow> bridge \<times> world
       \<Rightarrow> native_conn option \<times> bridge \<times> world" where
  "native_accept X L C D arrival = (\<lambda>(B, w).
     case arrival of
       AcceptFails e \<Rightarrow> (None, B, say (Stderr (''Failed accepting native host connection: '' @ e)) w)
     | Accepted peer s e \<Rightarrow>
     (case verify_native_host_peer X w peer of
        Inl er \<Rightarrow> (None, B, say (Stderr (err_message er)) w)
      | Inr _ \<Rightarrow>
     (case read_native_host_frame s e of
        None \<Rightarrow> (None, B, say (Stderr ''Timed out waiting for native host hello frame.'') w)
      | Some (Inl er) \<Rightarrow> (None, B, say (Stderr (err_message er)) w)
      | Some (Inr (hello, rest_bytes)) \<Rightarrow>
     (case decode_message X hello of
        None \<Rightarrow> (None, B, say (Stderr (''Malformed native host hello frame: '' @ D hello)) w)
      | Some (FromHello browser version) \<Rightarrow>
          let identity = unwrap_or browser version;
              c = b_connections B;
              (B1, w1) = attach X L C c identity (B\<lparr>b_connections := Suc c\<rparr>, w)
          in (Some \<lparr>nc_id = c, nc_taken = [], nc_socket = rest_bytes, nc_end = e\<rparr>, B1,
              say (Stderr (''APW native host attached ('' @ identity @ '').'')) w1)
      | Some _ \<Rightarrow> (None, B, say (Stderr ''Unexpected native host handshake message.'') w)))))"

fun native_answer :: "bool \<Rightarrow> json option \<Rightarrow> status option \<Rightarrow> string option \<Rightarrow> json res" where
  "native_answer True payload number error = Inr (unwrap_or JNull payload)"
| "native_answer False payload number error =
     Inl (mk_err (unwrap_or GenericError number) (unwrap_or ''Native host request failed.'' error))"

text \<open>Whether the connection goes on after a message.\<close>

fun native_message ::
    "ext \<Rightarrow> legacy \<Rightarrow> bridge_conf \<Rightarrow> nat \<Rightarrow> from_browser \<Rightarrow> bridge \<times> world \<Rightarrow> bool \<times> bridge \<times> world" where
  "native_message X L C c (FromHello browser version) s = (True, s)"
| "native_message X L C c (FromStatus status error) s =
     (if status = BRIDGE_STATUS_ERROR then
        (False, mark_error X L C c (unwrap_or ''Native host reported an unknown error.'' error) s)
      else if status = BRIDGE_STATUS_DISCONNECTED then (False, mark_disconnected X L C c error s)
      else (True, s))"
| "native_message X L C c (FromResponse request_id ok payload number error) s =
     (True, case s of (B, w) \<Rightarrow>
        (complete_response request_id (native_answer ok payload number error) B, w))"

datatype native_event =
    Arrives string
  | StreamEnds ending
  | ReadPolled
  | NativeOutbound write_outcome

definition native_round ::
    "ext \<Rightarrow> legacy \<Rightarrow> bridge_conf \<Rightarrow> (string \<Rightarrow> string) \<Rightarrow> native_event \<Rightarrow> native_conn \<Rightarrow> bridge \<times> world
       \<Rightarrow> native_conn option \<times> bridge \<times> world" where
  "native_round X L C D ev nc s =
     (let c = nc_id nc;
          ended = (\<lambda>(B, w). (None, close_connection c B, w)) in
      case ev of
        Arrives t \<Rightarrow> (Some (nc\<lparr>nc_socket := nc_socket nc @ t\<rparr>), s)
      | StreamEnds e \<Rightarrow> (Some (nc\<lparr>nc_end := e\<rparr>), s)
      | ReadPolled \<Rightarrow>
          (case read_native_host_frame (nc_taken nc @ nc_socket nc) (nc_end nc) of
             None \<Rightarrow> (Some (nc\<lparr>nc_taken := nc_taken nc @ nc_socket nc, nc_socket := []\<rparr>), s)
           | Some (Inl e) \<Rightarrow> ended (mark_disconnected X L C c (Some (err_message e)) s)
           | Some (Inr (payload, rest_bytes)) \<Rightarrow>
               (case decode_message X payload of
                  None \<Rightarrow>
                    ended (mark_error X L C c (''Malformed native host response: '' @ D payload) s)
                | Some message \<Rightarrow>
                    (case native_message X L C c message s of
                       (True, s') \<Rightarrow> (Some (nc\<lparr>nc_taken := [], nc_socket := rest_bytes\<rparr>), s')
                     | (False, s') \<Rightarrow> ended s')))
      | NativeOutbound outcome \<Rightarrow>
          (case s of (B, w) \<Rightarrow>
          (case b_queue B c of
             [] \<Rightarrow> (Some nc, s)
           | m # ms \<Rightarrow>
               let B1 = B\<lparr>b_queue := (b_queue B)(c := ms)\<rparr> in
               (case x_json_compact X (enc_to_browser m) of
                  Inl e \<Rightarrow>
                    ended (mark_error X L C c (''Failed to encode native host request: '' @ e) (B1, w))
                | Inr payload \<Rightarrow>
                    (case write_native_host_frame outcome payload of
                       Inl e \<Rightarrow> ended (mark_disconnected X L C c (Some (err_message e)) (B1, w))
                     | Inr frame_text \<Rightarrow> (Some (nc\<lparr>nc_taken := []\<rparr>), B1, sent_to c frame_text w))))))"

section \<open>All of them\<close>

text \<open>
  The tasks beside the request loop: whether the browser's listener still accepts, which browser
  connections are open, and the one native connection, as the native loop serves one at a time.
\<close>

record tasks =
  ts_bridge :: bridge
  ts_accepting :: bool
  ts_browsers :: "nat list"
  ts_native :: "native_conn option"

datatype task_event =
    ListenerFails string
  | BrowserConnects "string option" hello_wait
  | BrowserMeets nat browser_event
  | NativeConnects native_arrival
  | NativeMeets native_event

definition run_task ::
    "ext \<Rightarrow> legacy \<Rightarrow> bridge_conf \<Rightarrow> (string \<Rightarrow> string) \<Rightarrow> task_event \<Rightarrow> tasks \<times> world \<Rightarrow> tasks \<times> world" where
  "run_task X L C D ev = (\<lambda>(T, w).
     case ev of
       ListenerFails e \<Rightarrow> (T\<lparr>ts_accepting := False\<rparr>, w)
     | BrowserConnects handshake_error hello \<Rightarrow>
         if \<not> ts_accepting T then (T, w)
         else (case browser_open X L C handshake_error hello (ts_bridge T, w) of
           (Inl e, B, w') \<Rightarrow> (T\<lparr>ts_bridge := B\<rparr>, connection_failed (Some (Inl e)) w')
         | (Inr c, B, w') \<Rightarrow> (T\<lparr>ts_bridge := B, ts_browsers := c # ts_browsers T\<rparr>, w'))
     | BrowserMeets c bev \<Rightarrow>
         if c \<notin> set (ts_browsers T) then (T, w)
         else (case browser_round X L C c bev (ts_bridge T, w) of
           (None, B, w') \<Rightarrow> (T\<lparr>ts_bridge := B\<rparr>, w')
         | (Some r, B, w') \<Rightarrow>
             (T\<lparr>ts_bridge := B, ts_browsers := removeAll c (ts_browsers T)\<rparr>,
              connection_failed (Some r) w'))
     | NativeConnects arrival \<Rightarrow>
         if ts_native T \<noteq> None then (T, w)
         else (case native_accept X L C D arrival (ts_bridge T, w) of
           (nc, B, w') \<Rightarrow> (T\<lparr>ts_bridge := B, ts_native := nc\<rparr>, w'))
     | NativeMeets nev \<Rightarrow>
         (case ts_native T of
            None \<Rightarrow> (T, w)
          | Some nc \<Rightarrow>
              (case native_round X L C D nev nc (ts_bridge T, w) of
                 (nc', B, w') \<Rightarrow> (T\<lparr>ts_bridge := B, ts_native := nc'\<rparr>, w'))))"

definition run_tasks ::
    "ext \<Rightarrow> legacy \<Rightarrow> bridge_conf \<Rightarrow> (string \<Rightarrow> string) \<Rightarrow> task_event list \<Rightarrow> tasks \<times> world
       \<Rightarrow> tasks \<times> world" where
  "run_tasks X L C D = fold (run_task X L C D)"

definition new_tasks :: tasks where
  "new_tasks = \<lparr>ts_bridge = new_bridge, ts_accepting = True, ts_browsers = [], ts_native = None\<rparr>"

section \<open>A request\<close>

text \<open>\<open>evs\<close> is what the tasks do while the request waits.\<close>

definition enqueue_request ::
    "ext \<Rightarrow> legacy \<Rightarrow> bridge_conf \<Rightarrow> (string \<Rightarrow> string) \<Rightarrow> task_event list \<Rightarrow> string \<Rightarrow> tasks \<times> world
       \<Rightarrow> json res \<times> tasks \<times> world" where
  "enqueue_request X L C D evs request = (\<lambda>(T, w).
     case enqueue_start X L C request (ts_bridge T, w) of
       (Inl e, B, w1) \<Rightarrow> (Inl e, T\<lparr>ts_bridge := B\<rparr>, w1)
     | (Inr n, B, w1) \<Rightarrow>
         let (T2, w2) = run_tasks X L C D evs (T\<lparr>ts_bridge := B\<rparr>, w1);
             (answer, B3) = await_answer (bc_mode C) n (ts_bridge T2)
         in (answer, T2\<lparr>ts_bridge := B3\<rparr>, w2))"

end
