(* ===== verification/Bridge_Laws.thy ===== *)
theory Bridge_Laws
  imports Bridge_Tasks
begin

text \<open>
  The bridge under every interleaving of its tasks. A step is one critical section under the
  mutex, or one operation outside it: a sender that has been taken out of the map is in flight
  until its answer is sent. The invariant says that each request has one sender at most and is
  answered at most once; the handlers of \<open>Bridge_Tasks\<close> are shown to be runs of such steps.
\<close>

section \<open>Steps\<close>

type_synonym flight = "(nat \<times> json res) list"

definition doom :: "apw_error \<Rightarrow> (string \<times> nat) list \<Rightarrow> flight" where
  "doom e = map (\<lambda>(_, n). (n, Inl e))"

text \<open>The third component is history: the responses that connections have delivered.\<close>

type_synonym interleaved = "bridge \<times> flight \<times> (string \<times> json res) list"

inductive bridge_step :: "interleaved \<Rightarrow> interleaved \<Rightarrow> bool" where
  number_step: "bridge_step (B, D, H) (B\<lparr>b_connections := Suc (b_connections B)\<rparr>, D, H)"
| attach_step: "attach_locked c browser now B = (stale, B') \<Longrightarrow> c < b_connections B
    \<Longrightarrow> err_code e = ProcessNotRunning \<Longrightarrow> bridge_step (B, D, H) (B', doom e stale @ D, H)"
| mark_step: "mark_status_locked c status error B = Some (pending, B')
    \<Longrightarrow> status \<in> {BRIDGE_STATUS_DISCONNECTED, BRIDGE_STATUS_ERROR}
    \<Longrightarrow> err_code e = ProcessNotRunning \<Longrightarrow> bridge_step (B, D, H) (B', doom e pending @ D, H)"
| complete_step: "complete_locked request_id B = (taken, B')
    \<Longrightarrow> bridge_step (B, D, H) (B', (case taken of None \<Rightarrow> [] | Some n \<Rightarrow> [(n, r)]) @ D, (request_id, r) # H)"
| answer_step: "(n, r) \<in> set D \<Longrightarrow> bridge_step (B, D, H) (send_answer n r B, remove1 (n, r) D, H)"
| enqueue_step: "enqueue_locked (request_name (b_requests B)) (b_requests B) payload
      (B\<lparr>b_requests := Suc (b_requests B)\<rparr>) = (outcome, B') \<Longrightarrow> bridge_step (B, D, H) (B', D, H)"
| timeout_step: "b_tickets B n = Waiting
    \<Longrightarrow> bridge_step (B, D, H) (B\<lparr>b_tickets := (b_tickets B)(n := Abandoned)\<rparr>, D, H)"
| outbound_step: "b_queue B c = m # ms
    \<Longrightarrow> bridge_step (B, D, H) (B\<lparr>b_queue := (b_queue B)(c := ms)\<rparr>, D, H)"
| close_step: "bridge_step (B, D, H) (close_connection c B, D, H)"

definition reachable :: "interleaved \<Rightarrow> bool" where
  "reachable = bridge_step\<^sup>*\<^sup>* (new_bridge, [], [])"

section \<open>The invariant\<close>

lemma request_name_inj: "request_name m = request_name n \<longleftrightarrow> m = n"
  by (metis append_same_eq digits_value_show request_name_def same_append_eq)

definition holders :: "bridge \<times> flight \<Rightarrow> nat list" where
  "holders s = map snd (b_pending (fst s)) @ map fst (snd s)"

definition named :: "bridge \<Rightarrow> bool" where
  "named B \<longleftrightarrow> (\<forall>(k, n) \<in> set (b_pending B). k = request_name n)"

definition ticket_ok :: "bridge \<times> flight \<Rightarrow> nat \<Rightarrow> bool" where
  "ticket_ok s n \<longleftrightarrow>
     b_tickets (fst s) n \<noteq> Dropped
     \<and> (b_tickets (fst s) n = Waiting \<longrightarrow> n \<in> set (holders s))
     \<and> (n \<in> set (holders s) \<longrightarrow> n < b_requests (fst s) \<and> b_tickets (fst s) n \<in> {Waiting, Abandoned})
     \<and> (b_requests (fst s) \<le> n \<longrightarrow> b_tickets (fst s) n = Unissued)"

definition connection_ok :: "bridge \<Rightarrow> bool" where
  "connection_ok B \<longleftrightarrow>
     b_active B = b_transport B
     \<and> (sn_status (b_snapshot B) = BRIDGE_STATUS_ATTACHED \<longleftrightarrow> b_transport B \<noteq> None)
     \<and> (b_transport B = None \<longrightarrow> b_pending B = [])
     \<and> (case b_transport B of None \<Rightarrow> True | Some c \<Rightarrow> c < b_connections B)"

definition bridge_inv :: "bridge \<times> flight \<Rightarrow> bool" where
  "bridge_inv s \<longleftrightarrow> distinct (holders s) \<and> named (fst s) \<and> (\<forall>n. ticket_ok s n) \<and> connection_ok (fst s)"

lemmas inv_parts = bridge_inv_def ticket_ok_def connection_ok_def named_def

lemma holders_doom [simp]: "map fst (doom e pending) = map snd pending"
  by (induction pending) (auto simp: doom_def)

lemma delete_absent: "map_of ps k = None \<Longrightarrow> AList.delete k ps = ps"
  by (induction ps) (auto split: if_splits)

lemma update_absent: "map_of ps k = None \<Longrightarrow> AList.update k v ps = ps @ [(k, v)]"
  by (induction ps) (auto split: if_splits)

lemma delete_appended: "map_of ps k = None \<Longrightarrow> AList.delete k (ps @ [(k, v)]) = ps"
  by (induction ps) (auto split: if_splits)

lemma delete_holders:
  assumes "\<forall>(k, n) \<in> set ps. k = request_name n" "distinct (map snd ps)" "map_of ps k = Some n"
  shows "set (map snd (AList.delete k ps)) = set (map snd ps) - {n}"
    and "distinct (map snd (AList.delete k ps))"
proof -
  have k: "k = request_name n" using assms(1) map_of_SomeD [OF assms(3)] by auto
  show "set (map snd (AList.delete k ps)) = set (map snd ps) - {n}"
    using assms(1) by (force simp: AList.delete_eq k request_name_inj)
  show "distinct (map snd (AList.delete k ps))"
    using assms(2) by (simp add: AList.delete_eq distinct_map_filter)
qed

lemma named_fresh: "named B \<Longrightarrow> \<forall>n. ticket_ok (B, D) n \<Longrightarrow> map_of (b_pending B) (request_name (b_requests B)) = None"
proof (rule ccontr)
  assume named: "named B" and ok: "\<forall>n. ticket_ok (B, D) n"
    and "map_of (b_pending B) (request_name (b_requests B)) \<noteq> None"
  then obtain n where n: "(request_name (b_requests B), n) \<in> set (b_pending B)"
    by (meson map_of_SomeD not_None_eq)
  then have "n = b_requests B" using named by (auto simp: named_def request_name_inj)
  with n have "b_requests B \<in> set (holders (B, D))" by (force simp: holders_def)
  with ok show False by (auto simp: ticket_ok_def)
qed

section \<open>It is kept\<close>

text \<open>Senders that only change hands.\<close>

lemma bridge_inv_moved:
  assumes "bridge_inv (B, D)" "distinct (holders (B', D'))" "set (holders (B', D')) = set (holders (B, D))"
    "b_tickets B' = b_tickets B" "b_requests B' = b_requests B" "named B'" "connection_ok B'"
  shows "bridge_inv (B', D')"
  using assms by (simp add: bridge_inv_def ticket_ok_def)

lemma attach_keeps:
  assumes "bridge_inv (B, D)" "attach_locked c browser now B = (stale, B')" "c < b_connections B"
  shows "bridge_inv (B', doom e stale @ D)"
proof (rule bridge_inv_moved [OF assms(1)])
  show "connection_ok B'" using assms(2,3) by (auto simp: attach_locked_def connection_ok_def)
qed (use assms(1,2) in \<open>auto simp: attach_locked_def holders_def named_def bridge_inv_def\<close>)

lemma mark_keeps:
  assumes inv: "bridge_inv (B, D)" and run: "mark_status_locked c status error B = Some (pending, B')"
    and ends: "status \<in> {BRIDGE_STATUS_DISCONNECTED, BRIDGE_STATUS_ERROR}"
  shows "bridge_inv (B', doom e pending @ D)"
proof (rule bridge_inv_moved [OF inv])
  have "b_pending B' = []" "pending = b_pending B" "b_tickets B' = b_tickets B"
    "b_requests B' = b_requests B" "b_transport B' = None" "b_active B' = None"
    "sn_status (b_snapshot B') = status"
    using run ends by (auto simp: mark_status_locked_def Let_def split: if_splits)
  then show "distinct (holders (B', doom e pending @ D))"
    "set (holders (B', doom e pending @ D)) = set (holders (B, D))"
    "b_tickets B' = b_tickets B" "b_requests B' = b_requests B" "named B'" "connection_ok B'"
    using ends inv by (auto simp: holders_def named_def connection_ok_def bridge_statuses bridge_inv_def)
qed

lemma complete_keeps:
  assumes inv: "bridge_inv (B, D)" and "complete_locked request_id B = (taken, B')"
  shows "bridge_inv (B', (case taken of None \<Rightarrow> [] | Some n \<Rightarrow> [(n, r)]) @ D)"
proof (cases "map_of (b_pending B) request_id")
  case None
  then show ?thesis using assms by (auto simp: complete_locked_def delete_absent)
next
  case (Some n)
  note gone = delete_holders [OF _ _ Some]
  have taken: "taken = Some n" and B': "B' = B\<lparr>b_pending := AList.delete request_id (b_pending B)\<rparr>"
    using assms(2) Some by (auto simp: complete_locked_def)
  have n: "n \<in> set (map snd (b_pending B))" using map_of_SomeD [OF Some] by force
  have parts: "\<forall>(k, n) \<in> set (b_pending B). k = request_name n" "distinct (map snd (b_pending B))"
    "distinct (map fst D)" "set (map snd (b_pending B)) \<inter> set (map fst D) = {}"
    using inv by (auto simp: bridge_inv_def named_def holders_def)
  have dist: "distinct (holders (B', (n, r) # D))"
    using gone [OF parts(1,2)] parts(3,4) n by (auto simp: holders_def B')
  have "set (holders (B', (n, r) # D)) = set (holders (B, D))"
    using gone(1) [OF parts(1,2)] n by (auto simp: holders_def B')
  then have "bridge_inv (B', (n, r) # D)"
    using inv parts(1) dist by (intro bridge_inv_moved [OF inv])
      (auto simp: B' named_def AList.delete_eq bridge_inv_def connection_ok_def split: option.splits)
  then show ?thesis by (simp add: taken)
qed

lemma remove1_flight:
  assumes "distinct (map fst D)" "(n, r) \<in> set D"
  shows "set (map fst (remove1 (n, r) D)) = set (map fst D) - {n}" "distinct (map fst (remove1 (n, r) D))"
  using assms by (induction D) (auto simp: image_iff)

lemma answer_keeps:
  assumes inv: "bridge_inv (B, D)" and mem: "(n, r) \<in> set D"
  shows "bridge_inv (send_answer n r B, remove1 (n, r) D)"
proof -
  have parts: "distinct (map snd (b_pending B))" "distinct (map fst D)"
    "set (map snd (b_pending B)) \<inter> set (map fst D) = {}"
    using inv by (auto simp: bridge_inv_def holders_def)
  note gone = remove1_flight [OF parts(2) mem]
  have n: "n \<in> set (map fst D)" using mem by force
  have fields: "b_pending (send_answer n r B) = b_pending B" "b_requests (send_answer n r B) = b_requests B"
    "b_tickets (send_answer n r B) =
       (if b_tickets B n = Waiting then (b_tickets B)(n := Answered r) else b_tickets B)"
    by (simp_all add: send_answer_def)
  have held: "set (holders (send_answer n r B, remove1 (n, r) D)) = set (holders (B, D)) - {n}"
    using gone(1) parts(3) n by (auto simp: holders_def fields)
  have "distinct (holders (send_answer n r B, remove1 (n, r) D))"
    using gone parts by (auto simp: holders_def fields)
  moreover have "named (send_answer n r B)"
    using inv by (simp add: bridge_inv_def named_def fields)
  moreover have "ticket_ok (send_answer n r B, remove1 (n, r) D) m" for m
  proof -
    have "n \<in> set (holders (B, D))" using n by (simp add: holders_def)
    moreover have "ticket_ok (B, D) m" "ticket_ok (B, D) n" using inv by (simp_all add: bridge_inv_def)
    ultimately show ?thesis by (auto simp: ticket_ok_def held fields)
  qed
  moreover have "connection_ok (send_answer n r B)"
    using inv by (simp add: bridge_inv_def connection_ok_def send_answer_def split: option.splits)
  ultimately show ?thesis by (simp add: bridge_inv_def)
qed

lemma enqueue_keeps:
  assumes inv: "bridge_inv (B, D)" and run: "enqueue_locked (request_name (b_requests B)) (b_requests B) payload
      (B\<lparr>b_requests := Suc (b_requests B)\<rparr>) = (outcome, B')"
  shows "bridge_inv (B', D)"
proof -
  have new: "map_of (b_pending B) (request_name (b_requests B)) = None"
    using inv named_fresh by (auto simp: bridge_inv_def)
  have unissued: "b_tickets B (b_requests B) = Unissued" "b_requests B \<notin> set (holders (B, D))"
    using inv by (auto simp: bridge_inv_def ticket_ok_def)
  have later: "ticket_ok (B\<lparr>b_requests := Suc (b_requests B)\<rparr>, D) m" for m
    using inv unissued by (auto simp: bridge_inv_def ticket_ok_def holders_def)
  show ?thesis
  proof (cases "outcome = Sent (b_requests B)")
    case True
    then have B': "b_pending B' = b_pending B @ [(request_name (b_requests B), b_requests B)]"
      "b_tickets B' = (b_tickets B)(b_requests B := Waiting)" "b_requests B' = Suc (b_requests B)"
      "connection_ok B'"
      using run new inv by (auto simp: enqueue_locked_def insert_pending_def update_absent Let_def
          bridge_inv_def connection_ok_def split: option.splits if_splits)
    have "ticket_ok (B', D) m" for m
      using later [of m] unissued by (auto simp: ticket_ok_def holders_def B')
    then show ?thesis
      using inv unissued B' by (auto simp: bridge_inv_def named_def holders_def)
  next
    case False
    then have B': "b_pending B' = b_pending B" "b_tickets B' = b_tickets B"
      "b_requests B' = Suc (b_requests B)" "connection_ok B'"
      using run new inv by (auto simp: enqueue_locked_def insert_pending_def update_absent delete_appended
          Let_def bridge_inv_def connection_ok_def split: option.splits if_splits)
    have "ticket_ok (B', D) m" for m using later [of m] by (auto simp: ticket_ok_def holders_def B')
    then show ?thesis using inv B' by (auto simp: bridge_inv_def named_def holders_def)
  qed
qed

definition own :: "(string \<times> json res) list \<Rightarrow> nat \<Rightarrow> json res \<Rightarrow> bool" where
  "own H n r \<longleftrightarrow> (request_name n, r) \<in> set H \<or> (\<exists>e. r = Inl e \<and> err_code e = ProcessNotRunning)"

definition answers_own :: "interleaved \<Rightarrow> bool" where
  "answers_own = (\<lambda>(B, D, H). \<forall>n r. (n, r) \<in> set D \<or> b_tickets B n = Answered r \<longrightarrow> own H n r)"

lemma own_head: "own ((request_name n, r) # H) n r"
  by (simp add: own_def)

lemma own_failed: "err_code e = ProcessNotRunning \<Longrightarrow> own H n (Inl e)"
  by (simp add: own_def)

lemma own_later: "own H n r \<Longrightarrow> own (x # H) n r"
  by (auto simp: own_def)

lemma doom_answers [simp]: "(n, r) \<in> set (doom e ps) \<longleftrightarrow> n \<in> set (map snd ps) \<and> r = Inl e"
  by (force simp: doom_def image_iff)

lemma timeout_keeps:
  assumes "bridge_inv (B, D)" "b_tickets B n = Waiting"
  shows "bridge_inv (B\<lparr>b_tickets := (b_tickets B)(n := Abandoned)\<rparr>, D)"
  using assms by (auto simp: inv_parts holders_def)

lemma connection_keeps:
  assumes "bridge_inv (B, D)"
  shows "bridge_inv (B\<lparr>b_connections := Suc (b_connections B)\<rparr>, D)"
    and "bridge_inv (B\<lparr>b_queue := q\<rparr>, D)" and "bridge_inv (close_connection c B, D)"
  using assms by (auto simp: inv_parts holders_def close_connection_def split: option.splits)

lemma bridge_step_keeps:
  assumes "bridge_step s s'" "bridge_inv (fst s, fst (snd s))"
  shows "bridge_inv (fst s', fst (snd s'))"
  using assms by (induction rule: bridge_step.induct)
    (simp_all add: attach_keeps mark_keeps complete_keeps answer_keeps enqueue_keeps timeout_keeps connection_keeps)

lemma bridge_step_own:
  assumes "bridge_step s s'" "bridge_inv (fst s, fst (snd s))" "answers_own s"
  shows "answers_own s'"
  using assms
proof (induction rule: bridge_step.induct)
  case (complete_step request_id B taken B' D H r)
  have "request_id = request_name n" if "taken = Some n" for n
    using that complete_step map_of_SomeD [of "b_pending B" request_id n]
    by (auto simp: complete_locked_def bridge_inv_def named_def)
  moreover have "b_tickets B' = b_tickets B" using complete_step(1) by (auto simp: complete_locked_def)
  ultimately show ?case using complete_step(3)
    by (auto simp: answers_own_def own_later own_head split: option.splits)
next
  case (enqueue_step B payload outcome B' D H)
  have "b_tickets B' n = Answered r \<Longrightarrow> b_tickets B n = Answered r" for n r
    using enqueue_step(1) by (auto simp: enqueue_locked_def insert_pending_def Let_def split: option.splits if_splits)
  then show ?case using enqueue_step(3) by (auto simp: answers_own_def)
next
  case (answer_step n r D B H)
  then show ?case by (auto simp: answers_own_def send_answer_def dest: notin_set_remove1 set_remove1_subset [THEN subsetD])
next
  case (attach_step c browser now B stale B' e D H)
  then show ?case by (auto simp: answers_own_def own_failed attach_locked_def)
next
  case (mark_step c status error B pending B' e D H)
  then have "b_tickets B' = b_tickets B" by (auto simp: mark_status_locked_def Let_def split: if_splits)
  then show ?case using mark_step by (auto simp: answers_own_def own_failed)
qed (auto simp: answers_own_def close_connection_def)

lemma bridge_inv_new: "bridge_inv (new_bridge, [])"
  by (simp add: inv_parts holders_def new_bridge_def default_snapshot_def bridge_statuses)

lemma reachable_inv:
  assumes "reachable (B, D, H)"
  shows "bridge_inv (B, D)" and "answers_own (B, D, H)"
proof -
  have "bridge_step\<^sup>*\<^sup>* (new_bridge, [], []) s \<Longrightarrow> bridge_inv (fst s, fst (snd s)) \<and> answers_own s" for s
  proof (induction rule: rtranclp_induct)
    case base
    then show ?case by (simp add: bridge_inv_new) (simp add: answers_own_def new_bridge_def)
  qed (blast intro: bridge_step_keeps bridge_step_own)
  from this [OF assms [unfolded reachable_def]] show "bridge_inv (B, D)" "answers_own (B, D, H)" by simp_all
qed

lemma reachable_trans: "reachable s \<Longrightarrow> bridge_step\<^sup>*\<^sup>* s s' \<Longrightarrow> reachable s'"
  by (simp add: reachable_def)

end
