(* ===== verification/Bridge_Runs.thy ===== *)
theory Bridge_Runs
  imports Bridge_Laws Samples
begin

text \<open>
  The handlers of the connections are runs of bridge steps: whatever they do, the bridge stays in
  reachable states. From this the properties of the bridge as a whole follow.
\<close>

section \<open>Runs\<close>

text \<open>\<open>runs B H B'\<close>: steps lead from \<open>B\<close> to \<open>B'\<close>, with nothing in flight before or after.\<close>

definition runs :: "bridge \<Rightarrow> bridge \<Rightarrow> bool" where
  "runs B B' \<longleftrightarrow> (\<forall>H. \<exists>H'. bridge_step\<^sup>*\<^sup>* (B, [], H) (B', [], H'))"

lemma runs_refl [simp]: "runs B B"
  by (auto simp: runs_def)

lemma runs_trans [trans]: "runs A B \<Longrightarrow> runs B C \<Longrightarrow> runs A C"
  unfolding runs_def by (meson rtranclp_trans)

lemma runs_step: "(\<And>H. bridge_step\<^sup>*\<^sup>* (B, [], H) (B', [], H)) \<Longrightarrow> runs B B'"
  by (auto simp: runs_def)

lemma runs_reachable:
  assumes "reachable (B, [], H)" "runs B B'"
  obtains H' where "reachable (B', [], H')"
  using assms(2) reachable_trans [OF assms(1)] unfolding runs_def by blast

lemma fail_pending_steps: "bridge_step\<^sup>*\<^sup>* (B, doom e ps @ D, H) (fail_pending ps e B, D, H)"
proof (induction ps arbitrary: B)
  case Nil
  then show ?case by (simp add: doom_def fail_pending_def)
next
  case (Cons p ps)
  have "bridge_step (B, doom e (p # ps) @ D, H) (send_answer (snd p) (Inl e) B, doom e ps @ D, H)"
    using answer_step [of "snd p" "Inl e" "doom e (p # ps) @ D" B H]
    by (cases p) (simp add: doom_def)
  also have "bridge_step\<^sup>*\<^sup>* \<dots> (fail_pending (p # ps) e B, D, H)"
    using Cons.IH [of "send_answer (snd p) (Inl e) B"] by (simp add: fail_pending_def case_prod_beta)
  finally show ?case .
qed

lemma attach_runs: "c < b_connections (fst s) \<Longrightarrow> runs (fst s) (fst (attach X L C c browser s))"
proof (rule runs_step)
  fix H
  assume c: "c < b_connections (fst s)"
  obtain B w where s: "s = (B, w)" by (cases s)
  obtain stale B1 where locked: "attach_locked c browser (x_rfc3339_show X (w_now w)) B = (stale, B1)"
    by (cases "attach_locked c browser (x_rfc3339_show X (w_now w)) B")
  have "bridge_step (B, [], H) (B1, doom (replaced_error (bc_mode C)) stale @ [], H)"
    using c by (intro attach_step [OF locked]) (simp_all add: s replaced_error_def)
  also have "bridge_step\<^sup>*\<^sup>* \<dots> (fail_pending stale (replaced_error (bc_mode C)) B1, [], H)"
    by (rule fail_pending_steps)
  finally show "bridge_step\<^sup>*\<^sup>* (fst s, [], H) (fst (attach X L C c browser s), [], H)"
    by (simp add: attach_def s locked Let_def)
qed

lemma mark_runs:
  assumes "mark_status_locked c status error B = Some (pending, B')"
    "status \<in> {BRIDGE_STATUS_DISCONNECTED, BRIDGE_STATUS_ERROR}" "err_code e = ProcessNotRunning"
  shows "runs B (fail_pending pending e B')"
proof (rule runs_step)
  fix H
  have "bridge_step (B, [], H) (B', doom e pending @ [], H)" using assms by (rule mark_step)
  also have "bridge_step\<^sup>*\<^sup>* \<dots> (fail_pending pending e B', [], H)" by (rule fail_pending_steps)
  finally show "bridge_step\<^sup>*\<^sup>* (B, [], H) (fail_pending pending e B', [], H)" .
qed

lemma mark_error_runs: "runs (fst s) (fst (mark_error X L C c error s))"
  using mark_runs [of c BRIDGE_STATUS_ERROR "Some error" "fst s" _ _ "mk_err ProcessNotRunning error"]
  by (cases s) (auto simp: mark_error_def mark_status_def split: option.splits)

lemma mark_disconnected_runs: "runs (fst s) (fst (mark_disconnected X L C c error s))"
  by (cases s) (auto simp: mark_disconnected_def mark_status_def case_prod_beta Let_def
      intro!: mark_runs split: option.splits)

lemma complete_runs: "runs B (complete_response request_id r B)"
  unfolding runs_def
proof
  fix H
  obtain taken B1 where locked: "complete_locked request_id B = (taken, B1)"
    by (cases "complete_locked request_id B")
  have first: "bridge_step (B, [], H) (B1, (case taken of None \<Rightarrow> [] | Some n \<Rightarrow> [(n, r)]) @ [], (request_id, r) # H)"
    using locked by (rule complete_step)
  show "\<exists>H'. bridge_step\<^sup>*\<^sup>* (B, [], H) (complete_response request_id r B, [], H')"
  proof (cases taken)
    case None
    then show ?thesis using first locked by (auto simp: complete_response_def)
  next
    case (Some n)
    have "bridge_step (B, [], H) (B1, [(n, r)], (request_id, r) # H)"
      using first Some by simp
    moreover have "bridge_step (B1, [(n, r)], (request_id, r) # H) (send_answer n r B1, [], (request_id, r) # H)"
      using answer_step [of n r "[(n, r)]" B1] by simp
    ultimately have "bridge_step\<^sup>*\<^sup>* (B, [], H) (send_answer n r B1, [], (request_id, r) # H)"
      by (blast intro: converse_rtranclp_into_rtranclp)
    then show ?thesis using locked Some by (auto simp: complete_response_def)
  qed
qed

lemma close_runs: "runs B (close_connection c B)"
  by (rule runs_step) (blast intro: close_step)

lemma closed_runs: "runs A B \<Longrightarrow> runs A (close_connection c B)"
  by (rule runs_trans [OF _ close_runs])

lemma outbound_runs: "b_queue B c = m # ms \<Longrightarrow> runs B (B\<lparr>b_queue := (b_queue B)(c := ms)\<rparr>)"
  by (rule runs_step) (blast intro: outbound_step)

lemma number_runs: "runs B (B\<lparr>b_connections := Suc (b_connections B)\<rparr>)"
  by (rule runs_step) (blast intro: number_step)

lemma await_runs: "runs B (snd (await_answer mode n B))"
  by (cases "b_tickets B n") (auto simp: await_answer_def Let_def intro!: runs_step timeout_step)

section \<open>The handlers\<close>

lemma browser_open_runs: "runs (fst s) (fst (snd (browser_open X L C handshake_error hello s)))"
proof (cases s)
  case (Pair B w)
  let ?B1 = "B\<lparr>b_connections := Suc (b_connections B)\<rparr>"
  note first = number_runs [of B]
  have "runs B (close_connection c ?B1)" for c using first by (rule closed_runs)
  moreover have "runs B (fst (attach X L C (b_connections B) browser (?B1, w)))" for browser
    using runs_trans [OF first attach_runs [of "b_connections B" "(?B1, w)", simplified]] by simp
  moreover have "runs B (close_connection c (fst (mark_error X L C c error (?B1, w))))" for c error
    using runs_trans [OF runs_trans [OF first mark_error_runs [of "(?B1, w)", simplified]] close_runs] .
  ultimately show ?thesis
    by (auto simp: Pair browser_open_def Let_def case_prod_beta split: option.splits sum.splits from_browser.splits)
qed

lemma browser_message_runs: "runs (fst s) (fst (browser_message X L C c message s))"
  by (cases message; cases s)
    (auto simp: mark_error_runs [of "(_, _)", simplified] mark_disconnected_runs [of "(_, _)", simplified]
      complete_runs)

lemma browser_select_runs: "runs (fst s) (fst (snd (browser_select X L C c ev s)))"
  by (cases s)
    (auto simp: browser_select_def Let_def mark_disconnected_runs [of "(_, _)", simplified] outbound_runs
      browser_message_runs [of "(_, _)", simplified]
      split: browser_event.splits list.splits sum.splits option.splits)

lemma browser_round_runs: "runs (fst s) (fst (snd (browser_round X L C c ev s)))"
proof -
  obtain f B w where run: "browser_select X L C c ev s = (f, B, w)" by (metis prod_cases3)
  have first: "runs (fst s) B" using browser_select_runs [of s X L C c ev] by (simp add: run)
  have "runs (fst s) (close_connection c B)" using first by (rule closed_runs)
  moreover have "runs (fst s) (close_connection c (fst (mark_error X L C c error (B, w))))" for error
    using runs_trans [OF runs_trans [OF first mark_error_runs [of "(B, w)", simplified]] close_runs] .
  ultimately show ?thesis using first
    by (auto simp: browser_round_def run case_prod_beta split: flow.splits sum.splits)
qed

lemma native_accept_runs: "runs (fst s) (fst (snd (native_accept X L C D arrival s)))"
proof (cases s)
  case (Pair B w)
  let ?B1 = "B\<lparr>b_connections := Suc (b_connections B)\<rparr>"
  have "runs ?B1 (fst (attach X L C (b_connections B) browser (?B1, w)))" for browser
    using attach_runs [of "b_connections B" "(?B1, w)"] by simp
  from runs_trans [OF number_runs this]
  have "runs B (fst (attach X L C (b_connections B) browser (?B1, w)))" for browser .
  then show ?thesis
    by (auto simp: Pair native_accept_def Let_def case_prod_beta
        split: native_arrival.splits option.splits sum.splits from_browser.splits)
qed

lemma native_message_runs: "runs (fst s) (fst (snd (native_message X L C c message s)))"
  by (cases message; cases s)
    (auto simp: mark_error_runs [of "(_, _)", simplified] mark_disconnected_runs [of "(_, _)", simplified]
      complete_runs)

lemma native_round_runs: "runs (fst s) (fst (snd (native_round X L C D ev nc s)))"
proof (cases s)
  case (Pair B w)
  note err = mark_error_runs [of "(_, _)", simplified] and dis = mark_disconnected_runs [of "(_, _)", simplified]
  have "runs B (fst (mark_error X L C c e (B\<lparr>b_queue := (b_queue B)(c := ms)\<rparr>, w)))"
    "runs B (fst (mark_disconnected X L C c t (B\<lparr>b_queue := (b_queue B)(c := ms)\<rparr>, w)))"
    if "b_queue B c = m # ms" for c m ms e t
    using runs_trans [OF outbound_runs [OF that] err] runs_trans [OF outbound_runs [OF that] dis] by simp_all
  then show ?thesis
    using native_message_runs [of s X L C "nc_id nc"] closed_runs err dis outbound_runs
    by (auto simp: Pair native_round_def Let_def case_prod_beta
        split: native_event.splits option.splits sum.splits list.splits bool.splits)
qed

lemma enqueue_start_runs: "runs (fst s) (fst (snd (enqueue_start X L C request s)))"
proof (cases s)
  case (Pair B w)
  have "runs B B'" if "enqueue_locked (request_name (b_requests B)) (b_requests B) payload
      (B\<lparr>b_requests := Suc (b_requests B)\<rparr>) = (outcome, B')" for payload outcome B'
    by (rule runs_step) (blast intro: enqueue_step [OF that])
  then have "runs B (snd (enqueue_locked (request_name (b_requests B)) (b_requests B) payload
      (B\<lparr>b_requests := Suc (b_requests B)\<rparr>)))" for payload
    by (metis prod.collapse)
  then show ?thesis
    by (auto simp: Pair enqueue_start_def Let_def case_prod_beta split: sum.splits prod.splits enqueued.splits)
qed

lemma run_task_runs: "runs (ts_bridge T) (ts_bridge (fst (run_task X L C D ev (T, w))))"
  using browser_open_runs [of "(ts_bridge T, w)" X L C] browser_round_runs [of "(ts_bridge T, w)" X L C]
    native_accept_runs [of "(ts_bridge T, w)" X L C D] native_round_runs [of "(ts_bridge T, w)" X L C D]
  by (force simp: run_task_def case_prod_beta split: task_event.splits option.splits sum.splits)

lemma run_tasks_runs: "runs (ts_bridge (fst s)) (ts_bridge (fst (run_tasks X L C D evs s)))"
proof (induction evs arbitrary: s)
  case (Cons ev evs)
  have "runs (ts_bridge (fst s)) (ts_bridge (fst (run_task X L C D ev s)))"
    using run_task_runs [of "fst s" X L C D ev "snd s"] by simp
  then show ?case using Cons.IH [of "run_task X L C D ev s"]
    by (simp add: run_tasks_def) (rule runs_trans)
qed (simp add: run_tasks_def)

lemma enqueue_runs: "runs (ts_bridge (fst s)) (ts_bridge (fst (snd (enqueue_request X L C D evs request s))))"
proof (cases s)
  case (Pair T w)
  obtain a B w1 where start: "enqueue_start X L C request (ts_bridge T, w) = (a, B, w1)" by (metis prod_cases3)
  have first: "runs (ts_bridge T) B"
    using enqueue_start_runs [of "(ts_bridge T, w)" X L C request] by (simp add: start)
  have "runs B (ts_bridge (fst (run_tasks X L C D evs (T\<lparr>ts_bridge := B\<rparr>, w1))))"
    using run_tasks_runs [of "(T\<lparr>ts_bridge := B\<rparr>, w1)"] by simp
  from runs_trans [OF runs_trans [OF first this] await_runs] first show ?thesis
    by (auto simp: Pair enqueue_request_def start case_prod_beta Let_def split: sum.splits)
qed

lemma bridge_answers_once_holder:
  "reachable (B, D, H) \<Longrightarrow> b_tickets B n = Waiting \<Longrightarrow> n \<in> set (map snd (b_pending B) @ map fst D)"
  using reachable_inv(1) [of B D H] by (auto simp: bridge_inv_def ticket_ok_def holders_def)

lemma bridge_attached:
  "reachable (B, D, H) \<Longrightarrow> sn_status (b_snapshot B) = BRIDGE_STATUS_ATTACHED \<longleftrightarrow> b_transport B \<noteq> None"
  using reachable_inv(1) [of B D H] by (auto simp: bridge_inv_def connection_ok_def)

section \<open>An example\<close>

text \<open>Chrome has attached as connection 1 and request 1 waits.\<close>

definition sample_attached :: bridge where
  "sample_attached = snd (attach_locked 1 ''Chrome'' [] (new_bridge\<lparr>b_connections := 2\<rparr>))"

definition sample_bridge :: bridge where
  "sample_bridge = snd (enqueue_locked (request_name 1) 1 JNull (sample_attached\<lparr>b_requests := 2\<rparr>))"

definition sample_conf :: bridge_conf where
  "sample_conf = \<lparr>bc_host = ''127.0.0.1'', bc_port = 10000, bc_mode = ModeBrowser\<rparr>"

definition sample_legacy :: legacy where
  "sample_legacy = \<lparr>l_mode_of = (\<lambda>_. ModeBrowser), l_mode_json = (\<lambda>_. JNull), l_mode_written = (\<lambda>_. Auto)\<rparr>"

lemma sample_facts:
  "b_requests sample_attached = 1" "b_tickets sample_bridge 1 = Waiting"
  "b_pending sample_bridge = [(request_name 1, 1)]" "b_active sample_bridge = Some 1"
  by (simp_all add: sample_bridge_def sample_attached_def attach_locked_def enqueue_locked_def
      new_bridge_def insert_pending_def Let_def)

lemmas sample_waits = sample_facts(2) and sample_pending = sample_facts(3) and sample_active = sample_facts(4)

lemma sample_reachable: "reachable (sample_bridge, [], [])"
proof -
  have "bridge_step (new_bridge, [], []) (new_bridge\<lparr>b_connections := 2\<rparr>, [], [])"
    using number_step [of new_bridge "[]" "[]"] by (simp add: new_bridge_def numeral_2_eq_2)
  moreover have "bridge_step (new_bridge\<lparr>b_connections := 2\<rparr>, [], []) (sample_attached, doom no_error [] @ [], [])"
    if "err_code no_error = ProcessNotRunning" for no_error
    by (rule attach_step [of 1 "''Chrome''" "[]"])
      (simp_all add: that sample_attached_def attach_locked_def new_bridge_def)
  from this [of "mk_err ProcessNotRunning []"]
  have "bridge_step (new_bridge\<lparr>b_connections := 2\<rparr>, [], []) (sample_attached, [], [])"
    by (simp add: doom_def)
  moreover have "bridge_step (sample_attached, [], []) (sample_bridge, [], [])"
    by (rule enqueue_step [of _ JNull "fst (enqueue_locked (request_name 1) 1 JNull (sample_attached\<lparr>b_requests := 2\<rparr>))"])
      (simp add: sample_facts(1) sample_bridge_def numeral_2_eq_2)
  ultimately show ?thesis
    unfolding reachable_def by (meson converse_rtranclp_into_rtranclp r_into_rtranclp)
qed

section \<open>Properties\<close>

text \<open>What a session of the daemon does: tasks and requests in any order.\<close>

datatype session_event = Task task_event | Request "task_event list" string

fun session ::
    "ext \<Rightarrow> legacy \<Rightarrow> bridge_conf \<Rightarrow> (string \<Rightarrow> string) \<Rightarrow> session_event list \<Rightarrow> tasks \<times> world \<Rightarrow> tasks \<times> world" where
  "session X L C D [] s = s"
| "session X L C D (Task ev # evs) s = session X L C D evs (run_task X L C D ev s)"
| "session X L C D (Request meanwhile request # evs) s =
     session X L C D evs (snd (enqueue_request X L C D meanwhile request s))"

text \<open>C21: Every session refines the step relation: the bridge it leaves is reachable by critical
  sections and single sends, with no answer still to be sent.\<close>

theorem session_refines_steps:
  "\<exists>H. reachable (ts_bridge (fst (session X L C D evs (new_tasks, w))), [], H)"
proof -
  have "runs (ts_bridge (fst s)) (ts_bridge (fst (session X L C D evs s)))" for s
  proof (induction evs arbitrary: s)
    case (Cons ev evs)
    show ?case
    proof (cases ev)
      case (Task t)
      then show ?thesis
        using runs_trans [OF run_task_runs [of "fst s" X L C D t "snd s"] Cons.IH] by simp
    next
      case (Request m r)
      then show ?thesis using runs_trans [OF enqueue_runs [of s X L C D m r] Cons.IH] by simp
    qed
  qed simp
  from this [of "(new_tasks, w)"] show ?thesis
    by (force simp: runs_def new_tasks_def reachable_def)
qed

text \<open>C20: In every reachable state of the bridge the senders, pending or in flight, are distinct;
  a request that waits has a sender and one that has its answer has none, so it is answered at
  most once; no sender is dropped unanswered; the stored status is \<open>attached\<close> exactly while there
  is a transport, and without one nothing is pending.\<close>

theorem bridge_answers_once:
  assumes "reachable (B, D, H)"
  shows "distinct (map snd (b_pending B) @ map fst D)
    \<and> (b_tickets B n = Waiting \<longrightarrow> n \<in> set (map snd (b_pending B) @ map fst D))
    \<and> (b_tickets B n = Answered r \<longrightarrow> n \<notin> set (map snd (b_pending B) @ map fst D))
    \<and> b_tickets B n \<noteq> Dropped
    \<and> (sn_status (b_snapshot B) = BRIDGE_STATUS_ATTACHED \<longleftrightarrow> b_transport B \<noteq> None)
    \<and> (b_transport B = None \<longrightarrow> b_pending B = [])"
  using reachable_inv(1) [OF assms]
  by (auto simp: bridge_inv_def ticket_ok_def connection_ok_def holders_def)

theorem bridge_answers_once_witness:
  "b_tickets sample_bridge 1 = Waiting \<and> 1 \<in> set (map snd (b_pending sample_bridge))"
  using bridge_answers_once [OF sample_reachable, of 1 "Inr JNull"] sample_waits by simp

text \<open>C19: A request that has an answer has one that a connection delivered in a response with the
  request's own number, or one that tells that the process is not running; a payload is always of
  the first kind.\<close>

theorem bridge_answers_match:
  assumes "reachable (B, D, H)" "b_tickets B n = Answered r"
  shows "(request_name n, r) \<in> set H \<or> (\<exists>e. r = Inl e \<and> err_code e = ProcessNotRunning)"
  using reachable_inv(2) [OF assms(1)] assms(2) by (auto simp: answers_own_def own_def)

theorem bridge_answers_match_witness:
  "\<exists>H. reachable (complete_response (request_name 1) (Inr JNull) sample_bridge, [], H)
     \<and> (request_name 1, Inr JNull) \<in> set H"
proof -
  obtain H where reach: "reachable (complete_response (request_name 1) (Inr JNull) sample_bridge, [], H)"
    using runs_reachable [OF sample_reachable complete_runs] by blast
  have "b_tickets (complete_response (request_name 1) (Inr JNull) sample_bridge) 1 = Answered (Inr JNull)"
    using sample_waits sample_pending by (simp add: complete_response_def complete_locked_def send_answer_def)
  from bridge_answers_match [OF reach this] reach show ?thesis by auto
qed

lemma fail_pending_answers:
  "b_tickets (fail_pending ps e B) n =
     (if b_tickets B n = Waiting \<and> n \<in> set (map snd ps) then Answered (Inl e) else b_tickets B n)"
proof (induction ps arbitrary: B)
  case (Cons p ps)
  then show ?case by (cases p) (auto simp: fail_pending_def send_answer_def)
qed (simp add: fail_pending_def)

lemma waiting_pending:
  assumes "reachable (B, [], H)" "b_tickets B n = Waiting"
  shows "n \<in> set (map snd (b_pending B))"
  using bridge_answers_once_holder [OF assms(1)] assms(2) by simp



section \<open>Limits of the bridge\<close>

text \<open>
  The \<open>?\<close> inside the loop: when receiving from the browser fails, the requests stay pending and the
  bridge stays \<open>attached\<close>, and the next request is refused as disconnected.
\<close>

lemma failed_receive_stays_attached:
  assumes "reachable (B, [], H)" "b_transport B = Some c" "b_tickets B n = Waiting"
    and "browser_round X L C c (SourceFails e) (B, w) = (r, B', w')"
  shows "\<exists>err. r = Some (Inl err)" "w' = w" "b_tickets B' n = Waiting"
    "sn_status (b_snapshot B') = BRIDGE_STATUS_ATTACHED"
    "fst (enqueue_locked (request_name m) m v B') = Refused BRIDGE_STATUS_DISCONNECTED"
  using assms bridge_attached [OF assms(1)]
  by (auto simp: browser_round_def browser_select_def close_connection_def enqueue_locked_def
      insert_pending_def Let_def)

text \<open>A response is not tied to the connection it comes from.\<close>

lemma response_of_any_connection:
  "browser_message X L C c (FromResponse k ok v number e) s
     = browser_message X L C c' (FromResponse k ok v number e) s"
  by simp

text \<open>The extension names the member \<open>requestId\<close>; the daemon reads and writes \<open>request_id\<close>.\<close>

lemma camel_case_response_refused:
  "dec_from_browser (JObject [(''type'', JString ''response''), (''requestId'', JString k),
     (''ok'', JBool ok), (''payload'', v)]) = None"
  by (simp add: dec_from_browser_def hits_def dec_response_def response_fields_def)

end
