(* ===== verification/Helper_Laws.thy ===== *)
theory Helper_Laws
  imports Helper_Process Samples
begin

text \<open>
  The helper: probing the back ends leaves no process behind but the one it returns, and the
  preflight report agrees with what reading the manifest does.
\<close>

section \<open>Probing\<close>

lemma probe_backends_tally:
  assumes "probe_backends X H path dry_run bs ls le t w = ((found, ctx), t', w')"
  shows "t_started t' + t_killed t = t_killed t' + t_started t + (if found = None then 0 else 1)
    \<and> t_started t' \<le> t_started t + length bs
    \<and> (dry_run \<longrightarrow> found = None)
    \<and> (found \<noteq> None \<longrightarrow> lc_status ctx = HELPER_LAUNCH_OK)
    \<and> (lc_status ctx = HELPER_LAUNCH_OK \<longleftrightarrow> lc_error ctx = None)"
  using assms
proof (induction bs arbitrary: ls le t w)
  case Nil
  then show ?case by (auto simp: HELPER_LAUNCH_FAILED_def HELPER_LAUNCH_OK_def)
next
  case (Cons b bs)
  obtain started w1 where launch: "launch X H b path w = (started, w1)" by (cases "launch X H b path w")
  show ?case
  proof (cases started)
    case (Inl e)
    then show ?thesis using Cons by (fastforce simp: launch)
  next
    case (Inr h)
    obtain r h1 where ready: "readiness X h = (r, h1)" by (cases "readiness X h")
    show ?thesis
    proof (cases r)
      case (Inr u)
      then show ?thesis using Cons.prems \<open>started = Inr h\<close>
        by (auto simp: launch ready Let_def HELPER_LAUNCH_OK_def split: if_splits)
    next
      case (Inl e)
      obtain msg h2 where "resolve_probe_failure_message (err_message e) h1 = (msg, h2)"
        by (cases "resolve_probe_failure_message (err_message e) h1")
      then show ?thesis using Cons.prems Inl \<open>started = Inr h\<close>
          Cons.IH [of "strategy b" "Some msg" "t\<lparr>t_started := Suc (t_started t), t_killed := Suc (t_killed t)\<rparr>" w1]
        by (auto simp: launch ready Let_def)
    qed
  qed
qed

text \<open>C27: Probing starts at most two helper processes and has killed all but the one it returns, which
  it does in no dry run; the launch is reported as \<open>ok\<close> exactly when no error is.\<close>

theorem probe_leaves_none_behind:
  assumes "probe_helper_launch X H m mode dry_run t w = ((found, ctx), t', w')"
  shows "t_started t' + t_killed t = t_killed t' + t_started t + (if found = None then 0 else 1)
    \<and> t_started t' \<le> t_started t + 2
    \<and> (dry_run \<longrightarrow> found = None)
    \<and> (found \<noteq> None \<longrightarrow> lc_status ctx = HELPER_LAUNCH_OK)
    \<and> (lc_status ctx = HELPER_LAUNCH_OK \<longleftrightarrow> lc_error ctx = None)"
proof (cases "mode = ModeDisabled")
  case True
  then show ?thesis using assms
    by (auto simp: probe_helper_launch_def HELPER_LAUNCH_DISABLED_def HELPER_LAUNCH_OK_def)
next
  case False
  then have run: "probe_backends X H (mf_path m) dry_run (backend_selection mode)
      HELPER_LAUNCH_FAILED None t w = ((found, ctx), t', w')"
    using assms by (simp add: probe_helper_launch_def)
  have "length (backend_selection mode) \<le> 2" by (cases mode) simp_all
  then show ?thesis using probe_backends_tally [OF run] by linarith
qed

text \<open>Two helpers that end at once: both back ends are tried, both processes are killed.\<close>

definition dead_process :: helper_process where
  "dead_process = \<lparr>hp_wait = (\<lambda>_. ExitedWith (ExitCode 1)), hp_write_error = (\<lambda>_. None),
     hp_output = (\<lambda>_. []), hp_late = (\<lambda>_. []), hp_dry = (\<lambda>_. Stalls)\<rparr>"

definition dead_helpers :: helpers where
  "dead_helpers = \<lparr>hx_spawn = (\<lambda>_ _. Inr dead_process)\<rparr>"

definition sample_manifest :: manifest_config where
  "sample_manifest = \<lparr>mf_name = ''n'', mf_description = ''d'', mf_path = ''/h/helper'', mf_type = ''stdio'',
     mf_allowed_origins = []\<rparr>"

theorem probe_leaves_none_behind_witness:
  "\<exists>found ctx t' w'. probe_helper_launch (sample_ext []) dead_helpers sample_manifest ModeAuto False
       \<lparr>t_started = 0, t_killed = 0\<rparr> (sample_world []) = ((found, ctx), t', w')
     \<and> t_started t' = t_killed t' + (if found = None then 0 else 1) \<and> t_started t' \<le> 2"
proof -
  obtain found ctx t' w' where run: "probe_helper_launch (sample_ext []) dead_helpers sample_manifest ModeAuto False
       \<lparr>t_started = 0, t_killed = 0\<rparr> (sample_world []) = ((found, ctx), t', w')"
    by (metis surj_pair)
  from probe_leaves_none_behind [OF run] run show ?thesis by auto
qed

section \<open>The manifest\<close>

lemma to_value_distinct: "to_value v = JObject kvs \<Longrightarrow> distinct (map fst kvs)"
proof -
  have sorted: "sorted_wrt (<) (map fst acc) \<Longrightarrow>
      sorted_wrt (<) (map fst (fold (\<lambda>(k, v). ins k v) xs acc))" for xs acc :: "(string \<times> json) list"
    by (induction xs arbitrary: acc) (auto simp: sorted_ins)
  assume "to_value v = JObject kvs"
  then have "sorted_wrt (<) (map fst kvs)" using sorted [of "[]"] by (cases v) auto
  then show ?thesis using strict_sorted_iff by blast
qed

lemma those_strings: "list_all (\<lambda>j. as_str j \<noteq> None) js \<Longrightarrow> \<exists>ts. those (map as_str js) = Some ts"
  by (induction js) (auto split: option.splits)

lemma hits_either: "map_of kvs a = None \<or> map_of kvs b = None \<Longrightarrow> distinct (map fst kvs) \<Longrightarrow>
    hits kvs [a, b] = (case or_else (map_of kvs a) (map_of kvs b) of None \<Rightarrow> [] | Some v \<Rightarrow> [v])"
proof (elim disjE)
  have swap: "hits kvs [a, b] = hits kvs [b, a]" by (simp add: hits_def insert_commute)
  assume "distinct (map fst kvs)"
  then show "map_of kvs a = None \<Longrightarrow> ?thesis" "map_of kvs b = None \<Longrightarrow> ?thesis"
    using hits_skip [of kvs a b] hits_skip [of kvs b a] swap
    by (auto simp: hits_distinct split: option.splits)
qed

lemma dec_manifest_ok:
  assumes d: "distinct (map fst kvs)" and ok: "is_manifest (JObject kvs)"
    and one: "map_of kvs ''allowedOrigins'' = None \<or> map_of kvs ''allowed_extensions'' = None"
  shows "\<exists>mf. dec_manifest (JObject kvs) = Some mf \<and> get_str ''path'' (JObject kvs) = Some (mf_path mf)"
proof -
  obtain n de pa ki os where parts:
    "map_of kvs ''name'' = Some (JString n)" "map_of kvs ''description'' = Some (JString de)"
    "map_of kvs ''path'' = Some (JString pa)" "map_of kvs ''type'' = Some (JString ki)"
    "or_else (map_of kvs ''allowedOrigins'') (map_of kvs ''allowed_extensions'') = Some (JArray os)"
    "list_all (\<lambda>j. as_str j \<noteq> None) os"
    using ok by (auto simp: is_manifest_def get_str_def allowed_origins_of_def bind_eq_Some_conv
        split: option.splits if_splits)
  obtain ts where ts: "those (map as_str os) = Some ts" using those_strings [OF parts(6)] by blast
  show ?thesis
    using hits_either [OF one d] parts ts
    by (simp add: dec_manifest_def manifest_fields_def hits_distinct [OF d] Let_def dflt_def dec_vec_def get_str_def)
qed

lemma hits_both:
  assumes "map_of kvs a = Some x" "map_of kvs b = Some y" "a \<noteq> b"
  shows "\<not> length (hits kvs [a, b]) \<le> 1"
proof -
  let ?f = "filter (\<lambda>(k, v). k \<in> set [a, b]) kvs"
  have "{(a, x), (b, y)} \<subseteq> set ?f" using assms(1,2) by (auto dest: map_of_SomeD)
  then have "card {(a, x), (b, y)} \<le> card (set ?f)" by (intro card_mono) simp_all
  also have "\<dots> \<le> length ?f" by (rule card_length)
  finally show ?thesis using assms(3) by (simp add: hits_def)
qed

lemma dec_manifest_cases:
  assumes "distinct (map fst kvs)" "is_manifest (JObject kvs)"
  shows "(dec_manifest (JObject kvs) = None \<and> map_of kvs ''allowedOrigins'' \<noteq> None
        \<and> map_of kvs ''allowed_extensions'' \<noteq> None)
    \<or> (\<exists>mf. dec_manifest (JObject kvs) = Some mf \<and> get_str ''path'' (JObject kvs) = Some (mf_path mf))"
proof (cases "map_of kvs ''allowedOrigins'' = None \<or> map_of kvs ''allowed_extensions'' = None")
  case True
  then show ?thesis using dec_manifest_ok [OF assms] by blast
next
  case False
  then show ?thesis using hits_both [of kvs "''allowedOrigins''" _ "''allowed_extensions''"]
    by (force simp: dec_manifest_def manifest_fields_def)
qed

text \<open>C28: The preflight report on the manifest tells what reading it will do. A reported error is the
  message of the error that reading ends with; \<open>ready\<close> means that reading succeeds and the
  binary it names can be executed, except for a manifest with both spellings of its list of origins.\<close>

theorem preflight_agrees:
  assumes "x_macos X" "inspect_manifest_preflight X w = (report, status, error)"
  shows "(case error of
      Some m \<Rightarrow> status \<noteq> ''ready'' \<and> (\<exists>c. read_manifest X w = Inl (mk_err c m))
    | None \<Rightarrow> status = ''ready'' \<and>
        (case read_manifest X w of
           Inr mf \<Rightarrow> is_executable X w (mf_path mf) \<and> \<not> unexpected_binary (mf_path mf)
         | Inl e \<Rightarrow> e = malformed_manifest
             \<and> (\<exists>path s v. find (path_exists X w) MANIFEST_PATHS = Some path
                 \<and> read_to_string X w path = Inr s \<and> x_json_parse X s = Inr v
                 \<and> get ''allowedOrigins'' (to_value v) \<noteq> None \<and> get ''allowed_extensions'' (to_value v) \<noteq> None)))"
proof (cases "find (path_exists X w) MANIFEST_PATHS")
  case None
  then show ?thesis using assms by (auto simp: inspect_manifest_preflight_def read_manifest_def)
next
  case (Some path)
  then have safe: "is_safe_manifest_path path" by (auto simp: is_safe_manifest_path_def find_Some_iff)
  note defs = inspect_manifest_preflight_def read_manifest_def
  show ?thesis
  proof (cases "read_to_string X w path")
    case (Inl e)
    then show ?thesis using assms Some safe by (auto simp: defs)
  next
    case (Inr s)
    show ?thesis
    proof (cases "x_json_parse X s")
      case (Inl e)
      then show ?thesis using assms Some safe Inr by (auto simp: defs malformed_manifest_def)
    next
      case parsed: (Inr v)
      show ?thesis
      proof (cases "is_manifest (to_value v)")
        case False
        then show ?thesis using assms Some safe Inr parsed by (auto simp: defs malformed_manifest_def)
      next
        case True
        then obtain kvs p where kvs: "to_value v = JObject kvs" and p: "get_str ''path'' (to_value v) = Some p"
          by (cases "to_value v") (auto simp: is_manifest_def split: option.splits if_splits)
        show ?thesis
          using assms Some safe Inr parsed True p
            dec_manifest_cases [OF to_value_distinct [OF kvs] True [unfolded kvs]] kvs
          by (auto simp: defs Let_def split: if_splits option.splits sum.splits)
      qed
    qed
  qed
qed

text \<open>A Mac with a helper of mode 0755 and a manifest that names it.\<close>

definition manifest_doc :: json where
  "manifest_doc = JObject [(''allowedOrigins'', JArray [JString ''o'']), (''description'', JString ''d''),
     (''name'', JString ''n''), (''path'', JString ''/h''), (''type'', JString ''stdio'')]"

definition mac_ext :: ext where
  "mac_ext = (sample_ext [(''m'', manifest_doc)])\<lparr>x_macos := True\<rparr>"

definition mac_world :: world where
  "mac_world = sample_world
     [(''/Library/Application Support/Mozilla/NativeMessagingHosts/com.apple.passwordmanager.json'', sample_file ''m''),
      (''/h'', (sample_file [])\<lparr>i_mode := 0x1ED\<rparr>)]"

lemma mac_texts: "utf8_valid ''m''" "\<not> contains ''/h'' ''..''"
  by code_simp+

lemma mac_ready: "inspect_manifest_preflight mac_ext mac_world =
    (fst (inspect_manifest_preflight mac_ext mac_world), ''ready'', None)"
  by (simp add: inspect_manifest_preflight_def MANIFEST_PATHS_def path_exists_def stat_def read_to_string_def
      read_bytes_def mac_ext_def mac_world_def manifest_doc_def is_manifest_def get_str_def allowed_origins_of_def
      unexpected_binary_def is_absolute_unix_path_def is_executable_def executable_file_def Let_def mac_texts)

theorem preflight_agrees_witness:
  "x_macos mac_ext \<and> (\<exists>mf. read_manifest mac_ext mac_world = Inr mf \<and> is_executable mac_ext mac_world (mf_path mf))"
proof -
  have mac: "x_macos mac_ext" by (simp add: mac_ext_def)
  have "find (path_exists mac_ext mac_world) MANIFEST_PATHS = Some (hd MANIFEST_PATHS)"
    by (simp add: MANIFEST_PATHS_def path_exists_def stat_def mac_ext_def mac_world_def)
  moreover have "read_to_string mac_ext mac_world (hd MANIFEST_PATHS) = Inr ''m''"
    by (simp add: MANIFEST_PATHS_def stat_def read_to_string_def read_bytes_def mac_ext_def mac_world_def mac_texts)
  moreover have "get ''allowed_extensions'' (to_value manifest_doc) = None"
    by (simp add: manifest_doc_def)
  ultimately show ?thesis
    using preflight_agrees [OF mac mac_ready] mac by (auto simp: mac_ext_def split: sum.splits)
qed

end
