(* ===== verification/Daemon.thy ===== *)
theory Daemon
  imports Bridge_Tasks
begin

text \<open>
  The request loops of the archived daemon and how it starts (\<open>legacy/rust-src/daemon.rs\<close>). What
  arrives on the UDP socket is a list of datagrams; the loop ends when receiving fails, with the
  error \<open>end\<close>, so a daemon that runs on is seen through the prefixes of its input. A datagram
  comes with what the bridge's tasks do before it arrives and while it waits for its answer.
\<close>

definition MAX_FRAME_SIZE :: nat where
  "MAX_FRAME_SIZE = 4 + MAX_HELPER_PAYLOAD"

record daemon_options =
  do_port :: u16
  do_host :: string
  do_mode :: legacy_mode
  do_dry_run :: bool

record datagram =
  dg_before :: "task_event list"
  dg_peer :: string
  dg_bytes :: string
  dg_during :: "task_event list"

text \<open>\<open>recv_from\<close> cuts off what does not fit into the buffer.\<close>

definition received :: "datagram \<Rightarrow> string" where
  "received g = take MAX_FRAME_SIZE (dg_bytes g)"

definition receive_failed :: "string \<Rightarrow> apw_error" where
  "receive_failed e = mk_err GenericError (''Daemon receive failed: '' @ e)"

definition send_ignoring ::
    "ext \<Rightarrow> net \<Rightarrow> string \<Rightarrow> status \<Rightarrow> json option \<Rightarrow> string option \<Rightarrow> world \<Rightarrow> world" where
  "send_ignoring X N peer status payload error w = snd (send_envelope_to_client X N peer status payload error w)"

definition refuse_large :: "ext \<Rightarrow> net \<Rightarrow> string \<Rightarrow> world \<Rightarrow> world" where
  "refuse_large X N peer = send_ignoring X N peer InvalidParam None (Some ''Request too large.'')"

section \<open>Over the bridge\<close>

definition answer_client :: "ext \<Rightarrow> net \<Rightarrow> string \<Rightarrow> json res \<Rightarrow> world \<Rightarrow> world" where
  "answer_client X N peer result =
     (case result of
        Inr payload \<Rightarrow> send_ignoring X N peer Success (Some payload) None
      | Inl e \<Rightarrow> send_ignoring X N peer (err_code e) None (Some (err_message e)))"

definition serve_bridged ::
    "ext \<Rightarrow> legacy \<Rightarrow> net \<Rightarrow> bridge_conf \<Rightarrow> (string \<Rightarrow> string) \<Rightarrow> datagram \<Rightarrow> tasks \<times> world \<Rightarrow> tasks \<times> world" where
  "serve_bridged X L N C D g s =
     (case run_tasks X L C D (dg_before g) s of (T, w) \<Rightarrow>
        if length (received g) > MAX_HELPER_PAYLOAD then (T, refuse_large X N (dg_peer g) w)
        else case enqueue_request X L C D (dg_during g) (received g) (T, w) of
          (answer, T1, w1) \<Rightarrow>
            (T1, answer_client X N (dg_peer g) (bind_res answer parse_helper_response_shape) w1))"

definition serve_bridge ::
    "ext \<Rightarrow> legacy \<Rightarrow> net \<Rightarrow> bridge_conf \<Rightarrow> (string \<Rightarrow> string) \<Rightarrow> datagram list \<Rightarrow> string \<Rightarrow> tasks \<times> world
       \<Rightarrow> unit res \<times> world" where
  "serve_bridge X L N C D gs end_error s =
     (Inl (receive_failed end_error), snd (fold (serve_bridged X L N C D) gs s))"

text \<open>What the daemon meets: the datagrams, how receiving ends, the texts of decoding errors, and
  what the tasks do between two looks at the bridge while the native daemon starts.\<close>

record surroundings =
  su_datagrams :: "datagram list"
  su_end :: string
  su_decode_error :: "string \<Rightarrow> string"
  su_startup :: "task_event list list"

definition bind_failed :: "string \<Rightarrow> string \<Rightarrow> apw_error" where
  "bind_failed what e = mk_err GenericError (what @ e)"

definition start_browser_daemon_inner ::
    "ext \<Rightarrow> legacy \<Rightarrow> net \<Rightarrow> surroundings \<Rightarrow> daemon_options \<Rightarrow> string \<Rightarrow> unit io" where
  "start_browser_daemon_inner X L N S opts host w0 =
     (case n_bind_tcp N w0 host (do_port opts) of
        Inl e \<Rightarrow> (Inl (bind_failed ''Failed to bind browser bridge socket: '' e), w0)
      | Inr bound \<Rightarrow>
     (case n_local_addr N w0 bound of
        Inl e \<Rightarrow> (Inl (bind_failed ''Unable to resolve browser bridge address: '' e), w0)
      | Inr listener_port \<Rightarrow>
     (case n_bind_udp N w0 host listener_port of
        Inl e \<Rightarrow> (Inl (bind_failed ''Failed to bind UDP socket: '' e), w0)
      | Inr _ \<Rightarrow>
          let input = persistence_for_browser L host listener_port (do_mode opts)
                BRIDGE_STATUS_WAITING None None None in
          if do_dry_run opts then bind_io (write_config X input) (\<lambda>_. ret ()) w0
          else bind_io (write_config X (input\<lparr>wi_clear_auth := True\<rparr>)) (\<lambda>_ w.
            serve_bridge X L N
              \<lparr>bc_host = host, bc_port = listener_port, bc_mode = do_mode opts\<rparr>
              (su_decode_error S) (su_datagrams S) (su_end S)
              (new_tasks, say (Stderr (''APW daemon listening on '' @ show_nat (unat listener_port)
                @ '' (browser mode). Load the APW Chrome bridge extension. After `apw status --json` reports `bridge.status=attached`, run `apw auth`.'')) w)) w0)))"

definition persist_native_waiting :: "ext \<Rightarrow> legacy \<Rightarrow> string \<Rightarrow> u16 \<Rightarrow> legacy_mode \<Rightarrow> unit io" where
  "persist_native_waiting X L host port mode =
     bind_io (write_config X (default_write_input
       \<lparr>wi_port := Some port, wi_host := Some host, wi_allow_empty := True, wi_clear_auth := True,
        wi_runtime_mode := Some (l_mode_written L mode),
        wi_bridge_status := Some BRIDGE_STATUS_WAITING, wi_bridge_browser := Some ''native'',
        wi_bridge_connected_at := None, wi_bridge_last_error := None,
        wi_reset_launch_metadata := True, wi_reset_bridge_metadata := True\<rparr>)) (\<lambda>_. ret ())"

text \<open>The bridge is looked at, then the tasks go on for 50 ms, until 5 s are over.\<close>

fun await_attached ::
    "ext \<Rightarrow> legacy \<Rightarrow> bridge_conf \<Rightarrow> (string \<Rightarrow> string) \<Rightarrow> task_event list list \<Rightarrow> tasks \<times> world
       \<Rightarrow> bool \<times> tasks \<times> world" where
  "await_attached X L C D [] s =
     (sn_status (b_snapshot (ts_bridge (fst s))) = BRIDGE_STATUS_ATTACHED, s)"
| "await_attached X L C D (evs # later) s =
     (if sn_status (b_snapshot (ts_bridge (fst s))) = BRIDGE_STATUS_ATTACHED then (True, s)
      else await_attached X L C D later (run_tasks X L C D evs s))"

definition requested_port :: "daemon_options \<Rightarrow> u16" where
  "requested_port opts = (if do_port opts = 0 then 10000 else do_port opts)"

definition native_refused :: "ext \<Rightarrow> legacy \<Rightarrow> string \<Rightarrow> unit io" where
  "native_refused X L base w =
     (case native_host_failure_message X L base w of (m, w') \<Rightarrow> (Inl (mk_err ProcessNotRunning m), w'))"

definition bind_native_socket :: "ext \<Rightarrow> net \<Rightarrow> unit io" where
  "bind_native_socket X N w0 =
     (let path = native_host_socket_path w0;
          w = (if path_exists X w0 path then ignore (fs_remove_file X path) w0 else w0)
      in case n_bind_unix N w path of
           Some e \<Rightarrow>
             (Inl (bind_failed (''Failed to bind native host socket at '' @ path @ '': '') e), w)
         | None \<Rightarrow> (Inr (), put_inode path (Some (new_inode KSocket 0x1ED w [])) w))"

definition serve_native ::
    "ext \<Rightarrow> legacy \<Rightarrow> net \<Rightarrow> surroundings \<Rightarrow> bridge_conf \<Rightarrow> unit io" where
  "serve_native X L N S C w =
     (case await_attached X L C (su_decode_error S) (su_startup S) (new_tasks, w) of
        (False, T, w1) \<Rightarrow>
          native_refused X L ''APW native host did not attach before startup timed out.''
            (ignore (fs_remove_file X (native_host_socket_path w1)) w1)
      | (True, T, w1) \<Rightarrow>
          serve_bridge X L N C (su_decode_error S) (su_datagrams S) (su_end S)
            (T, say (Stderr (''APW daemon listening on '' @ show_nat (unat (bc_port C))
              @ '' (native mode). Run `apw host install` if needed. After `apw status --json` reports `host.status=attached`, run `apw auth`.'')) w1))"

definition start_native_daemon_inner ::
    "ext \<Rightarrow> legacy \<Rightarrow> net \<Rightarrow> surroundings \<Rightarrow> daemon_options \<Rightarrow> string \<Rightarrow> unit io" where
  "start_native_daemon_inner X L N S opts host w0 =
     (if \<not> x_macos X then native_refused X L ''APW native host is supported only on macOS.'' w0
      else
        let (preflight, w1) = native_host_preflight_status X L (do_mode opts) w0 in
        if status_of preflight \<noteq> ''ready'' then
          native_refused X L ''APW native host is not installed or not ready.'' w1
        else
          bind_io (ensure_native_host_runtime_dir X) (\<lambda>_.
          bind_io (bind_native_socket X N) (\<lambda>_ w.
            case n_bind_udp N w host (requested_port opts) of
              Inl e \<Rightarrow> (Inl (bind_failed ''Failed to bind UDP socket: '' e), w)
            | Inr _ \<Rightarrow>
                bind_io (persist_native_waiting X L host (requested_port opts) (do_mode opts)) (\<lambda>_.
                  if do_dry_run opts then ret ()
                  else serve_native X L N S
                    \<lparr>bc_host = host, bc_port = requested_port opts, bc_mode = do_mode opts\<rparr>) w)) w1)"

section \<open>Over the helper\<close>

text \<open>The \<open>async\<close> block of a request; a late answer leaves its bytes to the next one.\<close>

definition helper_exchange ::
    "ext \<Rightarrow> net \<Rightarrow> string \<Rightarrow> string \<Rightarrow> helper \<times> world \<Rightarrow> unit res \<times> helper \<times> world" where
  "helper_exchange X N peer request = (\<lambda>(h, w).
     case write_frame request h of
       (Inl e, h1) \<Rightarrow> (Inl e, h1, w)
     | (Inr _, h1) \<Rightarrow>
     (case read_frame h1 of
       (TimedOut, h2) \<Rightarrow> (Inl (mk_err CommunicationTimeout ''Command output timeout.''), h2, w)
     | (ReadFailed e, h2) \<Rightarrow> (Inl e, h2, w)
     | (Got bytes, h2) \<Rightarrow>
         (case bind_res (parse_helper_payload X bytes) parse_helper_response_shape of
            Inl e \<Rightarrow> (Inl e, h2, w)
          | Inr framed \<Rightarrow>
              (case send_envelope_to_client X N peer Success (Some framed) None w of
                 (r, w1) \<Rightarrow> (r, h2, w1)))))"

definition mapped_failure :: "apw_error \<Rightarrow> helper \<times> world \<Rightarrow> apw_error \<times> helper \<times> world" where
  "mapped_failure error = (\<lambda>(h, w).
     case check_helper_status h of
       (Inr (Some s), h1) \<Rightarrow>
         (report_termination_if_any s, h1, say (Stderr (helper_termination_message s)) w)
     | (Inr None, h1) \<Rightarrow>
         if err_code error = ProcessNotRunning then
           (case resolve_probe_failure_message (err_message error) h1 of
              (m, h2) \<Rightarrow> (mk_err ProcessNotRunning m, h2, w))
         else (error, h1, w)
     | (Inl _, h1) \<Rightarrow> (error, h1, w))"

definition helper_failed ::
    "ext \<Rightarrow> legacy \<Rightarrow> net \<Rightarrow> bridge_conf \<Rightarrow> string \<Rightarrow> string \<Rightarrow> apw_error \<Rightarrow> helper \<times> world \<Rightarrow> helper \<times> world" where
  "helper_failed X L N C launch_strategy peer error s =
     (case mapped_failure error s of
        (mapped, h, w) \<Rightarrow>
          if err_code mapped = ProcessNotRunning then
            let w1 = (case write_config X (persistence_for_launch_error L (bc_host C) (bc_port C)
                    (bc_mode C) launch_strategy (err_message mapped)) w of
                  (Inr _, w') \<Rightarrow> w'
                | (Inl e, w') \<Rightarrow>
                    say (Stderr (''Failed to persist helper launch status: '' @ err_message e)) w')
            in (h, send_ignoring X N peer ProcessNotRunning None (Some (err_message mapped)) w1)
          else (h, send_ignoring X N peer (err_code mapped) None (Some (err_message mapped)) w))"

definition serve_helped ::
    "ext \<Rightarrow> legacy \<Rightarrow> net \<Rightarrow> bridge_conf \<Rightarrow> string \<Rightarrow> datagram \<Rightarrow> helper \<times> world \<Rightarrow> helper \<times> world" where
  "serve_helped X L N C launch_strategy g = (\<lambda>(h, w).
     if length (received g) > MAX_HELPER_PAYLOAD then (h, refuse_large X N (dg_peer g) w)
     else case helper_exchange X N (dg_peer g) (received g) (h, w) of
       (Inr _, s) \<Rightarrow> s
     | (Inl e, s) \<Rightarrow> helper_failed X L N C launch_strategy (dg_peer g) e s)"

definition kill_one :: "tally \<Rightarrow> tally" where
  "kill_one t = t\<lparr>t_killed := Suc (t_killed t)\<rparr>"

definition not_launched ::
    "ext \<Rightarrow> legacy \<Rightarrow> daemon_options \<Rightarrow> helper_launch_context \<Rightarrow> unit io" where
  "not_launched X L opts ctx w =
     (case helper_preflight_failure_message X L (do_mode opts)
         (unwrap_or helper_not_running_message (lc_error ctx)) w of
        (m, w') \<Rightarrow> (Inl (mk_err ProcessNotRunning m), w'))"

definition run_helper_daemon ::
    "ext \<Rightarrow> legacy \<Rightarrow> net \<Rightarrow> surroundings \<Rightarrow> daemon_options \<Rightarrow> string \<Rightarrow> helper_launch_context \<Rightarrow> helper
       \<Rightarrow> tally \<Rightarrow> world \<Rightarrow> unit res \<times> tally \<times> world" where
  "run_helper_daemon X L N S opts host ctx h0 t w0 =
     (case ensure_helper_stays_alive h0 of
        (Inl e, _) \<Rightarrow> (Inl e, t, w0)
      | (Inr _, h) \<Rightarrow>
     (case n_bind_udp N w0 host (do_port opts) of
        Inl e \<Rightarrow> (Inl (bind_failed ''Failed to bind UDP socket: '' e), kill_one t, w0)
      | Inr bound \<Rightarrow>
     (case n_local_addr N w0 bound of
        Inl e \<Rightarrow> (Inl (bind_failed ''Unable to resolve listener address: '' e), kill_one t, w0)
      | Inr listener_port \<Rightarrow>
     (case write_config X ((persistence_for_launch L host listener_port ctx (do_mode opts))
           \<lparr>wi_clear_auth := True\<rparr>) w0 of
        (Inl e, w) \<Rightarrow> (Inl e, kill_one t, w)
      | (Inr _, w) \<Rightarrow>
          let C = \<lparr>bc_host = host, bc_port = listener_port, bc_mode = do_mode opts\<rparr>;
              greeting = ''APW Helper Listening on '' @ show_nat (unat listener_port) @ ''.''
          in (Inl (receive_failed (su_end S)), t,
              snd (fold (serve_helped X L N C (lc_strategy ctx)) (su_datagrams S)
                (h, say (Stderr greeting) w)))))))"

section \<open>Starting\<close>

definition start_daemon_inner ::
    "ext \<Rightarrow> legacy \<Rightarrow> helpers \<Rightarrow> net \<Rightarrow> surroundings \<Rightarrow> daemon_options \<Rightarrow> manifest_config option \<Rightarrow> tally
       \<Rightarrow> world \<Rightarrow> unit res \<times> tally \<times> world" where
  "start_daemon_inner X L H N S opts manifest t w =
     (let host = (if trim (do_host opts) = [] then ''127.0.0.1'' else do_host opts) in
      if do_mode opts = ModeBrowser then
        (case start_browser_daemon_inner X L N S opts host w of (r, w') \<Rightarrow> (r, t, w'))
      else if do_mode opts = ModeNative then
        (case start_native_daemon_inner X L N S opts host w of (r, w') \<Rightarrow> (r, t, w'))
      else case manifest of
        None \<Rightarrow>
          (Inl (mk_err InvalidConfig ''Missing helper manifest for non-browser runtime mode.''), t, w)
      | Some m \<Rightarrow>
          let ((found, ctx), t1, w1) = probe_helper_launch X H m (do_mode opts) (do_dry_run opts) t w;
              stored = write_config X
                (persistence_for_launch L host (requested_port opts) ctx (do_mode opts)) in
          if do_dry_run opts then
            (case bind_io stored (\<lambda>_. if lc_status ctx = HELPER_LAUNCH_OK then ret ()
                else not_launched X L opts ctx) w1 of
               (r, w') \<Rightarrow> (r, t1, w'))
          else case found of
            None \<Rightarrow> (case bind_io stored (\<lambda>_. not_launched X L opts ctx) w1 of (r, w') \<Rightarrow> (r, t1, w'))
          | Some h \<Rightarrow> run_helper_daemon X L N S opts host ctx h t1 w1)"

definition needs_launch_guidance :: "apw_error \<Rightarrow> bool" where
  "needs_launch_guidance e \<longleftrightarrow>
     err_code e \<in> {ProcessNotRunning, InvalidConfig, CommunicationTimeout}
     \<or> contains (err_message e) ''manifest'' \<or> contains (err_message e) ''helper''
     \<or> contains (err_message e) ''Runtime mode''"

definition with_guidance :: "ext \<Rightarrow> legacy \<Rightarrow> legacy_mode \<Rightarrow> apw_error \<Rightarrow> world \<Rightarrow> apw_error \<times> world" where
  "with_guidance X L mode e w =
     (case helper_preflight_failure_message X L mode (err_message e) w of
        (m, w') \<Rightarrow> (mk_err (err_code e) m, w'))"

definition start_daemon ::
    "ext \<Rightarrow> legacy \<Rightarrow> helpers \<Rightarrow> net \<Rightarrow> surroundings \<Rightarrow> daemon_options \<Rightarrow> tally \<Rightarrow> world
       \<Rightarrow> unit res \<times> tally \<times> world" where
  "start_daemon X L H N S opts0 t w0 =
     (let (mode, w) = resolve_runtime_mode X (do_mode opts0) w0;
          opts = opts0\<lparr>do_mode := mode\<rparr>;
          manifest = (if mode = ModeBrowser \<or> mode = ModeNative then Inr None
            else map_sum id Some (read_manifest X w))
      in case manifest of
           Inl e \<Rightarrow> (case with_guidance X L mode e w of (e', w') \<Rightarrow> (Inl e', t, w'))
         | Inr m \<Rightarrow>
             (case start_daemon_inner X L H N S opts m t w of
                (Inr u, t', w') \<Rightarrow> (Inr u, t', w')
              | (Inl e, t', w') \<Rightarrow>
                  if needs_launch_guidance e then
                    (case with_guidance X L mode e w' of (e', w2) \<Rightarrow> (Inl e', t', w2))
                  else (Inl e, t', w')))"

end
