(* ===== verification/Daemon_Laws.thy ===== *)
theory Daemon_Laws
  imports Daemon Still Host_Laws Bridge_Runs
begin

text \<open>
  The request loops of the daemon: its frames, what each datagram is answered with, and what a
  helper that answers late does to the requests after it.
\<close>

section \<open>Frames\<close>

lemma length_le_bytes [simp]: "length (le_bytes n) = 4"
  by (simp add: le_bytes_def)

lemma le_value_digits: "le_value (map (\<lambda>i. char_of (n div 256 ^ i mod 256)) [0..<k]) = n mod 256 ^ k"
proof (induction k arbitrary: n)
  case (Suc k)
  have "map (\<lambda>i. char_of (n div 256 ^ i mod 256)) [0..<Suc k]
      = char_of (n mod 256) # map (\<lambda>i. char_of (n div 256 div 256 ^ i mod 256)) [0..<k]"
    by (simp add: upt_conv_Cons map_Suc_upt [symmetric] div_mult2_eq del: upt_Suc)
  then show ?case using Suc [of "n div 256"] by (simp add: mod_mult2_eq code_def del: upt_Suc)
qed simp

lemma le_value_bytes: "n < 2 ^ 32 \<Longrightarrow> le_value (le_bytes n) = n"
  unfolding le_bytes_def le_value_digits by simp

lemma length_frame_bytes [simp]: "length (frame_bytes p) = 4 + length p"
  by (simp add: frame_bytes_def)

lemma frame_header:
  assumes "length p \<le> MAX_HELPER_PAYLOAD"
  shows "take 4 (frame_bytes p @ later) = le_bytes (length p)" "drop 4 (frame_bytes p @ later) = p @ later"
    "le_value (le_bytes (length p)) = length p"
  using assms by (simp_all add: frame_bytes_def le_value_bytes MAX_HELPER_PAYLOAD_def MAX_MESSAGE_BYTES_def)

lemma native_frame_early:
  assumes "p \<noteq> []" "length p \<le> MAX_HELPER_PAYLOAD" "k < length (frame_bytes p)"
  shows "read_native_host_frame (take k (frame_bytes p)) Open = None"
proof (cases "k < 4")
  case True
  then show ?thesis by (simp add: read_native_host_frame_def read_native_host_exact_def)
next
  case False
  then have "take 4 (take k (frame_bytes p)) = le_bytes (length p)"
    "drop 4 (take k (frame_bytes p)) = take (k - 4) p"
    using frame_header(1,2) [OF assms(2), of "[]"] by (simp_all add: min_def frame_bytes_def)
  then show ?thesis
    using False assms frame_header(3) [OF assms(2)]
    by (simp add: read_native_host_frame_def read_native_host_exact_def Let_def not_le)
qed

text \<open>C25: A payload of 1 to 32768 bytes that is framed is read back, by the native host's reader and by
  the helper's, and what follows it stays for the next read; no part of a frame is taken for one.\<close>

theorem frame_roundtrip:
  assumes "p \<noteq> []" "length p \<le> MAX_HELPER_PAYLOAD"
  shows "read_native_host_frame (frame_bytes p @ later) e = Some (Inr (p, later))
    \<and> (\<forall>k < length (frame_bytes p). read_native_host_frame (take k (frame_bytes p)) Open = None)
    \<and> read_frame (h\<lparr>fh_unread := frame_bytes p @ later\<rparr>) = (Got p, h\<lparr>fh_unread := later\<rparr>)"
  using assms frame_header(1,2) [OF assms(2), of later] frame_header(3) [OF assms(2)] native_frame_early [OF assms]
  by (auto simp: read_native_host_frame_def read_native_host_exact_def read_frame_def read_exact_n_def Let_def)

definition sample_helper :: helper where
  "sample_helper = \<lparr>fh_process = \<lparr>hp_wait = (\<lambda>_. StillRunning), hp_write_error = (\<lambda>_. None),
     hp_output = (\<lambda>_. []), hp_late = (\<lambda>_. []), hp_dry = (\<lambda>_. Stalls)\<rparr>, fh_written = [], fh_unread = [],
     fh_polls = 0\<rparr>"

theorem frame_roundtrip_witness:
  "read_native_host_frame (frame_bytes ''{}'' @ ''x'') Closed = Some (Inr (''{}'', ''x''))"
  using frame_roundtrip [of "''{}''" "''x''" Closed sample_helper]
  by (simp add: MAX_HELPER_PAYLOAD_def MAX_MESSAGE_BYTES_def)

section \<open>What clients are sent\<close>

text \<open>What has been sent, without the frames to the connections of the bridge.\<close>

definition clients :: "world \<Rightarrow> (string \<times> string) list" where
  "clients w = filter (\<lambda>(p, _). \<not> prefix ''connection-'' p) (w_sent w)"

lemma observed_clients [silent_rules]: "observed clients"
  by (simp add: observed_def clients_def)

lemma clients_say [simp]: "clients (say l w) = clients w"
  by (simp add: clients_def say_def)

lemma clients_connection [simp]: "clients (sent_to c t w) = clients w"
  by (simp add: clients_def sent_to_def connection_name_def)

lemma clients_asks: "asks w w' \<Longrightarrow> clients w' = clients w"
  by (auto simp: asks_def clients_def)

lemma clients_write [simp]: "write_config X i w = (r, w') \<Longrightarrow> clients w' = clients w"
  using stillD [OF still_write_config [OF observed_clients]] by blast

lemma clients_note [simp]:
  "clients (snd (native_host_status_note X L w)) = clients w"
  using clients_asks [OF asks_preflight [of w X L ModeNative]]
  by (simp add: native_host_status_note_def case_prod_beta Let_def)

lemma clients_message [simp]:
  "clients (snd (browser_bridge_not_attached_message X L m b st e w)) = clients w"
  by (simp add: browser_bridge_not_attached_message_def case_prod_beta Let_def)

lemma clients_persist [simp]:
  "clients (persist_snapshot X L C B w) = clients w" "clients (refresh_attachment X L C B w) = clients w"
  by (auto simp: persist_snapshot_def refresh_attachment_def split: prod.splits sum.splits)

lemma clients_marks [simp]:
  "clients (snd (attach X L C c b s)) = clients (snd s)"
  "clients (snd (mark_error X L C c e s)) = clients (snd s)"
  "clients (snd (mark_disconnected X L C c t s)) = clients (snd s)"
  by (cases s, simp add: attach_def mark_error_def mark_disconnected_def mark_status_def case_prod_beta
      Let_def split: option.splits)+

lemma clients_open [simp]: "clients (snd (snd (browser_open X L C he hello s))) = clients (snd s)"
  by (cases s) (auto simp: browser_open_def case_prod_beta Let_def
      split: option.splits sum.splits from_browser.splits)

lemma clients_browser_message [simp]: "clients (snd (browser_message X L C c m s)) = clients (snd s)"
  by (cases s; cases m) auto

lemma clients_select [simp]: "clients (snd (snd (browser_select X L C c ev s))) = clients (snd s)"
  by (cases s) (auto simp: browser_select_def case_prod_beta Let_def
      split: option.splits sum.splits browser_event.splits list.splits)

lemma clients_round [simp]: "clients (snd (snd (browser_round X L C c ev s))) = clients (snd s)"
proof -
  obtain f B w where run: "browser_select X L C c ev s = (f, B, w)" by (metis prod_cases3)
  then have "clients w = clients (snd s)" using clients_select [of X L C c ev s] by simp
  then show ?thesis by (auto simp: browser_round_def run case_prod_beta split: flow.splits sum.splits)
qed

lemma clients_accept [simp]: "clients (snd (snd (native_accept X L C D arrival s))) = clients (snd s)"
  by (cases s) (auto simp: native_accept_def Let_def case_prod_beta
      split: native_arrival.splits option.splits sum.splits from_browser.splits)

lemma clients_native_message [simp]: "clients (snd (snd (native_message X L C c m s))) = clients (snd s)"
  by (cases s; cases m) auto

lemma clients_native [simp]: "clients (snd (snd (native_round X L C D ev nc s))) = clients (snd s)"
proof (cases s)
  case (Pair B w)
  show ?thesis using clients_native_message [of X L C "nc_id nc" _ s]
    by (auto simp: Pair native_round_def Let_def case_prod_beta
        split: native_event.splits option.splits sum.splits list.splits bool.splits)
qed

lemma clients_failed [simp]: "clients (connection_failed r w) = clients w"
  by (simp add: connection_failed_def split: option.splits sum.splits)

lemma clients_task [simp]: "clients (snd (run_task X L C D ev s)) = clients (snd s)"
proof (cases s)
  case (Pair T w)
  show ?thesis
    using clients_open [of X L C _ _ "(ts_bridge T, w)"] clients_round [of X L C _ _ "(ts_bridge T, w)"]
      clients_accept [of X L C D _ "(ts_bridge T, w)"] clients_native [of X L C D _ _ "(ts_bridge T, w)"]
    by (simp add: Pair run_task_def case_prod_beta split: task_event.splits option.splits sum.splits)
qed

lemma clients_tasks [simp]: "clients (snd (run_tasks X L C D evs s)) = clients (snd s)"
  by (induction evs arbitrary: s) (simp_all add: run_tasks_def)

lemma clients_enqueue [simp]: "clients (snd (snd (enqueue_request X L C D evs request s))) = clients (snd s)"
proof (cases s)
  case (Pair T w)
  obtain a B w1 where start: "enqueue_start X L C request (ts_bridge T, w) = (a, B, w1)" by (metis prod_cases3)
  have "clients w1 = clients w"
    using start by (auto simp: enqueue_start_def case_prod_beta Let_def split: sum.splits enqueued.splits)
  then show ?thesis by (simp add: Pair enqueue_request_def start case_prod_beta Let_def split: sum.splits)
qed

text \<open>Sending works: nothing fails to be serialized and the socket takes every datagram.\<close>

definition sending_works :: "ext \<Rightarrow> net \<Rightarrow> bool" where
  "sending_works X N \<longleftrightarrow> (\<forall>v. \<exists>t. x_json_compact X v = Inr t) \<and> (\<forall>w p t. n_send N w p t = None)"

text \<open>The shape of every answer: a status, whether it is \<open>Success\<close>, and the error's text if not.\<close>

definition envelope_typed :: "json \<Rightarrow> bool" where
  "envelope_typed v \<longleftrightarrow> (\<exists>s. get ''code'' v = Some (enc_status s) \<and> get ''ok'' v = Some (JBool (s = Success))
     \<and> (if s = Success then get ''error'' v = None
        else get ''payload'' v = None \<and> (\<exists>e. get ''error'' v = Some (JString e))))"

lemma response_envelope_typed: "envelope_typed (response_envelope st pl e)"
  unfolding envelope_typed_def
  by (rule exI [of _ st]) (simp add: response_envelope_def opt_field_def split: option.split)

definition typed_text :: "ext \<Rightarrow> string \<Rightarrow> bool" where
  "typed_text X t \<longleftrightarrow> (\<exists>v. x_json_compact X v = Inr t \<and> envelope_typed v)"

lemma typed_response: "x_json_compact X (response_envelope st pl e) = Inr t \<Longrightarrow> typed_text X t"
  using response_envelope_typed by (auto simp: typed_text_def)

text \<open>Between two worlds the client \<open>p\<close> was sent one envelope at most, and one if sending works.\<close>

definition answers :: "ext \<Rightarrow> net \<Rightarrow> string \<Rightarrow> world \<Rightarrow> world \<Rightarrow> bool" where
  "answers X N p w w' \<longleftrightarrow>
     (\<exists>t. clients w' = clients w @ [(p, t)] \<and> typed_text X t) \<or> clients w' = clients w \<and> \<not> sending_works X N"

lemma answers_from: "clients v = clients w \<Longrightarrow> answers X N p v w' \<Longrightarrow> answers X N p w w'"
  by (simp add: answers_def)

text \<open>A request loop, whatever it asks: every datagram is answered.\<close>

locale request_loop =
  fixes X :: ext and N :: net and serve :: "datagram \<Rightarrow> 's \<times> world \<Rightarrow> 's \<times> world"
  assumes serves: "\<not> prefix ''connection-'' (dg_peer g) \<Longrightarrow> answers X N (dg_peer g) (snd s) (snd (serve g s))"
begin

lemma in_order:
  assumes "\<forall>g \<in> set gs. \<not> prefix ''connection-'' (dg_peer g)"
  shows "\<exists>sent. clients (snd (fold serve gs s)) = clients (snd s) @ sent
    \<and> subseq (map fst sent) (map dg_peer gs) \<and> (\<forall>(p, t) \<in> set sent. typed_text X t)
    \<and> (sending_works X N \<longrightarrow> map fst sent = map dg_peer gs)"
  using assms
proof (induction gs arbitrary: s)
  case (Cons g gs)
  then obtain sent where later: "clients (snd (fold serve gs (serve g s))) = clients (snd (serve g s)) @ sent"
    "subseq (map fst sent) (map dg_peer gs)" "\<forall>(p, t) \<in> set sent. typed_text X t"
    "sending_works X N \<longrightarrow> map fst sent = map dg_peer gs"
    using Cons.IH [of "serve g s"] Cons.prems by (metis list.set_intros(2))
  consider t where "clients (snd (serve g s)) = clients (snd s) @ [(dg_peer g, t)]" "typed_text X t"
    | "clients (snd (serve g s)) = clients (snd s)" "\<not> sending_works X N"
    using serves [of g s] Cons.prems by (auto simp: answers_def)
  then show ?case
  proof cases
    case (1 t)
    with later show ?thesis by (intro exI [of _ "(dg_peer g, t) # sent"]) auto
  next
    case 2
    with later show ?thesis by (intro exI [of _ sent]) (auto intro: subseq_Cons')
  qed
qed simp

end

definition answered :: "world \<Rightarrow> string list" where
  "answered w = map fst (clients w)"

text \<open>Both loops are of that kind.\<close>

lemma send_envelope:
  assumes "send_envelope_to_client X N p st pl e w = (r, w')" "\<not> prefix ''connection-'' p"
  shows "(case r of
      Inr u \<Rightarrow> \<exists>t. clients w' = clients w @ [(p, t)] \<and> typed_text X t
    | Inl er \<Rightarrow> w' = w \<and> \<not> sending_works X N)"
proof (cases "x_json_compact X (response_envelope st pl e)")
  case (Inl er)
  then have "\<not> sending_works X N" unfolding sending_works_def by (metis sum.distinct(1))
  then show ?thesis using assms Inl by (auto simp: send_envelope_to_client_def)
next
  case (Inr t)
  then show ?thesis using assms typed_response [OF Inr]
    by (auto simp: send_envelope_to_client_def clients_def sending_works_def split: option.splits)
qed

lemma ignoring_answers:
  assumes "\<not> prefix ''connection-'' p"
  shows "answers X N p w (send_ignoring X N p st pl e w)"
proof -
  obtain r w' where sent: "send_envelope_to_client X N p st pl e w = (r, w')" by fastforce
  show ?thesis
    using send_envelope [OF sent assms] by (cases r) (auto simp: answers_def send_ignoring_def sent)
qed

lemma client_answers: "\<not> prefix ''connection-'' p \<Longrightarrow> answers X N p w (answer_client X N p a w)"
  by (cases a) (simp_all add: answer_client_def ignoring_answers)

lemma bridged_answers:
  assumes "\<not> prefix ''connection-'' (dg_peer g)"
  shows "answers X N (dg_peer g) (snd s) (snd (serve_bridged X L N C D g s))"
proof -
  obtain T w where before: "run_tasks X L C D (dg_before g) s = (T, w)" by fastforce
  have w: "clients w = clients (snd s)" using clients_tasks [of X L C D "dg_before g" s] by (simp add: before)
  obtain a T1 w1 where served: "enqueue_request X L C D (dg_during g) (received g) (T, w) = (a, T1, w1)"
    by (metis prod_cases3)
  have "clients w1 = clients w"
    using clients_enqueue [of X L C D "dg_during g" "received g" "(T, w)"] by (simp add: served)
  then show ?thesis
    using w answers_from [OF _ client_answers [OF assms]] answers_from [OF _ ignoring_answers [OF assms]]
    by (simp add: serve_bridged_def before served refuse_large_def)
qed

lemma mapped_clients: "mapped_failure e s = (m, h, w) \<Longrightarrow> clients w = clients (snd s)"
  by (cases s) (auto simp: mapped_failure_def split: prod.splits sum.splits option.splits if_splits)

lemma failed_answers:
  assumes "\<not> prefix ''connection-'' p"
  shows "answers X N p (snd s) (snd (helper_failed X L N C ls p e s))"
proof -
  obtain m h w where mapped: "mapped_failure e s = (m, h, w)" by (metis prod_cases3)
  then have w: "clients w = clients (snd s)" by (rule mapped_clients)
  obtain r w1 where stored: "write_config X (persistence_for_launch_error L (bc_host C) (bc_port C)
      (bc_mode C) ls (err_message m)) w = (r, w1)" by fastforce
  then have "clients w1 = clients w" by (rule clients_write)
  then show ?thesis
    using w answers_from [OF _ ignoring_answers [OF assms]]
    by (cases r) (simp_all add: helper_failed_def mapped stored Let_def)
qed

lemma exchange_answers:
  assumes "\<not> prefix ''connection-'' p" and run: "helper_exchange X N p request (h, w) = (r, h', w')"
  shows "(case r of Inr u \<Rightarrow> answers X N p w w' | Inl e \<Rightarrow> w' = w)"
proof -
  obtain a h1 where written: "write_frame request h = (a, h1)" by fastforce
  obtain b h2 where read: "read_frame h1 = (b, h2)" by fastforce
  show ?thesis
  proof (cases "\<exists>u bytes v. a = Inr u \<and> b = Got bytes
      \<and> bind_res (parse_helper_payload X bytes) parse_helper_response_shape = Inr v")
    case True
    then obtain u bytes v where v: "a = Inr u" "b = Got bytes"
      "bind_res (parse_helper_payload X bytes) parse_helper_response_shape = Inr v" by blast
    then have "send_envelope_to_client X N p Success (Some v) None w = (r, w')"
      using run by (auto simp: helper_exchange_def written read split: prod.splits)
    from send_envelope [OF this assms(1)] show ?thesis
      by (cases r) (auto simp: answers_def)
  next
    case False
    then have "w' = w \<and> (\<exists>e. r = Inl e)"
      using run by (cases a; cases b; cases "bind_res (parse_helper_payload X (case b of Got t \<Rightarrow> t)) parse_helper_response_shape")
        (auto simp: helper_exchange_def written read)
    then show ?thesis by auto
  qed
qed

lemma helped_answers:
  assumes "\<not> prefix ''connection-'' (dg_peer g)"
  shows "answers X N (dg_peer g) (snd s) (snd (serve_helped X L N C ls g s))"
proof -
  obtain h w where s: "s = (h, w)" by (cases s)
  obtain r h1 w1 where run: "helper_exchange X N (dg_peer g) (received g) (h, w) = (r, h1, w1)"
    by (metis prod_cases3)
  show ?thesis
    using exchange_answers [OF assms run] failed_answers [OF assms, where s = "(h1, w1)"] ignoring_answers [OF assms]
    by (cases r) (simp_all add: serve_helped_def s run refuse_large_def)
qed

interpretation bridge_loop: request_loop X N "serve_bridged X L N C D" for X N L C D
  by unfold_locales (rule bridged_answers)

interpretation helper_loop: request_loop X N "serve_helped X L N C ls" for X N L C ls
  by unfold_locales (rule helped_answers)



definition sample_net :: net where
  "sample_net = \<lparr>n_send = (\<lambda>_ _ _. None), n_bind_udp = (\<lambda>_ _ p. Inr p), n_bind_tcp = (\<lambda>_ _ p. Inr p),
     n_bind_unix = (\<lambda>_ _. None), n_local_addr = (\<lambda>_ p. Inr p)\<rparr>"

definition writing_ext :: ext where
  "writing_ext = (sample_ext [])\<lparr>x_json_compact := (\<lambda>_. Inr ''{}'')\<rparr>"

definition sample_datagram :: datagram where
  "sample_datagram = \<lparr>dg_before = [], dg_peer = ''127.0.0.1:5000'', dg_bytes = ''{}'', dg_during = []\<rparr>"

lemma sample_peers: "\<forall>g \<in> set [sample_datagram]. \<not> prefix ''connection-'' (dg_peer g)"
  by (simp add: sample_datagram_def)

lemma sample_clients: "clients (sample_world []) = []"
  by (simp add: clients_def)



section \<open>Late answers\<close>

text \<open>
  Frames carry no number. When the helper answers a request only after the 30 s are over, the
  client of that request is told so, and its answer is what the client of the next one gets.
\<close>

lemma late_answer_shifts:
  assumes h: "fh_unread h = []" "\<And>ws. hp_write_error (fh_process h) ws = None"
    and sizes: "length r1 \<le> MAX_HELPER_PAYLOAD" "length r2 \<le> MAX_HELPER_PAYLOAD"
    and slow: "hp_output (fh_process h) (fh_written h @ [frame_bytes r1]) = []"
      "hp_dry (fh_process h) (fh_written h @ [frame_bytes r1]) = Stalls"
      "hp_late (fh_process h) (fh_written h @ [frame_bytes r1]) = frame_bytes a"
    and a: "a \<noteq> []" "length a \<le> MAX_HELPER_PAYLOAD"
      "bind_res (parse_helper_payload X a) parse_helper_response_shape = Inr v"
    and first: "helper_exchange X N p1 r1 (h, w) = (res1, h1, w1)"
    and second: "helper_exchange X N p2 r2 (h1, w2) = (res2, h2, w3)"
  shows "res1 = Inl (mk_err CommunicationTimeout ''Command output timeout.'')"
    and "(res2, w3) = send_envelope_to_client X N p2 Success (Some v) None w2"
proof -
  let ?h1 = "h\<lparr>fh_written := fh_written h @ [frame_bytes r1], fh_unread := frame_bytes a\<rparr>"
  have one: "res1 = Inl (mk_err CommunicationTimeout ''Command output timeout.'') \<and> h1 = ?h1"
    using first h sizes(1) slow
    by (auto simp: helper_exchange_def write_frame_def read_frame_def read_exact_n_def Let_def)
  then show "res1 = Inl (mk_err CommunicationTimeout ''Command output timeout.'')" ..
  obtain t where written: "write_frame r2 ?h1 = (Inr (), ?h1\<lparr>fh_written := fh_written ?h1 @ [frame_bytes r2],
      fh_unread := frame_bytes a @ t\<rparr>)"
    using h(2) sizes(2) by (simp add: write_frame_def Let_def)
  have "read_frame (h'\<lparr>fh_unread := frame_bytes a @ t\<rparr>) = (Got a, h'\<lparr>fh_unread := t\<rparr>)" for h'
    using frame_header(1,2) [OF a(2), of t] frame_header(3) [OF a(2)] a(1,2)
    by (auto simp: read_frame_def read_exact_n_def Let_def)
  then show "(res2, w3) = send_envelope_to_client X N p2 Success (Some v) None w2"
    using second one a(3) by (simp add: helper_exchange_def written split: prod.splits)
qed

text \<open>
  The read of the native host is dropped when a request goes out in the middle of a frame: what it
  had taken is lost, and the rest of the frame is read as a new one.
\<close>

lemma interrupted_frame_lost:
  assumes "read_native_host_frame (nc_taken nc @ nc_socket nc) (nc_end nc) = None"
    and "b_queue B (nc_id nc) = m # ms" "x_json_compact X (enc_to_browser m) = Inr t"
      "length t \<le> MAX_HELPER_PAYLOAD"
    and "native_round X L C D ReadPolled nc (B, w) = (Some nc1, B1, w1)"
    and "native_round X L C D (NativeOutbound WriteDone) nc1 (B1, w1) = (Some nc2, B2, w2)"
    and "native_round X L C D (Arrives later) nc2 (B2, w2) = (Some nc3, B3, w3)"
  shows "nc_taken nc3 @ nc_socket nc3 = later"
  using assms by (auto simp: native_round_def write_native_host_frame_def Let_def)

end
