(* ===== verification/Client.thy ===== *)
theory Client
  imports Helper_Process Srp
begin

text \<open>
  The archived client of the daemon (\<open>legacy/rust-src/client.rs\<close>): the errors it reads out of the
  configuration, the exchange of one datagram with its retries, the challenge and its
  verification, the encrypted lookups and the status report. The socket and the clock that cannot
  go back are the record \<open>udp\<close>; random bytes are arguments. \<open>None\<close> is a panic in the key exchange.
\<close>

definition BROWSER_NAME :: string where
  "BROWSER_NAME = ''Chrome''"

definition DEFAULT_TIMEOUT_MS :: nat where
  "DEFAULT_TIMEOUT_MS = 5000"

definition DEFAULT_RETRIES :: "8 word" where
  "DEFAULT_RETRIES = 0"

definition UNAUTHENTICATED_DAEMON_MESSAGE :: string where
  "UNAUTHENTICATED_DAEMON_MESSAGE =
     ''Daemon is running but not authenticated. Use `apw app launch` and `apw login <url>`.''"

record client_send_opts =
  so_timeout_ms :: nat
  so_retries :: "8 word"

definition default_send_opts :: client_send_opts where
  "default_send_opts = \<lparr>so_timeout_ms = DEFAULT_TIMEOUT_MS, so_retries = DEFAULT_RETRIES\<rparr>"

datatype udp_answer = NoAnswer | RecvFails string | RecvGot string

record udp =
  u_resolve :: "string \<Rightarrow> u16 \<Rightarrow> string + (bool \<times> string) list"
  u_bind :: "world \<Rightarrow> string \<Rightarrow> string option"
  u_timeout_error :: "nat \<Rightarrow> string option"
  u_send :: "world \<Rightarrow> string \<Rightarrow> string \<Rightarrow> string option"
  u_recv :: "world \<Rightarrow> string \<Rightarrow> string \<Rightarrow> udp_answer"
  u_instant_ns :: "world \<Rightarrow> int"

section \<open>Envelopes\<close>

definition parse_legacy_payload :: "json \<Rightarrow> json option" where
  "parse_legacy_payload payload =
     (case get ''STATUS'' payload of
        None \<Rightarrow> None
      | Some s \<Rightarrow>
          if as_i64 s = None \<and> as_u64 s = None then None
          else case Option.bind (get ''Entries'' payload) as_array of
            None \<Rightarrow> None
          | Some _ \<Rightarrow> Some payload)"

definition parse_status_code :: "json \<Rightarrow> status option" where
  "parse_status_code v =
     or_else (Option.bind (as_i64_cast v) status_try_from)
       (Option.bind (as_str v)
          (\<lambda>t. or_else (Option.bind (parse_i64 t) status_try_from) (named_status t)))"

definition parse_response_envelope :: "json \<Rightarrow> json res" where
  "parse_response_envelope payload =
     (if as_object payload = None then
        Inl (mk_err ProtoInvalidResponse ''Invalid helper response payload type.'')
      else case get ''ok'' payload of
        Some ok_value \<Rightarrow>
          (case as_bool ok_value of
             None \<Rightarrow> Inl (mk_err ProtoInvalidResponse ''Malformed helper envelope.'')
           | Some True \<Rightarrow>
               ok_or (mk_err ProtoInvalidResponse ''Missing helper payload.'') (get ''payload'' payload)
           | Some False \<Rightarrow>
               let number = unwrap_or GenericError (Option.bind (get ''code'' payload) parse_status_code)
               in Inl (mk_err number (unwrap_or (status_text number) (get_str ''error'' payload))))
      | None \<Rightarrow>
          ok_or (mk_err ProtoInvalidResponse ''Malformed helper envelope.'')
            (parse_legacy_payload payload))"

section \<open>Where the daemon is\<close>

definition canonical_daemon_host :: "string \<Rightarrow> string" where
  "canonical_daemon_host host =
     (let t = trim host in
      if t = [] \<or> t = ''0.0.0.0'' then DEFAULT_HOST
      else if t = ''::'' \<or> t = ''[::]'' then ''::1''
      else t)"

definition resolve_daemon_target :: "udp \<Rightarrow> string \<Rightarrow> u16 \<Rightarrow> (bool \<times> string) res" where
  "resolve_daemon_target U host port =
     (let canonical_host = canonical_daemon_host host;
          where_text = ''Invalid daemon address '' @ canonical_host @ '':'' @ show_nat (unat port) in
      case u_resolve U canonical_host port of
        Inl e \<Rightarrow> Inl (mk_err GenericError (where_text @ '': '' @ e))
      | Inr addrs \<Rightarrow>
          (case find fst addrs of
             Some addr \<Rightarrow> Inr addr
           | None \<Rightarrow> (case addrs of
               addr # _ \<Rightarrow> Inr addr
             | [] \<Rightarrow> Inl (mk_err GenericError (where_text @ ''.'')))))"

definition local_bind_addr_for_target :: "bool \<times> string \<Rightarrow> string" where
  "local_bind_addr_for_target target = (if fst target then ''0.0.0.0:0'' else ''[::]:0'')"

section \<open>What the configuration says\<close>

definition LAUNCH_NOT_RUNNING_MESSAGE :: string where
  "LAUNCH_NOT_RUNNING_MESSAGE = ''Helper process is not running.''"

definition native_host_remediation ::
    "ext \<Rightarrow> legacy \<Rightarrow> runtime_config \<Rightarrow> string \<Rightarrow> world \<Rightarrow> string \<times> world" where
  "native_host_remediation X L config default_status w =
     (let host_status = unwrap_or default_status (rt_bridge_status config);
          not_attached = ''Daemon is running in native mode, but the APW native host is not attached.'' in
      if host_status = ''disconnected'' then
        (case native_host_status_note X L w of (note, w1) \<Rightarrow>
           (''Daemon is running in native mode, but the APW native host disconnected. '' @ note, w1))
      else if host_status = ''error'' then
        (case rt_bridge_last_error config of
           Some e \<Rightarrow>
             (case native_host_status_note X L w of (note, w1) \<Rightarrow>
                (''Daemon is running in native mode, but the APW native host reported an error: ''
                   @ e @ ''. '' @ note, w1))
         | None \<Rightarrow> native_host_failure_message X L not_attached w)
      else native_host_failure_message X L not_attached w)"

definition not_running :: "string \<times> world \<Rightarrow> apw_error option \<times> world" where
  "not_running = (\<lambda>(m, w). (Some (mk_err ProcessNotRunning m), w))"

definition native_host_error_from_config ::
    "ext \<Rightarrow> legacy \<Rightarrow> runtime_config \<Rightarrow> world \<Rightarrow> apw_error option \<times> world" where
  "native_host_error_from_config X L config w =
     (if rt_bridge_status config = Some ''attached'' then (None, w)
      else if rt_bridge_status config = Some ''error'' then
        not_running (native_host_remediation X L config ''error'' w)
      else if rt_bridge_status config = Some ''disconnected'' then
        not_running (native_host_remediation X L config ''disconnected'' w)
      else not_running (native_host_remediation X L config ''waiting'' w))"

definition browser_bridge_remediation ::
    "ext \<Rightarrow> legacy \<Rightarrow> runtime_config \<Rightarrow> string \<Rightarrow> world \<Rightarrow> string \<times> world" where
  "browser_bridge_remediation X L config default_status w =
     (let browser = unwrap_or ''Chrome'' (rt_bridge_browser config);
          bridge_status = unwrap_or default_status (rt_bridge_status config);
          (note, w1) = helper_preflight_status_note X L (l_mode_of L config) w;
          reload = ''Reload the APW Chrome bridge extension and wait for `apw status --json` to report `bridge.status=attached`. '';
          base = ''Daemon is running in browser mode, but no '' @ browser
            @ '' bridge is attached. Load the APW Chrome bridge extension and wait for `apw status --json` to report `bridge.status=attached`.''
      in (if bridge_status = ''disconnected'' then
            ''Daemon is running in browser mode, but the '' @ browser @ '' bridge disconnected. ''
              @ reload @ note
          else if bridge_status = ''error'' then
            (case rt_bridge_last_error config of
               Some e \<Rightarrow> ''Daemon is running in browser mode, but the '' @ browser
                 @ '' bridge reported an error: '' @ e @ ''. '' @ reload @ note
             | None \<Rightarrow> base @ '' '' @ note)
          else base @ '' '' @ note, w1))"

definition browser_bridge_error_from_config ::
    "ext \<Rightarrow> legacy \<Rightarrow> runtime_config \<Rightarrow> world \<Rightarrow> apw_error option \<times> world" where
  "browser_bridge_error_from_config X L config w =
     (if rt_bridge_status config = Some ''attached'' then (None, w)
      else if rt_bridge_status config = Some ''error'' then
        not_running (browser_bridge_remediation X L config ''error'' w)
      else if rt_bridge_status config = Some ''disconnected'' then
        not_running (browser_bridge_remediation X L config ''disconnected'' w)
      else not_running (browser_bridge_remediation X L config ''waiting'' w))"

definition launch_error_from_config ::
    "ext \<Rightarrow> legacy \<Rightarrow> runtime_config \<Rightarrow> world \<Rightarrow> apw_error option \<times> world" where
  "launch_error_from_config X L config w =
     (let mode = l_mode_of L config in
      if mode = ModeNative then native_host_error_from_config X L config w
      else if mode = ModeBrowser then browser_bridge_error_from_config X L config w
      else case rt_last_launch_status config of
        None \<Rightarrow> (None, w)
      | Some launch_status \<Rightarrow>
          if launch_status = ''ok'' then (None, w)
          else if launch_status = ''disabled'' then
            not_running (helper_preflight_failure_message X L mode ''Helper launch is disabled.'' w)
          else
            not_running (helper_preflight_failure_message X L mode
              (unwrap_or LAUNCH_NOT_RUNNING_MESSAGE (rt_last_launch_error config)) w))"

definition helper_launch_profile :: "ext \<Rightarrow> legacy \<Rightarrow> runtime_config io" where
  "helper_launch_profile X L =
     bind_io (read_config X (Some default_read_options)) (\<lambda>config w.
       case launch_error_from_config X L config w of
         (Some e, w1) \<Rightarrow> (Inl e, w1)
       | (None, w1) \<Rightarrow> (Inr config, w1))"

section \<open>Parts of messages\<close>

definition parse_json_payload :: "json \<Rightarrow> string \<Rightarrow> string res" where
  "parse_json_payload v field =
     ok_or (mk_err ProtoInvalidResponse (''Invalid '' @ field @ '' payload.'')) (get_str ''PAKE'' v)"

definition client_pake_code :: "json \<Rightarrow> int res" where
  "client_pake_code v =
     (if v = JNull then Inr 0
      else ok_or (mk_err ProtoInvalidResponse ''Malformed PAKE numeric field.'') (parse_pake_message_type v))"

definition parse_pake_type :: "json \<Rightarrow> string \<Rightarrow> int res" where
  "parse_pake_type v field =
     ok_or (mk_err ProtoInvalidResponse (''Invalid '' @ field @ '' message type.''))
       (parse_pake_message_type v)"

record smsg =
  sm_TID :: string
  sm_SDATA :: string

definition smsg_fields :: "string list list" where
  "smsg_fields = [[''TID''], [''SDATA'']]"

definition dec_smsg :: "json \<Rightarrow> smsg option" where
  "dec_smsg v =
     (if \<not> well_shaped smsg_fields v then None else
      let f = field_of smsg_fields v in do {
        tid \<leftarrow> req as_str (f [''TID'']);
        sdata \<leftarrow> req as_str (f [''SDATA'']);
        Some \<lparr>sm_TID = tid, sm_SDATA = sdata\<rparr> })"

definition parse_smsg :: "json \<Rightarrow> smsg res" where
  "parse_smsg payload =
     (case get ''SMSG'' payload of
        Some inner \<Rightarrow>
          if get ''TID'' inner \<noteq> None \<and> get ''SDATA'' inner \<noteq> None then
            ok_or (mk_err ProtoInvalidResponse ''Invalid SMSG payload.'') (dec_smsg inner)
          else Inl (mk_err ProtoInvalidResponse ''Malformed SMSG field.'')
      | None \<Rightarrow>
          ok_or (mk_err ProtoInvalidResponse ''Invalid helper response payload.'') (dec_smsg payload))"

section \<open>Messages to the helper\<close>

definition to_base64 :: "crypto \<Rightarrow> string \<Rightarrow> string" where
  "to_base64 K s = c_b64_encode K (utf8 s)"

text \<open>A derived \<open>Serialize\<close> writes the name of the variant, whatever its number.\<close>

datatype action = ActUnknown | ActDelete | ActUpdate | ActSearch | ActAddNew | ActMaybeAdd | ActGhostSearch

fun enc_action :: "action \<Rightarrow> json" where
  "enc_action ActUnknown = JString ''Unknown''"
| "enc_action ActDelete = JString ''Delete''"
| "enc_action ActUpdate = JString ''Update''"
| "enc_action ActSearch = JString ''Search''"
| "enc_action ActAddNew = JString ''AddNew''"
| "enc_action ActMaybeAdd = JString ''MaybeAdd''"
| "enc_action ActGhostSearch = JString ''GhostSearch''"

definition message_get_capabilities :: message where
  "message_get_capabilities = (bare_message GetCapabilities)\<lparr>m_capabilities := Some can_fill_codes\<rparr>"

definition message_request_challenge :: "ext \<Rightarrow> crypto \<Rightarrow> srp_session \<Rightarrow> message res option" where
  "message_request_challenge X K session =
     map_option (\<lambda>exchange.
       case x_json_compact X exchange of
         Inl e \<Rightarrow> Inl (mk_err ServerError (''Failed to encode challenge: '' @ e))
       | Inr payload \<Rightarrow> Inr ((bare_message Handshake)
           \<lparr>m_msg := Some (obj [(''QID'', JString ''m0''), (''HSTBRSR'', JString BROWSER_NAME),
               (''PAKE'', JString (to_base64 K payload))]),
            m_capabilities := Some can_fill_codes\<rparr>))
       (build_client_key_exchange K session)"

definition sealed_query ::
    "ext \<Rightarrow> crypto \<Rightarrow> srp_session \<Rightarrow> bytes \<Rightarrow> command \<Rightarrow> string \<Rightarrow> json \<Rightarrow> string \<Rightarrow> i32 \<Rightarrow> message res" where
  "sealed_query X K session nonce cmd qid query url tab =
     bind_res (encrypt X K session nonce query) (\<lambda>encrypted.
       case x_json_compact X (obj [
           (''QID'', JString qid),
           (''SMSG'', obj [(''TID'', JString (ss_username session)),
              (''SDATA'', JString (serialize K session encrypted True))])]) of
         Inl e \<Rightarrow> Inl (mk_err ServerError (''Failed to encode payload: '' @ e))
       | Inr payload \<Rightarrow> Inr ((bare_message cmd)
           \<lparr>m_payload := Some (JString payload), m_url := Some url, m_tab_id := Some tab,
            m_frame_id := Some tab\<rparr>))"

definition message_login_names ::
    "ext \<Rightarrow> crypto \<Rightarrow> srp_session \<Rightarrow> bytes \<Rightarrow> string \<Rightarrow> message res" where
  "message_login_names X K session nonce url =
     sealed_query X K session nonce GetLoginNamesForUrl ''CmdGetLoginNames4URL''
       (obj [(''ACT'', enc_action ActGhostSearch), (''URL'', JString url)]) url 1"

definition message_password ::
    "ext \<Rightarrow> crypto \<Rightarrow> srp_session \<Rightarrow> bytes \<Rightarrow> string \<Rightarrow> string \<Rightarrow> message res" where
  "message_password X K session nonce url login_name =
     sealed_query X K session nonce GetPasswordForLoginName ''CmdGetPassword4LoginName''
       (obj [(''ACT'', enc_action ActSearch), (''URL'', JString url), (''USR'', JString login_name)])
       url 0"

definition message_verify_challenge :: "ext \<Rightarrow> crypto \<Rightarrow> srp_session \<Rightarrow> bytes \<Rightarrow> message" where
  "message_verify_challenge X K session proof_bytes =
     (let frame_text = unwrap_or [] (res_ok
            (x_json_compact X (build_client_verification_message K session proof_bytes)))
      in (bare_message Handshake)\<lparr>m_msg := Some (obj [(''HSTBRSR'', JString BROWSER_NAME),
           (''QID'', JString ''m2''), (''PAKE'', JString (to_base64 K frame_text))])\<rparr>)"

definition normalize_lookup_url :: "string \<Rightarrow> string" where
  "normalize_lookup_url raw =
     (let trimmed = trim raw in
      if contains trimmed ''://'' then trimmed else ''http://'' @ trimmed)"

end
