(* ===== verification/Client_Session.thy ===== *)
theory Client_Session
  imports Client
begin

text \<open>
  \<open>ApplePasswordManager\<close> of \<open>legacy/rust-src/client.rs\<close>: its state and the operations on it.
\<close>

record password_manager =
  pm_session :: srp_session
  pm_remote_host :: string
  pm_remote_port :: u16
  pm_challenge_ns :: int

section \<open>Sending\<close>

definition sent_datagram :: "string \<Rightarrow> string \<Rightarrow> world \<Rightarrow> world" where
  "sent_datagram target payload w = w\<lparr>w_sent := w_sent w @ [(target, payload)]\<rparr>"

definition udp_exchange ::
    "udp \<Rightarrow> bool \<times> string \<Rightarrow> string \<Rightarrow> nat \<Rightarrow> string io" where
  "udp_exchange U target payload timeout_ms w =
     (case u_bind U w (local_bind_addr_for_target target) of
        Some e \<Rightarrow> (Inl (mk_err GenericError (''Unable to create UDP socket: '' @ e)), w)
      | None \<Rightarrow>
     (case u_timeout_error U timeout_ms of
        Some e \<Rightarrow> (Inl (mk_err GenericError (''Unable to configure socket: '' @ e)), w)
      | None \<Rightarrow>
     (case u_send U w (snd target) payload of
        Some e \<Rightarrow> (Inl (mk_err GenericError (''Failed to send message: '' @ e)), w)
      | None \<Rightarrow>
          let w1 = sent_datagram (snd target) payload w in
          (case u_recv U w1 (snd target) payload of
             NoAnswer \<Rightarrow> Inl (mk_err CommunicationTimeout ''No response from helper process'')
           | RecvFails e \<Rightarrow> Inl (mk_err GenericError (''No response from helper process: '' @ e))
           | RecvGot answer \<Rightarrow>
               let response = take (MAX_MESSAGE_BYTES * 2) answer in
               if length response > MAX_MESSAGE_BYTES then
                 Inl (mk_err ProtoInvalidResponse ''Response payload too large.'')
               else Inr response, w1))))"

definition send_message_once :: "ext \<Rightarrow> legacy \<Rightarrow> udp \<Rightarrow> message \<Rightarrow> nat \<Rightarrow> json io" where
  "send_message_once X L U message timeout_ms =
     bind_io (helper_launch_profile X L) (\<lambda>config.
     bind_io (lift_res (resolve_daemon_target U (rt_host config) (rt_port config))) (\<lambda>target.
       case x_json_compact X (enc_message message) of
         Inl e \<Rightarrow> fail (mk_err ServerError (''Failed to serialize message: '' @ e))
       | Inr payload \<Rightarrow>
           if length payload > MAX_MESSAGE_BYTES then
             fail (mk_err ProtoInvalidResponse ''Request payload too large.'')
           else
             bind_io (udp_exchange U target payload timeout_ms) (\<lambda>response.
               lift_res (case x_json_parse X response of
                   Inl _ \<Rightarrow> Inl (mk_err ProtoInvalidResponse ''Invalid helper response JSON.'')
                 | Inr v \<Rightarrow> parse_response_envelope (to_value v)))))"

text \<open>The loop, by the attempts that are left; between attempts it sleeps for 250 to 499 ms.\<close>

fun send_attempts :: "ext \<Rightarrow> legacy \<Rightarrow> udp \<Rightarrow> message \<Rightarrow> nat \<Rightarrow> nat \<Rightarrow> json io" where
  "send_attempts X L U message timeout_ms 0 w = send_message_once X L U message timeout_ms w"
| "send_attempts X L U message timeout_ms (Suc left) w =
     (case send_message_once X L U message timeout_ms w of
        (Inr v, w1) \<Rightarrow> (Inr v, w1)
      | (Inl e, w1) \<Rightarrow>
          if err_code e = CommunicationTimeout then send_attempts X L U message timeout_ms left w1
          else (Inl e, w1))"

definition send_message :: "ext \<Rightarrow> legacy \<Rightarrow> udp \<Rightarrow> message \<Rightarrow> client_send_opts option \<Rightarrow> json io" where
  "send_message X L U message opts =
     (let options = unwrap_or default_send_opts opts
      in send_attempts X L U message (so_timeout_ms options) (unat (so_retries options)))"

section \<open>The session\<close>

text \<open>A configuration that cannot be read gives the default one, dated in seconds.\<close>

definition fallback_config :: "world \<Rightarrow> runtime_config" where
  "fallback_config w = default_runtime_config
     (let s = w_now w div 1000000000 in (if s < 0 then ''-'' else []) @ show_nat (nat \<bar>s\<bar>))"

definition session_of_config :: "runtime_config \<Rightarrow> srp_session \<Rightarrow> srp_session" where
  "session_of_config config session =
     (if rt_username config \<noteq> [] \<and> rt_shared_key config \<noteq> 0 then
        update_with_values session \<lparr>sv_username = Some (rt_username config),
          sv_shared_key = Some (rt_shared_key config), sv_client_private_key = None,
          sv_salt = None, sv_server_public_key = None\<rparr>
      else session)"

definition manager_new :: "ext \<Rightarrow> crypto \<Rightarrow> udp \<Rightarrow> bytes \<Rightarrow> bytes \<Rightarrow> world \<Rightarrow> password_manager \<times> world" where
  "manager_new X K U seed name w =
     (case read_config X (Some default_read_options) w of (r, w1) \<Rightarrow>
        let config = (case r of Inr c \<Rightarrow> c | Inl _ \<Rightarrow> fallback_config w1) in
        (\<lparr>pm_session = session_of_config config (srp_new K seed name True),
          pm_remote_host = rt_host config, pm_remote_port = rt_port config,
          pm_challenge_ns = u_instant_ns U w1 - 10000000000\<rparr>, w1))"

definition ensure_authenticated ::
    "ext \<Rightarrow> legacy \<Rightarrow> config_read_options option \<Rightarrow> password_manager \<Rightarrow> world
       \<Rightarrow> runtime_config res \<times> password_manager \<times> world" where
  "ensure_authenticated X L opts m w =
     (let options = unwrap_or (default_read_options\<lparr>ro_require_auth := True\<rparr>) opts in
      case read_config X (Some (options\<lparr>ro_require_auth := False\<rparr>)) w of
        (Inl e, w1) \<Rightarrow> (Inl e, m, w1)
      | (Inr config, w1) \<Rightarrow>
          let m1 = m\<lparr>pm_remote_host := rt_host config, pm_remote_port := rt_port config\<rparr> in
          case launch_error_from_config X L config w1 of
            (Some e, w2) \<Rightarrow> (Inl e, m1, w2)
          | (None, w2) \<Rightarrow>
              if rt_username config \<noteq> [] \<and> rt_shared_key config \<noteq> 0 then
                (Inr config, m1\<lparr>pm_session := session_of_config config (pm_session m1)\<rparr>, w2)
              else
                (Inl (mk_err InvalidSession
                  (if rt_last_launch_status config \<noteq> None \<or> rt_bridge_status config \<noteq> None
                      \<or> l_mode_of L config \<noteq> ModeAuto
                   then UNAUTHENTICATED_DAEMON_MESSAGE
                   else ''No active session. Use `apw app launch` and `apw login <url>` through the native app broker.'')),
                 m1, w2))"

section \<open>Challenge and verification\<close>

definition text_of_bytes :: "bytes \<Rightarrow> string" where
  "text_of_bytes bs = map char_of bs"

definition unwrapped_pake :: "ext \<Rightarrow> crypto \<Rightarrow> apw_error \<Rightarrow> string \<Rightarrow> json res" where
  "unwrapped_pake X K e encoded =
     bind_res (ok_or e (c_b64_decode K encoded)) (\<lambda>decoded.
       case x_json_parse X (text_of_bytes decoded) of Inl _ \<Rightarrow> Inl e | Inr v \<Rightarrow> Inr (to_value v))"

definition member :: "string \<Rightarrow> json \<Rightarrow> json" where
  "member k v = unwrap_or JNull (get k v)"

definition str_member :: "string \<Rightarrow> json \<Rightarrow> string" where
  "str_member k v = unwrap_or [] (get_str k v)"

definition show_signed :: "int \<Rightarrow> string" where
  "show_signed i = (if i < 0 then ''-'' else []) @ show_nat (nat \<bar>i\<bar>)"

text \<open>What the answer to a challenge has to be: the server's public key and the salt.\<close>

definition checked_challenge ::
    "ext \<Rightarrow> crypto \<Rightarrow> string \<Rightarrow> json \<Rightarrow> (nat \<times> nat) res" where
  "checked_challenge X K username payload =
     bind_res (bind_res (parse_json_payload payload ''challenge'') (\<lambda>encoded.
       if encoded = [] then Inl (mk_err ServerError ''Invalid challenge response.'')
       else Inr encoded)) (\<lambda>encoded.
     bind_res (unwrapped_pake X K (mk_err ServerError ''Invalid server challenge payload.'') encoded)
       (\<lambda>raw_message.
     if \<not> is_valid_pake_message raw_message then
       Inl (mk_err ServerError ''Invalid server challenge: malformed PAKE message'')
     else
     bind_res (parse_pake_type (member ''MSG'' raw_message) ''message'') (\<lambda>kind.
     if kind \<noteq> sint (msg_type_number ServerKeyExchange) then
       Inl (mk_err ServerError ''Invalid server challenge: unexpected message type'')
     else
     bind_res (parse_pake_type (member ''PROTO'' raw_message) ''protocol'') (\<lambda>proto.
     if proto \<noteq> sint (session_version_number SrpWithRfcVerification) then
       Inl (mk_err ServerError ''Invalid server challenge: unsupported protocol'')
     else
     bind_res (client_pake_code (member ''ErrCode'' raw_message)) (\<lambda>err_code.
     if err_code \<noteq> 0 then
       Inl (mk_err ServerError (''Invalid server challenge: error '' @ show_signed err_code))
     else if str_member ''TID'' raw_message \<noteq> username then
       Inl (mk_err InvalidSession ''Invalid server challenge: session mismatch.'')
     else
     bind_res (ok_or (mk_err ServerError ''Invalid server challenge: missing server key'')
       (get_str ''B'' raw_message)) (\<lambda>server_public_key.
     bind_res (ok_or (mk_err ServerError ''Invalid server challenge: missing salt'')
       (get_str ''s'' raw_message)) (\<lambda>salt.
     bind_res (decode_base64_or_hex K server_public_key True) (\<lambda>b.
     bind_res (decode_base64_or_hex K salt True) (\<lambda>s. Inr (b, s))))))))))"

definition request_challenge ::
    "ext \<Rightarrow> legacy \<Rightarrow> crypto \<Rightarrow> udp \<Rightarrow> password_manager \<Rightarrow> world
       \<Rightarrow> (unit res \<times> password_manager \<times> world) option" where
  "request_challenge X L K U m w =
     (let now = u_instant_ns U w in
      if max 0 (now - pm_challenge_ns m) div 1000000 < 5000 \<and> ss_shared_key (pm_session m) \<noteq> None then
        Some (Inr (), m, w)
      else
        let m1 = m\<lparr>pm_challenge_ns := now\<rparr> in
        case message_request_challenge X K (pm_session m1) of
          None \<Rightarrow> None
        | Some (Inl e) \<Rightarrow> Some (Inl e, m1, w)
        | Some (Inr request) \<Rightarrow>
            Some (case send_message X L U request None w of
              (Inl e, w1) \<Rightarrow> (Inl e, m1, w1)
            | (Inr payload, w1) \<Rightarrow>
                (case checked_challenge X K (ss_username (pm_session m1)) payload of
                   Inl e \<Rightarrow> (Inl e, m1, w1)
                 | Inr (b, salt) \<Rightarrow>
                     (case set_server_public_key b salt (pm_session m1) of
                        (r, s1) \<Rightarrow> (r, m1\<lparr>pm_session := s1\<rparr>, w1)))))"

text \<open>What the answer to the proof has to be: the server's own proof.\<close>

definition checked_verification ::
    "ext \<Rightarrow> crypto \<Rightarrow> srp_session \<Rightarrow> json \<Rightarrow> bytes res" where
  "checked_verification X K session payload =
     bind_res (parse_json_payload payload ''verification'') (\<lambda>encoded.
     bind_res (unwrapped_pake X K (mk_err ServerError ''Invalid server verification payload.'') encoded)
       (\<lambda>raw_message.
     if \<not> is_valid_pake_message raw_message then
       Inl (mk_err ServerError ''Invalid server verification.'')
     else
     bind_res (parse_pake_type (member ''MSG'' raw_message) ''message'') (\<lambda>kind.
     if kind \<noteq> sint (msg_type_number ServerVerification) then
       Inl (mk_err ServerError ''Invalid server verification type.'')
     else if str_member ''TID'' raw_message \<noteq> ss_username session then
       Inl (mk_err InvalidSession ''Invalid server response session.'')
     else
     bind_res (client_pake_code (member ''ErrCode'' raw_message)) (\<lambda>err_code.
     if err_code = 1 then Inl (mk_err InvalidSession ''Incorrect PIN.'')
     else if err_code \<noteq> 0 then Inl (mk_err ServerError ''Server verification failed.'')
     else
     bind_res (ok_or (mk_err ServerError ''Invalid verification: missing HAMK.'')
       (get_str ''HAMK'' raw_message)) (\<lambda>hamk. deserialize K session hamk)))))"

definition store_session :: "ext \<Rightarrow> nat \<Rightarrow> password_manager \<Rightarrow> unit io" where
  "store_session X shared_key m =
     bind_io (write_config X (default_write_input
       \<lparr>wi_username := Some (ss_username (pm_session m)), wi_shared_key := Some shared_key,
        wi_port := Some (pm_remote_port m), wi_host := Some (pm_remote_host m),
        wi_allow_empty := False, wi_refresh_created_at := True\<rparr>)) (\<lambda>_. ret ())"

definition verify_challenge ::
    "ext \<Rightarrow> legacy \<Rightarrow> crypto \<Rightarrow> udp \<Rightarrow> string \<Rightarrow> password_manager \<Rightarrow> world
       \<Rightarrow> (unit res \<times> password_manager \<times> world) option" where
  "verify_challenge X L K U pin m0 w0 =
     (case set_shared_key K pin (pm_session m0) of
        None \<Rightarrow> None
      | Some (Inl e, s) \<Rightarrow> Some (Inl e, m0\<lparr>pm_session := s\<rparr>, w0)
      | Some (Inr shared_key, s) \<Rightarrow>
     (let m = m0\<lparr>pm_session := s\<rparr> in
      case compute_m K s of
        None \<Rightarrow> None
      | Some (Inl e) \<Rightarrow> Some (Inl e, m, w0)
      | Some (Inr proof_bytes) \<Rightarrow>
     (case send_message X L U (message_verify_challenge X K s proof_bytes) None w0 of
        (Inl e, w) \<Rightarrow> Some (Inl e, m, w)
      | (Inr response, w) \<Rightarrow>
     (case checked_verification X K s response of
        Inl e \<Rightarrow> Some (Inl e, m, w)
      | Inr expected \<Rightarrow>
     (case compute_hmac K s proof_bytes of
        None \<Rightarrow> None
      | Some (Inl e) \<Rightarrow> Some (Inl e, m, w)
      | Some (Inr computed) \<Rightarrow>
          if \<not> verify_hamk expected computed then
            Some (Inl (mk_err ServerError ''Invalid verification proof.''), m, w)
          else Some (case store_session X shared_key m w of (r, w1) \<Rightarrow> (r, m, w1)))))))"

section \<open>Lookups\<close>

record payload =
  pl_status :: status
  pl_entries :: "json list"

definition payload_fields :: "string list list" where
  "payload_fields = [[''STATUS''], [''Entries'']]"

definition dec_payload :: "json \<Rightarrow> payload option" where
  "dec_payload v =
     (if \<not> well_shaped payload_fields v then None else
      let f = field_of payload_fields v in do {
        st \<leftarrow> req dec_status (f [''STATUS'']);
        entries \<leftarrow> req (dec_vec Some) (f [''Entries'']);
        Some \<lparr>pl_status = st, pl_entries = entries\<rparr> })"

definition decrypt_payload :: "ext \<Rightarrow> crypto \<Rightarrow> srp_session \<Rightarrow> json \<Rightarrow> json res" where
  "decrypt_payload X K session payload =
     bind_res (parse_smsg payload) (\<lambda>container.
     if sm_TID container \<noteq> ss_username session then
       Inl (mk_err InvalidSession ''Response destined to another session.'')
     else
     bind_res (deserialize K session (sm_SDATA container)) (\<lambda>encrypted.
     bind_res (ok_or (mk_err ProtoInvalidResponse ''Invalid data payload.'')
       (res_ok (decrypt K session encrypted))) (\<lambda>data.
       case x_json_parse X (text_of_bytes data) of
         Inl _ \<Rightarrow> Inl (mk_err ProtoInvalidResponse ''Invalid data payload.'')
       | Inr v \<Rightarrow> Inr (to_value v))))"

definition lookup ::
    "ext \<Rightarrow> legacy \<Rightarrow> crypto \<Rightarrow> udp \<Rightarrow> (srp_session \<Rightarrow> message res) \<Rightarrow> password_manager \<Rightarrow> world
       \<Rightarrow> payload res \<times> password_manager \<times> world" where
  "lookup X L K U query m w =
     (case ensure_authenticated X L None m w of
        (Inl e, m1, w1) \<Rightarrow> (Inl e, m1, w1)
      | (Inr _, m1, w1) \<Rightarrow>
     (case query (pm_session m1) of
        Inl e \<Rightarrow> (Inl e, m1, w1)
      | Inr msg \<Rightarrow>
     (case send_message X L U msg None w1 of
        (Inl e, w2) \<Rightarrow> (Inl e, m1, w2)
      | (Inr response, w2) \<Rightarrow>
          (bind_res (decrypt_payload X K (pm_session m1) response) (\<lambda>decrypted.
             ok_or (mk_err ProtoInvalidResponse ''Invalid helper response payload.'')
               (dec_payload decrypted)), m1, w2))))"

definition get_login_names_for_url ::
    "ext \<Rightarrow> legacy \<Rightarrow> crypto \<Rightarrow> udp \<Rightarrow> bytes \<Rightarrow> string \<Rightarrow> password_manager \<Rightarrow> world
       \<Rightarrow> payload res \<times> password_manager \<times> world" where
  "get_login_names_for_url X L K U nonce url =
     lookup X L K U (\<lambda>session. message_login_names X K session nonce (normalize_lookup_url url))"

definition get_password_for_url ::
    "ext \<Rightarrow> legacy \<Rightarrow> crypto \<Rightarrow> udp \<Rightarrow> bytes \<Rightarrow> string \<Rightarrow> string \<Rightarrow> password_manager \<Rightarrow> world
       \<Rightarrow> payload res \<times> password_manager \<times> world" where
  "get_password_for_url X L K U nonce url login_name =
     lookup X L K U
       (\<lambda>session. message_password X K session nonce (normalize_lookup_url url) login_name)"

section \<open>Status and logout\<close>

definition session_over :: "ext \<Rightarrow> world \<Rightarrow> string \<Rightarrow> bool" where
  "session_over X w created_at =
     (case x_rfc3339_parse X created_at of
        None \<Rightarrow> True
      | Some created \<Rightarrow>
          if created > w_now w then True
          else (w_now w - created) div 1000000 > sint SESSION_MAX_AGE_MS)"

definition manager_status :: "ext \<Rightarrow> legacy \<Rightarrow> world \<Rightarrow> json \<times> world" where
  "manager_status X L w0 =
     (case read_config X (Some default_read_options) w0 of (r, w1) \<Rightarrow>
        let config = (case r of Inr c \<Rightarrow> c | Inl _ \<Rightarrow> fallback_config w1);
            mode = (case r of Inr c \<Rightarrow> l_mode_of L c | Inl _ \<Rightarrow> ModeAuto);
            expired = session_over X w1 (rt_created_at config);
            (preflight, w2) = helper_preflight_status X L mode w1;
            bundle_version = unwrap_or JNull
              (Option.bind (get ''appBundle'' preflight) (get ''version''));
            bridge_browser = (if mode = ModeBrowser then rt_bridge_browser config else None);
            (app_status, w3) = native_app_status X w2
        in (obj [
          (''releaseLine'', obj [(''target'', JString ''v2.0.0''),
             (''legacyParityRetained'', JBool True),
             (''primaryContract'', JString ''credential_broker'')]),
          (''app'', app_status),
          (''daemon'', obj [(''host'', JString (rt_host config)), (''port'', enc_u16 (rt_port config)),
             (''schema'', enc_i32 (rt_schema config)), (''runtimeMode'', l_mode_json L mode),
             (''lastLaunchStatus'', null_or JString (rt_last_launch_status config)),
             (''lastLaunchError'', null_or JString (rt_last_launch_error config)),
             (''lastLaunchStrategy'', null_or JString (rt_last_launch_strategy config)),
             (''preflight'', preflight)]),
          (''host'', obj [(''status'', null_or JString (rt_bridge_status config)),
             (''connectedAt'', null_or JString (rt_bridge_connected_at config)),
             (''bundleVersion'', bundle_version),
             (''lastError'', null_or JString (rt_bridge_last_error config))]),
          (''bridge'', obj [(''status'', null_or JString (rt_bridge_status config)),
             (''browser'', null_or JString bridge_browser),
             (''connectedAt'', null_or JString (rt_bridge_connected_at config)),
             (''lastError'', null_or JString (rt_bridge_last_error config))]),
          (''session'', obj [(''username'', JString (rt_username config)),
             (''createdAt'', JString (rt_created_at config)),
             (''expired'', JBool expired),
             (''authenticated'', JBool (rt_username config \<noteq> [] \<and> rt_shared_key config \<noteq> 0
                \<and> \<not> expired))])], w3))"

record apw_response_envelope =
  en_ok :: bool
  en_code :: status
  en_payload :: "json option"
  en_error :: "string option"
  en_request_id :: "string option"

definition status_envelope :: "ext \<Rightarrow> legacy \<Rightarrow> world \<Rightarrow> apw_response_envelope \<times> world" where
  "status_envelope X L w =
     (case manager_status X L w of (s, w1) \<Rightarrow>
        (\<lparr>en_ok = True, en_code = Success, en_payload = Some s, en_error = None,
          en_request_id = None\<rparr>, w1))"

definition logout :: "ext \<Rightarrow> crypto \<Rightarrow> udp \<Rightarrow> bytes \<Rightarrow> bytes \<Rightarrow> password_manager \<Rightarrow> world
       \<Rightarrow> unit res \<times> password_manager \<times> world" where
  "logout X K U seed name m w =
     (let w1 = clear_config X w in
      (Inr (), m\<lparr>pm_session := srp_new K seed name True, pm_challenge_ns := u_instant_ns U w1 - 10000000000\<rparr>, w1))"

definition set_session_for_response ::
    "string \<Rightarrow> nat \<Rightarrow> nat \<Rightarrow> nat \<Rightarrow> password_manager \<Rightarrow> password_manager" where
  "set_session_for_response username client_private_key server_public_key salt m =
     m\<lparr>pm_session := update_with_values (pm_session m)
       \<lparr>sv_username = Some username, sv_shared_key = None,
        sv_client_private_key = Some client_private_key, sv_salt = Some salt,
        sv_server_public_key = Some server_public_key\<rparr>\<rparr>"

end
