(* ===== verification/Client_Laws.thy ===== *)
theory Client_Laws
  imports Client_Session Still Host_Laws Srp_Laws Bridge_Runs
begin

text \<open>
  The archived client: it reads back what the daemon sends, sends a bounded number of datagrams for
  a message, and stores a session only after the server has proved that it has the same key.
\<close>

section \<open>Envelopes\<close>

lemma parse_status_code_enc: "parse_status_code (enc_status s) = Some s"
  by (cases s) (simp_all add: parse_status_code_def enc_status_def enc_i32_def as_i64_cast_def status_try_from_def)

text \<open>What the daemon sends the client reads back: the payload of a success, the status and the text
  of an error. An error whose status is \<open>Success\<close> is sent as a success without payload, and refused.\<close>

theorem envelope_roundtrip:
  "parse_response_envelope (to_value (response_envelope Success (Some p) e)) = Inr (to_value p)
   \<and> (s \<noteq> Success \<longrightarrow> parse_response_envelope (to_value (response_envelope s q e))
        = Inl (mk_err s (unwrap_or (status_text s) e)))
   \<and> parse_response_envelope (to_value (response_envelope Success None e))
        = Inl (mk_err ProtoInvalidResponse ''Missing helper payload.'')"
proof -
  have number: "to_value (enc_status t) = enc_status t" for t by (simp add: enc_status_def enc_i32_def)
  show ?thesis
    by (simp add: parse_response_envelope_def response_envelope_def opt_field_def get_str_def number
        parse_status_code_enc)
qed

theorem envelope_roundtrip_witness:
  "parse_response_envelope (to_value (response_envelope NoResults None (Some ''none'')))
     = Inl (mk_err NoResults ''none'')"
  using envelope_roundtrip [where s = NoResults and e = "Some ''none''" and q = None] by simp

section \<open>Datagrams\<close>

lemma still_version [silent_rules]:
  assumes "observed obs"
  shows "still obs w (sw_vers_major X w)" "still obs w (current_macos_major_version X w)"
    "still obs w (resolve_runtime_mode X m w)"
proof -
  show 1: "still obs w (sw_vers_major X w)" for w
    unfolding sw_vers_major_def by (intro silent_rules assms)
  show 2: "still obs w (current_macos_major_version X w)" for w
    unfolding current_macos_major_version_def by (intro silent_rules assms 1)
  show "still obs w (resolve_runtime_mode X m w)"
    unfolding resolve_runtime_mode_def Let_def by (intro silent_rules assms 2)
qed

lemma still_native [silent_rules]:
  assumes "observed obs"
  shows "still obs w (native_host_preflight_status X L m w)" "still obs w (native_host_status_note X L w)"
    "still obs w (native_host_failure_message X L t w)"
proof -
  have "asks w w' \<Longrightarrow> obs w' = obs w" for w w'
    by (auto simp: asks_def intro: observedD [OF assms])
  then show 1: "still obs w (native_host_preflight_status X L m w)" for w m
    unfolding still_def using asks_preflight by blast
  show "still obs w (native_host_status_note X L w)" "still obs w (native_host_failure_message X L t w)"
    unfolding native_host_status_note_def native_host_failure_message_def Let_def
    by (intro silent_rules 1)+
qed

lemma still_report: "(\<And>a b c. still obs w (f a b c)) \<Longrightarrow> still obs w (case q of (a, b, c) \<Rightarrow> f a b c)"
  by (cases q) simp

lemma still_helper_preflight [silent_rules]:
  assumes "observed obs"
  shows "still obs w (helper_preflight_status X L m w)" "still obs w (helper_preflight_status_note X L m w)"
    "still obs w (helper_preflight_failure_message X L m t w)"
proof -
  show 1: "still obs w (helper_preflight_status X L m w)" for w m
    unfolding helper_preflight_status_def Let_def by (intro silent_rules assms still_report)
  show "still obs w (helper_preflight_status_note X L m w)" "still obs w (helper_preflight_failure_message X L m t w)"
    unfolding helper_preflight_status_note_def helper_preflight_failure_message_def Let_def
    by (intro silent_rules assms 1)+
qed

lemma still_not_running: "still obs w p \<Longrightarrow> still obs w (not_running p)"
  by (cases p) (simp add: still_def not_running_def)

lemma still_launch_error [silent_rules]:
  assumes "observed obs"
  shows "still obs w (launch_error_from_config X L config w)"
proof -
  have native: "still obs w (native_host_remediation X L config d w)" for d w
    unfolding native_host_remediation_def Let_def by (intro silent_rules assms)
  have browser: "still obs w (browser_bridge_remediation X L config d w)" for d w
    unfolding browser_bridge_remediation_def Let_def by (intro silent_rules assms)
  show ?thesis
    unfolding launch_error_from_config_def native_host_error_from_config_def
      browser_bridge_error_from_config_def Let_def
    by (intro silent_rules assms still_not_running native browser)
qed

lemma still_profile [silent_rules]: "observed obs \<Longrightarrow> still obs w (helper_launch_profile X L w)"
  unfolding helper_launch_profile_def by (intro silent_rules)

text \<open>What one attempt may send: nothing, or the message in at most 32768 bytes.\<close>

definition sends_at_most :: "ext \<Rightarrow> message \<Rightarrow> nat \<Rightarrow> world \<Rightarrow> world \<Rightarrow> bool" where
  "sends_at_most X message n w w' \<longleftrightarrow>
     (\<exists>sent. w_sent w' = w_sent w @ sent \<and> length sent \<le> n
       \<and> (\<forall>(target, p) \<in> set sent. x_json_compact X (enc_message message) = Inr p \<and> length p \<le> MAX_MESSAGE_BYTES))"

lemma sends_trans:
  assumes "sends_at_most X message m u v" "sends_at_most X message n v w"
  shows "sends_at_most X message (m + n) u w"
proof -
  let ?ok = "\<lambda>(target, p). x_json_compact X (enc_message message) = Inr p \<and> length p \<le> MAX_MESSAGE_BYTES"
  obtain s1 where one: "w_sent v = w_sent u @ s1" "length s1 \<le> m" "\<forall>x \<in> set s1. ?ok x"
    using assms(1) unfolding sends_at_most_def by blast
  obtain s2 where two: "w_sent w = w_sent v @ s2" "length s2 \<le> n" "\<forall>x \<in> set s2. ?ok x"
    using assms(2) unfolding sends_at_most_def by blast
  show ?thesis unfolding sends_at_most_def
    by (rule exI [of _ "s1 @ s2"]) (use one two in auto)
qed

lemma sends_none: "w_sent w' = w_sent w \<Longrightarrow> sends_at_most X message n w w'"
  unfolding sends_at_most_def by (rule exI [of _ "[]"]) simp

lemma exchange_sends:
  assumes "x_json_compact X (enc_message message) = Inr p" "length p \<le> MAX_MESSAGE_BYTES"
  shows "sends_at_most X message 1 w (snd (udp_exchange U target p t w))"
  using assms sends_none [of w w X message 1]
  by (auto simp: udp_exchange_def Let_def sent_datagram_def sends_at_most_def split: option.splits)

lemma once_sends: "send_message_once X L U message t w = (r, w') \<Longrightarrow> sends_at_most X message 1 w w'"
proof -
  assume run: "send_message_once X L U message t w = (r, w')"
  obtain c w1 where profile: "helper_launch_profile X L w = (c, w1)" by fastforce
  have w1: "w_sent w1 = w_sent w"
    using still_profile [OF observed_fields(2), of w X L] by (simp add: still_def profile)
  show ?thesis
  proof (cases "w_sent w' = w_sent w1")
    case True
    then show ?thesis using w1 by (intro sends_none) simp
  next
    case False
    then obtain config target p where ok: "c = Inr config"
      "resolve_daemon_target U (rt_host config) (rt_port config) = Inr target"
      "x_json_compact X (enc_message message) = Inr p" "length p \<le> MAX_MESSAGE_BYTES"
      using run by (auto simp: send_message_once_def bind_io_def profile not_less
          split: sum.splits if_splits)
    have "w' = snd (udp_exchange U target p t w1)"
      using run ok by (auto simp: send_message_once_def bind_io_def profile split: sum.splits prod.splits)
    with exchange_sends [OF ok(3,4), of w1 U target t] show ?thesis
      by (simp add: sends_at_most_def w1)
  qed
qed

text \<open>C26: Sending a message ends after at most one attempt more than the retries asked for. Each
  attempt sends at most one datagram, the message itself in at most 32768 bytes.\<close>

theorem retries_bounded:
  assumes "send_message X L U message opts w = (r, w')"
  shows "sends_at_most X message (unat (so_retries (unwrap_or default_send_opts opts)) + 1) w w'"
proof -
  have "sends_at_most X message (n + 1) w w'" if "send_attempts X L U message t n w = (r, w')" for t n w
    using that
  proof (induction n arbitrary: w)
    case 0
    then show ?case using once_sends by simp
  next
    case (Suc n)
    obtain r1 w1 where once: "send_message_once X L U message t w = (r1, w1)" by fastforce
    from once_sends [OF once] have first: "sends_at_most X message 1 w w1" .
    show ?case
    proof (cases "\<exists>e. r1 = Inl e \<and> err_code e = CommunicationTimeout")
      case True
      then have "send_attempts X L U message t n w1 = (r, w')" using Suc.prems by (auto simp: once)
      from sends_trans [OF first Suc.IH [OF this]] show ?thesis by simp
    next
      case False
      then have "w' = w1" using Suc.prems by (auto simp: once split: sum.splits if_splits)
      then show ?thesis using first sends_trans [OF first sends_none [of w1 w1 X message "Suc n"]] by simp
    qed
  qed
  from this [of "so_timeout_ms (unwrap_or default_send_opts opts)"] show ?thesis
    using assms by (simp add: send_message_def Let_def)
qed

section \<open>Verification\<close>


section \<open>Examples and limits\<close>

definition sample_udp :: udp where
  "sample_udp = \<lparr>u_resolve = (\<lambda>_ _. Inr [(True, ''127.0.0.1:10000'')]), u_bind = (\<lambda>_ _. None),
     u_timeout_error = (\<lambda>_. None), u_send = (\<lambda>_ _ _. None), u_recv = (\<lambda>_ _ _. NoAnswer),
     u_instant_ns = (\<lambda>_. 0)\<rparr>"

theorem retries_bounded_witness:
  "\<exists>r w'. send_message (sample_ext []) sample_legacy sample_udp message_get_capabilities
       (Some \<lparr>so_timeout_ms = 1, so_retries = 2\<rparr>) (sample_world []) = (r, w')
     \<and> sends_at_most (sample_ext []) message_get_capabilities 3 (sample_world []) w'"
proof -
  obtain r w' where run: "send_message (sample_ext []) sample_legacy sample_udp message_get_capabilities
       (Some \<lparr>so_timeout_ms = 1, so_retries = 2\<rparr>) (sample_world []) = (r, w')" by fastforce
  from retries_bounded [OF run] run show ?thesis by auto
qed

text \<open>Before the server has answered the challenge a verification fails, whatever the PIN.\<close>

definition sample_manager :: password_manager where
  "sample_manager = \<lparr>pm_session = srp_new sample_crypto [1] [2] True, pm_remote_host = ''127.0.0.1'',
     pm_remote_port = 10000, pm_challenge_ns = 0\<rparr>"


text \<open>
  A verification that fails leaves its key in the session: within five seconds of the challenge the
  next one is skipped and reports success, and nothing has been sent.
\<close>

lemma failed_verification_skips_challenge:
  assumes "set_shared_key K pin (pm_session m0) = Some (Inr key, s)"
    and "verify_challenge X L K U pin m0 w0 = Some (r, m, w)"
    and "0 \<le> u_instant_ns U w' - pm_challenge_ns m0" "u_instant_ns U w' - pm_challenge_ns m0 < 5000000000"
  shows "request_challenge X L K U m w' = Some (Inr (), m, w')"
proof -
  have key: "ss_shared_key s = Some key"
    using assms(1) by (auto simp: set_shared_key_def split: if_splits option.splits sum.splits)
  have "m = m0\<lparr>pm_session := s\<rparr>"
    using assms(1,2) by (auto simp: verify_challenge_def Let_def
        split: option.splits sum.splits prod.splits if_splits)
  moreover have "max 0 (u_instant_ns U w' - pm_challenge_ns m0) div 1000000 < 5000"
    using assms(3,4) by simp
  ultimately show ?thesis using key by (simp add: request_challenge_def Let_def)
qed

end
