(* ===== verification/Exchange.thy ===== *)
theory Exchange
  imports Daemon_Laws Client_Laws
begin

text \<open>
  Client, daemon and helper together: what a request loop makes of a datagram is what the client's
  \<open>send_message_once\<close> returns, and what the other side of the session seals and proves is what the
  client reads and accepts.
\<close>

section \<open>The client of a request loop\<close>

text \<open>The datagrams of the client reach the loop in the state \<open>s\<close>, and its answer the client.\<close>

definition udp_reaches ::
    "udp \<Rightarrow> nat \<Rightarrow> (datagram \<Rightarrow> 's \<times> world \<Rightarrow> 's \<times> world) \<Rightarrow> datagram \<Rightarrow> 's \<times> world \<Rightarrow> bool" where
  "udp_reaches U timeout serve g s \<longleftrightarrow>
     (\<forall>w a. u_bind U w a = None) \<and> u_timeout_error U timeout = None \<and> (\<forall>w a p. u_send U w a p = None)
     \<and> (\<forall>w a p. u_recv U w a p =
          (case drop (length (clients (snd s))) (clients (snd (serve (g\<lparr>dg_bytes := p\<rparr>) s))) of
             [] \<Rightarrow> NoAnswer
           | (_, t) # _ \<Rightarrow> RecvGot t))"

text \<open>Documented behaviour of \<open>serde_json\<close>: a value that was printed is read again.\<close>

definition reads_back :: "ext \<Rightarrow> json \<Rightarrow> bool" where
  "reads_back X v \<longleftrightarrow>
     (\<forall>t. x_json_compact X v = Inr t \<longrightarrow> (\<exists>u. x_json_parse X t = Inr u \<and> to_value u = to_value v))"

definition reply_envelope :: "json res \<Rightarrow> json" where
  "reply_envelope a =
     (case a of
        Inr v \<Rightarrow> response_envelope Success (Some v) None
      | Inl e \<Rightarrow> response_envelope (err_code e) None (Some (err_message e)))"

definition told :: "json res \<Rightarrow> bool" where
  "told a \<longleftrightarrow> (\<forall>e. a = Inl e \<longrightarrow> err_code e \<noteq> Success)"

lemma reply_read: "told a \<Longrightarrow> parse_response_envelope (to_value (reply_envelope a)) = map_sum id to_value a"
  using envelope_roundtrip by (auto simp: reply_envelope_def told_def mk_err_def split: sum.split)

text \<open>A configuration that lets the client send the message, and the text it sends.\<close>

definition client_ready :: "ext \<Rightarrow> legacy \<Rightarrow> udp \<Rightarrow> message \<Rightarrow> world \<Rightarrow> string \<Rightarrow> bool" where
  "client_ready X L U message w p \<longleftrightarrow>
     (\<exists>config w1 target. helper_launch_profile X L w = (Inr config, w1)
       \<and> resolve_daemon_target U (rt_host config) (rt_port config) = Inr target)
     \<and> x_json_compact X (enc_message message) = Inr p \<and> length p \<le> MAX_MESSAGE_BYTES"

locale replying_loop = request_loop X N serve
  for X :: ext and N :: net and serve :: "datagram \<Rightarrow> 's \<times> world \<Rightarrow> 's \<times> world" +
  fixes reply :: "datagram \<Rightarrow> 's \<times> world \<Rightarrow> json res"
  assumes replies: "\<not> prefix ''connection-'' (dg_peer g) \<Longrightarrow> length (received g) \<le> MAX_HELPER_PAYLOAD
      \<Longrightarrow> \<forall>w q t. n_send N w q t = None \<Longrightarrow> x_json_compact X (reply_envelope (reply g s)) = Inr t
      \<Longrightarrow> clients (snd (serve g s)) = clients (snd s) @ [(dg_peer g, t)]"
begin

lemma client_gets:
  assumes ready: "client_ready X L U message w p" and reach: "udp_reaches U timeout serve g s"
    and peer: "\<not> prefix ''connection-'' (dg_peer g)" and sends: "\<forall>w q t. n_send N w q t = None"
    and a: "a = reply (g\<lparr>dg_bytes := p\<rparr>) s" "told a"
    and t: "x_json_compact X (reply_envelope a) = Inr t" "length t \<le> MAX_MESSAGE_BYTES"
      "reads_back X (reply_envelope a)"
  shows "fst (send_message_once X L U message timeout w) = map_sum id to_value a"
proof -
  obtain config w1 target where profile: "helper_launch_profile X L w = (Inr config, w1)"
    "resolve_daemon_target U (rt_host config) (rt_port config) = Inr target"
    and p: "x_json_compact X (enc_message message) = Inr p" "length p \<le> MAX_MESSAGE_BYTES"
    using ready by (auto simp: client_ready_def)
  have "received (g\<lparr>dg_bytes := p\<rparr>) = p"
    using p(2) by (simp add: received_def MAX_FRAME_SIZE_def MAX_HELPER_PAYLOAD_def)
  then have "clients (snd (serve (g\<lparr>dg_bytes := p\<rparr>) s)) = clients (snd s) @ [(dg_peer g, t)]"
    using replies [of "g\<lparr>dg_bytes := p\<rparr>" s t] peer sends p(2) t(1) a(1) by (simp add: MAX_HELPER_PAYLOAD_def)
  then have "u_recv U v q p = RecvGot t" for v q
    using reach by (simp add: udp_reaches_def)
  then have "udp_exchange U target p timeout v = (Inr t, sent_datagram (snd target) p v)" for v
    using reach t(2) by (simp add: udp_exchange_def udp_reaches_def Let_def)
  moreover obtain u where "x_json_parse X t = Inr u" "to_value u = to_value (reply_envelope a)"
    using t(1,3) by (auto simp: reads_back_def)
  ultimately show ?thesis
    using profile p reply_read [OF a(2)] by (simp add: send_message_once_def bind_io_def lift_res_def)
qed

end

text \<open>What the loop over the bridge replies.\<close>

definition bridged_reply ::
    "ext \<Rightarrow> legacy \<Rightarrow> bridge_conf \<Rightarrow> (string \<Rightarrow> string) \<Rightarrow> datagram \<Rightarrow> tasks \<times> world \<Rightarrow> json res" where
  "bridged_reply X L C D g s =
     bind_res (fst (enqueue_request X L C D (dg_during g) (received g) (run_tasks X L C D (dg_before g) s)))
       parse_helper_response_shape"

text \<open>What the helper answers, and what the loop over the helper makes of a failure.\<close>

definition helper_answer :: "ext \<Rightarrow> string \<Rightarrow> helper \<Rightarrow> json res \<times> helper" where
  "helper_answer X request h =
     (case write_frame request h of
        (Inl e, h1) \<Rightarrow> (Inl e, h1)
      | (Inr _, h1) \<Rightarrow>
          (case read_frame h1 of
             (TimedOut, h2) \<Rightarrow> (Inl (mk_err CommunicationTimeout ''Command output timeout.''), h2)
           | (ReadFailed e, h2) \<Rightarrow> (Inl e, h2)
           | (Got a, h2) \<Rightarrow> (bind_res (parse_helper_payload X a) parse_helper_response_shape, h2)))"

definition helped_reply :: "ext \<Rightarrow> datagram \<Rightarrow> helper \<times> world \<Rightarrow> json res" where
  "helped_reply X g = (\<lambda>(h, w).
     case helper_answer X (received g) h of
       (Inr v, _) \<Rightarrow> Inr v
     | (Inl e, h1) \<Rightarrow> Inl (fst (mapped_failure e (h1, w))))"

lemma envelope_sent:
  assumes "\<forall>w q t. n_send N w q t = None" "\<not> prefix ''connection-'' p"
    "x_json_compact X (response_envelope st pl e) = Inr t"
  shows "send_envelope_to_client X N p st pl e w = (Inr (), w\<lparr>w_sent := w_sent w @ [(p, t)]\<rparr>)"
    and "clients (send_ignoring X N p st pl e w) = clients w @ [(p, t)]"
    and "clients (w\<lparr>w_sent := w_sent w @ [(p, t)]\<rparr>) = clients w @ [(p, t)]"
  using assms by (simp_all add: send_envelope_to_client_def send_ignoring_def clients_def)

lemma exchange_answer:
  "helper_exchange X N p request (h, w) =
     (case helper_answer X request h of
        (Inl e, h1) \<Rightarrow> (Inl e, h1, w)
      | (Inr v, h1) \<Rightarrow> (case send_envelope_to_client X N p Success (Some v) None w of (r, w1) \<Rightarrow> (r, h1, w1)))"
  by (simp add: helper_exchange_def helper_answer_def split: prod.split sum.split reading.split)

lemma bridged_replies:
  assumes "\<not> prefix ''connection-'' (dg_peer g)" "length (received g) \<le> MAX_HELPER_PAYLOAD"
    and "\<forall>w q t. n_send N w q t = None" "x_json_compact X (reply_envelope (bridged_reply X L C D g s)) = Inr t"
  shows "clients (snd (serve_bridged X L N C D g s)) = clients (snd s) @ [(dg_peer g, t)]"
proof -
  obtain T w where before: "run_tasks X L C D (dg_before g) s = (T, w)" by fastforce
  obtain a T1 w1 where served: "enqueue_request X L C D (dg_during g) (received g) (T, w) = (a, T1, w1)"
    by (metis prod_cases3)
  have "clients w1 = clients (snd s)"
    using clients_tasks [of X L C D "dg_before g" s] clients_enqueue [of X L C D "dg_during g" "received g" "(T, w)"]
    by (simp add: before served)
  moreover have "clients (answer_client X N (dg_peer g) (bind_res a parse_helper_response_shape) w1)
      = clients w1 @ [(dg_peer g, t)]"
    using assms(4) envelope_sent(2) [OF assms(3,1)]
    by (auto simp: answer_client_def bridged_reply_def before served reply_envelope_def split: sum.splits)
  ultimately show ?thesis using assms(2) by (simp add: serve_bridged_def before served)
qed

lemma helped_replies:
  assumes peer: "\<not> prefix ''connection-'' (dg_peer g)" and size: "length (received g) \<le> MAX_HELPER_PAYLOAD"
    and sends: "\<forall>w q t. n_send N w q t = None" and t: "x_json_compact X (reply_envelope (helped_reply X g s)) = Inr t"
  shows "clients (snd (serve_helped X L N C ls g s)) = clients (snd s) @ [(dg_peer g, t)]"
proof -
  obtain h w where s: "s = (h, w)" by (cases s)
  obtain a h1 where answer: "helper_answer X (received g) h = (a, h1)" by fastforce
  show ?thesis
  proof (cases a)
    case (Inr v)
    then have "x_json_compact X (response_envelope Success (Some v) None) = Inr t"
      using t by (simp add: s helped_reply_def answer reply_envelope_def)
    from envelope_sent [OF sends peer this] show ?thesis
      using size Inr by (simp add: serve_helped_def s exchange_answer answer)
  next
    case (Inl e)
    obtain m h2 w2 where mapped: "mapped_failure e (h1, w) = (m, h2, w2)" by (metis prod_cases3)
    have w2: "clients w2 = clients w" using mapped_clients [OF mapped] by simp
    obtain r w3 where stored: "write_config X (persistence_for_launch_error L (bc_host C) (bc_port C)
        (bc_mode C) ls (err_message m)) w2 = (r, w3)" by fastforce
    have w3: "clients w3 = clients w" using clients_write [OF stored] w2 by simp
    have "x_json_compact X (response_envelope (err_code m) None (Some (err_message m))) = Inr t"
      using t Inl by (simp add: s helped_reply_def answer mapped reply_envelope_def)
    note sent = envelope_sent(2) [OF sends peer this]
    have "clients (snd (helper_failed X L N C ls (dg_peer g) e (h1, w))) = clients w @ [(dg_peer g, t)]"
    proof (cases "err_code m = ProcessNotRunning")
      case True
      then show ?thesis
        using sent w3 by (cases r) (simp_all add: helper_failed_def mapped stored Let_def)
    next
      case False
      then show ?thesis using sent w2 by (simp add: helper_failed_def mapped)
    qed
    then show ?thesis using size Inl by (simp add: serve_helped_def s exchange_answer answer)
  qed
qed

interpretation bridge_client: replying_loop X N "serve_bridged X L N C D" "bridged_reply X L C D" for X N L C D
  by unfold_locales (rule bridged_replies)

interpretation helper_client: replying_loop X N "serve_helped X L N C ls" "helped_reply X" for X N L C ls
  by unfold_locales (rule helped_replies)

section \<open>Values\<close>

lemma fold_ins_facts:
  "sorted_wrt (<) (map fst (fold (\<lambda>(k, v). ins k v) kvs []))
   \<and> set (map snd (fold (\<lambda>(k, v). ins k v) kvs [])) \<subseteq> set (map snd kvs)"
proof (induction kvs rule: rev_induct)
  case (snoc kv kvs)
  let ?f = "fold (\<lambda>(k, v). ins k v) kvs []"
  have "set (map snd (ins (fst kv) (snd kv) ?f)) \<subseteq> insert (snd kv) (set (map snd kvs))"
    using snoc set_ins_vals [of "fst kv" "snd kv" ?f] by blast
  moreover have "sorted_wrt (<) (map fst (ins (fst kv) (snd kv) ?f))" using snoc sorted_ins by blast
  ultimately show ?case by (cases kv) auto
qed simp

lemma map_values_id:
  "(\<And>x. x \<in> set (map snd kvs) \<Longrightarrow> to_value x = x) \<Longrightarrow> map (\<lambda>(k, v). (k, to_value v)) kvs = kvs"
  by (induction kvs) auto

lemma to_value_idem [simp]: "to_value (to_value v) = to_value v"
proof (induction v)
  case (JObject kvs)
  let ?kvs = "map (\<lambda>(k, v). (k, to_value v)) kvs"
  let ?f = "fold (\<lambda>(k, v). ins k v) ?kvs []"
  have "to_value x = x" if "x \<in> set (map snd ?f)" for x
  proof -
    have "x \<in> set (map snd ?kvs)" using that fold_ins_facts [of ?kvs] by blast
    then obtain k y where "(k, y) \<in> set kvs" "x = to_value y" by auto
    with JObject.IH [of "(k, y)" y] show ?thesis by simp
  qed
  then have "map (\<lambda>(k, v). (k, to_value v)) ?f = ?f" by (rule map_values_id)
  then have "to_value (JObject ?f) = JObject ?f"
    using fold_ins_sorted [of ?f] fold_ins_facts [of ?kvs] by (simp only: to_value.simps)
  then show ?case by (simp only: to_value.simps)
qed simp_all

lemma to_value_member:
  assumes "get k (to_value v) = Some x"
  shows "to_value x = x"
proof (cases v)
  case (JObject kvs)
  let ?kvs = "map (\<lambda>(k, v). (k, to_value v)) kvs"
  have "(k, x) \<in> set (fold (\<lambda>(k, v). ins k v) ?kvs [])"
    using assms by (simp add: JObject map_of_SomeD)
  then have "x \<in> set (map snd (fold (\<lambda>(k, v). ins k v) ?kvs []))" by force
  then have "x \<in> set (map snd ?kvs)" using fold_ins_facts [of ?kvs] by blast
  then show ?thesis by auto
qed (use assms in simp_all)

lemma to_value_members: "to_value u = JObject kvs \<Longrightarrow> map_of kvs k = Some x \<Longrightarrow> to_value x = x"
  using to_value_member [of k u x] by simp

lemma answer_value:
  assumes "bind_res (parse_helper_payload X a) parse_helper_response_shape = Inr v"
  shows "to_value v = v"
  using assms by (auto simp: parse_helper_payload_def parse_helper_response_shape_def Let_def ok_or_def
      intro: to_value_members split: if_splits sum.splits option.splits)

section \<open>From the helper to the client\<close>

lemma frame_read:
  assumes "fh_unread h = []" "hp_write_error (fh_process h) (fh_written h @ [frame_bytes p]) = None"
    and "hp_output (fh_process h) (fh_written h @ [frame_bytes p]) = frame_bytes a @ later"
    and "length p \<le> MAX_HELPER_PAYLOAD" "a \<noteq> []" "length a \<le> MAX_HELPER_PAYLOAD"
  shows "helper_answer X p h = (bind_res (parse_helper_payload X a) parse_helper_response_shape,
    h\<lparr>fh_written := fh_written h @ [frame_bytes p], fh_unread := later\<rparr>)"
proof -
  have "write_frame p h = (Inr (), h\<lparr>fh_written := fh_written h @ [frame_bytes p],
      fh_unread := frame_bytes a @ later\<rparr>)"
    using assms(1-4) by (simp add: write_frame_def Let_def)
  moreover have "read_frame (h\<lparr>fh_written := ws, fh_unread := frame_bytes a @ later\<rparr>)
      = (Got a, h\<lparr>fh_written := ws, fh_unread := later\<rparr>)" for ws
    using frame_header(1,2) [OF assms(6), of later] frame_header(3) [OF assms(6)] assms(5,6)
    by (simp add: read_frame_def read_exact_n_def Let_def)
  ultimately show ?thesis by (simp add: helper_answer_def)
qed


text \<open>The same for the bridge, whose answer is what the connection delivered.\<close>

lemma bridge_answer_reaches_client:
  assumes "client_ready X L U message w p" "udp_reaches U timeout (serve_bridged X L N C D) g s"
    and "\<not> prefix ''connection-'' (dg_peer g)" "\<forall>w q t. n_send N w q t = None"
    and "answer = bridged_reply X L C D (g\<lparr>dg_bytes := p\<rparr>) s" "told answer"
    and "x_json_compact X (reply_envelope answer) = Inr t" "length t \<le> MAX_MESSAGE_BYTES"
      "reads_back X (reply_envelope answer)"
  shows "fst (send_message_once X L U message timeout w) = map_sum id to_value answer"
  using assms by (rule bridge_client.client_gets)

text \<open>A helper that answers every frame with an empty object, and the wires to it.\<close>

definition auto_legacy :: legacy where
  "auto_legacy = sample_legacy\<lparr>l_mode_of := (\<lambda>_. ModeAuto)\<rparr>"

definition wire_ext :: ext where
  "wire_ext = sample_ext [(''req'', enc_message message_get_capabilities), (''{}'', JObject []),
     (''ok'', reply_envelope (Inr (JObject [])))]"

definition echo_helper :: helper where
  "echo_helper = sample_helper\<lparr>fh_process := (fh_process sample_helper)
     \<lparr>hp_output := (\<lambda>ws. if ws = [] then [] else frame_bytes ''{}'')\<rparr>\<rparr>"

definition wired :: "(datagram \<Rightarrow> 's \<times> world \<Rightarrow> 's \<times> world) \<Rightarrow> 's \<times> world \<Rightarrow> udp" where
  "wired serve s = sample_udp\<lparr>u_recv := (\<lambda>w a p.
     case drop (length (clients (snd s))) (clients (snd (serve (sample_datagram\<lparr>dg_bytes := p\<rparr>) s))) of
       [] \<Rightarrow> NoAnswer
     | (_, t) # _ \<Rightarrow> RecvGot t)\<rparr>"

lemma wired_reaches: "udp_reaches (wired serve s) timeout serve sample_datagram s"
  by (simp add: udp_reaches_def wired_def sample_udp_def)

lemma sample_profile:
  "\<exists>t. helper_launch_profile (sample_ext docs) auto_legacy (sample_world [])
     = (Inr (default_runtime_config t), sample_world [])"
proof -
  have "read_managed_config (sample_ext docs) (sample_world []) = (None, sample_world [])"
    by (simp add: read_managed_config_def managed_prefs_plist_def env_var_def)
  then have "read_config (sample_ext docs) (Some default_read_options) (sample_world [])
      = (Inr (default_runtime_config (x_rfc3339_show (sample_ext docs) 0)), sample_world [])"
    by (simp add: read_config_def read_config_file_def read_user_config_file_or_null_def lstat_def
        default_read_options_def fail_def Let_def)
  then show ?thesis
    by (simp add: helper_launch_profile_def bind_io_def launch_error_from_config_def auto_legacy_def
        default_runtime_config_def)
qed


end
