(* ===== verification/Exchange_Session.thy ===== *)
theory Exchange_Session
  imports Exchange
begin

text \<open>
  The two ends of a session: what the other side seals the client's lookups return, what the client
  seals the other side opens, and a server that has the same key is accepted.
\<close>

lemma text_utf8 [simp]: "text_of_bytes (utf8 s) = s"
  by (simp add: text_of_bytes_def utf8_def code_def comp_def)

section \<open>Lookups\<close>

lemma sealed_query_opens:
  assumes "sealed_query X K s nonce cmd qid query url tab = Inr msg"
    and "opens_sealed K" "length nonce = NONCE_BYTES" "ss_shared_key peer = ss_shared_key s"
    and "\<forall>v t. x_json_compact X v = Inr t \<longrightarrow> t \<noteq> []"
  shows "\<exists>sealed plain doc. x_json_compact X query = Inr plain \<and> decrypt K peer sealed = Inr (utf8 plain)
    \<and> x_json_compact X (obj [(''QID'', JString qid), (''SMSG'', obj [(''TID'', JString (ss_username s)),
        (''SDATA'', JString (serialize K s sealed True))])]) = Inr doc
    \<and> m_payload msg = Some (JString doc) \<and> m_cmd msg = command_number cmd"
proof -
  obtain sealed where sealed: "encrypt X K s nonce query = Inr sealed"
    using assms(1) by (cases "encrypt X K s nonce query") (simp_all add: sealed_query_def)
  obtain plain where plain: "x_json_compact X query = Inr plain" using sealed by (auto elim: encrypt_Inr)
  have "decrypt K peer sealed = Inr (utf8 plain)"
    using decrypt_sealed [OF assms(2,3) plain _ sealed assms(4)] assms(5) plain by blast
  with assms(1) plain show ?thesis
    by (auto simp: sealed_query_def sealed bare_message_def split: sum.splits)
qed

text \<open>An answer as the other side makes it: the session's name and a sealed document, as the payload or
  as its member \<open>SMSG\<close>.\<close>

definition sealed_part :: "crypto \<Rightarrow> srp_session \<Rightarrow> bytes \<Rightarrow> json" where
  "sealed_part K s sealed =
     obj [(''TID'', JString (ss_username s)), (''SDATA'', JString (serialize K s sealed True))]"

lemma parse_sealed_part:
  assumes "response \<in> {sealed_part K s sealed, obj [(''SMSG'', sealed_part K s sealed)]}"
  shows "parse_smsg response = Inr \<lparr>sm_TID = ss_username s, sm_SDATA = serialize K s sealed True\<rparr>"
proof -
  have part: "sealed_part K s sealed = JObject [(''SDATA'', JString (serialize K s sealed True)),
      (''TID'', JString (ss_username s))]"
    unfolding sealed_part_def obj_def by simp
  have "dec_smsg (sealed_part K s sealed)
      = Some \<lparr>sm_TID = ss_username s, sm_SDATA = serialize K s sealed True\<rparr>"
    by (simp add: part dec_smsg_def smsg_fields_def hits_def)
  moreover have "get k (sealed_part K s sealed)
      = map_of [(''TID'', JString (ss_username s)), (''SDATA'', JString (serialize K s sealed True))] k" for k
    by (simp add: sealed_part_def)
  ultimately show ?thesis using assms by (auto simp: parse_smsg_def)
qed


section \<open>Verification\<close>

text \<open>The message of a server that has derived the key \<open>key\<close> and checked the client's proof \<open>pr\<close>.\<close>

definition proves_key :: "crypto \<Rightarrow> srp_session \<Rightarrow> bytes \<Rightarrow> nat \<Rightarrow> json \<Rightarrow> bool" where
  "proves_key K s pr key raw \<longleftrightarrow>
     is_valid_pake_message raw
     \<and> (\<exists>kind. get ''MSG'' raw = Some kind \<and> parse_pake_message_type kind = Some (sint (msg_type_number ServerVerification)))
     \<and> get_str ''TID'' raw = Some (ss_username s) \<and> get ''ErrCode'' raw \<in> {None, Some JNull}
     \<and> (\<exists>a. client_public_key s = Some a
          \<and> get_str ''HAMK'' raw = Some (serialize K s (c_sha256 K (to_bytes_be a @ pr @ to_bytes_be key)) True))"


section \<open>Examples\<close>

text \<open>A machine with a stored session, whose JSON printer knows one text.\<close>

definition session_config :: apw_config_v1 where
  "session_config = sample_config\<lparr>cfg_shared_key := replicate 16 (CHR ''k'')\<rparr>"

definition session_key :: nat where
  "session_key = from_bytes_be (replicate 16 107)"

definition session_ext :: "(string \<times> json) list \<Rightarrow> ext" where
  "session_ext docs = (sample_ext ((''cfg'', enc_config_v1 session_config) # docs))
     \<lparr>x_json_compact := (\<lambda>_. Inr ''q'')\<rparr>"

lemma session_key_bytes [simp]: "to_bytes_be session_key = replicate 16 107" "session_key \<noteq> 0"
proof -
  show bytes: "to_bytes_be session_key = replicate 16 107"
    using to_from_bytes [of 107 "replicate 15 107"] by (simp add: session_key_def flip: replicate_Suc)
  show "session_key \<noteq> 0"
  proof
    assume "session_key = 0"
    then have "to_bytes_be session_key = [0]" by (simp add: to_bytes_be_def) (subst bytes_from.simps, simp)
    then have "length (replicate 16 (107::nat)) = length [0::nat]" by (simp only: bytes)
    then show False by simp
  qed
qed

lemma session_read:
  "read_config (session_ext docs) (Some default_read_options) sample_start
     = (Inr (runtime_of session_config CONFIG_SCHEMA session_key), sample_start)"
proof -
  let ?X = "session_ext docs"
  have "read_to_string ?X sample_start ''/h/.apw/config.json'' = Inr ''cfg''"
    by (simp add: read_to_string_def read_bytes_def stat_def sample_start_def utf8_valid_ascii code_def session_ext_def)
  moreover have "lstat sample_start ''/h/.apw/config.json'' = Some (sample_file ''cfg'')"
    by (simp add: lstat_def sample_start_def)
  moreover have "x_json_parse ?X ''cfg'' = Inr (enc_config_v1 session_config)"
    by (simp add: session_ext_def)
  moreover have fine: "cfg_schema session_config = CONFIG_SCHEMA" "is_valid_port (cfg_port session_config)"
    "is_valid_host (cfg_host session_config)" "cfg_fallback_provider session_config = None"
    by (simp_all add: session_config_def sample_config_def default_config_v1_def is_valid_port_def DEFAULT_PORT_def
        is_valid_host_def DEFAULT_HOST_def trim_id code_def)
  ultimately have user: "read_user_config_file_or_null ?X sample_start = (Inr session_config, sample_start)"
    by (simp add: read_user_config_file_or_null_def MAX_CONFIG_SIZE_BYTES_def Let_def
        to_value_config dec_config_v1_enc validate_external_provider_config_def)
  have "read_managed_config ?X sample_start = (None, sample_start)"
    by (simp add: read_managed_config_def managed_prefs_plist_def env_var_def sample_start_def session_ext_def)
  then have read: "read_config_file ?X sample_start = (Inr session_config, sample_start)"
    using fine by (simp add: read_config_file_def user validate_external_provider_config_def)
  have "\<not> stale_config ?X sample_start (cfg_created_at session_config) (ro_max_age_ms default_read_options)"
    by (simp add: stale_config_def parse_created_at_def session_config_def sample_config_def default_config_v1_def
        parse_i64_def parse_digits_def char_class_defs sample_start_def sint_u64 session_ext_def
        default_read_options_def SESSION_MAX_AGE_MS_def)
  moreover have "read_bigint ?X (cfg_shared_key session_config) = Inr session_key"
    by (simp add: read_bigint_def session_ext_def session_config_def session_key_def code_def)
  moreover have "shared_secret ?X session_config w = (Inr (Some (cfg_shared_key session_config)), w)" for w
    by (simp add: shared_secret_def resolve_secret_source_def session_config_def sample_config_def
        default_config_v1_def)
  ultimately show ?thesis
    using fine by (simp add: read_config_def read decode_secret_def bind_io_def default_read_options_def)
qed

lemma session_profile:
  "helper_launch_profile (session_ext docs) auto_legacy sample_start
     = (Inr (runtime_of session_config CONFIG_SCHEMA session_key), sample_start)"
  "ensure_authenticated (session_ext docs) auto_legacy None sample_manager sample_start
     = (Inr (runtime_of session_config CONFIG_SCHEMA session_key),
        sample_manager\<lparr>pm_remote_host := rt_host (runtime_of session_config CONFIG_SCHEMA session_key),
          pm_remote_port := rt_port (runtime_of session_config CONFIG_SCHEMA session_key),
          pm_session := (pm_session sample_manager)\<lparr>ss_username := ''u'', ss_shared_key := Some session_key\<rparr>\<rparr>,
        sample_start)"
proof -
  have "default_read_options\<lparr>ro_require_auth := True, ro_require_auth := False\<rparr> = default_read_options"
    by (simp add: default_read_options_def)
  then show "helper_launch_profile (session_ext docs) auto_legacy sample_start
     = (Inr (runtime_of session_config CONFIG_SCHEMA session_key), sample_start)"
  "ensure_authenticated (session_ext docs) auto_legacy None sample_manager sample_start
     = (Inr (runtime_of session_config CONFIG_SCHEMA session_key),
        sample_manager\<lparr>pm_remote_host := rt_host (runtime_of session_config CONFIG_SCHEMA session_key),
          pm_remote_port := rt_port (runtime_of session_config CONFIG_SCHEMA session_key),
          pm_session := (pm_session sample_manager)\<lparr>ss_username := ''u'', ss_shared_key := Some session_key\<rparr>\<rparr>,
        sample_start)"
    using session_read [of docs]
    by (simp_all add: helper_launch_profile_def ensure_authenticated_def bind_io_def launch_error_from_config_def
        auto_legacy_def runtime_of_def session_config_def sample_config_def default_config_v1_def
        session_of_config_def update_with_values_def Let_def)
qed

text \<open>A server that answers every datagram with the text \<open>r\<close>.\<close>

definition answering_udp :: udp where
  "answering_udp = sample_udp\<lparr>u_recv := (\<lambda>_ _ _. RecvGot ''r'')\<rparr>"

lemma answered_send:
  "send_message (session_ext ((''r'', response_envelope Success (Some response) None) # docs)) auto_legacy
     answering_udp msg None sample_start
   = (Inr (to_value response), sent_datagram ''127.0.0.1:10000'' ''q'' sample_start)"
proof -
  let ?X = "session_ext ((''r'', response_envelope Success (Some response) None) # docs)"
  have "udp_exchange answering_udp (True, ''127.0.0.1:10000'') ''q'' t w
      = (Inr ''r'', sent_datagram ''127.0.0.1:10000'' ''q'' w)" for t w
    by (simp add: udp_exchange_def answering_udp_def sample_udp_def MAX_MESSAGE_BYTES_def Let_def)
  moreover have "resolve_daemon_target answering_udp host port = Inr (True, ''127.0.0.1:10000'')" for host port
    by (simp add: resolve_daemon_target_def answering_udp_def sample_udp_def Let_def)
  moreover have "x_json_parse ?X ''r'' = Inr (response_envelope Success (Some response) None)"
    "x_json_compact ?X v = Inr ''q''" for v
    by (simp_all add: session_ext_def)
  ultimately have "send_message_once ?X auto_legacy answering_udp msg t sample_start
      = (Inr (to_value response), sent_datagram ''127.0.0.1:10000'' ''q'' sample_start)" for t
    using envelope_roundtrip [where p = response and e = None]
    by (simp add: send_message_once_def session_profile bind_io_def MAX_MESSAGE_BYTES_def)
  then show ?thesis by (simp add: send_message_def default_send_opts_def DEFAULT_RETRIES_def Let_def)
qed

definition sealed_q :: bytes where
  "sealed_q = replicate 16 1 @ [113] @ replicate 16 7"

definition lookup_crypto :: crypto where
  "lookup_crypto = sample_crypto\<lparr>c_b64_decode := (\<lambda>_. Some sealed_q)\<rparr>"

definition lookup_session :: srp_session where
  "lookup_session = (pm_session sample_manager)\<lparr>ss_username := ''u'', ss_shared_key := Some session_key\<rparr>"

definition no_entries :: json where
  "no_entries = JObject [(''Entries'', JArray []), (''STATUS'', enc_status Success)]"

definition lookup_ext :: ext where
  "lookup_ext = session_ext [(''r'', response_envelope Success
      (Some (sealed_part lookup_crypto lookup_session sealed_q)) None), (''q'', no_entries)]"

lemma lookup_compact: "x_json_compact lookup_ext v = Inr ''q''"
  by (simp add: lookup_ext_def session_ext_def)

lemma lookup_encrypt: "encrypt lookup_ext lookup_crypto lookup_session (replicate 16 1) v = Inr sealed_q"
proof -
  have "utf8 ''q'' = [113]" by code_simp
  moreover have "ss_shared_key lookup_session = Some session_key" by (simp add: lookup_session_def)
  ultimately show ?thesis by (simp add: encrypt_def lookup_compact lookup_crypto_def sample_crypto_def sealed_q_def)
qed


definition proving_crypto :: crypto where
  "proving_crypto = sample_crypto\<lparr>c_b64_decode := (\<lambda>s. if s = ''m'' then Some (utf8 ''m'') else Some [2])\<rparr>"

definition proving_manager :: password_manager where
  "proving_manager = sample_manager\<lparr>pm_session :=
     sample_session\<lparr>ss_shared_key := None, ss_should_use_base64 := True\<rparr>\<rparr>"

definition server_message :: json where
  "server_message = JObject [(''A'', JString ''a''), (''B'', JString ''b''), (''HAMK'', JString ''Aas=''),
     (''MSG'', JString ''3''), (''PROTO'', JString ''1''), (''TID'', JString ''name''), (''s'', JString ''s'')]"

lemma proving_session:
  defines "s0 \<equiv> pm_session proving_manager"
  shows "set_shared_key proving_crypto ''1234'' s0 = Some (Inr 2, s0\<lparr>ss_shared_key := Some 2\<rparr>)"
    and "compute_m proving_crypto (s0\<lparr>ss_shared_key := Some 2\<rparr>) = Some (Inr [2])"
    and "client_public_key (s0\<lparr>ss_shared_key := Some 2\<rparr>) = Some 5"
proof -
  have hash: "c_sha256 proving_crypto bs = [2]" for bs by (simp add: proving_crypto_def)
  have two: "from_bytes_be [2] = 2" by (simp add: from_bytes_be_def)
  have s0: "ss_client_private_key s0 = 1" "ss_server_public_key s0 = Some 175" "ss_salt s0 = Some 9"
    "ss_shared_key s0 = None"
    by (simp_all add: s0_def proving_manager_def)
  have public: "client_public_key (s0\<lparr>ss_shared_key := k\<rparr>) = Some 5" for k
    by (simp add: client_public_key_eq s0 GROUP_GENERATOR_def)
  have clear: "s0\<lparr>ss_shared_key := None\<rparr> = s0" by (simp add: s0_def proving_manager_def)
  show "client_public_key (s0\<lparr>ss_shared_key := Some 2\<rparr>) = Some 5" by (rule public)
  have scramble: "derive_scramble proving_crypto (s0\<lparr>ss_shared_key := k\<rparr>) = Some [2]" for k
    by (simp add: derive_scramble_def s0 public hash)
  have "derive_base 175 2 25 = 125 mod group_prime" by (rule derive_base_server) simp
  then have "derive_base 175 2 25 = 125" by (simp add: group_prime_def)
  then have "derive_session_key proving_crypto s0 ''1234'' = Some (Inr 2)"
    using scramble [of None] s0 unfolding clear
    by (simp add: derive_session_key_def password_exponent_def multiplier_def hash two powermod_eq GROUP_GENERATOR_def)
  then show "set_shared_key proving_crypto ''1234'' s0 = Some (Inr 2, s0\<lparr>ss_shared_key := Some 2\<rparr>)"
    by (simp add: set_shared_key_def s0)
  show "compute_m proving_crypto (s0\<lparr>ss_shared_key := Some 2\<rparr>) = Some (Inr [2])"
    using scramble [of "Some 2"] public [of "Some 2"] by (simp add: compute_m_def s0 hash Let_def)
qed

lemma server_message_valid: "is_valid_pake_message server_message"
  by (simp add: server_message_def is_valid_pake_message_def parse_pake_message_to_struct_def dec_pake_message_def
      pake_fields_def hits_def trim_id code_def parse_i64_def parse_digits_def char_class_defs ok_or_def optf_def)


end
