(* ===== verification/Spec2Isabelle.thy ===== *)
theory Spec2Isabelle
  imports Config_Write State_Root Bignum Managed Redaction_Laws Fallback_Limit Fallback_Text
    Broker_Copy Broker_Laws Bundle_Sample Doctor_Laws Cli_Laws Srp_Laws Host_Laws Bridge_Runs Helper_Laws Exchange_Session
begin

text \<open>
  Verification of \<open>apw\<close>, the command line client of a password broker
  (\<open>rust/src\<close>, the crate's own code, without its tests), and of the daemon that it replaced
  (\<open>legacy/rust-src\<close>).

  \<^bold>\<open>The program.\<close> \<open>apw\<close> keeps its state below \<open>~/.apw\<close>: \<open>config.json\<close> (the session, the port,
  the optional external provider), and \<open>native-app/\<close> with the socket, the status file, the log
  and the installed app bundle of the broker. A command reads the configuration
  (\<open>utils.rs\<close>), which can expire, be managed by a property list, or keep its key in the macOS
  Keychain (\<open>secrets.rs\<close>); it then asks the broker over its socket or by running its executable
  (\<open>native_app.rs\<close>), and for a login may fall back to the command line program of another
  password manager. \<open>apw doctor\<close> reports on all that and can pack a diagnostic bundle
  (\<open>bundle.rs\<close>) whose content is audited for credentials first.

  The archived daemon answers each UDP datagram of its client (\<open>client.rs\<close>) by asking Apple's
  password helper: a process it starts and talks to in frames, a browser extension over a web
  socket, or the native host (\<open>host.rs\<close>) over a Unix socket (all in \<open>daemon.rs\<close>). The client and
  the helper share a key (\<open>srp.rs\<close>), which the client stores once the helper has proved it.

  \<^bold>\<open>The machine.\<close> \<open>Os\<close> has the state that the program shares with its environment: the record
  \<open>world\<close> (files by path as \<open>inode\<close>s, the environment variables, the time, the user, the state
  directory, and what was started, sent and printed so far) and the record \<open>ext\<close> of everything
  that is not the crate's code: which system call fails, how a path resolves, what a program
  answers, the JSON, URL, base64 and time libraries, randomness. Theorems hold for every \<open>ext\<close>;
  where they rely on documented behaviour of a library it is a named hypothesis
  (\<open>plain_path\<close>, \<open>names_only\<close>, \<open>copies_freely\<close>, \<open>state_reads_back\<close>, \<open>plain_bundle\<close>, \<open>reads_back\<close> for
  a JSON text, \<open>opens_sealed\<close> for the cipher, \<open>udp_reaches\<close> and \<open>sending_works\<close> for a network that
  delivers) that \<open>Samples\<close> and the witnesses meet. An operation is a function \<open>world \<Rightarrow> 'a res \<times> world\<close> (\<open>'a io\<close>), an error
  is a value \<open>Inl e\<close>. Strings are lists of bytes, as \<open>String\<close> is in Rust; integers have the
  width they have in the source.

  \<^bold>\<open>Theories and code.\<close>
  \<^item> \<open>Rust_Prelude\<close>, \<open>Rust_Text\<close>: the parts of the standard library the source uses (results,
    byte strings, searching, trimming, lines, numbers, paths), with the shared rules.
  \<^item> \<open>Json\<close>, \<open>Types\<close>: \<open>serde_json::Value\<close> and the data of \<open>types.rs\<close> and \<open>error.rs\<close> with their
    serde forms.
  \<^item> \<open>State_Root\<close>, \<open>Secrets\<close>, \<open>Bignum\<close>, \<open>Managed\<close>: \<open>state_root.rs\<close>, \<open>secrets.rs\<close>, and of
    \<open>utils.rs\<close> the number conversions and the managed preferences.
  \<^item> \<open>Config\<close>, \<open>Config_Laws\<close>, \<open>Config_Write\<close>: reading and writing \<open>config.json\<close> (\<open>utils.rs\<close>).
  \<^item> \<open>Command\<close>: bounded child processes and the checks of \<open>apw doctor\<close> built on them; \<open>Fallback\<close>
    with \<open>Fallback_Laws\<close>, \<open>Fallback_Limit\<close>, \<open>Fallback_Text\<close>: the external providers; \<open>Broker\<close> with
    \<open>Broker_Copy\<close>, \<open>Broker_Laws\<close>: installing, launching and asking the broker (\<open>native_app.rs\<close>).
  \<^item> \<open>Redaction\<close>, \<open>Redaction_Laws\<close>, \<open>Bundle\<close>, \<open>Bundle_Laws\<close>, \<open>Bundle_Sample\<close>: the audit and the
    diagnostic bundle (\<open>bundle.rs\<close>).
  \<^item> \<open>Doctor\<close>, \<open>Doctor_Laws\<close>: the environment checks and the report of \<open>apw doctor\<close>
    (\<open>doctor.rs\<close>).
  \<^item> \<open>Cli\<close>, \<open>Cli_Laws\<close>: the commands as functions of the parsed arguments, with what they print
    and the code they exit with (\<open>cli.rs\<close>, \<open>main.rs\<close>, \<open>logging.rs\<close>).
  \<^item> \<open>Srp\<close>, \<open>Srp_Laws\<close>, \<open>Host\<close>, \<open>Host_Laws\<close>: of the archived daemon (\<open>legacy/rust-src\<close>) the key
    exchange (\<open>srp.rs\<close>) and the native host (\<open>host.rs\<close>).
  \<^item> \<open>Helper\<close>, \<open>Helper_Process\<close>, \<open>Helper_Laws\<close>: the runtime modes, the helper's manifest and its
    preflight report; starting, probing and asking the helper process (\<open>daemon.rs\<close>).
  \<^item> \<open>Bridge\<close>, \<open>Bridge_Tasks\<close>: the state shared by the tasks of the bridge with its critical
    sections, and the connections of the browser and of the native host, as functions of the
    events they meet. \<open>Bridge_Laws\<close> has the step relation of the critical sections and its
    invariant, \<open>Bridge_Runs\<close> shows that the tasks are runs of it.
  \<^item> \<open>Daemon\<close>, \<open>Daemon_Laws\<close>: the request loops over helper and bridge, and how the daemon starts.
  \<^item> \<open>Client\<close>, \<open>Client_Session\<close>, \<open>Client_Laws\<close>: the messages, sending with retries, the challenge,
    the lookups and the status of the client (\<open>client.rs\<close>).
  \<^item> \<open>Exchange\<close>, \<open>Exchange_Session\<close>: client, daemon and helper put together, \<open>send_message_once\<close>
    over the request loops first, then what the two ends of a session seal, open and prove.
  \<^item> \<open>Still\<close>, \<open>Silence\<close>: operations that leave what is observed of the world as it is, what is
    printed in particular, as rules for composed operations, like \<open>Touches\<close>: which files an
    operation may change.

  \<^bold>\<open>Interfaces.\<close> The locales \<open>credential_provider\<close> (what each provider's loader promises the login),
  \<open>polled\<close> (waiting for a child), \<open>json_codec\<close> (encoding and decoding), \<open>request_loop\<close> (a loop that
  answers datagrams) and \<open>replying_loop\<close>, which extends it by what the loop replies, are each
  interpreted on the model's definitions where these are given, the last two on the loop over the
  bridge and on the loop over the helper: what the client gets from a loop is proved once in
  \<open>replying_loop\<close>.

  \<^bold>\<open>What is shown.\<close> Saving the configuration is atomic and what was saved is read back; a session
  that counts as authenticated has not expired; reading removes nothing but an unusable
  \<open>config.json\<close>. A provider is run only after its path was validated, at most as often as
  allowed, and without the master password in its environment. A request leaves over a private
  socket or to the installed executable, never both. Installing copies the bundle faithfully.
  The audit of the diagnostic bundle finds exactly what its heuristics define, every vendor token
  and every keyword with a value included, and what \<open>tar\<close> packs has passed it. \<open>apw doctor\<close> changes nothing but its
  own files, and every command answers once, on the stream and with the exit code that its outcome
  asks for. Of the archived code: client and server of the key exchange
  agree, whatever its modulus, which is composite, and the client stores a key only once the
  other side has proved it; the native host is loaded from the file written for it; under every
  interleaving of the bridge's tasks a request is answered once at most, by a response with its
  number or by an error, and no request waits for a connection that has ended; every datagram is
  answered, in order, by a well-formed envelope; no helper is left running by a probe that fails.
  Put together: what the helper answers is what the client gets, a lookup can be opened by the other
  side and its sealed answer is the result, and a server with the same key is accepted. Each group of lemmas
  stands in the \<open>_Laws\<close> theory of its component.

  \<^bold>\<open>Bounds and fuel.\<close> Waiting for a child takes at most \<open>timeout / 20 + 2\<close> polls
  (\<open>poll_child_bounded\<close>); the recursive walks over directories take one unit of fuel per level,
  so the depth of the tree is enough (\<open>copy_bundle_faithful\<close>), and \<open>None\<close> means that it was not.
  The loops of the daemon never end: they are functions of the list of datagrams or of events
  they meet, so a theorem for every list is one for every prefix of a run. The loop of
  \<open>send_message\<close> takes the attempts that are left. The sequence numbers of requests and
  connections (\<open>u64\<close>) are natural numbers, as no run reaches \<open>2 ^ 64\<close>.

  \<^bold>\<open>Not modelled.\<close> Messages that \<open>native_app.rs\<close> sends to the log; the parsing of command line arguments
  (\<open>clap\<close>); the threads that read a child's output, of which only the bytes they deliver remain;
  \<open>f64\<close> rounding in the entropy of a string, which is a real number here; the broker itself
  (Swift) and the archived implementations in TypeScript and JavaScript; code that exists in
  tests only (the messages for one-time codes among it); tests, scripts and packaging. Of the
  \<open>tokio\<close> runtime and the web socket library the model has the events they deliver: a timer that
  fires, a message, an end of stream.
\<close>

end
